(* ===== verification/GoBase.thy ===== *)
theory GoBase
  imports Main "HOL-Library.Sublist"
begin

text \<open>
  The prelude of the development: results of Go functions, the sequencing of
  effectful Go statements over an explicit state, and the reasoning tools the
  component theories share.

  A Go function that returns \<open>(T, error)\<close> is a value of type \<open>'a res\<close>: \<open>Ok v\<close>
  for \<open>(v, nil)\<close>, \<open>Err e\<close> for a non-nil error, \<open>Panic msg\<close> when the
  goroutine panics, and \<open>Loops\<close> when a loop that a server drives has not ended
  within the bound the model gives it (theorems say which bound is enough). A Go statement with side effects is a function from the
  state to a result and the next state (\<open>('s, 'a) prog\<close>).
\<close>

section \<open>Errors and results\<close>

text \<open>
  An error carries its message. \<open>NotFound\<close> is an error for which the Kubernetes
  helper \<open>errors.IsNotFound\<close> answers true; every other error is a \<open>Fail\<close>.
\<close>

datatype error = NotFound string | Fail string

fun err_msg :: "error \<Rightarrow> string" where
  "err_msg (NotFound m) = m"
| "err_msg (Fail m) = m"

fun is_not_found :: "error \<Rightarrow> bool" where
  "is_not_found (NotFound _) = True"
| "is_not_found (Fail _) = False"

datatype 'a res = Ok 'a | Err error | Panic string | Loops

fun is_ok :: "'a res \<Rightarrow> bool" where
  "is_ok (Ok _) = True"
| "is_ok _ = False"

fun res_bind :: "'a res \<Rightarrow> ('a \<Rightarrow> 'b res) \<Rightarrow> 'b res" where
  "res_bind (Ok v) f = f v"
| "res_bind (Err e) f = Err e"
| "res_bind (Panic p) f = Panic p"
| "res_bind Loops f = Loops"

lemma res_bind_eq_Ok: "res_bind r f = Ok y \<longleftrightarrow> (\<exists>x. r = Ok x \<and> f x = Ok y)"
  by (cases r) auto

lemma res_bind_assoc: "res_bind (res_bind r f) g = res_bind r (\<lambda>x. res_bind (f x) g)"
  by (cases r) auto

lemma is_ok_iff: "is_ok r \<longleftrightarrow> (\<exists>v. r = Ok v)"
  by (cases r) auto

section \<open>Effectful statements\<close>

type_synonym ('s, 'a) prog = "'s \<Rightarrow> 'a res \<times> 's"

definition ret :: "'a \<Rightarrow> ('s, 'a) prog" where
  "ret v = (\<lambda>s. (Ok v, s))"

definition throw :: "error \<Rightarrow> ('s, 'a) prog" where
  "throw e = (\<lambda>s. (Err e, s))"

definition crash :: "string \<Rightarrow> ('s, 'a) prog" where
  "crash p = (\<lambda>s. (Panic p, s))"

definition diverge :: "('s, 'a) prog" where
  "diverge = (\<lambda>s. (Loops, s))"

definition lift :: "'a res \<Rightarrow> ('s, 'a) prog" where
  "lift r = (\<lambda>s. (r, s))"

text \<open>
  \<open>bnd m f\<close> is the Go idiom \<open>v, err := m; if err != nil \<lbrace> return err \<rbrace>; f(v)\<close>.
\<close>

definition bnd :: "('s, 'a) prog \<Rightarrow> ('a \<Rightarrow> ('s, 'b) prog) \<Rightarrow> ('s, 'b) prog" where
  "bnd m f = (\<lambda>s. case m s of
     (Ok v, s') \<Rightarrow> f v s'
   | (Err e, s') \<Rightarrow> (Err e, s')
   | (Panic p, s') \<Rightarrow> (Panic p, s')
   | (Loops, s') \<Rightarrow> (Loops, s'))"

text \<open>
  \<open>attempt m\<close> is a call whose error is inspected and not simply returned: the
  error becomes a value, a panic still unwinds.
\<close>

definition attempt :: "('s, 'a) prog \<Rightarrow> ('s, error + 'a) prog" where
  "attempt m = (\<lambda>s. case m s of
     (Ok v, s') \<Rightarrow> (Ok (Inr v), s')
   | (Err e, s') \<Rightarrow> (Ok (Inl e), s')
   | (Panic p, s') \<Rightarrow> (Panic p, s')
   | (Loops, s') \<Rightarrow> (Loops, s'))"

text \<open>
  \<open>deferred d m\<close> runs the body \<open>m\<close> and then the deferred call \<open>d\<close>, on every way
  out of the body: a return, an error and a panic. The deferred calls of the
  program log their own errors, so an error of theirs is dropped.
\<close>

definition deferred :: "('s, unit) prog \<Rightarrow> ('s, 'a) prog \<Rightarrow> ('s, 'a) prog" where
  "deferred d m = (\<lambda>s. case m s of
     (Loops, s') \<Rightarrow> (Loops, s')
   | (r, s') \<Rightarrow>
     (case d s' of
        (Panic p, s'') \<Rightarrow> (Panic p, s'')
      | (Loops, s'') \<Rightarrow> (Loops, s'')
      | (_, s'') \<Rightarrow> (r, s'')))"

definition gets :: "('s \<Rightarrow> 'a) \<Rightarrow> ('s, 'a) prog" where
  "gets f = (\<lambda>s. (Ok (f s), s))"

definition modify :: "('s \<Rightarrow> 's) \<Rightarrow> ('s, unit) prog" where
  "modify f = (\<lambda>s. (Ok (), f s))"

text \<open>A range loop whose body may return early with an error.\<close>

fun for_each :: "'x list \<Rightarrow> ('x \<Rightarrow> ('s, unit) prog) \<Rightarrow> ('s, unit) prog" where
  "for_each [] body = ret ()"
| "for_each (x # xs) body = bnd (body x) (\<lambda>_. for_each xs body)"

text \<open>A range loop that updates a local variable of the function.\<close>

fun fold_each :: "'x list \<Rightarrow> ('x \<Rightarrow> 'a \<Rightarrow> ('s, 'a) prog) \<Rightarrow> 'a \<Rightarrow> ('s, 'a) prog" where
  "fold_each [] body a = ret a"
| "fold_each (x # xs) body a = bnd (body x a) (\<lambda>a'. fold_each xs body a')"

named_theorems prog_simps "evaluation of the statement combinators"

lemma ret_apply [prog_simps]: "ret v s = (Ok v, s)"
  by (simp add: ret_def)

lemma throw_apply [prog_simps]: "throw e s = (Err e, s)"
  by (simp add: throw_def)

lemma crash_apply [prog_simps]: "crash p s = (Panic p, s)"
  by (simp add: crash_def)

lemma diverge_apply [prog_simps]: "diverge s = (Loops, s)"
  by (simp add: diverge_def)

lemma lift_apply [prog_simps]: "lift r s = (r, s)"
  by (simp add: lift_def)

lemma gets_apply [prog_simps]: "gets f s = (Ok (f s), s)"
  by (simp add: gets_def)

lemma modify_apply [prog_simps]: "modify f s = (Ok (), f s)"
  by (simp add: modify_def)

lemma bnd_cases:
  "bnd m f s = (case m s of
     (Ok v, s') \<Rightarrow> f v s' | (Err e, s') \<Rightarrow> (Err e, s') | (Panic p, s') \<Rightarrow> (Panic p, s')
   | (Loops, s') \<Rightarrow> (Loops, s'))"
  by (simp add: bnd_def)

lemma bnd_Ok [prog_simps]: "m s = (Ok v, s') \<Longrightarrow> bnd m f s = f v s'"
  and bnd_Err [prog_simps]: "m s = (Err e, s') \<Longrightarrow> bnd m f s = (Err e, s')"
  and bnd_Panic [prog_simps]: "m s = (Panic p, s') \<Longrightarrow> bnd m f s = (Panic p, s')"
  and bnd_Loops [prog_simps]: "m s = (Loops, s') \<Longrightarrow> bnd m f s = (Loops, s')"
  by (simp_all add: bnd_def)

lemma attempt_Ok [prog_simps]: "m s = (Ok v, s') \<Longrightarrow> attempt m s = (Ok (Inr v), s')"
  and attempt_Err [prog_simps]: "m s = (Err e, s') \<Longrightarrow> attempt m s = (Ok (Inl e), s')"
  and attempt_Panic [prog_simps]: "m s = (Panic p, s') \<Longrightarrow> attempt m s = (Panic p, s')"
  and attempt_Loops [prog_simps]: "m s = (Loops, s') \<Longrightarrow> attempt m s = (Loops, s')"
  by (simp_all add: attempt_def)

lemma bnd_ret_left [simp]: "bnd (ret v) f = f v"
  by (simp add: bnd_def ret_def)

lemma bnd_assoc: "bnd (bnd m f) g = bnd m (\<lambda>v. bnd (f v) g)"
  by (rule ext) (simp add: bnd_def split: prod.splits res.splits)

lemma bnd_eq_OkE:
  assumes "bnd m f s = (Ok y, s'')"
  obtains x s' where "m s = (Ok x, s')" and "f x s' = (Ok y, s'')"
  using assms by (auto simp: bnd_def split: prod.splits res.splits)

lemma fst_bnd_Panic: "fst (m s) = Panic p \<Longrightarrow> fst (bnd m f s) = Panic p"
  by (auto simp: bnd_def split: prod.splits)

lemma attempt_not_Err: "fst (attempt m s) \<noteq> Err e"
  by (simp add: attempt_def split: prod.splits res.splits)

lemma for_each_append:
  "for_each (xs @ ys) body = bnd (for_each xs body) (\<lambda>_. for_each ys body)"
  by (induction xs) (simp_all add: bnd_assoc)

lemma fold_each_append:
  "fold_each (xs @ ys) body = (\<lambda>a. bnd (fold_each xs body a) (fold_each ys body))"
proof (induction xs)
  case Nil
  show ?case by (simp add: fun_eq_iff)
next
  case (Cons x xs)
  show ?case by (simp only: append_Cons fold_each.simps Cons.IH bnd_assoc)
qed

text \<open>An invariant of the loops, over the elements already done.\<close>

lemma fold_each_invariant:
  assumes "fold_each xs body a s = (Ok a', s')" and "P [] a s"
    and "\<And>ys x b t b' t'. P ys b t \<Longrightarrow> x \<in> set xs \<Longrightarrow> body x b t = (Ok b', t') \<Longrightarrow> P (ys @ [x]) b' t'"
  shows "P xs a' s'"
proof -
  have "P (ys @ zs) a' s'" if "fold_each zs body b t = (Ok a', s')" "P ys b t" "set zs \<subseteq> set xs" for ys zs b t
    using that
  proof (induction zs arbitrary: ys b t)
    case Nil
    then show ?case by (simp add: ret_def)
  next
    case (Cons z zs)
    from Cons.prems(1) obtain b1 t1 where "body z b t = (Ok b1, t1)" "fold_each zs body b1 t1 = (Ok a', s')"
      by (auto elim: bnd_eq_OkE)
    with Cons.IH[of b1 t1 "ys @ [z]"] assms(3)[of ys b t z b1 t1] Cons.prems show ?case by simp
  qed
  from this[of xs a s "[]"] assms(1,2) show ?thesis by simp
qed

lemma for_each_invariant:
  assumes "for_each xs body s = (Ok u, s')" and "P [] s"
    and "\<And>ys x t t'. P ys t \<Longrightarrow> x \<in> set xs \<Longrightarrow> body x t = (Ok (), t') \<Longrightarrow> P (ys @ [x]) t'"
  shows "P xs s'"
proof -
  have "P (ys @ zs) s'" if "for_each zs body t = (Ok u, s')" "P ys t" "set zs \<subseteq> set xs" for ys zs t
    using that
  proof (induction zs arbitrary: ys t)
    case Nil
    then show ?case by (simp add: ret_def)
  next
    case (Cons z zs)
    from Cons.prems(1) obtain t1 where "body z t = (Ok (), t1)" "for_each zs body t1 = (Ok u, s')"
      by (auto elim: bnd_eq_OkE)
    with Cons.IH[of t1 "ys @ [z]"] assms(3)[of ys t z t1] Cons.prems show ?case by simp
  qed
  from this[of xs s "[]"] assms(1,2) show ?thesis by simp
qed

section \<open>Relations that every statement keeps\<close>

text \<open>
  Most facts about a handler are of one shape: whatever happens, the state
  after is related to the state before (a field is unchanged, the log of calls
  only grows by allowed calls). For a reflexive and transitive relation this
  composes over the statement combinators; the locale proves it once.
\<close>

locale step_rel =
  fixes R :: "'s \<Rightarrow> 's \<Rightarrow> bool"
  assumes step_refl: "R s s"
    and step_trans: "R s t \<Longrightarrow> R t u \<Longrightarrow> R s u"
begin

definition keeps :: "('s, 'a) prog \<Rightarrow> bool" where
  "keeps m \<longleftrightarrow> (\<forall>s. R s (snd (m s)))"

lemma keepsI: "(\<And>s. R s (snd (m s))) \<Longrightarrow> keeps m"
  by (simp add: keeps_def)

lemma keepsD: "keeps m \<Longrightarrow> m s = (r, s') \<Longrightarrow> R s s'"
  by (metis keeps_def snd_conv)

lemma keeps_diverge: "keeps diverge"
  by (simp add: keeps_def diverge_def step_refl)

lemma keeps_ret: "keeps (ret v)"
  by (simp add: keeps_def ret_def step_refl)

lemma keeps_throw: "keeps (throw e)"
  by (simp add: keeps_def throw_def step_refl)

lemma keeps_crash: "keeps (crash p)"
  by (simp add: keeps_def crash_def step_refl)

lemma keeps_lift: "keeps (lift r)"
  by (simp add: keeps_def lift_def step_refl)

lemma keeps_gets: "keeps (gets f)"
  by (simp add: keeps_def gets_def step_refl)

lemma keeps_modify: "(\<And>s. R s (f s)) \<Longrightarrow> keeps (modify f)"
  by (simp add: keeps_def modify_def)

lemma keeps_bnd:
  assumes "keeps m" and "\<And>v. keeps (f v)"
  shows "keeps (bnd m f)"
proof (rule keepsI)
  fix s
  have m: "R s (snd (m s))" using assms(1) by (simp add: keeps_def)
  show "R s (snd (bnd m f s))"
  proof (cases "fst (m s)")
    case (Ok v)
    then have "bnd m f s = f v (snd (m s))"
      by (metis bnd_Ok prod.collapse)
    moreover have "R (snd (m s)) (snd (f v (snd (m s))))"
      using assms(2) by (simp add: keeps_def)
    ultimately show ?thesis using m step_trans by metis
  next
    case (Err e)
    then have "bnd m f s = (Err e, snd (m s))" by (metis bnd_Err prod.collapse)
    then show ?thesis using m by simp
  next
    case (Panic p)
    then have "bnd m f s = (Panic p, snd (m s))" by (metis bnd_Panic prod.collapse)
    then show ?thesis using m by simp
  next
    case Loops
    then have "bnd m f s = (Loops, snd (m s))" by (metis bnd_Loops prod.collapse)
    then show ?thesis using m by simp
  qed
qed

lemma keeps_attempt: "keeps m \<Longrightarrow> keeps (attempt m)"
  by (auto simp: keeps_def attempt_def split: prod.splits res.splits)
     (metis snd_conv)+

lemma keeps_deferred: "keeps d \<Longrightarrow> keeps m \<Longrightarrow> keeps (deferred d m)"
  by (auto simp: keeps_def deferred_def split: prod.splits res.splits)
     (metis snd_conv step_trans)+

lemma keeps_for_each: "(\<And>x. x \<in> set xs \<Longrightarrow> keeps (body x)) \<Longrightarrow> keeps (for_each xs body)"
  by (induction xs) (auto intro: keeps_ret keeps_bnd)

lemma keeps_fold_each:
  "(\<And>x a. x \<in> set xs \<Longrightarrow> keeps (body x a)) \<Longrightarrow> keeps (fold_each xs body a)"
  by (induction xs arbitrary: a) (auto intro: keeps_ret keeps_bnd)

lemmas keeps_intros =
  keeps_diverge keeps_ret keeps_throw keeps_crash keeps_lift keeps_gets keeps_bnd keeps_attempt
  keeps_deferred keeps_for_each keeps_fold_each

text \<open>
  The same for the runs that return: a panic ends the process, and a run that does
  not end has no state after it.
\<close>

definition keeps_alive :: "('s, 'a) prog \<Rightarrow> bool" where
  "keeps_alive m \<longleftrightarrow> (\<forall>s. (\<forall>p. fst (m s) \<noteq> Panic p) \<longrightarrow> fst (m s) \<noteq> Loops \<longrightarrow> R s (snd (m s)))"

lemma alive_keeps: "keeps m \<Longrightarrow> keeps_alive m"
  by (simp add: keeps_def keeps_alive_def)

lemma keeps_aliveD:
  assumes "keeps_alive m" and "m s = (r, s')" and "\<And>p. r \<noteq> Panic p" and "r \<noteq> Loops"
  shows "R s s'"
  using assms by (auto simp: keeps_alive_def dest: spec[of _ s])

lemma alive_bnd:
  assumes "keeps_alive m" and "\<And>v. keeps_alive (f v)"
  shows "keeps_alive (bnd m f)"
  unfolding keeps_alive_def
proof (intro allI impI)
  fix s
  assume p: "\<forall>p. fst (bnd m f s) \<noteq> Panic p" and l: "fst (bnd m f s) \<noteq> Loops"
  obtain r t where m: "m s = (r, t)" by (cases "m s")
  show "R s (snd (bnd m f s))"
  proof (cases r)
    case (Ok v)
    with m have run: "bnd m f s = f v t" by (simp add: bnd_def)
    have "R s t" using assms(1) m Ok by (auto simp: keeps_alive_def dest!: spec[of _ s])
    moreover have "R t (snd (f v t))" using assms(2)[of v] p l run by (simp add: keeps_alive_def)
    ultimately show ?thesis unfolding run by (rule step_trans)
  next
    case (Err e)
    then show ?thesis using assms(1) m by (auto simp: keeps_alive_def bnd_def dest!: spec[of _ s])
  next
    case (Panic q)
    with m p show ?thesis by (simp add: bnd_def)
  next
    case Loops
    with m l show ?thesis by (simp add: bnd_def)
  qed
qed

lemma alive_deferred:
  assumes "keeps_alive d" and "keeps_alive m"
  shows "keeps_alive (deferred d m)"
  unfolding keeps_alive_def
proof (intro allI impI)
  fix s
  assume p: "\<forall>p. fst (deferred d m s) \<noteq> Panic p" and l: "fst (deferred d m s) \<noteq> Loops"
  obtain r t where m: "m s = (r, t)" by (cases "m s")
  obtain r' t' where d: "d t = (r', t')" by (cases "d t")
  have r': "r' \<noteq> Panic q" "r \<noteq> Panic q" "r' \<noteq> Loops" "r \<noteq> Loops" for q
    using p l m d by (auto simp: deferred_def split: res.splits)
  have "R s t" using assms(2) m r' by (auto simp: keeps_alive_def dest!: spec[of _ s])
  moreover have "R t t'" using assms(1) d r' by (auto simp: keeps_alive_def dest!: spec[of _ t])
  ultimately have "R s t'" by (rule step_trans)
  moreover have "snd (deferred d m s) = t'"
    using m d r' by (cases r; cases r') (auto simp: deferred_def)
  ultimately show "R s (snd (deferred d m s))" by simp
qed

lemma alive_attempt: "keeps_alive m \<Longrightarrow> keeps_alive (attempt m)"
  by (auto simp: keeps_alive_def attempt_def split: prod.splits res.splits)
     (metis fst_conv res.distinct snd_conv)+

lemma alive_for_each: "(\<And>x. x \<in> set xs \<Longrightarrow> keeps_alive (body x)) \<Longrightarrow> keeps_alive (for_each xs body)"
  by (induction xs) (auto intro: alive_keeps keeps_ret alive_bnd)

text \<open>And for the runs that succeed.\<close>

definition keeps_ok :: "('s, 'a) prog \<Rightarrow> bool" where
  "keeps_ok m \<longleftrightarrow> (\<forall>s v s'. m s = (Ok v, s') \<longrightarrow> R s s')"

lemma keeps_okI: "(\<And>s v s'. m s = (Ok v, s') \<Longrightarrow> R s s') \<Longrightarrow> keeps_ok m"
  by (simp add: keeps_ok_def)

lemma keeps_okD: "keeps_ok m \<Longrightarrow> m s = (Ok v, s') \<Longrightarrow> R s s'"
  by (simp add: keeps_ok_def)

lemma ok_keeps: "keeps m \<Longrightarrow> keeps_ok m"
  by (auto simp: keeps_ok_def intro: keepsD)

lemma ok_bnd: "keeps_ok m \<Longrightarrow> (\<And>v. keeps_ok (f v)) \<Longrightarrow> keeps_ok (bnd m f)"
  by (rule keeps_okI) (blast elim: bnd_eq_OkE intro: step_trans dest: keeps_okD)

lemma ok_throw: "keeps_ok (throw e)"
  by (simp add: keeps_ok_def throw_def)

lemma ok_for_each: "(\<And>x. x \<in> set xs \<Longrightarrow> keeps_ok (body x)) \<Longrightarrow> keeps_ok (for_each xs body)"
  by (induction xs) (auto intro: ok_keeps keeps_ret ok_bnd)

lemma ok_fold_each: "(\<And>x a. x \<in> set xs \<Longrightarrow> keeps_ok (body x a)) \<Longrightarrow> keeps_ok (fold_each xs body a)"
  by (induction xs arbitrary: a) (auto intro: ok_keeps keeps_ret ok_bnd)

end

end
