(* ===== verification/GoStrings.thy ===== *)
theory GoStrings
  imports GoBase "HOL-Library.Char_ord"
begin

text \<open>
  The functions of Go's \<open>strings\<close>, \<open>strconv\<close> and \<open>net/http\<close> header packages that
  the program calls, on byte strings (\<open>char list\<close>, one \<open>char\<close> per byte, as a Go
  string is a byte sequence). Case mapping and white space are modelled for
  ASCII: the program applies them to HTTP headers, Kubernetes names and error
  texts.
\<close>

section \<open>Prefixes, suffixes and searching\<close>

abbreviation HasPrefix :: "string \<Rightarrow> string \<Rightarrow> bool" where
  "HasPrefix s p \<equiv> prefix p s"

abbreviation HasSuffix :: "string \<Rightarrow> string \<Rightarrow> bool" where
  "HasSuffix s p \<equiv> suffix p s"

definition TrimPrefix :: "string \<Rightarrow> string \<Rightarrow> string" where
  "TrimPrefix s p = (if HasPrefix s p then drop (length p) s else s)"

text \<open>\<open>cut sep s\<close> splits \<open>s\<close> around the first occurrence of \<open>sep\<close>.\<close>

fun cut :: "string \<Rightarrow> string \<Rightarrow> (string \<times> string) option" where
  "cut sep [] = (if sep = [] then Some ([], []) else None)"
| "cut sep (c # s) =
     (if prefix sep (c # s) then Some ([], drop (length sep) (c # s))
      else map_option (\<lambda>(a, b). (c # a, b)) (cut sep s))"

text \<open>\<open>rcut c s\<close> splits \<open>s\<close> around the last occurrence of the byte \<open>c\<close>.\<close>

fun rcut :: "char \<Rightarrow> string \<Rightarrow> (string \<times> string) option" where
  "rcut c [] = None"
| "rcut c (x # s) =
     (case rcut c s of
        Some (a, b) \<Rightarrow> Some (x # a, b)
      | None \<Rightarrow> if x = c then Some ([], s) else None)"

definition Contains :: "string \<Rightarrow> string \<Rightarrow> bool" where
  "Contains s t \<longleftrightarrow> cut t s \<noteq> None"

text \<open>\<open>strings.Replace(s, old, new, 1)\<close> for a non-empty \<open>old\<close>.\<close>

definition Replace1 :: "string \<Rightarrow> string \<Rightarrow> string \<Rightarrow> string" where
  "Replace1 s old new = (case cut old s of None \<Rightarrow> s | Some (a, b) \<Rightarrow> a @ new @ b)"

lemma cut_SomeD: "cut sep s = Some (a, b) \<Longrightarrow> s = a @ sep @ b"
proof (induction s arbitrary: a)
  case Nil
  then show ?case by (simp split: if_splits)
next
  case (Cons c s)
  show ?case
  proof (cases "prefix sep (c # s)")
    case True
    with Cons.prems show ?thesis by (auto simp: prefix_def)
  next
    case False
    with Cons.prems obtain a' where "cut sep s = Some (a', b)" and "a = c # a'"
      by auto
    with Cons.IH show ?thesis by simp
  qed
qed

lemma cut_Some_length: "cut sep s = Some (a, b) \<Longrightarrow> length b + length sep \<le> length s"
  using cut_SomeD[of sep s a b] by simp

lemma cut_char: "cut [c] s = (if c \<in> set s then Some (takeWhile (\<lambda>x. x \<noteq> c) s, tl (dropWhile (\<lambda>x. x \<noteq> c) s)) else None)"
  by (induction s) (auto simp: prefix_def)

lemma cut_char_first:
  assumes "c \<notin> set a"
  shows "cut [c] (a @ c # b) = Some (a, b)"
  using assms by (induction a) (auto simp: prefix_def)

lemma cut_char_None: "c \<notin> set s \<Longrightarrow> cut [c] s = None"
  by (simp add: cut_char)

lemma rcut_SomeD: "rcut c s = Some (a, b) \<Longrightarrow> s = a @ c # b \<and> c \<notin> set b"
proof (induction s arbitrary: a)
  case Nil
  then show ?case by simp
next
  case (Cons x s)
  show ?case
  proof (cases "rcut c s")
    case None
    have nin: "rcut c s = None \<Longrightarrow> c \<notin> set s"
      by (induction s) (auto split: option.splits if_splits)
    from None Cons.prems nin show ?thesis by (simp split: if_splits)
  next
    case (Some ab)
    with Cons show ?thesis by (cases ab) auto
  qed
qed

lemma rcut_None_iff: "rcut c s = None \<longleftrightarrow> c \<notin> set s"
  by (induction s) (auto split: option.splits if_splits)

lemma TrimPrefix_append [simp]: "TrimPrefix (p @ s) p = s"
  by (simp add: TrimPrefix_def)

lemma HasPrefix_TrimPrefix: "HasPrefix s p \<Longrightarrow> p @ TrimPrefix s p = s"
  by (auto simp: TrimPrefix_def prefix_def)

section \<open>Splitting and joining\<close>

text \<open>
  \<open>strings.Split(s, sep)\<close>. The program only splits on non-empty literals; for
  an empty separator the model answers the whole string.
\<close>

function Split :: "string \<Rightarrow> string \<Rightarrow> string list" where
  "Split s sep =
     (if sep = [] then [s]
      else case cut sep s of
        None \<Rightarrow> [s]
      | Some (a, b) \<Rightarrow> a # Split b sep)"
  by pat_completeness auto
termination
proof (relation "measure (\<lambda>(s, _). length s)", goal_cases)
  case 1
  show ?case by simp
next
  case (2 s sep p a b)
  then have "cut sep s = Some (a, b)" by simp
  then have "length b + length sep \<le> length s" by (rule cut_Some_length)
  with 2 show ?case by (cases sep) auto
qed

declare Split.simps [simp del]

definition SplitN2 :: "string \<Rightarrow> string \<Rightarrow> string list" where
  "SplitN2 s sep = (case cut sep s of None \<Rightarrow> [s] | Some (a, b) \<Rightarrow> [a, b])"

fun Join :: "string list \<Rightarrow> string \<Rightarrow> string" where
  "Join [] sep = []"
| "Join [s] sep = s"
| "Join (s # t # ss) sep = s @ sep @ Join (t # ss) sep"

lemma Split_not_Nil: "Split s sep \<noteq> []"
  by (subst Split.simps) (simp split: option.splits)

lemma Join_Cons: "ss \<noteq> [] \<Longrightarrow> Join (s # ss) sep = s @ sep @ Join ss sep"
  by (cases ss) simp_all

lemma Join_Split: "Join (Split s sep) sep = s"
proof (induction s sep rule: Split.induct)
  case (1 s sep)
  show ?case
  proof (cases "sep = [] \<or> cut sep s = None")
    case True
    then have "Split s sep = [s]" by (subst Split.simps) auto
    then show ?thesis by simp
  next
    case False
    then obtain a b where c: "cut sep s = Some (a, b)" and ne: "sep \<noteq> []" by auto
    then have "Split s sep = a # Split b sep" by (subst Split.simps) simp
    with "1.IH"[OF ne c refl] show ?thesis
      by (simp add: Join_Cons Split_not_Nil cut_SomeD[OF c])
  qed
qed

lemma Split_char_single: "c \<notin> set s \<Longrightarrow> Split s [c] = [s]"
  by (subst Split.simps) (simp add: cut_char_None)

lemma Split_char_append: "c \<notin> set a \<Longrightarrow> Split (a @ c # b) [c] = a # Split b [c]"
  by (subst Split.simps) (simp add: cut_char_first)

lemma Split_Join_char:
  "ss \<noteq> [] \<Longrightarrow> (\<And>s. s \<in> set ss \<Longrightarrow> c \<notin> set s) \<Longrightarrow> Split (Join ss [c]) [c] = ss"
proof (induction ss rule: induct_list012)
  case 1
  then show ?case by simp
next
  case (2 s)
  then show ?case by (simp add: Split_char_single)
next
  case (3 s t ss)
  then have "Split (Join (t # ss) [c]) [c] = t # ss" by simp
  with 3(4) show ?case by (simp add: Split_char_append)
qed

section \<open>Trimming and case\<close>

definition ascii_space :: "char \<Rightarrow> bool" where
  "ascii_space c \<longleftrightarrow> c \<in> {CHR '' '', CHR 0x09, CHR 0x0A, CHR 0x0B, CHR 0x0C, CHR 0x0D}"

definition TrimRightFunc :: "(char \<Rightarrow> bool) \<Rightarrow> string \<Rightarrow> string" where
  "TrimRightFunc P s = rev (dropWhile P (rev s))"

definition TrimSpace :: "string \<Rightarrow> string" where
  "TrimSpace s = TrimRightFunc ascii_space (dropWhile ascii_space s)"

text \<open>\<open>strings.Trim(s, cutset)\<close> for an ASCII cutset.\<close>

definition Trim :: "string \<Rightarrow> string \<Rightarrow> string" where
  "Trim s cutset = TrimRightFunc (\<lambda>c. c \<in> set cutset) (dropWhile (\<lambda>c. c \<in> set cutset) s)"

definition ascii_upper :: "char \<Rightarrow> bool" where
  "ascii_upper c \<longleftrightarrow> of_char c \<ge> (65::nat) \<and> of_char c \<le> (90::nat)"

definition ascii_lower :: "char \<Rightarrow> bool" where
  "ascii_lower c \<longleftrightarrow> of_char c \<ge> (97::nat) \<and> of_char c \<le> (122::nat)"

definition ascii_digit :: "char \<Rightarrow> bool" where
  "ascii_digit c \<longleftrightarrow> of_char c \<ge> (48::nat) \<and> of_char c \<le> (57::nat)"

definition lower_char :: "char \<Rightarrow> char" where
  "lower_char c = (if ascii_upper c then char_of (of_char c + (32::nat)) else c)"

definition upper_char :: "char \<Rightarrow> char" where
  "upper_char c = (if ascii_lower c then char_of (of_char c - (32::nat)) else c)"

definition ToLower :: "string \<Rightarrow> string" where
  "ToLower s = map lower_char s"

lemma ToLower_append [simp]: "ToLower (s @ t) = ToLower s @ ToLower t"
  by (simp add: ToLower_def)

lemma lower_char_idem [simp]: "lower_char (lower_char c) = lower_char c"
proof (cases "ascii_upper c")
  case True
  then have "\<not> ascii_upper (char_of (of_char c + (32::nat)))"
    by (auto simp: ascii_upper_def of_char_of)
  with True show ?thesis by (simp add: lower_char_def)
qed (simp add: lower_char_def)

lemma ToLower_idem [simp]: "ToLower (ToLower s) = ToLower s"
  by (simp add: ToLower_def)

lemma TrimRightFunc_id: "(s = [] \<or> \<not> P (last s)) \<Longrightarrow> TrimRightFunc P s = s"
  by (cases s rule: rev_cases) (auto simp: TrimRightFunc_def)

lemma TrimSpace_id:
  assumes "s = [] \<or> (\<not> ascii_space (hd s) \<and> \<not> ascii_space (last s))"
  shows "TrimSpace s = s"
  using assms by (cases s) (auto simp: TrimSpace_def TrimRightFunc_id)

lemma TrimSpace_Cons_space [simp]: "ascii_space c \<Longrightarrow> TrimSpace (c # s) = TrimSpace s"
  by (simp add: TrimSpace_def)

lemma Trim_id:
  assumes "s = [] \<or> (hd s \<notin> set cs \<and> last s \<notin> set cs)"
  shows "Trim s cs = s"
  using assms by (cases s) (auto simp: Trim_def TrimRightFunc_id)

lemma Trim_wrap:
  assumes "a \<in> set cs" and "b \<in> set cs" and "s = [] \<or> (hd s \<notin> set cs \<and> last s \<notin> set cs)"
  shows "Trim (a # s @ [b]) cs = s"
proof (cases s)
  case Nil
  with assms show ?thesis by (simp add: Trim_def TrimRightFunc_def)
next
  case (Cons c s')
  with assms have "dropWhile (\<lambda>c. c \<in> set cs) (a # s @ [b]) = s @ [b]" by simp
  moreover have "TrimRightFunc (\<lambda>c. c \<in> set cs) (s @ [b]) = TrimRightFunc (\<lambda>c. c \<in> set cs) s"
    using assms(2) by (simp add: TrimRightFunc_def)
  moreover have "TrimRightFunc (\<lambda>c. c \<in> set cs) s = s"
    using assms(3) Cons by (intro TrimRightFunc_id) simp
  ultimately show ?thesis by (simp add: Trim_def)
qed

section \<open>Numbers\<close>

definition digit_char :: "nat \<Rightarrow> char" where
  "digit_char d = char_of (48 + d)"

definition digit_val :: "char \<Rightarrow> nat" where
  "digit_val c = of_char c - 48"

fun nat_digits :: "nat \<Rightarrow> string" where
  "nat_digits n = (if n < 10 then [digit_char n] else nat_digits (n div 10) @ [digit_char (n mod 10)])"

declare nat_digits.simps [simp del]

text \<open>\<open>strconv.Itoa\<close> and the verb \<open>%d\<close>.\<close>

definition Itoa :: "int \<Rightarrow> string" where
  "Itoa i = (if i < 0 then CHR ''-'' # nat_digits (nat (- i)) else nat_digits (nat i))"

definition digits_val :: "string \<Rightarrow> nat" where
  "digits_val s = foldl (\<lambda>n c. 10 * n + digit_val c) 0 s"

text \<open>\<open>strconv.Atoi\<close> on a 64-bit platform.\<close>

definition Atoi :: "string \<Rightarrow> int res" where
  "Atoi s =
     (let neg = (HasPrefix s ''-'');
          ds = (if HasPrefix s ''-'' \<or> HasPrefix s ''+'' then tl s else s)
      in if ds = [] \<or> \<not> list_all ascii_digit ds
         then Err (Fail (''strconv.Atoi: parsing '' @ s @ '': invalid syntax''))
         else let v = (if neg then - int (digits_val ds) else int (digits_val ds))
              in if v < - (2 ^ 63) \<or> v \<ge> 2 ^ 63
                 then Err (Fail (''strconv.Atoi: parsing '' @ s @ '': value out of range''))
                 else Ok v)"

lemma digit_char_val: "d < 10 \<Longrightarrow> digit_val (digit_char d) = d"
  by (simp add: digit_val_def digit_char_def of_char_of)

lemma digit_char_digit: "d < 10 \<Longrightarrow> ascii_digit (digit_char d)"
  by (simp add: ascii_digit_def digit_char_def of_char_of)

lemma nat_digits_not_Nil: "nat_digits n \<noteq> []"
  by (subst nat_digits.simps) simp

lemma nat_digits_digit: "list_all ascii_digit (nat_digits n)"
proof (induction n rule: nat_digits.induct)
  case (1 n)
  then show ?case
    by (subst nat_digits.simps) (auto simp: digit_char_digit)
qed

lemma digits_val_snoc: "digits_val (s @ [c]) = 10 * digits_val s + digit_val c"
  by (simp add: digits_val_def)

lemma digits_val_nat_digits: "digits_val (nat_digits n) = n"
proof (induction n rule: nat_digits.induct)
  case (1 n)
  show ?case
  proof (cases "n < 10")
    case True
    then show ?thesis
      by (subst nat_digits.simps) (simp add: digits_val_def digit_char_val)
  next
    case False
    with 1 show ?thesis
      by (subst nat_digits.simps) (simp add: digits_val_snoc digit_char_val)
  qed
qed

lemma ascii_digit_signs: "\<not> ascii_digit (CHR ''-'')" "\<not> ascii_digit (CHR ''+'')"
  by (simp_all add: ascii_digit_def)

lemma nat_digits_no_sign: "\<not> HasPrefix (nat_digits n) ''-''" "\<not> HasPrefix (nat_digits n) ''+''"
  using nat_digits_digit[of n] ascii_digit_signs by (auto simp: prefix_def)

lemma Atoi_Itoa: "- (2 ^ 63) \<le> i \<Longrightarrow> i < 2 ^ 63 \<Longrightarrow> Atoi (Itoa i) = Ok i"
  by (auto simp: Atoi_def Itoa_def nat_digits_not_Nil nat_digits_digit nat_digits_no_sign
      digits_val_nat_digits Let_def nat_less_iff nat_le_iff)

text \<open>\<open>strconv.ParseBool\<close>.\<close>

definition ParseBool :: "string \<Rightarrow> bool res" where
  "ParseBool s =
     (if s \<in> {''1'', ''t'', ''T'', ''true'', ''TRUE'', ''True''} then Ok True
      else if s \<in> {''0'', ''f'', ''F'', ''false'', ''FALSE'', ''False''} then Ok False
      else Err (Fail (''strconv.ParseBool: parsing '' @ s @ '': invalid syntax'')))"

end
