(* ===== verification/GoUrl.thy ===== *)
theory GoUrl
  imports GoStrings
begin

text \<open>
  Go's \<open>net/url\<close>, as far as the program uses it: \<open>url.Parse\<close> (repository and API
  URLs), \<open>URL.String\<close> (the paginated requests) and \<open>url.QueryEscape\<close> (GitLab
  project paths). The model follows the package's own functions \<open>getscheme\<close>,
  \<open>parseAuthority\<close>, \<open>parseHost\<close>, \<open>escape\<close>, \<open>unescape\<close> and \<open>shouldEscape\<close>.
\<close>

section \<open>Percent encoding\<close>

datatype url_mode = EncPath | EncUser | EncHost | EncZone | EncQuery | EncFragment

definition is_alnum :: "char \<Rightarrow> bool" where
  "is_alnum c \<longleftrightarrow> ascii_lower c \<or> ascii_upper c \<or> ascii_digit c"

definition shouldEscape :: "char \<Rightarrow> url_mode \<Rightarrow> bool" where
  "shouldEscape c mode =
     (if is_alnum c then False
      else if (mode = EncHost \<or> mode = EncZone) \<and> c \<in> set ''!$&'' \<union> {CHR 0x27} \<union> set ''()*+,;=:[]<>'' \<union> {CHR 0x22} then False
      else if c \<in> set ''-_.~'' then False
      else if c \<in> set ''$&+,/:;=?@'' \<and> mode = EncPath then c = CHR ''?''
      else if c \<in> set ''$&+,/:;=?@'' \<and> mode = EncUser then c \<in> set ''@/?:''
      else if c \<in> set ''$&+,/:;=?@'' \<and> mode = EncQuery then True
      else if c \<in> set ''$&+,/:;=?@'' \<and> mode = EncFragment then False
      else if mode = EncFragment \<and> c \<in> set ''!()*'' then False
      else True)"

definition is_hex :: "char \<Rightarrow> bool" where
  "is_hex c \<longleftrightarrow> ascii_digit c \<or> c \<in> set ''abcdefABCDEF''"

definition unhex :: "char \<Rightarrow> nat" where
  "unhex c = (if ascii_digit c then of_char c - 48
              else if ascii_lower c then of_char c - 87 else of_char c - 55)"

definition upper_hex :: "nat \<Rightarrow> char" where
  "upper_hex n = ''0123456789ABCDEF'' ! n"

fun unescape :: "string \<Rightarrow> url_mode \<Rightarrow> string res" where
  "unescape [] mode = Ok []"
| "unescape (c # s) mode =
     (if c = CHR ''%'' then
        (case s of
           h # l # s' \<Rightarrow>
             if \<not> is_hex h \<or> \<not> is_hex l then Err (Fail ''invalid URL escape'')
             else if mode = EncHost \<and> unhex h < 8 \<and> [h, l] \<noteq> ''25'' then Err (Fail ''invalid URL escape'')
             else if mode = EncZone \<and> [h, l] \<noteq> ''25'' \<and> 16 * unhex h + unhex l \<noteq> 32
                     \<and> shouldEscape (char_of (16 * unhex h + unhex l)) EncHost
                  then Err (Fail ''invalid URL escape'')
             else res_bind (unescape s' mode) (\<lambda>r. Ok (char_of (16 * unhex h + unhex l) # r))
         | _ \<Rightarrow> Err (Fail ''invalid URL escape''))
      else if c = CHR ''+'' \<and> mode = EncQuery then
        res_bind (unescape s mode) (\<lambda>r. Ok (CHR '' '' # r))
      else if (mode = EncHost \<or> mode = EncZone) \<and> of_char c < (128::nat) \<and> shouldEscape c mode then
        Err (Fail (''invalid character in host name''))
      else res_bind (unescape s mode) (\<lambda>r. Ok (c # r)))"

fun escape :: "string \<Rightarrow> url_mode \<Rightarrow> string" where
  "escape [] mode = []"
| "escape (c # s) mode =
     (if shouldEscape c mode then
        (if c = CHR '' '' \<and> mode = EncQuery then CHR ''+'' # escape s mode
         else CHR ''%'' # upper_hex (of_char c div 16) # upper_hex (of_char c mod 16) # escape s mode)
      else c # escape s mode)"

definition QueryEscape :: "string \<Rightarrow> string" where
  "QueryEscape s = escape s EncQuery"

definition validEncoded :: "string \<Rightarrow> url_mode \<Rightarrow> bool" where
  "validEncoded s mode \<longleftrightarrow>
     list_all (\<lambda>c. c \<in> set ''!$&'' \<union> {CHR 0x27} \<union> set ''()*+,;=:@[]%'' \<or> \<not> shouldEscape c mode) s"

section \<open>Parsing\<close>

record url =
  u_Scheme :: string
  u_Opaque :: string
  u_User :: "(string \<times> string option) option"
  u_Host :: string
  u_Path :: string
  u_RawPath :: string
  u_ForceQuery :: bool
  u_RawQuery :: string
  u_Fragment :: string
  u_RawFragment :: string

definition empty_url :: url where
  "empty_url = \<lparr>u_Scheme = [], u_Opaque = [], u_User = None, u_Host = [], u_Path = [],
     u_RawPath = [], u_ForceQuery = False, u_RawQuery = [], u_Fragment = [], u_RawFragment = []\<rparr>"

definition is_ctl :: "char \<Rightarrow> bool" where
  "is_ctl c \<longleftrightarrow> of_char c < (32::nat) \<or> c = CHR 0x7F"

text \<open>\<open>split_at c s\<close> is the package's \<open>split(s, c, true)\<close>.\<close>

definition split_at :: "char \<Rightarrow> string \<Rightarrow> string \<times> string" where
  "split_at c s = (case cut [c] s of None \<Rightarrow> (s, []) | Some p \<Rightarrow> p)"

text \<open>
  \<open>getscheme\<close>: the first argument is the part already scanned. The result is
  \<open>(scheme, rest)\<close>; a byte that cannot be in a scheme ends the scan without one.
\<close>

fun getscheme_from :: "string \<Rightarrow> string \<Rightarrow> string \<Rightarrow> (string \<times> string) res" where
  "getscheme_from raw seen [] = Ok ([], raw)"
| "getscheme_from raw seen (c # s) =
     (if ascii_lower c \<or> ascii_upper c then getscheme_from raw (seen @ [c]) s
      else if ascii_digit c \<or> c \<in> set ''+-.'' then
        (if seen = [] then Ok ([], raw) else getscheme_from raw (seen @ [c]) s)
      else if c = CHR '':'' then
        (if seen = [] then Err (Fail ''missing protocol scheme'') else Ok (seen, s))
      else Ok ([], raw))"

definition getscheme :: "string \<Rightarrow> (string \<times> string) res" where
  "getscheme raw = getscheme_from raw [] raw"

definition validOptionalPort :: "string \<Rightarrow> bool" where
  "validOptionalPort p \<longleftrightarrow> (case p of [] \<Rightarrow> True | c # ds \<Rightarrow> c = CHR '':'' \<and> list_all ascii_digit ds)"

definition validUserinfo :: "string \<Rightarrow> bool" where
  "validUserinfo s \<longleftrightarrow>
     list_all (\<lambda>c. is_alnum c \<or> c \<in> set ''-._:~!$&'' \<union> {CHR 0x27} \<union> set ''()*+,;=%@'') s"

definition parseHost :: "string \<Rightarrow> string res" where
  "parseHost host =
     (if HasPrefix host ''['' then
        (case rcut (CHR '']'') host of
           None \<Rightarrow> Err (Fail ''missing ']' in host'')
         | Some (pre, port) \<Rightarrow>
             if \<not> validOptionalPort port then Err (Fail ''invalid port after host'')
             else (case cut ''%25'' pre of
                     Some (h, z) \<Rightarrow>
                       res_bind (unescape h EncHost) (\<lambda>h1.
                       res_bind (unescape (''%25'' @ z) EncZone) (\<lambda>h2.
                       res_bind (unescape (CHR '']'' # port) EncHost) (\<lambda>h3.
                       Ok (h1 @ h2 @ h3))))
                   | None \<Rightarrow> unescape host EncHost))
      else (case rcut (CHR '':'') host of
              Some (_, port) \<Rightarrow>
                if \<not> validOptionalPort (CHR '':'' # port) then Err (Fail ''invalid port after host'')
                else unescape host EncHost
            | None \<Rightarrow> unescape host EncHost))"

definition parseUserinfo :: "string \<Rightarrow> (string \<times> string option) res" where
  "parseUserinfo info =
     (case cut '':'' info of
        None \<Rightarrow> res_bind (unescape info EncUser) (\<lambda>u. Ok (u, None))
      | Some (n, p) \<Rightarrow>
          res_bind (unescape n EncUser) (\<lambda>u.
          res_bind (unescape p EncUser) (\<lambda>pw. Ok (u, Some pw))))"

definition parseAuthority :: "string \<Rightarrow> ((string \<times> string option) option \<times> string) res" where
  "parseAuthority a =
     (case rcut (CHR ''@'') a of
        None \<Rightarrow> res_bind (parseHost a) (\<lambda>h. Ok (None, h))
      | Some (info, h) \<Rightarrow>
          res_bind (parseHost h) (\<lambda>host.
          if \<not> validUserinfo info then Err (Fail ''net/url: invalid userinfo'')
          else res_bind (parseUserinfo info) (\<lambda>u. Ok (Some u, host))))"

definition setPath :: "string \<Rightarrow> url \<Rightarrow> url res" where
  "setPath p u =
     res_bind (unescape p EncPath) (\<lambda>path.
       Ok (u\<lparr>u_Path := path, u_RawPath := (if escape path EncPath = p then [] else p)\<rparr>))"

definition setFragment :: "string \<Rightarrow> url \<Rightarrow> url res" where
  "setFragment f u =
     res_bind (unescape f EncFragment) (\<lambda>frag.
       Ok (u\<lparr>u_Fragment := frag, u_RawFragment := (if escape frag EncFragment = f then [] else f)\<rparr>))"

definition parse_rest :: "url \<Rightarrow> string \<Rightarrow> url res" where
  "parse_rest u rest =
     (if u_Scheme u \<noteq> [] \<and> HasPrefix rest ''//'' \<or> \<not> HasPrefix rest ''///'' \<and> HasPrefix rest ''//'' then
        (let authority = takeWhile (\<lambda>c. c \<noteq> CHR ''/'') (drop 2 rest);
             path = dropWhile (\<lambda>c. c \<noteq> CHR ''/'') (drop 2 rest)
         in res_bind (parseAuthority authority) (\<lambda>(user, host).
              setPath path (u\<lparr>u_User := user, u_Host := host\<rparr>)))
      else setPath rest u)"

definition parse_raw :: "string \<Rightarrow> url res" where
  "parse_raw raw =
     (if list_ex is_ctl raw then Err (Fail ''net/url: invalid control character in URL'')
      else if raw = ''*'' then Ok (empty_url\<lparr>u_Path := ''*''\<rparr>)
      else res_bind (getscheme raw) (\<lambda>(scheme, rest0).
        let forced = (HasSuffix rest0 ''?'' \<and> CHR ''?'' \<notin> set (butlast rest0));
            rest = (if forced then butlast rest0 else fst (split_at (CHR ''?'') rest0));
            query = (if forced then [] else snd (split_at (CHR ''?'') rest0));
            u = empty_url\<lparr>u_Scheme := ToLower scheme, u_ForceQuery := forced, u_RawQuery := query\<rparr>
        in if \<not> HasPrefix rest ''/'' \<and> scheme \<noteq> [] then Ok (u\<lparr>u_Opaque := rest\<rparr>)
           else if \<not> HasPrefix rest ''/'' \<and> CHR '':'' \<in> set (takeWhile (\<lambda>c. c \<noteq> CHR ''/'') rest)
             then Err (Fail ''first path segment in URL cannot contain colon'')
           else parse_rest u rest))"

text \<open>\<open>url.Parse\<close>.\<close>

definition url_Parse :: "string \<Rightarrow> url res" where
  "url_Parse raw =
     (let (u, frag) = split_at (CHR ''#'') raw
      in res_bind (parse_raw u) (\<lambda>v. if frag = [] then Ok v else setFragment frag v))"

section \<open>Printing\<close>

definition EscapedPath :: "url \<Rightarrow> string" where
  "EscapedPath u =
     (if u_RawPath u \<noteq> [] \<and> validEncoded (u_RawPath u) EncPath
           \<and> unescape (u_RawPath u) EncPath = Ok (u_Path u)
      then u_RawPath u
      else if u_Path u = ''*'' then ''*''
      else escape (u_Path u) EncPath)"

definition EscapedFragment :: "url \<Rightarrow> string" where
  "EscapedFragment u =
     (if u_RawFragment u \<noteq> [] \<and> validEncoded (u_RawFragment u) EncFragment
           \<and> unescape (u_RawFragment u) EncFragment = Ok (u_Fragment u)
      then u_RawFragment u
      else escape (u_Fragment u) EncFragment)"

fun userinfo_String :: "string \<times> string option \<Rightarrow> string" where
  "userinfo_String (n, None) = escape n EncUser"
| "userinfo_String (n, Some p) = escape n EncUser @ '':'' @ escape p EncUser"

definition url_String :: "url \<Rightarrow> string" where
  "url_String u =
     (let sch = (if u_Scheme u = [] then [] else u_Scheme u @ '':'');
          auth = (if u_Scheme u = [] \<and> u_Host u = [] \<and> u_User u = None then []
                  else (if u_Host u \<noteq> [] \<or> u_Path u \<noteq> [] \<or> u_User u \<noteq> None then ''//'' else [])
                       @ (case u_User u of None \<Rightarrow> [] | Some ui \<Rightarrow> userinfo_String ui @ ''@'')
                       @ escape (u_Host u) EncHost);
          path = EscapedPath u;
          slash = (if path \<noteq> [] \<and> \<not> HasPrefix path ''/'' \<and> u_Host u \<noteq> [] then ''/'' else []);
          dot = (if sch @ auth @ slash = [] \<and> CHR '':'' \<in> set (takeWhile (\<lambda>c. c \<noteq> CHR ''/'') path)
                 then ''./'' else []);
          body = (if u_Opaque u \<noteq> [] then sch @ u_Opaque u else sch @ auth @ slash @ dot @ path)
      in body @ (if u_ForceQuery u \<or> u_RawQuery u \<noteq> [] then CHR ''?'' # u_RawQuery u else [])
              @ (if u_Fragment u \<noteq> [] then CHR ''#'' # EscapedFragment u else []))"

section \<open>Plain URLs\<close>

text \<open>
  Unreserved bytes need no encoding. For an \<open>https\<close> URL over such bytes the
  parser returns host and path as they stand, and printing gives them back.
\<close>

definition url_plain :: "char \<Rightarrow> bool" where
  "url_plain c \<longleftrightarrow> is_alnum c \<or> c \<in> set ''-_.~''"

definition url_plain_path :: "char \<Rightarrow> bool" where
  "url_plain_path c \<longleftrightarrow> url_plain c \<or> c = CHR ''/''"

named_theorems char_simps "evaluation of character classes"

declare ascii_lower_def [char_simps] ascii_upper_def [char_simps] ascii_digit_def [char_simps]
  is_alnum_def [char_simps] url_plain_def [char_simps] url_plain_path_def [char_simps]
  is_ctl_def [char_simps] shouldEscape_def [char_simps]

lemma special_not_url_plain:
  assumes "c \<in> set ''#?%@:[+''"
  shows "\<not> url_plain_path c"
proof -
  from assms have "c = CHR ''#'' \<or> c = CHR ''?'' \<or> c = CHR ''%'' \<or> c = CHR ''@''
      \<or> c = CHR '':'' \<or> c = CHR ''['' \<or> c = CHR ''+''"
    by simp
  then show ?thesis
    by (elim disjE) (simp_all add: char_simps)
qed

lemma url_plain_range: "url_plain_path c \<Longrightarrow> 45 \<le> (of_char c :: nat) \<and> (of_char c :: nat) \<le> 126"
proof -
  assume "url_plain_path c"
  then have "is_alnum c \<or> c = CHR ''-'' \<or> c = CHR ''_'' \<or> c = CHR ''.'' \<or> c = CHR ''~'' \<or> c = CHR ''/''"
    by (simp add: url_plain_path_def url_plain_def)
  then show ?thesis
  proof (elim disjE)
    assume "is_alnum c"
    then show ?thesis
      unfolding is_alnum_def ascii_lower_def ascii_upper_def ascii_digit_def by linarith
  qed simp_all
qed

lemma url_plain_not_special:
  assumes "url_plain_path c"
  shows "\<not> is_ctl c" and "c \<notin> set ''#?%@:[+''"
proof -
  show "\<not> is_ctl c" using url_plain_range[OF assms] by (auto simp: is_ctl_def)
  show "c \<notin> set ''#?%@:[+''" using special_not_url_plain assms by blast
qed

lemma alnum_noescape: "is_alnum c \<Longrightarrow> \<not> shouldEscape c mode"
  by (simp add: shouldEscape_def)

lemma url_plain_noescape:
  assumes "url_plain c"
  shows "\<not> shouldEscape c mode"
proof -
  from assms have "is_alnum c \<or> c = CHR ''-'' \<or> c = CHR ''_'' \<or> c = CHR ''.'' \<or> c = CHR ''~''"
    by (simp add: url_plain_def)
  then show ?thesis
    by (elim disjE) (simp_all add: alnum_noescape shouldEscape_def)
qed

lemma url_plain_path_noescape: "url_plain_path c \<Longrightarrow> \<not> shouldEscape c EncPath"
  by (auto simp: url_plain_path_def url_plain_noescape) (simp add: shouldEscape_def char_simps)

lemma unescape_path_plain: "list_all url_plain_path s \<Longrightarrow> unescape s EncPath = Ok s"
  by (induction s) (use url_plain_not_special in fastforce)+

lemma escape_path_plain: "list_all url_plain_path s \<Longrightarrow> escape s EncPath = s"
  by (induction s) (simp_all add: url_plain_path_noescape)

lemma unescape_host_plain: "list_all url_plain s \<Longrightarrow> unescape s EncHost = Ok s"
proof (induction s)
  case Nil
  show ?case by simp
next
  case (Cons c s)
  then have "c \<noteq> CHR ''%''" and "\<not> shouldEscape c EncHost"
    using url_plain_noescape url_plain_not_special(2)[of c] by (auto simp: url_plain_path_def)
  with Cons show ?case by simp
qed

lemma escape_plain: "list_all url_plain s \<Longrightarrow> escape s mode = s"
  by (induction s) (simp_all add: url_plain_noescape)

lemma parseHost_plain:
  assumes "list_all url_plain h"
  shows "parseHost h = Ok h"
proof -
  have nin: "c \<notin> set h" if "c \<in> set ''#?%@:[+''" for c
    using assms that url_plain_not_special(2) by (auto simp: list_all_iff url_plain_path_def)
  have "\<not> HasPrefix h ''[''" using nin[of "CHR ''[''"] by (auto simp: prefix_def)
  moreover have "rcut (CHR '':'') h = None" using nin by (simp add: rcut_None_iff)
  ultimately show ?thesis using assms by (simp add: parseHost_def unescape_host_plain)
qed

lemma parseAuthority_plain:
  assumes "list_all url_plain h"
  shows "parseAuthority h = Ok (None, h)"
proof -
  have "CHR ''@'' \<notin> set h"
    using assms url_plain_not_special(2) by (auto simp: list_all_iff url_plain_path_def)
  then have "rcut (CHR ''@'') h = None" by (simp add: rcut_None_iff)
  then show ?thesis using assms by (simp add: parseAuthority_def parseHost_plain)
qed

lemma getscheme_https: "getscheme (''https:'' @ s) = Ok (''https'', s)"
  by (simp add: getscheme_def char_simps)

definition https_url :: "string \<Rightarrow> string \<Rightarrow> url" where
  "https_url h p = empty_url\<lparr>u_Scheme := ''https'', u_Host := h, u_Path := p\<rparr>"

lemma parse_rest_plain:
  assumes "list_all url_plain h" and "list_all url_plain_path p" and "p = [] \<or> HasPrefix p ''/''"
  shows "parse_rest (empty_url\<lparr>u_Scheme := ''https''\<rparr>) (''//'' @ h @ p) = Ok (https_url h p)"
proof -
  have nslash: "CHR ''/'' \<notin> set h"
  proof
    assume "CHR ''/'' \<in> set h"
    with assms(1) have "url_plain (CHR ''/'')" by (simp add: list_all_iff)
    then show False by (simp add: char_simps)
  qed
  then have all: "x \<in> set h \<Longrightarrow> x \<noteq> CHR ''/''" for x by auto
  have ends: "takeWhile (\<lambda>c. c \<noteq> CHR ''/'') p = []" "dropWhile (\<lambda>c. c \<noteq> CHR ''/'') p = p"
    using assms(3) by (auto simp: prefix_def)
  have tw: "takeWhile (\<lambda>c. c \<noteq> CHR ''/'') (h @ p) = h"
    using takeWhile_append2[of h "\<lambda>c. c \<noteq> CHR ''/''" p] all ends by simp
  have dw: "dropWhile (\<lambda>c. c \<noteq> CHR ''/'') (h @ p) = p"
    using dropWhile_append2[of h "\<lambda>c. c \<noteq> CHR ''/''" p] all ends by simp
  show ?thesis
    using assms by (simp add: parse_rest_def tw dw parseAuthority_plain setPath_def
        unescape_path_plain escape_path_plain https_url_def empty_url_def)
qed

lemma url_Parse_https:
  assumes "list_all url_plain h" and "list_all url_plain_path p" and "p = [] \<or> HasPrefix p ''/''"
  shows "url_Parse (''https://'' @ h @ p) = Ok (https_url h p)"
proof -
  let ?r = "''https://'' @ h @ p"
  have hp: "list_all url_plain_path (h @ p)"
    using assms(1,2) by (auto simp: list_all_iff url_plain_path_def)
  have nin: "c \<notin> set (h @ p)" if "c \<in> set ''#?%@:[+''" for c
    using hp that url_plain_not_special(2) unfolding list_all_iff by blast
  have hash: "split_at (CHR ''#'') ?r = (?r, [])"
    using nin[of "CHR ''#''"] by (simp add: split_at_def cut_char)
  have ctl: "\<not> list_ex is_ctl (''https://'' @ h @ p)"
  proof -
    have "\<not> list_ex is_ctl (h @ p)"
      using hp url_plain_not_special(1) unfolding list_ex_iff list_all_iff by blast
    moreover have "\<not> list_ex is_ctl ''https://''" by (simp add: is_ctl_def)
    ultimately show ?thesis by (simp only: list_ex_append simp_thms)
  qed
  have q: "CHR ''?'' \<notin> set (''//'' @ h @ p)"
    using nin[of "CHR ''?''"] by simp
  then have query: "split_at (CHR ''?'') (''//'' @ h @ p) = (''//'' @ h @ p, [])"
    by (simp add: split_at_def cut_char)
  have forced: "\<not> HasSuffix (''//'' @ h @ p) ''?''"
    using q by (metis in_set_conv_decomp suffix_def)
  have scheme: "getscheme ?r = Ok (''https'', ''//'' @ h @ p)"
    using getscheme_https[of "''//'' @ h @ p"] by simp
  have lower: "ToLower ''https'' = ''https''" by (simp add: ToLower_def lower_char_def char_simps)
  have "parse_raw ?r = parse_rest (empty_url\<lparr>u_Scheme := ''https''\<rparr>) (''//'' @ h @ p)"
    using ctl scheme forced query by (simp add: parse_raw_def Let_def lower empty_url_def)
  then show ?thesis
    using parse_rest_plain[OF assms] hash by (simp add: url_Parse_def)
qed

lemma url_String_https:
  assumes "list_all url_plain h" and "list_all url_plain_path p" and "HasPrefix p ''/''" and "h \<noteq> []"
  shows "url_String (https_url h p) = ''https://'' @ h @ p"
  using assms by (auto simp: url_String_def https_url_def empty_url_def EscapedPath_def
      escape_plain escape_path_plain Let_def)

text \<open>The query of such a URL is kept apart and printed back.\<close>

lemma url_String_https_query:
  assumes "list_all url_plain h" and "list_all url_plain_path p" and "HasPrefix p ''/''" and "h \<noteq> []"
    and "q \<noteq> []"
  shows "url_String (https_url h p\<lparr>u_RawQuery := q\<rparr>) = ''https://'' @ h @ p @ ''?'' @ q"
  using assms by (auto simp: url_String_def https_url_def empty_url_def EscapedPath_def
      escape_plain escape_path_plain Let_def)

end
