(* ===== verification/ApiTypes.thy ===== *)
theory ApiTypes
  imports GoUrl "HOL-Library.Word"
begin

text \<open>
  The API group \<open>cd.tmax.io/v1\<close> (\<open>api/v1\<close>): the \<open>Application\<close> and \<open>DeployResource\<close>
  objects, their Git configuration, and the pure methods on them. Kubernetes'
  own object metadata is reduced to the fields the program reads or writes.
  A Go string type with named constants (\<open>SyncStatusCode\<close>, \<open>GitType\<close>, ...) stays a
  string, since the API server may hand back any value.
\<close>

section \<open>Constants\<close>

definition ApplicationConditionReady :: string where
  "ApplicationConditionReady = ''ready''"

definition ApplicationConditionWebhookRegistered :: string where
  "ApplicationConditionWebhookRegistered = ''webhook-registered''"

definition ApplicationConditionReasonNoGitToken :: string where
  "ApplicationConditionReasonNoGitToken = ''noGitToken''"

definition SyncStatusCodeUnknown :: string where
  "SyncStatusCodeUnknown = ''Unknown''"

definition SyncStatusCodeSynced :: string where
  "SyncStatusCodeSynced = ''Synced''"

definition SyncStatusCodeOutOfSync :: string where
  "SyncStatusCodeOutOfSync = ''OutOfSync''"

definition ApplicationSourceTypePlainYAML :: string where
  "ApplicationSourceTypePlainYAML = ''PlainYAML''"

definition ApplicationSourceTypeHelm :: string where
  "ApplicationSourceTypeHelm = ''Helm''"

definition GithubDefaultAPIUrl :: string where
  "GithubDefaultAPIUrl = ''https://api.github.com''"

definition GithubDefaultHost :: string where
  "GithubDefaultHost = ''https://github.com''"

definition GitlabDefaultAPIUrl :: string where
  "GitlabDefaultAPIUrl = ''https://gitlab.com''"

definition GitlabDefaultHost :: string where
  "GitlabDefaultHost = ''https://gitlab.com''"

definition GitTypeGitHub :: string where
  "GitTypeGitHub = ''github''"

definition GitTypeGitLab :: string where
  "GitTypeGitLab = ''gitlab''"

definition GitTypeFake :: string where
  "GitTypeFake = ''fake''"

definition ConditionTrue :: string where
  "ConditionTrue = ''True''"

definition ConditionFalse :: string where
  "ConditionFalse = ''False''"

text \<open>The named values of each string type are pairwise different.\<close>

lemmas api_consts =
  ApplicationConditionReady_def ApplicationConditionWebhookRegistered_def
  ApplicationConditionReasonNoGitToken_def
  SyncStatusCodeUnknown_def SyncStatusCodeSynced_def SyncStatusCodeOutOfSync_def
  ApplicationSourceTypePlainYAML_def ApplicationSourceTypeHelm_def
  GithubDefaultAPIUrl_def GithubDefaultHost_def GitlabDefaultAPIUrl_def GitlabDefaultHost_def
  GitTypeGitHub_def GitTypeGitLab_def GitTypeFake_def ConditionTrue_def ConditionFalse_def

lemma sync_codes_distinct [simp]:
  "SyncStatusCodeUnknown \<noteq> SyncStatusCodeSynced" "SyncStatusCodeSynced \<noteq> SyncStatusCodeUnknown"
  "SyncStatusCodeUnknown \<noteq> SyncStatusCodeOutOfSync" "SyncStatusCodeOutOfSync \<noteq> SyncStatusCodeUnknown"
  "SyncStatusCodeSynced \<noteq> SyncStatusCodeOutOfSync" "SyncStatusCodeOutOfSync \<noteq> SyncStatusCodeSynced"
  "SyncStatusCodeUnknown \<noteq> []" "SyncStatusCodeSynced \<noteq> []" "SyncStatusCodeOutOfSync \<noteq> []"
  by (simp_all add: api_consts)

lemma source_types_distinct [simp]:
  "ApplicationSourceTypePlainYAML \<noteq> ApplicationSourceTypeHelm"
  "ApplicationSourceTypeHelm \<noteq> ApplicationSourceTypePlainYAML"
  by (simp_all add: api_consts)

lemma condition_status_distinct [simp]:
  "ConditionTrue \<noteq> ConditionFalse" "ConditionFalse \<noteq> ConditionTrue"
  by (simp_all add: api_consts)

lemma condition_types_distinct [simp]:
  "ApplicationConditionReady \<noteq> ApplicationConditionWebhookRegistered"
  "ApplicationConditionWebhookRegistered \<noteq> ApplicationConditionReady"
  by (simp_all add: api_consts)

section \<open>Objects\<close>

record secret_key_ref =
  skr_Name :: string
  skr_Key :: string

record git_token =
  tok_Value :: string
  tok_ValueFrom :: "secret_key_ref option"

record source_helm =
  helm_ClonedRepoPath :: string
  helm_ReleaseName :: string

record application_source =
  src_RepoURL :: string
  src_Path :: string
  src_TargetRevision :: string
  src_Type :: string
  src_Helm :: "source_helm option"
  src_Token :: "git_token option"

record application_destination =
  dst_Namespace :: string
  dst_Name :: string

text \<open>\<open>SyncCheckPeriod\<close> is an \<open>int64\<close>; it is multiplied by a duration, so its width matters.\<close>

record sync_policy =
  pol_AutoSync :: bool
  pol_SyncCheckPeriod :: "64 word"

record sync_status =
  sync_Status :: string
  sync_TimeCheck :: "64 word"

record application_spec =
  spec_Source :: application_source
  spec_Destination :: application_destination
  spec_SyncPolicy :: sync_policy

record condition =
  cond_Type :: string
  cond_Status :: string
  cond_Reason :: string
  cond_Message :: string

record application_status =
  stat_Sync :: sync_status
  stat_Conditions :: "condition list"
  stat_Secrets :: string

record application =
  app_Name :: string
  app_Namespace :: string
  app_DeletionTimestamp :: "string option"
  app_Finalizers :: "string list"
  app_Spec :: application_spec
  app_Status :: application_status

record deploy_resource_spec =
  drs_Name :: string
  drs_Namespace :: string
  drs_APIVersion :: string
  drs_Kind :: string

record deploy_resource =
  dr_Name :: string
  dr_Namespace :: string
  dr_Labels :: "(string \<times> string) list"
  dr_Application :: string
  dr_Spec :: deploy_resource_spec

abbreviation app_source :: "application \<Rightarrow> application_source" where
  "app_source a \<equiv> spec_Source (app_Spec a)"

abbreviation app_dest :: "application \<Rightarrow> application_destination" where
  "app_dest a \<equiv> spec_Destination (app_Spec a)"

abbreviation app_policy :: "application \<Rightarrow> sync_policy" where
  "app_policy a \<equiv> spec_SyncPolicy (app_Spec a)"

abbreviation app_sync :: "application \<Rightarrow> string" where
  "app_sync a \<equiv> sync_Status (stat_Sync (app_Status a))"

definition set_sync :: "string \<Rightarrow> application \<Rightarrow> application" where
  "set_sync code a = a\<lparr>app_Status := (app_Status a)\<lparr>stat_Sync := (stat_Sync (app_Status a))\<lparr>sync_Status := code\<rparr>\<rparr>\<rparr>"

lemma app_sync_set_sync [simp]: "app_sync (set_sync code a) = code"
  by (simp add: set_sync_def)

lemma set_sync_frame [simp]:
  "app_Name (set_sync code a) = app_Name a"
  "app_Namespace (set_sync code a) = app_Namespace a"
  "app_Spec (set_sync code a) = app_Spec a"
  "app_Finalizers (set_sync code a) = app_Finalizers a"
  "app_DeletionTimestamp (set_sync code a) = app_DeletionTimestamp a"
  "stat_Conditions (app_Status (set_sync code a)) = stat_Conditions (app_Status a)"
  "stat_Secrets (app_Status (set_sync code a)) = stat_Secrets (app_Status a)"
  by (simp_all add: set_sync_def)

lemma set_sync_set_sync [simp]: "set_sync c (set_sync d a) = set_sync c a"
  by (simp add: set_sync_def)

section \<open>Repository methods of the application source\<close>

text \<open>
  A parse error panics, and \<open>u.Path[1:]\<close> panics on an empty path: the slice
  bounds are out of range.
\<close>

definition GetRepository :: "application_source \<Rightarrow> string res" where
  "GetRepository src =
     (case url_Parse (src_RepoURL src) of
        Ok u \<Rightarrow> (case u_Path u of
                   [] \<Rightarrow> Panic ''runtime error: slice bounds out of range [1:0]''
                 | _ # p \<Rightarrow> Ok p)
      | Err e \<Rightarrow> Panic (err_msg e)
      | Panic p \<Rightarrow> Panic p
      | Loops \<Rightarrow> Loops)"

definition GetAPIUrl :: "application_source \<Rightarrow> string res" where
  "GetAPIUrl src =
     (case url_Parse (src_RepoURL src) of
        Ok u \<Rightarrow> Ok (if u_Host u = ''github.com'' then GithubDefaultAPIUrl
                    else if u_Host u = ''gitlab.com'' then GitlabDefaultAPIUrl
                    else [])
      | Err e \<Rightarrow> Panic (err_msg e)
      | Panic p \<Rightarrow> Panic p
      | Loops \<Rightarrow> Loops)"

definition GetGitType :: "application_source \<Rightarrow> string res" where
  "GetGitType src =
     (case url_Parse (src_RepoURL src) of
        Ok u \<Rightarrow> Ok (if u_Host u = ''github.com'' then GitTypeGitHub
                    else if u_Host u = ''gitlab.com'' then GitTypeGitLab
                    else GitTypeFake)
      | Err e \<Rightarrow> Panic (err_msg e)
      | Panic p \<Rightarrow> Panic p
      | Loops \<Rightarrow> Loops)"

text \<open>\<open>CurrentExternalHostName\<close> is a global of the configuration package, passed as \<open>host\<close>.\<close>

definition GetWebhookServerAddress :: "string \<Rightarrow> application \<Rightarrow> string" where
  "GetWebhookServerAddress host a =
     ''http://'' @ host @ ''/webhook/'' @ app_Namespace a @ ''/'' @ app_Name a"

section \<open>Git configuration and references\<close>

record git_config =
  gc_Type :: string
  gc_Repository :: string
  gc_APIUrl :: string
  gc_Token :: "git_token option"

definition GitConfig_GetAPIUrl :: "git_config \<Rightarrow> string" where
  "GitConfig_GetAPIUrl c =
     (if gc_Type c = GitTypeGitHub \<and> gc_APIUrl c = [] then GithubDefaultAPIUrl
      else if gc_Type c = GitTypeGitLab \<and> gc_APIUrl c = [] then GitlabDefaultAPIUrl
      else gc_APIUrl c)"

definition GetGitHost :: "git_config \<Rightarrow> string res" where
  "GetGitHost c =
     (let api = GitConfig_GetAPIUrl c;
          gitURL = (if api = GithubDefaultAPIUrl then GithubDefaultHost
                    else if api = GitlabDefaultAPIUrl then GitlabDefaultHost
                    else api)
      in res_bind (url_Parse gitURL) (\<lambda>u. Ok (u_Scheme u @ ''://'' @ u_Host u)))"

definition GitRef_GetTag :: "string \<Rightarrow> string" where
  "GitRef_GetTag g =
     (if \<not> HasPrefix g ''refs/'' then g
      else if HasPrefix g ''refs/tags/'' then TrimPrefix g ''refs/tags/''
      else [])"

definition GitRef_GetBranch :: "string \<Rightarrow> string" where
  "GitRef_GetBranch g =
     (if \<not> HasPrefix g ''refs/'' then g
      else if HasPrefix g ''refs/heads/'' then TrimPrefix g ''refs/heads/''
      else [])"

end
