(* ===== verification/GoJson.thy ===== *)
theory GoJson
  imports GoStrings
begin

text \<open>
  Go's \<open>encoding/json\<close>, as far as the program uses it: parsing a text into a
  value, decoding a value into a struct by its field tags, and marshalling the
  request bodies. A number keeps its literal text, so that decoding into an \<open>int\<close>
  can check it. Byte strings are taken as they are (the replacement of invalid
  UTF-8 by U+FFFD is not modelled).
\<close>

datatype json =
    JNull
  | JBool bool
  | JNum string
  | JStr string
  | JArr "json list"
  | JObj "(string \<times> json) list"

section \<open>Reading\<close>

definition json_space :: "char \<Rightarrow> bool" where
  "json_space c \<longleftrightarrow> c \<in> {CHR '' '', CHR 0x09, CHR 0x0A, CHR 0x0D}"

definition skip_ws :: "string \<Rightarrow> string" where
  "skip_ws s = dropWhile json_space s"

definition hex_val :: "char \<Rightarrow> nat option" where
  "hex_val c =
     (let n = of_char c :: nat
      in if 48 \<le> n \<and> n \<le> 57 then Some (n - 48)
         else if 97 \<le> n \<and> n \<le> 102 then Some (n - 87)
         else if 65 \<le> n \<and> n \<le> 70 then Some (n - 55)
         else None)"

fun hex4 :: "string \<Rightarrow> nat option" where
  "hex4 [a, b, c, d] =
     (case (hex_val a, hex_val b, hex_val c, hex_val d) of
        (Some w, Some x, Some y, Some z) \<Rightarrow> Some (((w * 16 + x) * 16 + y) * 16 + z)
      | _ \<Rightarrow> None)"
| "hex4 _ = None"

definition utf8 :: "nat \<Rightarrow> string" where
  "utf8 n =
     (if n < 128 then [char_of n]
      else if n < 2048 then [char_of (192 + n div 64), char_of (128 + n mod 64)]
      else if n < 65536 then
        [char_of (224 + n div 4096), char_of (128 + n div 64 mod 64), char_of (128 + n mod 64)]
      else
        [char_of (240 + n div 262144), char_of (128 + n div 4096 mod 64),
         char_of (128 + n div 64 mod 64), char_of (128 + n mod 64)])"

definition simple_escape :: "char \<Rightarrow> char option" where
  "simple_escape c =
     (if c = CHR 0x22 \<or> c = CHR 0x5C \<or> c = CHR ''/'' then Some c
      else if c = CHR ''b'' then Some (CHR 0x08)
      else if c = CHR ''f'' then Some (CHR 0x0C)
      else if c = CHR ''n'' then Some (CHR 0x0A)
      else if c = CHR ''r'' then Some (CHR 0x0D)
      else if c = CHR ''t'' then Some (CHR 0x09)
      else None)"

text \<open>The rest of a string literal after its opening quote: its bytes and what follows.\<close>

function json_string :: "string \<Rightarrow> (string \<times> string) option" where
  "json_string [] = None"
| "json_string (c # s) =
     (if c = CHR 0x22 then Some ([], s)
      else if (of_char c :: nat) < 32 then None
      else if c \<noteq> CHR 0x5C then map_option (\<lambda>(x, r). (c # x, r)) (json_string s)
      else case s of
        [] \<Rightarrow> None
      | e # s1 \<Rightarrow>
          if e \<noteq> CHR ''u'' then
            (case simple_escape e of
               None \<Rightarrow> None
             | Some d \<Rightarrow> map_option (\<lambda>(x, r). (d # x, r)) (json_string s1))
          else
            (case hex4 (take 4 s1) of
               None \<Rightarrow> None
             | Some u \<Rightarrow>
                 (if 55296 \<le> u \<and> u < 56320 \<and> take 2 (drop 4 s1) = [CHR 0x5C, CHR ''u''] then
                    (case hex4 (take 4 (drop 6 s1)) of
                       None \<Rightarrow> None
                     | Some v \<Rightarrow>
                         if 56320 \<le> v \<and> v < 57344 then
                           map_option (\<lambda>(x, r). (utf8 (65536 + (u - 55296) * 1024 + (v - 56320)) @ x, r))
                             (json_string (drop 10 s1))
                         else map_option (\<lambda>(x, r). (utf8 65533 @ x, r)) (json_string (drop 4 s1)))
                  else map_option
                    (\<lambda>(x, r). (utf8 (if 55296 \<le> u \<and> u < 57344 then 65533 else u) @ x, r))
                    (json_string (drop 4 s1)))))"
  by pat_completeness auto
termination by (relation "measure length") auto

text \<open>A number literal: the text that matches the JSON grammar, and what follows.\<close>

definition json_digits :: "string \<Rightarrow> (string \<times> string) option" where
  "json_digits s = (let d = takeWhile ascii_digit s in if d = [] then None else Some (d, dropWhile ascii_digit s))"

definition json_frac :: "string \<Rightarrow> (string \<times> string) option" where
  "json_frac s =
     (case s of
        [] \<Rightarrow> Some ([], [])
      | c # s1 \<Rightarrow>
          if c = CHR ''.'' then map_option (\<lambda>(d, r). (c # d, r)) (json_digits s1) else Some ([], s))"

definition json_exp :: "string \<Rightarrow> (string \<times> string) option" where
  "json_exp s =
     (case s of
        [] \<Rightarrow> Some ([], [])
      | c # s1 \<Rightarrow>
          if c = CHR ''e'' \<or> c = CHR ''E'' then
            (case s1 of
               [] \<Rightarrow> None
             | g # s2 \<Rightarrow>
                 if g = CHR ''+'' \<or> g = CHR ''-'' then map_option (\<lambda>(d, r). (c # g # d, r)) (json_digits s2)
                 else map_option (\<lambda>(d, r). (c # d, r)) (json_digits s1))
          else Some ([], s))"

definition json_number :: "string \<Rightarrow> (string \<times> string) option" where
  "json_number s =
     (let sign = (if HasPrefix s ''-'' then ''-'' else []); s1 = (if HasPrefix s ''-'' then tl s else s)
      in case json_digits s1 of
           None \<Rightarrow> None
         | Some (d, r) \<Rightarrow>
             let (d', r') = (if hd d = CHR ''0'' then (''0'', tl d @ r) else (d, r))
             in case json_frac r' of
                  None \<Rightarrow> None
                | Some (f, r2) \<Rightarrow> map_option (\<lambda>(x, r3). (sign @ d' @ f @ x, r3)) (json_exp r2))"

text \<open>Values, by fuel: every two calls consume a byte, so twice the length of the text is enough.\<close>

fun json_value :: "nat \<Rightarrow> string \<Rightarrow> (json \<times> string) option"
  and json_elems :: "nat \<Rightarrow> string \<Rightarrow> (json list \<times> string) option"
  and json_members :: "nat \<Rightarrow> string \<Rightarrow> ((string \<times> json) list \<times> string) option"
where
  "json_value 0 s = None"
| "json_value (Suc n) s =
     (case skip_ws s of
        [] \<Rightarrow> None
      | c # r \<Rightarrow>
          if c = CHR 0x22 then map_option (\<lambda>(x, r'). (JStr x, r')) (json_string r)
          else if c = CHR ''{'' then
            (if HasPrefix (skip_ws r) ''}'' then Some (JObj [], tl (skip_ws r))
             else map_option (\<lambda>(kvs, r'). (JObj kvs, r')) (json_members n r))
          else if c = CHR ''['' then
            (if HasPrefix (skip_ws r) '']'' then Some (JArr [], tl (skip_ws r))
             else map_option (\<lambda>(vs, r'). (JArr vs, r')) (json_elems n r))
          else if HasPrefix (c # r) ''true'' then Some (JBool True, drop 4 (c # r))
          else if HasPrefix (c # r) ''false'' then Some (JBool False, drop 5 (c # r))
          else if HasPrefix (c # r) ''null'' then Some (JNull, drop 4 (c # r))
          else map_option (\<lambda>(t, r'). (JNum t, r')) (json_number (c # r)))"
| "json_elems 0 s = None"
| "json_elems (Suc n) s =
     (case json_value n s of
        None \<Rightarrow> None
      | Some (v, r) \<Rightarrow>
          (case skip_ws r of
             [] \<Rightarrow> None
           | c # r' \<Rightarrow>
               if c = CHR '']'' then Some ([v], r')
               else if c = CHR '','' then map_option (\<lambda>(vs, r2). (v # vs, r2)) (json_elems n r')
               else None))"
| "json_members 0 s = None"
| "json_members (Suc n) s =
     (case skip_ws s of
        [] \<Rightarrow> None
      | q # s1 \<Rightarrow>
          if q \<noteq> CHR 0x22 then None
          else case json_string s1 of
            None \<Rightarrow> None
          | Some (k, s2) \<Rightarrow>
              (case skip_ws s2 of
                 [] \<Rightarrow> None
               | d # s3 \<Rightarrow>
                   if d \<noteq> CHR '':'' then None
                   else case json_value n s3 of
                     None \<Rightarrow> None
                   | Some (v, r) \<Rightarrow>
                       (case skip_ws r of
                          [] \<Rightarrow> None
                        | c # r' \<Rightarrow>
                            if c = CHR ''}'' then Some ([(k, v)], r')
                            else if c = CHR '','' then
                              map_option (\<lambda>(kvs, r2). ((k, v) # kvs, r2)) (json_members n r')
                            else None)))"

definition json_parse :: "string \<Rightarrow> json res" where
  "json_parse s =
     (case json_value (2 * length s + 2) s of
        None \<Rightarrow> Err (Fail ''invalid JSON'')
      | Some (v, r) \<Rightarrow> if skip_ws r = [] then Ok v else Err (Fail ''invalid JSON after top-level value''))"

section \<open>Decoding into structs\<close>

text \<open>
  A setter stores a JSON value into a field of a struct; \<open>None\<close> is a type error.
  \<open>json.Unmarshal\<close> goes through the members in order, matches a key with a field
  exactly or else up to case, ignores unknown keys, and leaves a field as it is
  for \<open>null\<close>. It returns an error if any value had the wrong type; the callers
  drop the struct then.
\<close>

type_synonym 'a setter = "json \<Rightarrow> 'a \<Rightarrow> 'a option"

definition find_field :: "(string \<times> 'a setter) list \<Rightarrow> string \<Rightarrow> 'a setter option" where
  "find_field fs k =
     (case map_of fs k of
        Some f \<Rightarrow> Some f
      | None \<Rightarrow> map_option snd (find (\<lambda>(n, _). ToLower n = ToLower k) fs))"

fun set_members :: "(string \<times> 'a setter) list \<Rightarrow> (string \<times> json) list \<Rightarrow> 'a \<Rightarrow> 'a option" where
  "set_members fs [] a = Some a"
| "set_members fs ((k, v) # kvs) a =
     (case find_field fs k of
        None \<Rightarrow> set_members fs kvs a
      | Some f \<Rightarrow> Option.bind (f v a) (set_members fs kvs))"

fun d_struct :: "(string \<times> 'a setter) list \<Rightarrow> 'a setter" where
  "d_struct fs (JObj kvs) a = set_members fs kvs a"
| "d_struct fs JNull a = Some a"
| "d_struct fs _ a = None"

fun d_string :: "(string \<Rightarrow> 'a \<Rightarrow> 'a) \<Rightarrow> 'a setter" where
  "d_string upd (JStr s) a = Some (upd s a)"
| "d_string upd JNull a = Some a"
| "d_string upd _ a = None"

fun d_bool :: "(bool \<Rightarrow> 'a \<Rightarrow> 'a) \<Rightarrow> 'a setter" where
  "d_bool upd (JBool b) a = Some (upd b a)"
| "d_bool upd JNull a = Some a"
| "d_bool upd _ a = None"

text \<open>An \<open>int\<close> field takes an integer literal of 64 bits; \<open>1.0\<close> and \<open>1e3\<close> are type errors.\<close>

fun d_int :: "(int \<Rightarrow> 'a \<Rightarrow> 'a) \<Rightarrow> 'a setter" where
  "d_int upd (JNum t) a = (case Atoi t of Ok i \<Rightarrow> Some (upd i a) | _ \<Rightarrow> None)"
| "d_int upd JNull a = Some a"
| "d_int upd _ a = None"

definition d_nested :: "('a \<Rightarrow> 'b) \<Rightarrow> ('b \<Rightarrow> 'a \<Rightarrow> 'a) \<Rightarrow> 'b setter \<Rightarrow> 'a setter" where
  "d_nested get upd inner j a = map_option (\<lambda>b. upd b a) (inner j (get a))"

fun d_elems :: "'b setter \<Rightarrow> 'b \<Rightarrow> json list \<Rightarrow> 'b list option" where
  "d_elems inner z [] = Some []"
| "d_elems inner z (j # js) =
     (case inner j z of
        None \<Rightarrow> None
      | Some b \<Rightarrow> map_option (\<lambda>bs. b # bs) (d_elems inner z js))"

fun d_list :: "'b setter \<Rightarrow> 'b \<Rightarrow> ('b list \<Rightarrow> 'a \<Rightarrow> 'a) \<Rightarrow> 'a setter" where
  "d_list inner z upd (JArr js) a = map_option (\<lambda>bs. upd bs a) (d_elems inner z js)"
| "d_list inner z upd JNull a = Some (upd [] a)"
| "d_list inner z upd _ a = None"

text \<open>A pointer field: \<open>null\<close> stores \<open>nil\<close>, anything else decodes into a fresh value.\<close>

definition d_ptr :: "'b setter \<Rightarrow> 'b \<Rightarrow> ('b option \<Rightarrow> 'a \<Rightarrow> 'a) \<Rightarrow> 'a setter" where
  "d_ptr inner z upd j a =
     (if j = JNull then Some (upd None a) else map_option (\<lambda>b. upd (Some b) a) (inner j z))"

definition unmarshal :: "'a setter \<Rightarrow> 'a \<Rightarrow> string \<Rightarrow> 'a res" where
  "unmarshal f z text =
     res_bind (json_parse text) (\<lambda>j.
       case f j z of None \<Rightarrow> Err (Fail ''json: cannot unmarshal value'') | Some a \<Rightarrow> Ok a)"

definition unmarshal_list :: "'b setter \<Rightarrow> 'b \<Rightarrow> string \<Rightarrow> 'b list res" where
  "unmarshal_list inner z = unmarshal (d_list inner z (\<lambda>bs _. bs)) []"

section \<open>Writing\<close>

definition hex_digit :: "nat \<Rightarrow> char" where
  "hex_digit n = ''0123456789abcdef'' ! n"

definition print_char :: "char \<Rightarrow> string" where
  "print_char c =
     (if c = CHR 0x22 \<or> c = CHR 0x5C then [CHR 0x5C, c]
      else if c = CHR 0x0A then [CHR 0x5C, CHR ''n'']
      else if c = CHR 0x0D then [CHR 0x5C, CHR ''r'']
      else if c = CHR 0x09 then [CHR 0x5C, CHR ''t'']
      else if (of_char c :: nat) < 32 \<or> c \<in> set ''<>&'' then
        [CHR 0x5C, CHR ''u'', CHR ''0'', CHR ''0'', hex_digit (of_char c div 16), hex_digit (of_char c mod 16)]
      else [c])"

definition print_string :: "string \<Rightarrow> string" where
  "print_string s = [CHR 0x22] @ concat (map print_char s) @ [CHR 0x22]"

fun json_print :: "json \<Rightarrow> string" where
  "json_print JNull = ''null''"
| "json_print (JBool b) = (if b then ''true'' else ''false'')"
| "json_print (JNum t) = t"
| "json_print (JStr s) = print_string s"
| "json_print (JArr vs) = ''['' @ Join (map json_print vs) '','' @ '']''"
| "json_print (JObj kvs) = ''{'' @ Join (map (\<lambda>(k, v). print_string k @ '':'' @ json_print v) kvs) '','' @ ''}''"

abbreviation JInt :: "int \<Rightarrow> json" where
  "JInt i \<equiv> JNum (Itoa i)"

section \<open>Facts\<close>

lemma hex_val_digit: "n < 16 \<Longrightarrow> hex_val (hex_digit n) = Some n"
proof -
  assume "n < 16"
  then have "n \<in> {0..<16}" by simp
  then have "n \<in> set [0,1,2,3,4,5,6,7,8,9,10,11,12,13,14,15]" by simp arith
  then show ?thesis by (auto simp: hex_val_def hex_digit_def)
qed

lemma hex4_low:
  assumes "n < 256"
  shows "hex4 [CHR ''0'', CHR ''0'', hex_digit (n div 16), hex_digit (n mod 16)] = Some n"
proof -
  have "n div 16 < 16" using assms by linarith
  moreover have "n mod 16 < 16" by simp
  moreover have "hex_val (CHR ''0'') = Some 0" by (simp add: hex_val_def)
  ultimately show ?thesis by (simp add: hex_val_digit)
qed

text \<open>How a character that is not printed as itself is printed.\<close>

lemma print_char_unicode:
  assumes "(of_char c :: nat) < 32 \<and> c \<notin> {CHR 0x0A, CHR 0x0D, CHR 0x09} \<or> c \<in> set ''<>&''"
  shows "print_char c = [CHR 0x5C, CHR ''u'', CHR ''0'', CHR ''0'', hex_digit (of_char c div 16), hex_digit (of_char c mod 16)]"
proof -
  have "c \<noteq> CHR 0x22" "c \<noteq> CHR 0x5C" "c \<noteq> CHR 0x0A" "c \<noteq> CHR 0x0D" "c \<noteq> CHR 0x09"
    using assms by (rule_tac notI, simp)+
  with assms show ?thesis
    unfolding print_char_def by (simp only: if_False if_True simp_thms) (simp add: if_P)
qed

lemma print_char_read:
  assumes "json_string (t @ CHR 0x22 # r) = Some (s, r)"
  shows "json_string (print_char c @ t @ CHR 0x22 # r) = Some (c # s, r)"
proof (cases "print_char c = [c]")
  case True
  then have "c \<noteq> CHR 0x22" "c \<noteq> CHR 0x5C" "\<not> (of_char c :: nat) < 32"
    by (auto simp: print_char_def split: if_splits)
  with True assms show ?thesis by simp
next
  case False
  show ?thesis
  proof (cases "(of_char c :: nat) < 32 \<and> c \<notin> {CHR 0x0A, CHR 0x0D, CHR 0x09} \<or> c \<in> set ''<>&''")
    case True
    then have n64: "(of_char c :: nat) < 64" by auto
    then have "utf8 (of_char c) = [c]" by (simp add: utf8_def)
    then show ?thesis using n64 by (simp add: print_char_unicode[OF True] hex4_low assms del: hex4.simps)
  next
    case other: False
    with False have "c = CHR 0x22 \<or> c = CHR 0x5C \<or> c = CHR 0x0A \<or> c = CHR 0x0D \<or> c = CHR 0x09"
      by (auto simp: print_char_def split: if_splits)
    then show ?thesis using assms
      by (elim disjE) (simp_all add: print_char_def simple_escape_def)
  qed
qed

lemma print_string_read:
  "json_string (concat (map print_char s) @ CHR 0x22 # r) = Some (s, r)"
  by (induction s) (simp_all add: print_char_read)

end
