(* ===== verification/GitTypes.thy ===== *)
theory GitTypes
  imports ApiTypes GoJson
begin

text \<open>
  The data of \<open>pkg/git\<close>: the structures common to all Git servers, the event and
  state constants, and the three implementations of the interface \<open>git.Client\<close> as
  values (\<open>pkg/git/github\<close>, \<open>pkg/git/gitlab\<close>, \<open>pkg/git/fake\<close>).
\<close>

section \<open>Constants\<close>

definition EventTypePullRequest :: string where
  "EventTypePullRequest = ''pull_request''"

definition EventTypePush :: string where
  "EventTypePush = ''push''"

definition EventTypeIssueComment :: string where
  "EventTypeIssueComment = ''issue_comment''"

definition EventTypePullRequestReview :: string where
  "EventTypePullRequestReview = ''pull_request_review''"

definition EventTypePullRequestReviewComment :: string where
  "EventTypePullRequestReviewComment = ''pull_request_review_comment''"

definition PullRequestStateOpen :: string where
  "PullRequestStateOpen = ''open''"

definition PullRequestStateClosed :: string where
  "PullRequestStateClosed = ''closed''"

definition PullRequestActionReOpen :: string where
  "PullRequestActionReOpen = ''reopened''"

definition PullRequestActionOpen :: string where
  "PullRequestActionOpen = ''opened''"

definition PullRequestActionClose :: string where
  "PullRequestActionClose = ''closed''"

definition PullRequestActionSynchronize :: string where
  "PullRequestActionSynchronize = ''synchronize''"

definition PullRequestActionLabeled :: string where
  "PullRequestActionLabeled = ''labeled''"

definition PullRequestActionUnlabeled :: string where
  "PullRequestActionUnlabeled = ''unlabeled''"

definition PullRequestReviewStateApproved :: string where
  "PullRequestReviewStateApproved = ''approved''"

definition PullRequestReviewStateUnapproved :: string where
  "PullRequestReviewStateUnapproved = ''changes_requested''"

definition FakeSha :: string where
  "FakeSha = ''0000000000000000000000000000000000000000''"

definition IssueTypeIssue :: string where
  "IssueTypeIssue = ''issue''"

definition IssueTypePullRequest :: string where
  "IssueTypePullRequest = ''pull_request''"

definition MergeMethodSquash :: string where
  "MergeMethodSquash = ''squash''"

definition MergeMethodMerge :: string where
  "MergeMethodMerge = ''merge''"

lemmas git_consts =
  EventTypePullRequest_def EventTypePush_def EventTypeIssueComment_def
  EventTypePullRequestReview_def EventTypePullRequestReviewComment_def
  PullRequestStateOpen_def PullRequestStateClosed_def
  PullRequestActionReOpen_def PullRequestActionOpen_def PullRequestActionClose_def
  PullRequestActionSynchronize_def PullRequestActionLabeled_def PullRequestActionUnlabeled_def
  PullRequestReviewStateApproved_def PullRequestReviewStateUnapproved_def FakeSha_def
  IssueTypeIssue_def IssueTypePullRequest_def MergeMethodSquash_def MergeMethodMerge_def

section \<open>Common structures\<close>

record user =
  usr_ID :: int
  usr_Name :: string
  usr_Email :: string

record repository =
  repo_Name :: string
  repo_URL :: string

text \<open>\<open>Base\<close> and \<open>Head\<close> are the same pair of a reference and a commit.\<close>

record commit_ref =
  ref_Ref :: string
  ref_Sha :: string

record push =
  push_Ref :: string
  push_Sha :: string

record pull_request =
  pr_ID :: int
  pr_Title :: string
  pr_State :: string
  pr_Action :: string
  pr_Author :: user
  pr_URL :: string
  pr_Base :: commit_ref
  pr_Head :: commit_ref
  pr_Labels :: "string list"
  pr_Mergeable :: bool
  pr_LabelChanged :: "string list"

record change =
  chg_Filename :: string
  chg_OldFilename :: string
  chg_Additions :: int
  chg_Deletions :: int
  chg_Changes :: int

record commit =
  cmt_SHA :: string
  cmt_Message :: string
  cmt_Author :: user
  cmt_Committer :: user

text \<open>A comment's creation time is kept as the text of its time stamp, if it has one.\<close>

record issue_comment =
  ic_Body :: string
  ic_CreatedAt :: "string option"
  ic_PullRequest :: "pull_request option"
  ic_Author :: user
  ic_ReviewState :: string

record webhook =
  wh_EventType :: string
  wh_Repo :: repository
  wh_Sender :: user
  wh_Push :: "push option"
  wh_PullRequest :: "pull_request option"
  wh_IssueComment :: "issue_comment option"

record webhook_entry =
  whe_ID :: int
  whe_URL :: string

record commit_status =
  cs_Context :: string
  cs_State :: string
  cs_Description :: string
  cs_TargetURL :: string

record branch =
  br_Name :: string
  br_CommitID :: string

definition empty_user :: user where
  "empty_user = \<lparr>usr_ID = 0, usr_Name = [], usr_Email = []\<rparr>"

definition empty_ref :: commit_ref where
  "empty_ref = \<lparr>ref_Ref = [], ref_Sha = []\<rparr>"

definition empty_pull_request :: pull_request where
  "empty_pull_request = \<lparr>pr_ID = 0, pr_Title = [], pr_State = [], pr_Action = [],
     pr_Author = empty_user, pr_URL = [], pr_Base = empty_ref, pr_Head = empty_ref,
     pr_Labels = [], pr_Mergeable = False, pr_LabelChanged = []\<rparr>"

definition empty_webhook :: webhook where
  "empty_webhook = \<lparr>wh_EventType = [], wh_Repo = \<lparr>repo_Name = [], repo_URL = []\<rparr>, wh_Sender = empty_user,
     wh_Push = None, wh_PullRequest = None, wh_IssueComment = None\<rparr>"

text \<open>A branch deletion pushes the null commit: there is nothing to handle.\<close>

definition null_sha :: "string \<Rightarrow> bool" where
  "null_sha sha \<longleftrightarrow> HasPrefix sha ''0000'' \<and> HasSuffix sha ''0000''"

section \<open>Clients\<close>

text \<open>
  The structs \<open>github.Client\<close> and \<open>gitlab.Client\<close> have the same fields; the
  Kubernetes client they also carry is never used. \<open>hdr\<close> is the unexported map of
  request headers that \<open>Init\<close> fills.
\<close>

record git_conf =
  GitAPIURL :: string
  GitRepository :: string
  GitToken :: string
  GitWebhookSecret :: string
  hdr :: "(string \<times> string) list"

datatype git_client =
    GithubClient git_conf
  | GitlabClient git_conf
  | FakeClient string

text \<open>
  The fake server's repositories (\<open>fake.Repo\<close>); a Go map is \<open>None\<close> when it is nil.
  The maps the program ranges over are lists of their entries.
\<close>

record fake_repo =
  fk_Webhooks :: "(int \<times> webhook_entry) list option"
  fk_UserCanWrite :: "(string \<rightharpoonup> bool) option"
  fk_PullRequests :: "(int \<times> pull_request) list option"
  fk_PullRequestDiffs :: "(int \<rightharpoonup> change list) option"
  fk_PullRequestCommits :: "(int \<rightharpoonup> commit list) option"
  fk_Commits :: "(string \<rightharpoonup> commit list) option"
  fk_CommitStatuses :: "(string \<rightharpoonup> commit_status list) option"
  fk_Comments :: "(int \<rightharpoonup> issue_comment list) option"

record fake_server =
  fk_Users :: "(string \<rightharpoonup> user) option"
  fk_Repos :: "(string \<rightharpoonup> fake_repo) option"
  fk_Branches :: "(string \<rightharpoonup> branch) option"

section \<open>Link headers\<close>

record link_entry =
  link_URL :: string
  link_Rel :: string

text \<open>\<open>LinkHeader.Find\<close>: the first entry with the relation.\<close>

definition LinkHeader_Find :: "link_entry list \<Rightarrow> string \<Rightarrow> link_entry option" where
  "LinkHeader_Find l rel = find (\<lambda>h. link_Rel h = rel) l"

text \<open>The body of the token loop of \<open>ParseLinkHeader\<close>, on one token already trimmed.\<close>

definition link_token :: "string \<Rightarrow> link_entry \<Rightarrow> link_entry" where
  "link_token token entry =
     (if token = [] then entry
      else
        let entry1 = (if hd token = CHR ''<'' \<and> last token = CHR ''>''
                      then entry\<lparr>link_URL := TrimSpace (Trim token ''<>'')\<rparr> else entry);
            parts = SplitN2 token ''='';
            key = hd parts;
            val = (if length parts = 1 then [] else Trim (parts ! 1) [CHR 0x22])
        in if ToLower key = ''rel'' then entry1\<lparr>link_Rel := val\<rparr> else entry1)"

definition link_entry_of :: "string \<Rightarrow> link_entry" where
  "link_entry_of e =
     foldl (\<lambda>entry t. link_token (TrimSpace t) entry) \<lparr>link_URL = [], link_Rel = []\<rparr>
       (Split (TrimSpace e) '';'')"

definition ParseLinkHeader :: "string \<Rightarrow> link_entry list" where
  "ParseLinkHeader h = (if h = [] then [] else map link_entry_of (Split h '',''))"

text \<open>The header as a server prints it (RFC 8288): \<open><url>; rel="name"\<close>, separated by commas.\<close>

definition render_link :: "link_entry \<Rightarrow> string" where
  "render_link l = ''<'' @ link_URL l @ ''>; rel='' @ [CHR 0x22] @ link_Rel l @ [CHR 0x22]"

definition render_links :: "link_entry list \<Rightarrow> string" where
  "render_links ls = Join (map render_link ls) '', ''"

text \<open>
  What the parser needs of an entry: no separator inside it, and nothing at the
  ends of the URL and of the relation that trimming would take away.
\<close>

definition link_ok :: "link_entry \<Rightarrow> bool" where
  "link_ok l \<longleftrightarrow>
     set (link_URL l) \<inter> (set '',;<>'' \<union> Collect ascii_space) = {}
     \<and> set (link_Rel l) \<inter> (set '',;'' \<union> {CHR 0x22} \<union> Collect ascii_space) = {}"

end
