(* ===== verification/World.thy ===== *)
theory World
  imports GitTypes "HOL-Library.Multiset"
begin

text \<open>
  The state the operator works on and the services it calls.

  Everything outside the repository (the Kubernetes API servers, the Git servers
  behind HTTP, the file system, go-git, Helm, and the pure third-party routines
  for YAML, JSON patches and unstructured objects) is the record \<open>env\<close> of
  functions, an argument of every definition that uses it. An effectful service
  answers as a function of the calls made so far, so a definition holds for
  servers that change their state, refuse, or answer differently each time. The
  state logs every external call, newest first, and this log is what the
  properties speak about.
\<close>

section \<open>What crosses the border\<close>

record http_request =
  rq_Method :: string
  rq_URI :: string
  rq_Header :: "(string \<times> string) list"
  rq_Body :: string

record http_response =
  rs_StatusCode :: int
  rs_Header :: "(string \<times> string list) list"
  rs_Body :: string

text \<open>
  An unstructured object: the metadata the program reads and the rest of its
  content, which only third-party code looks at.
\<close>

record unst =
  u_APIVersion :: string
  u_Kind :: string
  u_Name :: string
  u_Namespace :: string
  u_Content :: string

text \<open>The client of the operator's own cluster, or one built from a kubeconfig.\<close>

datatype kcli = DefaultCli | ClusterCli string

record chart_spec =
  ch_ReleaseName :: string
  ch_ChartName :: string
  ch_Namespace :: string
  ch_UpgradeCRDs :: bool
  ch_Wait :: bool
  ch_DryRun :: bool

record helm_options =
  ho_Namespace :: string
  ho_RestConfig :: "string option"

datatype stat_result = StatExists | StatNotExist | StatError

datatype call =
    CHttp http_request
  | CGetApp string string
  | CUpdateApp application
  | CPatchStatus application application
  | CGetSecret string string
  | CGetNamespace string
  | CCreateNamespace string
  | CListDR string
  | CGetDR string string
  | CCreateDR deploy_resource
  | CDeleteDR deploy_resource
  | CNewClient string
  | CGetObj kcli unst
  | CCreateObj kcli unst
  | CUpdateObj kcli bool unst
  | CDeleteObj kcli unst
  | CStat string
  | CClone string string string
  | COpen string
  | CWorktree string
  | CPull string
  | CRemoveAll string
  | CHelmNew helm_options
  | CHelmInstall helm_options chart_spec
  | CHelmUninstall helm_options string
  | CRandom nat

text \<open>
  The services. \<open>e_update_obj\<close> carries whether the update is a dry run and answers
  the object the API server returns, which overwrites the caller's. The pure
  third-party routines take no history. \<open>e_fuel\<close> bounds the loops and recursions
  that a Git server drives (pages, directories). \<open>e_intn\<close>, \<open>e_now\<close> and \<open>e_order\<close>
  resolve the random numbers, the clock and the order in which a Go \<open>range\<close>
  visits the entries of a map (a permutation of their indices).
\<close>

record env =
  e_http :: "call list \<Rightarrow> http_request \<Rightarrow> http_response res"
  e_get_app :: "call list \<Rightarrow> string \<Rightarrow> string \<Rightarrow> application res"
  e_update_app :: "call list \<Rightarrow> application \<Rightarrow> application res"
  e_patch_status :: "call list \<Rightarrow> application \<Rightarrow> application \<Rightarrow> application res"
  e_get_secret :: "call list \<Rightarrow> string \<Rightarrow> string \<Rightarrow> (string \<rightharpoonup> string) res"
  e_get_namespace :: "call list \<Rightarrow> string \<Rightarrow> unit res"
  e_create_namespace :: "call list \<Rightarrow> string \<Rightarrow> unit res"
  e_list_dr :: "call list \<Rightarrow> string \<Rightarrow> deploy_resource list res"
  e_get_dr :: "call list \<Rightarrow> string \<Rightarrow> string \<Rightarrow> deploy_resource res"
  e_create_dr :: "call list \<Rightarrow> deploy_resource \<Rightarrow> deploy_resource res"
  e_delete_dr :: "call list \<Rightarrow> deploy_resource \<Rightarrow> unit res"
  e_new_client :: "call list \<Rightarrow> string \<Rightarrow> unit res"
  e_get_obj :: "call list \<Rightarrow> kcli \<Rightarrow> unst \<Rightarrow> unst res"
  e_create_obj :: "call list \<Rightarrow> kcli \<Rightarrow> unst \<Rightarrow> unit res"
  e_update_obj :: "call list \<Rightarrow> kcli \<Rightarrow> bool \<Rightarrow> unst \<Rightarrow> unst res"
  e_delete_obj :: "call list \<Rightarrow> kcli \<Rightarrow> unst \<Rightarrow> unit res"
  e_stat :: "call list \<Rightarrow> string \<Rightarrow> stat_result"
  e_clone :: "call list \<Rightarrow> string \<Rightarrow> string \<Rightarrow> string \<Rightarrow> unit res"
  e_open :: "call list \<Rightarrow> string \<Rightarrow> unit res"
  e_worktree :: "call list \<Rightarrow> string \<Rightarrow> unit res"
  e_pull :: "call list \<Rightarrow> string \<Rightarrow> unit res"
  e_remove_all :: "call list \<Rightarrow> string \<Rightarrow> unit res"
  e_helm_new :: "call list \<Rightarrow> helm_options \<Rightarrow> unit res"
  e_helm_install :: "call list \<Rightarrow> helm_options \<Rightarrow> chart_spec \<Rightarrow> string res"
  e_helm_uninstall :: "call list \<Rightarrow> helm_options \<Rightarrow> string \<Rightarrow> unit res"
  e_fuel :: nat
  e_intn :: "call list \<Rightarrow> nat \<Rightarrow> nat"
  e_now :: "call list \<Rightarrow> string"
  e_order :: "call list \<Rightarrow> nat \<Rightarrow> nat list"
  e_time :: "string \<Rightarrow> string option"
  e_yaml_to_json :: "string \<Rightarrow> string res"
  e_to_unstructured :: "string \<Rightarrow> unst res"
  e_merge_patch :: "unst \<Rightarrow> unst \<Rightarrow> unst res"
  e_render :: "unst \<Rightarrow> string"
  e_rest_config :: "string \<Rightarrow> string res"
  e_find_cond :: "condition list \<Rightarrow> string \<Rightarrow> nat option"
  e_set_cond :: "condition list \<Rightarrow> condition \<Rightarrow> condition list"
  e_contains_finalizer :: "string list \<Rightarrow> string \<Rightarrow> bool"
  e_add_finalizer :: "string list \<Rightarrow> string \<Rightarrow> string list"
  e_remove_finalizer :: "string list \<Rightarrow> string \<Rightarrow> string list"

section \<open>The operator's own state\<close>

text \<open>The global variables of \<open>internal/configs\<close>.\<close>

record config_vars =
  ExternalHostName :: string
  CurrentExternalHostName :: string
  ExposeMode :: string
  IngressClass :: string
  IngressHost :: string

text \<open>
  \<open>plainYamlManager\<close>: the client of the destination cluster, which \<open>setTargetClient\<close>
  overwrites, and the Git client given at construction. The other fields never
  change (\<open>DefaultCli\<close>) or are not used (\<open>HTTPClient\<close>). \<open>helmManager\<close>: the options of
  its current Helm client.
\<close>

record plain_mgr =
  pm_TargetCli :: kcli
  pm_GitCli :: git_client

record helm_mgr =
  hm_Client :: helm_options

text \<open>
  The tables of \<open>controllers/application_controller.go\<close>: for the key of an
  Application its stop channel, ticker and period. Channels and tickers are
  numbered. \<open>routines\<close> are the goroutines that run \<open>PeriodicSyncCheck\<close>, each with its
  channel, its ticker and the Application object it works on: \<open>None\<close> as long as this
  is the object of the handler that started it, which has not returned yet.
\<close>

record routine =
  rt_Done :: nat
  rt_Ticker :: nat
  rt_App :: "application option"

record sync_tables =
  syncStopFlags :: "string \<rightharpoonup> nat"
  syncTickers :: "string \<rightharpoonup> nat"
  syncPeriods :: "string \<rightharpoonup> 64 word"
  routines :: "routine list"
  active :: "nat set"
  next_id :: nat

text \<open>
  \<open>app\<close> is the Application object the running handler points to; \<open>plainManager\<close> and
  \<open>helmManager\<close> are the global interface variables of \<open>pkg/sync\<close> (\<open>None\<close> is nil).
\<close>

record st =
  hist :: "call list"
  app :: application
  plainManager :: "plain_mgr option"
  helmManager :: "helm_mgr option"
  cfg :: config_vars
  fake :: fake_server
  tables :: sync_tables

type_synonym 'a act = "(st, 'a) prog"

text \<open>The index of the first element with a property.\<close>

fun find_index_of :: "('a \<Rightarrow> bool) \<Rightarrow> 'a list \<Rightarrow> nat option" where
  "find_index_of P [] = None"
| "find_index_of P (x # xs) = (if P x then Some 0 else map_option Suc (find_index_of P xs))"

lemma find_index_of_Some:
  "find_index_of P xs = Some i \<Longrightarrow> i < length xs \<and> P (xs ! i)"
  by (induction xs arbitrary: i) (auto split: if_splits)

lemma find_index_of_None: "find_index_of P xs = None \<longleftrightarrow> (\<forall>x \<in> set xs. \<not> P x)"
  by (induction xs) auto

lemma find_index_of_append:
  "find_index_of P (xs @ ys) = (case find_index_of P xs of
     Some i \<Rightarrow> Some i | None \<Rightarrow> map_option (\<lambda>i. length xs + i) (find_index_of P ys))"
  by (cases "find_index_of P ys"; induction xs) (auto split: option.splits)

section \<open>External calls\<close>

definition ext :: "call \<Rightarrow> (call list \<Rightarrow> 'a res) \<Rightarrow> 'a act" where
  "ext c f = (\<lambda>s. (f (hist s), s\<lparr>hist := c # hist s\<rparr>))"

lemma ext_apply [prog_simps]: "ext c f s = (f (hist s), s\<lparr>hist := c # hist s\<rparr>)"
  by (simp add: ext_def)

text \<open>The mutable Application: a read and an update of the object the handler holds.\<close>

definition get_app :: "application act" where
  "get_app = gets app"

definition update_app :: "(application \<Rightarrow> application) \<Rightarrow> unit act" where
  "update_app f = modify (\<lambda>s. s\<lparr>app := f (app s)\<rparr>)"

lemma get_app_apply [prog_simps]: "get_app s = (Ok (app s), s)"
  by (simp add: get_app_def gets_def)

lemma update_app_apply [prog_simps]: "update_app f s = (Ok (), s\<lparr>app := f (app s)\<rparr>)"
  by (simp add: update_app_def modify_def)

text \<open>Ranging over a map with \<open>n\<close> entries, in the order this iteration happens to take.\<close>

definition range_order :: "env \<Rightarrow> call list \<Rightarrow> 'b list \<Rightarrow> 'b list" where
  "range_order env h xs = map (\<lambda>i. xs ! i) (e_order env h (length xs))"

definition order_ok :: "env \<Rightarrow> bool" where
  "order_ok env \<longleftrightarrow> (\<forall>h n. mset (e_order env h n) = mset [0..<n])"

lemma range_order_mset: "order_ok env \<Longrightarrow> mset (range_order env h xs) = mset xs"
  by (metis order_ok_def range_order_def map_nth mset_map)

lemma range_order_set: "order_ok env \<Longrightarrow> set (range_order env h xs) = set xs"
  by (metis range_order_mset set_mset_mset)

section \<open>Calls a statement makes\<close>

text \<open>
  \<open>made A\<close> relates two states when the later log extends the earlier one by
  calls of \<open>A\<close> only. It is reflexive and transitive, so \<open>step_rel\<close> gives its
  composition rules.
\<close>

definition made :: "call set \<Rightarrow> st \<Rightarrow> st \<Rightarrow> bool" where
  "made A s t \<longleftrightarrow> (\<exists>cs. hist t = cs @ hist s \<and> set cs \<subseteq> A)"

interpretation made: step_rel "made A" for A
proof unfold_locales
  fix s show "made A s s" by (simp add: made_def)
next
  fix s t u assume "made A s t" and "made A t u"
  then obtain c d where "hist t = c @ hist s" "set c \<subseteq> A" "hist u = d @ hist t" "set d \<subseteq> A"
    unfolding made_def by blast
  then show "made A s u" unfolding made_def by (intro exI[of _ "d @ c"]) auto
qed

lemma made_ext: "c \<in> A \<Longrightarrow> made.keeps A (ext c f)"
  by (rule made.keepsI) (simp add: ext_def made_def)

lemma made_update_app: "made.keeps A (update_app f)"
  unfolding update_app_def by (rule made.keeps_modify) (simp add: made_def)

lemma made_get_app: "made.keeps A get_app"
  unfolding get_app_def by (rule made.keeps_gets)

lemma made_modify: "(\<And>s. hist (f s) = hist s) \<Longrightarrow> made.keeps A (modify f)"
  by (rule made.keeps_modify) (simp add: made_def)

lemma made_weaken: "A \<subseteq> B \<Longrightarrow> made.keeps A m \<Longrightarrow> made.keeps B m"
  unfolding made.keeps_def made_def by blast

lemmas made_intros = made.keeps_intros made_ext made_update_app made_get_app

text \<open>The calls a run has made: the part of the log that is new.\<close>

definition new_calls :: "st \<Rightarrow> st \<Rightarrow> call list" where
  "new_calls s t = rev (take (length (hist t) - length (hist s)) (hist t))"

lemma new_calls_made: "made A s t \<Longrightarrow> set (new_calls s t) \<subseteq> A"
  by (auto simp: made_def new_calls_def)

lemma hist_new_calls: "made A s t \<Longrightarrow> hist t = rev (new_calls s t) @ hist s"
  by (auto simp: made_def new_calls_def)

lemma new_calls_append: "hist t = rev cs @ hist s \<Longrightarrow> new_calls s t = cs"
  by (simp add: new_calls_def)

lemma keeps_made_calls:
  assumes "made.keeps A m" and "m s = (r, s')"
  shows "set (new_calls s s') \<subseteq> A"
  using made.keepsD[OF assms] by (rule new_calls_made)

section \<open>What a statement leaves alone\<close>

text \<open>
  The manifest managers change nothing of the Application but its sync status;
  the global variables of \<open>internal/configs\<close>, the fake server and the tables of
  the sync routines stay.
\<close>

definition only_sync :: "st \<Rightarrow> st \<Rightarrow> bool" where
  "only_sync s t \<longleftrightarrow> app t = set_sync (app_sync (app t)) (app s) \<and> cfg t = cfg s \<and> fake t = fake s
     \<and> tables t = tables s"

interpretation only_sync: step_rel only_sync
proof unfold_locales
  fix s show "only_sync s s" by (simp add: only_sync_def set_sync_def)
next
  fix s t u assume st: "only_sync s t" and tu: "only_sync t u"
  from st have "app t = set_sync (app_sync (app t)) (app s)" by (simp add: only_sync_def)
  moreover from tu have "app u = set_sync (app_sync (app u)) (app t)" by (simp add: only_sync_def)
  ultimately have "app u = set_sync (app_sync (app u)) (app s)"
    by (metis set_sync_set_sync)
  with st tu show "only_sync s u" by (simp add: only_sync_def)
qed

lemma only_sync_ext: "only_sync.keeps (ext c f)"
  by (rule only_sync.keepsI) (simp add: ext_def only_sync_def set_sync_def)

lemma only_sync_set: "only_sync.keeps (update_app (set_sync c))"
  by (rule only_sync.keepsI) (simp add: update_app_def modify_def only_sync_def)

lemma only_sync_get_app: "only_sync.keeps get_app"
  unfolding get_app_def by (rule only_sync.keeps_gets)

lemma only_sync_modify:
  "(\<And>s. app (f s) = app s \<and> cfg (f s) = cfg s \<and> fake (f s) = fake s \<and> tables (f s) = tables s) \<Longrightarrow> only_sync.keeps (modify f)"
  by (rule only_sync.keeps_modify) (simp add: only_sync_def set_sync_def)

lemmas only_sync_intros =
  only_sync.keeps_intros only_sync_ext only_sync_set only_sync_get_app

lemma only_sync_spec: "only_sync s t \<Longrightarrow> app_Spec (app t) = app_Spec (app s)"
  by (metis only_sync_def set_sync_frame(3))

lemma only_sync_name:
  "only_sync s t \<Longrightarrow> app_Name (app t) = app_Name (app s) \<and> app_Namespace (app t) = app_Namespace (app s)"
  by (metis only_sync_def set_sync_frame(1,2))

section \<open>A sample world\<close>

text \<open>
  A closed environment and state for the concrete instances of conditional
  theorems: services that find nothing stored and accept every change.
\<close>

definition sample_user_app :: application where
  "sample_user_app =
     \<lparr>app_Name = ''guestbook'', app_Namespace = ''demo'', app_DeletionTimestamp = None, app_Finalizers = [],
      app_Spec = \<lparr>
        spec_Source = \<lparr>src_RepoURL = ''https://github.com/tmax-cloud/cd-example-apps'', src_Path = ''guestbook'',
          src_TargetRevision = ''main'', src_Type = ApplicationSourceTypePlainYAML, src_Helm = None, src_Token = None\<rparr>,
        spec_Destination = \<lparr>dst_Namespace = ''web'', dst_Name = []\<rparr>,
        spec_SyncPolicy = \<lparr>pol_AutoSync = False, pol_SyncCheckPeriod = 60\<rparr>\<rparr>,
      app_Status = \<lparr>stat_Sync = \<lparr>sync_Status = [], sync_TimeCheck = 0\<rparr>, stat_Conditions = [], stat_Secrets = []\<rparr>\<rparr>"

definition sample_env :: env where
  "sample_env =
     \<lparr>e_http = (\<lambda>_ _. Ok \<lparr>rs_StatusCode = 200, rs_Header = [], rs_Body = ''[]''\<rparr>),
      e_get_app = (\<lambda>_ ns n. Ok (sample_user_app\<lparr>app_Name := n, app_Namespace := ns\<rparr>)),
      e_update_app = (\<lambda>_ a. Ok a), e_patch_status = (\<lambda>_ _ a. Ok a),
      e_get_secret = (\<lambda>_ _ _. Err (NotFound ''secret'')),
      e_get_namespace = (\<lambda>_ _. Err (NotFound ''namespace'')), e_create_namespace = (\<lambda>_ _. Ok ()),
      e_list_dr = (\<lambda>_ _. Ok []), e_get_dr = (\<lambda>_ _ _. Err (NotFound ''deployresource'')),
      e_create_dr = (\<lambda>_ d. Ok d), e_delete_dr = (\<lambda>_ _. Ok ()), e_new_client = (\<lambda>_ _. Ok ()),
      e_get_obj = (\<lambda>_ _ _. Err (NotFound ''object'')), e_create_obj = (\<lambda>_ _ _. Ok ()),
      e_update_obj = (\<lambda>_ _ _ u. Ok u), e_delete_obj = (\<lambda>_ _ _. Ok ()),
      e_stat = (\<lambda>_ _. StatNotExist), e_clone = (\<lambda>_ _ _ _. Ok ()), e_open = (\<lambda>_ _. Ok ()),
      e_worktree = (\<lambda>_ _. Ok ()), e_pull = (\<lambda>_ _. Ok ()), e_remove_all = (\<lambda>_ _. Ok ()),
      e_helm_new = (\<lambda>_ _. Ok ()), e_helm_install = (\<lambda>_ _ _. Ok []), e_helm_uninstall = (\<lambda>_ _ _. Ok ()),
      e_fuel = 5, e_intn = (\<lambda>_ _. 0), e_now = (\<lambda>_. ''now''), e_order = (\<lambda>_ n. [0..<n]),
      e_time = Some, e_yaml_to_json = (\<lambda>y. Ok y),
      e_to_unstructured = (\<lambda>b. Ok \<lparr>u_APIVersion = ''v1'', u_Kind = ''ConfigMap'', u_Name = ''cm'',
                                     u_Namespace = [], u_Content = b\<rparr>),
      e_merge_patch = (\<lambda>_ u. Ok u), e_render = u_Content, e_rest_config = (\<lambda>k. Ok k),
      e_find_cond = (\<lambda>cs t. find_index_of (\<lambda>c. cond_Type c = t) cs),
      e_set_cond = (\<lambda>cs c. case find_index_of (\<lambda>d. cond_Type d = cond_Type c) cs of
                              None \<Rightarrow> cs @ [c] | Some i \<Rightarrow> cs[i := c]),
      e_contains_finalizer = (\<lambda>fs f. f \<in> set fs),
      e_add_finalizer = (\<lambda>fs f. if f \<in> set fs then fs else fs @ [f]),
      e_remove_finalizer = (\<lambda>fs f. filter (\<lambda>g. g \<noteq> f) fs)\<rparr>"

definition sample_st :: st where
  "sample_st =
     \<lparr>hist = [], app = sample_user_app, plainManager = None, helmManager = None,
      cfg = \<lparr>ExternalHostName = [], CurrentExternalHostName = ''cd.example.com'', ExposeMode = [],
             IngressClass = [], IngressHost = []\<rparr>,
      fake = \<lparr>fk_Users = None, fk_Repos = None, fk_Branches = None\<rparr>,
      tables = \<lparr>syncStopFlags = Map.empty, syncTickers = Map.empty, syncPeriods = Map.empty,
                routines = [], active = {}, next_id = 0\<rparr>\<rparr>"

lemmas sample_defs = sample_env_def sample_st_def sample_user_app_def

end
