(* ===== verification/GitHttp.thy ===== *)
theory GitHttp
  imports World
begin

text \<open>
  \<open>pkg/git/http.go\<close>: one HTTP request with its status check, and the loop that
  follows the \<open>next\<close> links of a paginated answer. The loop ends only when the
  server stops sending a next link, so it runs on the fuel of the environment.
\<close>

section \<open>Header keys\<close>

text \<open>\<open>http.CanonicalHeaderKey\<close>, which \<open>Header.Add\<close> and \<open>Header.Get\<close> apply to a key.\<close>

definition token_char :: "char \<Rightarrow> bool" where
  "token_char c \<longleftrightarrow> is_alnum c \<or> c \<in> set ''!#$%&*+-.^_`|~'' \<or> c = CHR 0x27"

fun canon_chars :: "bool \<Rightarrow> string \<Rightarrow> string" where
  "canon_chars upper [] = []"
| "canon_chars upper (c # s) =
     (if upper then upper_char c else lower_char c) # canon_chars (c = CHR ''-'') s"

definition CanonicalHeaderKey :: "string \<Rightarrow> string" where
  "CanonicalHeaderKey k = (if list_all token_char k then canon_chars True k else k)"

type_synonym header = "(string \<times> string list) list"

definition header_Get :: "header \<Rightarrow> string \<Rightarrow> string" where
  "header_Get h key =
     (case map_of h (CanonicalHeaderKey key) of Some (v # _) \<Rightarrow> v | _ \<Rightarrow> [])"

section \<open>Requests\<close>

definition http_error :: "string \<Rightarrow> string \<Rightarrow> http_response \<Rightarrow> error" where
  "http_error method uri r =
     Fail (''error requesting api ['' @ method @ ''] '' @ uri @ '', code '' @ Itoa (rs_StatusCode r)
           @ '', msg '' @ rs_Body r)"

definition make_request :: "string \<Rightarrow> string \<Rightarrow> (string \<times> string) list \<Rightarrow> json option \<Rightarrow> http_request" where
  "make_request method uri hs data =
     \<lparr>rq_Method = method, rq_URI = uri,
      rq_Header = map (\<lambda>(k, v). (CanonicalHeaderKey k, v)) hs,
      rq_Body = (case data of None \<Rightarrow> [] | Some j \<Rightarrow> json_print j)\<rparr>"

text \<open>
  \<open>RequestHTTP\<close>. The bodies the program marshals are structs of strings, numbers
  and booleans, for which \<open>json.Marshal\<close> has no error; \<open>http.NewRequest\<close> fails on a
  URL that does not parse.
\<close>

definition RequestHTTP ::
  "env \<Rightarrow> string \<Rightarrow> string \<Rightarrow> (string \<times> string) list \<Rightarrow> json option \<Rightarrow> (string \<times> header) act" where
  "RequestHTTP env method uri hs data =
     bnd (lift (url_Parse uri)) (\<lambda>_.
     let rq = make_request method uri hs data in
     bnd (ext (CHttp rq) (\<lambda>h. e_http env h rq)) (\<lambda>r.
       if rs_StatusCode r < 200 \<or> rs_StatusCode r > 299 then throw (http_error method uri r)
       else ret (rs_Body r, rs_Header r)))"

section \<open>Pagination\<close>

definition next_link :: "header \<Rightarrow> string option" where
  "next_link h = map_option link_URL (LinkHeader_Find (ParseLinkHeader (header_Get h ''Link'')) ''next'')"

fun paginate ::
  "env \<Rightarrow> nat \<Rightarrow> string \<Rightarrow> (string \<times> string) list \<Rightarrow> (string \<Rightarrow> 'b list res) \<Rightarrow> 'b list \<Rightarrow> 'b list act" where
  "paginate env 0 uri hs decode acc = diverge"
| "paginate env (Suc n) uri hs decode acc =
     bnd (RequestHTTP env ''GET'' uri hs None) (\<lambda>(data, h).
     bnd (lift (decode data)) (\<lambda>vs.
     case next_link h of
       None \<Rightarrow> ret (acc @ vs)
     | Some u \<Rightarrow> paginate env n u hs decode (acc @ vs)))"

definition first_page :: "string \<Rightarrow> string res" where
  "first_page apiURL =
     res_bind (url_Parse apiURL) (\<lambda>u.
       Ok (url_String (u\<lparr>u_RawQuery :=
         (if u_RawQuery u = [] then ''per_page=100'' else u_RawQuery u @ ''&per_page=100'')\<rparr>)))"

definition GetPaginatedRequest ::
  "env \<Rightarrow> string \<Rightarrow> (string \<times> string) list \<Rightarrow> (string \<Rightarrow> 'b list res) \<Rightarrow> 'b list act" where
  "GetPaginatedRequest env apiURL hs decode =
     bnd (lift (first_page apiURL)) (\<lambda>uri. paginate env (e_fuel env) uri hs decode [])"

section \<open>Facts\<close>

definition http_calls :: "call set" where
  "http_calls = range CHttp"

lemma RequestHTTP_made: "made.keeps http_calls (RequestHTTP env method uri hs data)"
  unfolding RequestHTTP_def Let_def http_calls_def by (intro made_intros) (auto intro: made_intros)

lemma RequestHTTP_only_sync: "only_sync.keeps (RequestHTTP env method uri hs data)"
  unfolding RequestHTTP_def Let_def by (intro only_sync_intros) (auto intro: only_sync_intros)

lemma paginate_made: "made.keeps http_calls (paginate env n uri hs decode acc)"
  by (induction n arbitrary: uri acc)
     (auto intro!: made_intros RequestHTTP_made split: option.splits)

lemma paginate_only_sync: "only_sync.keeps (paginate env n uri hs decode acc)"
  by (induction n arbitrary: uri acc)
     (auto intro!: only_sync_intros RequestHTTP_only_sync split: option.splits)

lemma GetPaginatedRequest_made: "made.keeps http_calls (GetPaginatedRequest env apiURL hs decode)"
  unfolding GetPaginatedRequest_def by (intro made_intros paginate_made)

lemma GetPaginatedRequest_only_sync: "only_sync.keeps (GetPaginatedRequest env apiURL hs decode)"
  unfolding GetPaginatedRequest_def by (intro only_sync_intros paginate_only_sync)

text \<open>
  \<open>served env hs decode uri ps\<close>: whatever was called before, the server answers the
  page at \<open>uri\<close> with a 2xx status and the chain of pages ends; \<open>ps\<close> lists the URI and
  the decoded entries of each page.
\<close>

inductive served ::
  "env \<Rightarrow> (string \<times> string) list \<Rightarrow> (string \<Rightarrow> 'b list res) \<Rightarrow> string \<Rightarrow> (string \<times> 'b list) list \<Rightarrow> bool"
  for env hs decode where
  last_page:
    "\<lbrakk>url_Parse uri = Ok u; \<And>h. e_http env h (make_request ''GET'' uri hs None) = Ok r;
      200 \<le> rs_StatusCode r; rs_StatusCode r \<le> 299; decode (rs_Body r) = Ok vs;
      next_link (rs_Header r) = None\<rbrakk>
     \<Longrightarrow> served env hs decode uri [(uri, vs)]"
| more_pages:
    "\<lbrakk>url_Parse uri = Ok u; \<And>h. e_http env h (make_request ''GET'' uri hs None) = Ok r;
      200 \<le> rs_StatusCode r; rs_StatusCode r \<le> 299; decode (rs_Body r) = Ok vs;
      next_link (rs_Header r) = Some uri'; served env hs decode uri' ps\<rbrakk>
     \<Longrightarrow> served env hs decode uri ((uri, vs) # ps)"

lemma RequestHTTP_ok:
  assumes "url_Parse uri = Ok u" and "\<And>h. e_http env h (make_request m uri hs d) = Ok r"
    and "200 \<le> rs_StatusCode r" and "rs_StatusCode r \<le> 299"
  shows "RequestHTTP env m uri hs d s =
    (Ok (rs_Body r, rs_Header r), s\<lparr>hist := CHttp (make_request m uri hs d) # hist s\<rparr>)"
  using assms by (simp add: RequestHTTP_def bnd_def lift_def ext_def ret_def Let_def)

lemma paginate_served:
  assumes "served env hs decode uri ps" and "length ps \<le> n"
  shows "paginate env n uri hs decode acc s =
    (Ok (acc @ concat (map snd ps)),
     s\<lparr>hist := rev (map (\<lambda>(u, _). CHttp (make_request ''GET'' u hs None)) ps) @ hist s\<rparr>)"
  using assms
proof (induction arbitrary: n acc s rule: served.induct)
  case (last_page uri u r vs)
  then obtain n' where "n = Suc n'" by (cases n) auto
  with last_page show ?case
    by (simp add: RequestHTTP_ok bnd_def lift_def ret_def)
next
  case (more_pages uri u r vs uri' ps)
  then obtain n' where n: "n = Suc n'" and "length ps \<le> n'" by (cases n) auto
  with more_pages show ?case
    by (simp add: RequestHTTP_ok bnd_def lift_def ret_def)
qed

end
