(* ===== verification/Github.thy ===== *)
theory Github
  imports GitHttp
begin

text \<open>
  \<open>pkg/git/github/github.go\<close> and \<open>github_types.go\<close>: the requests of the GitHub
  client. Each operation builds its API URL, makes its requests through
  \<open>GitHttp\<close> and converts the answer to the structures of \<open>pkg/git\<close>. Also here:
  \<open>pkg/manifestmanager/utils\<close>, which both Git clients use to cut a manifest file
  into objects.
\<close>

section \<open>Manifest files\<close>

definition SplitMultipleObjectsYAML :: "string \<Rightarrow> string list" where
  "SplitMultipleObjectsYAML rawYAML = Split rawYAML [CHR 0x0A, CHR ''-'', CHR ''-'', CHR ''-'', CHR 0x0A]"

text \<open>
  \<open>BytesToUnstructuredObject\<close>: the conversion itself is third-party code.
\<close>

definition BytesToUnstructuredObject :: "env \<Rightarrow> string \<Rightarrow> unst res" where
  "BytesToUnstructuredObject env bytes = e_to_unstructured env bytes"

definition default_namespace :: "string \<Rightarrow> unst \<Rightarrow> unst" where
  "default_namespace ns ob = (if length (u_Namespace ob) = 0 then ob\<lparr>u_Namespace := ns\<rparr> else ob)"

text \<open>The loop of \<open>ObjectFromManifest\<close> over the documents of a file; a \<open>null\<close> document is skipped.\<close>

fun manifest_objects :: "env \<Rightarrow> string \<Rightarrow> string list \<Rightarrow> unst list res" where
  "manifest_objects env ns [] = Ok []"
| "manifest_objects env ns (doc # docs) =
     res_bind (e_yaml_to_json env doc) (\<lambda>bytes.
       if bytes = ''null'' then manifest_objects env ns docs
       else res_bind (BytesToUnstructuredObject env bytes) (\<lambda>ob.
            res_bind (manifest_objects env ns docs) (\<lambda>obs.
            Ok (default_namespace ns ob # obs))))"

section \<open>Types of the API\<close>

record gh_user =
  ghu_Name :: string
  ghu_ID :: int

record gh_pull_request =
  ghp_Title :: string
  ghp_Number :: int
  ghp_State :: string
  ghp_URL :: string
  ghp_Mergeable :: bool
  ghp_User :: gh_user
  ghp_Draft :: bool
  ghp_Head :: commit_ref
  ghp_Base :: commit_ref
  ghp_Labels :: "string list"

record gh_content =
  ghc_DownloadURL :: string
  ghc_Type :: string
  ghc_Path :: string

record gh_diff_file =
  ghd_Filename :: string
  ghd_PrevFilename :: string
  ghd_Additions :: int
  ghd_Deletions :: int
  ghd_Changes :: int

definition gh_user_json :: "gh_user setter" where
  "gh_user_json = d_struct
     [(''login'', d_string (\<lambda>v a. a\<lparr>ghu_Name := v\<rparr>)), (''id'', d_int (\<lambda>v a. a\<lparr>ghu_ID := v\<rparr>))]"

definition gh_ref_json :: "commit_ref setter" where
  "gh_ref_json = d_struct
     [(''ref'', d_string (\<lambda>v a. a\<lparr>ref_Ref := v\<rparr>)), (''sha'', d_string (\<lambda>v a. a\<lparr>ref_Sha := v\<rparr>))]"

definition gh_name_json :: "string setter" where
  "gh_name_json = d_struct [(''name'', d_string (\<lambda>v _. v))]"

definition gh_pull_request_json :: "gh_pull_request setter" where
  "gh_pull_request_json = d_struct
     [(''title'', d_string (\<lambda>v a. a\<lparr>ghp_Title := v\<rparr>)),
      (''number'', d_int (\<lambda>v a. a\<lparr>ghp_Number := v\<rparr>)),
      (''state'', d_string (\<lambda>v a. a\<lparr>ghp_State := v\<rparr>)),
      (''html_url'', d_string (\<lambda>v a. a\<lparr>ghp_URL := v\<rparr>)),
      (''mergeable'', d_bool (\<lambda>v a. a\<lparr>ghp_Mergeable := v\<rparr>)),
      (''user'', d_nested ghp_User (\<lambda>v a. a\<lparr>ghp_User := v\<rparr>) gh_user_json),
      (''draft'', d_bool (\<lambda>v a. a\<lparr>ghp_Draft := v\<rparr>)),
      (''head'', d_nested ghp_Head (\<lambda>v a. a\<lparr>ghp_Head := v\<rparr>) gh_ref_json),
      (''base'', d_nested ghp_Base (\<lambda>v a. a\<lparr>ghp_Base := v\<rparr>) gh_ref_json),
      (''labels'', d_list gh_name_json [] (\<lambda>v a. a\<lparr>ghp_Labels := v\<rparr>))]"

definition gh_user_zero :: gh_user where
  "gh_user_zero = \<lparr>ghu_Name = [], ghu_ID = 0\<rparr>"

definition gh_pull_request_zero :: gh_pull_request where
  "gh_pull_request_zero = \<lparr>ghp_Title = [], ghp_Number = 0, ghp_State = [], ghp_URL = [],
     ghp_Mergeable = False, ghp_User = gh_user_zero, ghp_Draft = False, ghp_Head = empty_ref,
     ghp_Base = empty_ref, ghp_Labels = []\<rparr>"

definition gh_content_json :: "gh_content setter" where
  "gh_content_json = d_struct
     [(''download_url'', d_string (\<lambda>v a. a\<lparr>ghc_DownloadURL := v\<rparr>)),
      (''type'', d_string (\<lambda>v a. a\<lparr>ghc_Type := v\<rparr>)),
      (''path'', d_string (\<lambda>v a. a\<lparr>ghc_Path := v\<rparr>))]"

definition gh_content_zero :: gh_content where
  "gh_content_zero = \<lparr>ghc_DownloadURL = [], ghc_Type = [], ghc_Path = []\<rparr>"

definition gh_hook_json :: "webhook_entry setter" where
  "gh_hook_json = d_struct
     [(''id'', d_int (\<lambda>v a. a\<lparr>whe_ID := v\<rparr>)),
      (''config'', d_nested whe_URL (\<lambda>v a. a\<lparr>whe_URL := v\<rparr>)
         (d_struct [(''url'', d_string (\<lambda>v _. v))]))]"

definition hook_zero :: webhook_entry where
  "hook_zero = \<lparr>whe_ID = 0, whe_URL = []\<rparr>"

definition gh_status_json :: "commit_status setter" where
  "gh_status_json = d_struct
     [(''context'', d_string (\<lambda>v a. a\<lparr>cs_Context := v\<rparr>)),
      (''state'', d_string (\<lambda>v a. a\<lparr>cs_State := v\<rparr>)),
      (''description'', d_string (\<lambda>v a. a\<lparr>cs_Description := v\<rparr>)),
      (''target_url'', d_string (\<lambda>v a. a\<lparr>cs_TargetURL := v\<rparr>))]"

definition status_zero :: commit_status where
  "status_zero = \<lparr>cs_Context = [], cs_State = [], cs_Description = [], cs_TargetURL = []\<rparr>"

definition gh_user_info_json :: "user setter" where
  "gh_user_info_json = d_struct
     [(''id'', d_int (\<lambda>v a. a\<lparr>usr_ID := v\<rparr>)),
      (''login'', d_string (\<lambda>v a. a\<lparr>usr_Name := v\<rparr>)),
      (''email'', d_string (\<lambda>v a. a\<lparr>usr_Email := v\<rparr>))]"

definition gh_diff_file_json :: "gh_diff_file setter" where
  "gh_diff_file_json = d_struct
     [(''filename'', d_string (\<lambda>v a. a\<lparr>ghd_Filename := v\<rparr>)),
      (''previous_filename'', d_string (\<lambda>v a. a\<lparr>ghd_PrevFilename := v\<rparr>)),
      (''additions'', d_int (\<lambda>v a. a\<lparr>ghd_Additions := v\<rparr>)),
      (''deletions'', d_int (\<lambda>v a. a\<lparr>ghd_Deletions := v\<rparr>)),
      (''changes'', d_int (\<lambda>v a. a\<lparr>ghd_Changes := v\<rparr>))]"

definition gh_diff_file_zero :: gh_diff_file where
  "gh_diff_file_zero = \<lparr>ghd_Filename = [], ghd_PrevFilename = [], ghd_Additions = 0,
     ghd_Deletions = 0, ghd_Changes = 0\<rparr>"

definition name_email_json :: "user setter" where
  "name_email_json = d_struct
     [(''name'', d_string (\<lambda>v a. a\<lparr>usr_Name := v\<rparr>)), (''email'', d_string (\<lambda>v a. a\<lparr>usr_Email := v\<rparr>))]"

definition gh_commit_json :: "commit setter" where
  "gh_commit_json = d_struct
     [(''sha'', d_string (\<lambda>v a. a\<lparr>cmt_SHA := v\<rparr>)),
      (''commit'', d_struct
         [(''message'', d_string (\<lambda>v a. a\<lparr>cmt_Message := v\<rparr>)),
          (''author'', d_nested cmt_Author (\<lambda>v a. a\<lparr>cmt_Author := v\<rparr>) name_email_json),
          (''committer'', d_nested cmt_Committer (\<lambda>v a. a\<lparr>cmt_Committer := v\<rparr>) name_email_json)])]"

definition commit_zero :: commit where
  "commit_zero = \<lparr>cmt_SHA = [], cmt_Message = [], cmt_Author = empty_user, cmt_Committer = empty_user\<rparr>"

definition gh_branch_json :: "branch setter" where
  "gh_branch_json = d_struct
     [(''name'', d_string (\<lambda>v a. a\<lparr>br_Name := v\<rparr>)),
      (''commit'', d_nested br_CommitID (\<lambda>v a. a\<lparr>br_CommitID := v\<rparr>)
         (d_struct [(''sha'', d_string (\<lambda>v _. v))]))]"

definition branch_zero :: branch where
  "branch_zero = \<lparr>br_Name = [], br_CommitID = []\<rparr>"

section \<open>Operations\<close>

definition gh_Init :: "git_conf \<Rightarrow> git_conf" where
  "gh_Init c = c\<lparr>hdr := [(''Accept'', ''application/vnd.github.v3+json'')]
     @ (if GitToken c \<noteq> [] then [(''Authorization'', ''token '' @ GitToken c)] else [])\<rparr>"

definition gh_repo_url :: "git_conf \<Rightarrow> string" where
  "gh_repo_url c = GitAPIURL c @ ''/repos/'' @ GitRepository c"

definition gh_request :: "env \<Rightarrow> git_conf \<Rightarrow> string \<Rightarrow> string \<Rightarrow> json option \<Rightarrow> (string \<times> header) act" where
  "gh_request env c method url data = RequestHTTP env method url (hdr c) data"

definition gh_ListWebhook :: "env \<Rightarrow> git_conf \<Rightarrow> webhook_entry list act" where
  "gh_ListWebhook env c =
     GetPaginatedRequest env (gh_repo_url c @ ''/hooks'') (hdr c) (unmarshal_list gh_hook_json hook_zero)"

definition gh_registration_body :: "string \<Rightarrow> string \<Rightarrow> json" where
  "gh_registration_body url secret = JObj
     [(''name'', JStr ''web''), (''active'', JBool True), (''events'', JArr [JStr ''*'']),
      (''config'', JObj [(''url'', JStr url), (''content_type'', JStr ''json''),
         (''insecure_ssl'', JStr ''0''), (''secret'', JStr secret)])]"

definition gh_RegisterWebhook :: "env \<Rightarrow> git_conf \<Rightarrow> string \<Rightarrow> unit act" where
  "gh_RegisterWebhook env c url =
     bnd (gh_request env c ''POST'' (gh_repo_url c @ ''/hooks'')
            (Some (gh_registration_body url (GitWebhookSecret c)))) (\<lambda>_. ret ())"

definition gh_DeleteWebhook :: "env \<Rightarrow> git_conf \<Rightarrow> int \<Rightarrow> unit act" where
  "gh_DeleteWebhook env c i =
     bnd (gh_request env c ''DELETE'' (gh_repo_url c @ ''/hooks/'' @ Itoa i) None) (\<lambda>_. ret ())"

text \<open>The statuses are listed newest first; only the first of each context is kept.\<close>

fun first_of_context :: "string set \<Rightarrow> commit_status list \<Rightarrow> commit_status list" where
  "first_of_context tmp [] = []"
| "first_of_context tmp (c # cs) =
     (if cs_Context c \<in> tmp then first_of_context tmp cs
      else c # first_of_context (insert (cs_Context c) tmp) cs)"

definition gh_ListCommitStatuses :: "env \<Rightarrow> git_conf \<Rightarrow> string \<Rightarrow> commit_status list act" where
  "gh_ListCommitStatuses env c ref =
     bnd (GetPaginatedRequest env (gh_repo_url c @ ''/commits/'' @ ref @ ''/statuses'') (hdr c)
            (unmarshal_list gh_status_json status_zero))
       (\<lambda>statuses. ret (first_of_context {} statuses))"

definition status_body :: "string \<Rightarrow> commit_status \<Rightarrow> json" where
  "status_body state s = JObj
     [(''state'', JStr state), (''target_url'', JStr (cs_TargetURL s)),
      (''description'', JStr (cs_Description s)), (''context'', JStr (cs_Context s))]"

definition gh_SetCommitStatus :: "env \<Rightarrow> git_conf \<Rightarrow> string \<Rightarrow> commit_status \<Rightarrow> unit act" where
  "gh_SetCommitStatus env c sha status =
     (if sha = FakeSha then ret ()
      else bnd (gh_request env c ''POST'' (gh_repo_url c @ ''/statuses/'' @ sha)
                  (Some (status_body (cs_State status) status))) (\<lambda>_. ret ()))"

definition gh_GetUserInfo :: "env \<Rightarrow> git_conf \<Rightarrow> string \<Rightarrow> user act" where
  "gh_GetUserInfo env c userName =
     bnd (gh_request env c ''GET'' (GitAPIURL c @ ''/users/'' @ userName) None) (\<lambda>(result, _).
     lift (unmarshal gh_user_info_json empty_user result))"

definition gh_CanUserWriteToRepo :: "env \<Rightarrow> git_conf \<Rightarrow> user \<Rightarrow> bool act" where
  "gh_CanUserWriteToRepo env c u =
     bnd (gh_request env c ''GET'' (gh_repo_url c @ ''/collaborators/'' @ usr_Name u @ ''/permission'') None)
       (\<lambda>(result, _).
     bnd (lift (unmarshal (d_struct [(''permission'', d_string (\<lambda>v _. v))]) [] result)) (\<lambda>permission.
     ret (permission = ''admin'' \<or> permission = ''write'')))"

definition gh_RegisterComment :: "env \<Rightarrow> git_conf \<Rightarrow> string \<Rightarrow> int \<Rightarrow> string \<Rightarrow> unit act" where
  "gh_RegisterComment env c issueType issueNo body =
     bnd (gh_request env c ''POST'' (gh_repo_url c @ ''/issues/'' @ Itoa issueNo @ ''/comments'')
            (Some (JObj [(''body'', JStr body)]))) (\<lambda>_. ret ())"

definition convertPullRequestToShared :: "gh_pull_request \<Rightarrow> pull_request" where
  "convertPullRequestToShared p = empty_pull_request\<lparr>
     pr_ID := ghp_Number p, pr_Title := ghp_Title p, pr_State := ghp_State p,
     pr_Author := empty_user\<lparr>usr_ID := ghu_ID (ghp_User p), usr_Name := ghu_Name (ghp_User p)\<rparr>,
     pr_URL := ghp_URL p, pr_Base := ghp_Base p, pr_Head := ghp_Head p,
     pr_Labels := ghp_Labels p, pr_Mergeable := ghp_Mergeable p\<rparr>"

definition gh_ListPullRequests :: "env \<Rightarrow> git_conf \<Rightarrow> bool \<Rightarrow> pull_request list act" where
  "gh_ListPullRequests env c onlyOpen =
     bnd (GetPaginatedRequest env
            (gh_repo_url c @ ''/pulls'' @ (if \<not> onlyOpen then ''?state=all'' else [])) (hdr c)
            (unmarshal_list gh_pull_request_json gh_pull_request_zero))
       (\<lambda>prs. ret (map convertPullRequestToShared (filter (\<lambda>p. \<not> ghp_Draft p) prs)))"

definition gh_GetPullRequest :: "env \<Rightarrow> git_conf \<Rightarrow> int \<Rightarrow> pull_request act" where
  "gh_GetPullRequest env c i =
     bnd (gh_request env c ''GET'' (gh_repo_url c @ ''/pulls/'' @ Itoa i) None) (\<lambda>(data, _).
     bnd (lift (unmarshal gh_pull_request_json gh_pull_request_zero data)) (\<lambda>p.
     ret (convertPullRequestToShared p)))"

text \<open>The first paragraph of the message is the title; \<open>omitempty\<close> drops empty texts.\<close>

definition omitempty :: "string \<Rightarrow> string \<Rightarrow> (string \<times> json) list" where
  "omitempty k v = (if v = [] then [] else [(k, JStr v)])"

definition gh_merge_body :: "string \<Rightarrow> string \<Rightarrow> string \<Rightarrow> json" where
  "gh_merge_body sha method message =
     (let blank = [CHR 0x0A, CHR 0x0A]; tokens = Split message blank
      in JObj (omitempty ''commit_title'' (hd tokens)
               @ omitempty ''commit_message'' (if length tokens > 1 then Join (tl tokens) blank else [])
               @ [(''merge_method'', JStr method), (''sha'', JStr sha)]))"

definition gh_MergePullRequest :: "env \<Rightarrow> git_conf \<Rightarrow> int \<Rightarrow> string \<Rightarrow> string \<Rightarrow> string \<Rightarrow> unit act" where
  "gh_MergePullRequest env c i sha method message =
     bnd (gh_request env c ''PUT'' (gh_repo_url c @ ''/pulls/'' @ Itoa i @ ''/merge'')
            (Some (gh_merge_body sha method message))) (\<lambda>_. ret ())"

definition gh_change :: "gh_diff_file \<Rightarrow> change" where
  "gh_change d = \<lparr>chg_Filename = ghd_Filename d,
     chg_OldFilename = (if ghd_PrevFilename d = [] then ghd_Filename d else ghd_PrevFilename d),
     chg_Additions = ghd_Additions d, chg_Deletions = ghd_Deletions d, chg_Changes = ghd_Changes d\<rparr>"

definition gh_GetPullRequestDiff :: "env \<Rightarrow> git_conf \<Rightarrow> int \<Rightarrow> change list act" where
  "gh_GetPullRequestDiff env c i =
     bnd (gh_request env c ''GET'' (gh_repo_url c @ ''/pulls/'' @ Itoa i @ ''/files'') None) (\<lambda>(rawDiffs, _).
     bnd (lift (unmarshal_list gh_diff_file_json gh_diff_file_zero rawDiffs)) (\<lambda>diffs.
     ret (map gh_change diffs)))"

definition gh_ListPullRequestCommits :: "env \<Rightarrow> git_conf \<Rightarrow> int \<Rightarrow> commit list act" where
  "gh_ListPullRequestCommits env c i =
     bnd (gh_request env c ''GET'' (gh_repo_url c @ ''/pulls/'' @ Itoa i @ ''/commits'') None) (\<lambda>(raw, _).
     lift (unmarshal_list gh_commit_json commit_zero raw))"

definition gh_SetLabel :: "env \<Rightarrow> git_conf \<Rightarrow> string \<Rightarrow> int \<Rightarrow> string \<Rightarrow> unit act" where
  "gh_SetLabel env c issueType i label =
     bnd (gh_request env c ''POST'' (gh_repo_url c @ ''/issues/'' @ Itoa i @ ''/labels'')
            (Some (JArr [JObj [(''name'', JStr label)]]))) (\<lambda>_. ret ())"

definition gh_DeleteLabel :: "env \<Rightarrow> git_conf \<Rightarrow> string \<Rightarrow> int \<Rightarrow> string \<Rightarrow> unit act" where
  "gh_DeleteLabel env c issueType i label =
     bnd (gh_request env c ''DELETE'' (gh_repo_url c @ ''/issues/'' @ Itoa i @ ''/labels/'' @ label) None)
       (\<lambda>_. ret ())"

definition gh_GetBranch :: "env \<Rightarrow> git_conf \<Rightarrow> string \<Rightarrow> branch act" where
  "gh_GetBranch env c b =
     bnd (gh_request env c ''GET'' (gh_repo_url c @ ''/branches/'' @ b) None) (\<lambda>(raw, _).
     lift (unmarshal gh_branch_json branch_zero raw))"

text \<open>
  A directory answers an array of contents, a file one object: the array is
  tried first, then the single object. Directories recurse, so the fuel bounds
  their depth.
\<close>

definition gh_contents :: "string \<Rightarrow> gh_content list res" where
  "gh_contents raw =
     (case unmarshal_list gh_content_json gh_content_zero raw of
        Err _ \<Rightarrow> res_bind (unmarshal gh_content_json gh_content_zero raw) (\<lambda>content. Ok [content])
      | r \<Rightarrow> r)"

fun gh_manifest_infos :: "env \<Rightarrow> nat \<Rightarrow> git_conf \<Rightarrow> string \<Rightarrow> string \<Rightarrow> string list \<Rightarrow> string list act" where
  "gh_manifest_infos env 0 c path revision infos = diverge"
| "gh_manifest_infos env (Suc n) c path revision infos =
     bnd (gh_request env c ''GET'' (gh_repo_url c @ ''/contents/'' @ path @ ''?ref='' @ revision) None)
       (\<lambda>(raw, _).
     bnd (lift (gh_contents raw)) (\<lambda>contents.
     fold_each contents
       (\<lambda>content infos.
          if ghc_Type content = ''file'' then ret (infos @ [ghc_DownloadURL content])
          else if ghc_Type content = ''dir'' then
            gh_manifest_infos env n c (ghc_Path content) revision infos
          else ret infos)
       infos))"

definition gh_GetManifestInfos :: "env \<Rightarrow> git_conf \<Rightarrow> string \<Rightarrow> string \<Rightarrow> string list \<Rightarrow> string list act" where
  "gh_GetManifestInfos env c path revision infos =
     gh_manifest_infos env (e_fuel env) c path revision infos"

definition gh_ObjectFromManifest :: "env \<Rightarrow> git_conf \<Rightarrow> string \<Rightarrow> string \<Rightarrow> unst list act" where
  "gh_ObjectFromManifest env c info ns =
     bnd (gh_request env c ''GET'' info None) (\<lambda>(raw, _).
     lift (manifest_objects env ns (SplitMultipleObjectsYAML raw)))"

end
