(* ===== verification/Hmac.thy ===== *)
theory Hmac
  imports GoStrings "HOL-Library.Word"
begin

text \<open>
  \<open>crypto/sha1\<close> and \<open>crypto/hmac\<close> as \<open>HashPayload\<close> of \<open>pkg/git/github/github.go\<close> uses
  them: SHA-1 on bytes with 32-bit words, the keyed hash around it, and its
  lower-case hexadecimal print.
\<close>

unbundle bit_operations_syntax

type_synonym byte = "8 word"
type_synonym w32 = "32 word"

definition bytes_of :: "string \<Rightarrow> byte list" where
  "bytes_of s = map (\<lambda>c. word_of_nat (of_char c)) s"

text \<open>Big-endian bytes of a word, and the word of four bytes.\<close>

definition be_bytes :: "nat \<Rightarrow> nat \<Rightarrow> byte list" where
  "be_bytes n v = map (\<lambda>i. word_of_nat (v div 256 ^ (n - 1 - i))) [0..<n]"

definition be_word :: "byte list \<Rightarrow> w32" where
  "be_word bs = foldl (\<lambda>acc b. acc * 256 + word_of_nat (unat b)) 0 bs"

fun chunks :: "nat \<Rightarrow> nat \<Rightarrow> 'a list \<Rightarrow> 'a list list" where
  "chunks 0 n xs = []"
| "chunks (Suc k) n xs = take n xs # chunks k n (drop n xs)"

definition sha1_pad :: "byte list \<Rightarrow> byte list" where
  "sha1_pad m =
     (let l = length m; z = (119 - l mod 64) mod 64
      in m @ [0x80] @ replicate z 0 @ be_bytes 8 (8 * l))"

definition rotl :: "nat \<Rightarrow> w32 \<Rightarrow> w32" where
  "rotl n x = (push_bit n x) OR (drop_bit (32 - n) x)"

text \<open>The 80 words of a block, as a list that grows by one word a step.\<close>

fun extend :: "nat \<Rightarrow> w32 list \<Rightarrow> w32 list" where
  "extend 0 w = w"
| "extend (Suc k) w =
     (let t = length w
      in extend k (w @ [rotl 1 (w ! (t - 3) XOR w ! (t - 8) XOR w ! (t - 14) XOR w ! (t - 16))]))"

definition sha1_f :: "nat \<Rightarrow> w32 \<Rightarrow> w32 \<Rightarrow> w32 \<Rightarrow> w32" where
  "sha1_f t b c d =
     (if t < 20 then (b AND c) OR (NOT b AND d)
      else if t < 40 then b XOR c XOR d
      else if t < 60 then (b AND c) OR (b AND d) OR (c AND d)
      else b XOR c XOR d)"

definition sha1_k :: "nat \<Rightarrow> w32" where
  "sha1_k t = (if t < 20 then 0x5A827999 else if t < 40 then 0x6ED9EBA1
               else if t < 60 then 0x8F1BBCDC else 0xCA62C1D6)"

type_synonym sha1_state = "w32 \<times> w32 \<times> w32 \<times> w32 \<times> w32"

fun sha1_round :: "nat \<times> w32 \<Rightarrow> sha1_state \<Rightarrow> sha1_state" where
  "sha1_round (t, w) (a, b, c, d, e) =
     (rotl 5 a + sha1_f t b c d + e + w + sha1_k t, a, rotl 30 b, c, d)"

fun sha1_block :: "sha1_state \<Rightarrow> byte list \<Rightarrow> sha1_state" where
  "sha1_block (h0, h1, h2, h3, h4) block =
     (let ws = extend 64 (map be_word (chunks 16 4 block));
          (a, b, c, d, e) = fold sha1_round (zip [0..<80] ws) (h0, h1, h2, h3, h4)
      in (h0 + a, h1 + b, h2 + c, h3 + d, h4 + e))"

definition sha1 :: "byte list \<Rightarrow> byte list" where
  "sha1 m =
     (let p = sha1_pad m;
          (h0, h1, h2, h3, h4) =
            foldl sha1_block (0x67452301, 0xEFCDAB89, 0x98BADCFE, 0x10325476, 0xC3D2E1F0)
              (chunks (length p div 64) 64 p)
      in concat (map (\<lambda>h. be_bytes 4 (unat h)) [h0, h1, h2, h3, h4]))"

definition hmac_sha1 :: "byte list \<Rightarrow> byte list \<Rightarrow> byte list" where
  "hmac_sha1 key m =
     (let k0 = (if length key > 64 then sha1 key else key);
          k = k0 @ replicate (64 - length k0) 0
      in sha1 (map (\<lambda>b. b XOR 0x5C) k @ sha1 (map (\<lambda>b. b XOR 0x36) k @ m)))"

definition hex_print :: "byte list \<Rightarrow> string" where
  "hex_print bs = concat (map (\<lambda>b. [''0123456789abcdef'' ! (unat b div 16), ''0123456789abcdef'' ! (unat b mod 16)]) bs)"

text \<open>\<open>HashPayload\<close>: writing to a hash has no error.\<close>

definition HashPayload :: "string \<Rightarrow> string \<Rightarrow> string" where
  "HashPayload secret payload = hex_print (hmac_sha1 (bytes_of secret) (bytes_of payload))"

definition IsValidPayload :: "string \<Rightarrow> string \<Rightarrow> string \<Rightarrow> bool" where
  "IsValidPayload secret headerHash payload \<longleftrightarrow> HashPayload secret payload = headerHash"

definition gh_Validate :: "string \<Rightarrow> string \<Rightarrow> string \<Rightarrow> unit res" where
  "gh_Validate secret headerHash payload =
     (if \<not> IsValidPayload secret headerHash payload
      then Err (Fail ''invalid request : X-Hub-Signature does not match secret'')
      else Ok ())"

section \<open>Facts\<close>

lemma chunks_length: "length (chunks k n xs) = k"
  by (induction k arbitrary: xs) auto

lemma extend_length: "length (extend k w) = length w + k"
  by (induction k arbitrary: w) (auto simp: Let_def)

text \<open>Padding fills whole blocks, so every block the loop takes has 64 bytes.\<close>

lemma sha1_pad_length: "length (sha1_pad m) mod 64 = 0"
proof -
  define r where "r = length m mod 64"
  have r: "r < 64" and l: "length m = 64 * (length m div 64) + r" by (simp_all add: r_def)
  have len: "length (sha1_pad m) = length m + 9 + (119 - r) mod 64"
    by (simp add: sha1_pad_def be_bytes_def Let_def r_def)
  show ?thesis
  proof (cases "r \<le> 55")
    case True
    then have "119 - r = 64 + (55 - r)" by simp
    then have "(119 - r) mod 64 = (55 - r) mod 64" by (metis mod_add_self1)
    with True have "(119 - r) mod 64 = 55 - r" by simp
    with len l True have "length (sha1_pad m) = 64 * (length m div 64 + 1)" by simp
    then show ?thesis by simp
  next
    case False
    then have "(119 - r) mod 64 = 119 - r" using r by simp
    with len l False r have "length (sha1_pad m) = 64 * (length m div 64 + 2)" by simp
    then show ?thesis by simp
  qed
qed

lemma sha1_length: "length (sha1 m) = 20"
  by (simp add: sha1_def be_bytes_def Let_def split: prod.splits)

text \<open>The signature is always 40 hexadecimal digits.\<close>

lemma HashPayload_length: "length (HashPayload secret payload) = 40"
proof -
  have hx: "length (hex_print bs) = 2 * length bs" for bs
    by (induction bs) (simp_all add: hex_print_def)
  have "length (hmac_sha1 k m) = 20" for k m by (simp add: hmac_sha1_def Let_def sha1_length)
  then show ?thesis by (simp add: HashPayload_def hx)
qed

end
