(* ===== verification/WebhookGithub.thy ===== *)
theory WebhookGithub
  imports Github Hmac
begin

text \<open>
  \<open>ParseWebhook\<close> of \<open>pkg/git/github/github.go\<close> with \<open>parser.go\<close> and the payload
  types of \<open>webhook.go\<close>: the check of the signature and the conversion of a GitHub
  event to the common \<open>webhook\<close>. Reading a time stamp (\<open>metav1.Time\<close>) is the
  parameter \<open>e_time\<close>.
\<close>

section \<open>Payloads\<close>

record gh_comment =
  ghc_Body :: string
  ghc_User :: gh_user
  ghc_CreatedAt :: "string option"
  ghc_State :: string

text \<open>
  One record for the five event structs; each decoder reads the fields of its own
  struct. \<open>ghe_Comment\<close> is the comment or the review, \<open>ghe_IssueURL\<close> the URL of the
  pull request of the commented issue.
\<close>

record gh_event =
  ghe_Action :: string
  ghe_Number :: int
  ghe_Sender :: gh_user
  ghe_PullRequest :: gh_pull_request
  ghe_Repo :: repository
  ghe_Label :: string
  ghe_Ref :: string
  ghe_Sha :: string
  ghe_Comment :: gh_comment
  ghe_IssueURL :: string

definition gh_comment_zero :: gh_comment where
  "gh_comment_zero = \<lparr>ghc_Body = [], ghc_User = gh_user_zero, ghc_CreatedAt = None, ghc_State = []\<rparr>"

definition gh_event_zero :: gh_event where
  "gh_event_zero = \<lparr>ghe_Action = [], ghe_Number = 0, ghe_Sender = gh_user_zero,
     ghe_PullRequest = gh_pull_request_zero, ghe_Repo = \<lparr>repo_Name = [], repo_URL = []\<rparr>, ghe_Label = [],
     ghe_Ref = [], ghe_Sha = [], ghe_Comment = gh_comment_zero, ghe_IssueURL = []\<rparr>"

text \<open>A pointer to a time: \<open>null\<close> is nil, a string must be a time stamp.\<close>

fun d_time :: "env \<Rightarrow> (string option \<Rightarrow> 'a \<Rightarrow> 'a) \<Rightarrow> 'a setter" where
  "d_time env upd (JStr s) a = map_option (\<lambda>t. upd (Some t) a) (e_time env s)"
| "d_time env upd JNull a = Some (upd None a)"
| "d_time env upd _ a = None"

text \<open>Fields that are decoded but never read still have to have the right type.\<close>

definition gh_repo_json :: "repository setter" where
  "gh_repo_json = d_struct
     [(''full_name'', d_string (\<lambda>v a. a\<lparr>repo_Name := v\<rparr>)),
      (''html_url'', d_string (\<lambda>v a. a\<lparr>repo_URL := v\<rparr>)),
      (''owner'', d_struct [(''login'', d_string (\<lambda>_ a. a))]),
      (''private'', d_bool (\<lambda>_ a. a))]"

definition gh_comment_json :: "env \<Rightarrow> gh_comment setter" where
  "gh_comment_json env = d_struct
     [(''body'', d_string (\<lambda>v a. a\<lparr>ghc_Body := v\<rparr>)),
      (''user'', d_nested ghc_User (\<lambda>v a. a\<lparr>ghc_User := v\<rparr>) gh_user_json),
      (''created_at'', d_time env (\<lambda>v a. a\<lparr>ghc_CreatedAt := v\<rparr>)),
      (''updated_at'', d_time env (\<lambda>_ a. a))]"

definition gh_review_json :: "env \<Rightarrow> gh_comment setter" where
  "gh_review_json env = d_struct
     [(''body'', d_string (\<lambda>v a. a\<lparr>ghc_Body := v\<rparr>)),
      (''submitted_at'', d_time env (\<lambda>v a. a\<lparr>ghc_CreatedAt := v\<rparr>)),
      (''state'', d_string (\<lambda>v a. a\<lparr>ghc_State := v\<rparr>)),
      (''user'', d_nested ghc_User (\<lambda>v a. a\<lparr>ghc_User := v\<rparr>) gh_user_json)]"

definition gh_action_field :: "string \<times> gh_event setter" where
  "gh_action_field = (''action'', d_string (\<lambda>v a. a\<lparr>ghe_Action := v\<rparr>))"

definition gh_repo_field :: "string \<times> gh_event setter" where
  "gh_repo_field = (''repository'', d_nested ghe_Repo (\<lambda>v a. a\<lparr>ghe_Repo := v\<rparr>) gh_repo_json)"

definition gh_sender_field :: "string \<times> gh_event setter" where
  "gh_sender_field = (''sender'', d_nested ghe_Sender (\<lambda>v a. a\<lparr>ghe_Sender := v\<rparr>) gh_user_json)"

definition gh_pr_field :: "string \<times> gh_event setter" where
  "gh_pr_field = (''pull_request'', d_nested ghe_PullRequest (\<lambda>v a. a\<lparr>ghe_PullRequest := v\<rparr>) gh_pull_request_json)"

definition PullRequestWebhook_json :: "gh_event setter" where
  "PullRequestWebhook_json = d_struct
     [gh_action_field, (''number'', d_int (\<lambda>v a. a\<lparr>ghe_Number := v\<rparr>)), gh_sender_field, gh_pr_field,
      gh_repo_field, (''label'', d_nested ghe_Label (\<lambda>v a. a\<lparr>ghe_Label := v\<rparr>) gh_name_json)]"

definition gh_PushWebhook_json :: "gh_event setter" where
  "gh_PushWebhook_json = d_struct
     [(''ref'', d_string (\<lambda>v a. a\<lparr>ghe_Ref := v\<rparr>)), gh_repo_field, gh_sender_field,
      (''after'', d_string (\<lambda>v a. a\<lparr>ghe_Sha := v\<rparr>))]"

definition IssueCommentWebhook_json :: "env \<Rightarrow> gh_event setter" where
  "IssueCommentWebhook_json env = d_struct
     [gh_action_field, (''comment'', d_nested ghe_Comment (\<lambda>v a. a\<lparr>ghe_Comment := v\<rparr>) (gh_comment_json env)),
      (''issue'', d_struct [(''pull_request'', d_struct [(''url'', d_string (\<lambda>v a. a\<lparr>ghe_IssueURL := v\<rparr>))])]),
      gh_repo_field, gh_sender_field]"

definition PullRequestReviewWebhook_json :: "env \<Rightarrow> gh_event setter" where
  "PullRequestReviewWebhook_json env = d_struct
     [gh_action_field, (''review'', d_nested ghe_Comment (\<lambda>v a. a\<lparr>ghe_Comment := v\<rparr>) (gh_review_json env)),
      gh_pr_field, gh_repo_field, gh_sender_field]"

definition PullRequestReviewCommentWebhook_json :: "env \<Rightarrow> gh_event setter" where
  "PullRequestReviewCommentWebhook_json env = d_struct
     [gh_action_field, (''comment'', d_nested ghe_Comment (\<lambda>v a. a\<lparr>ghe_Comment := v\<rparr>) (gh_comment_json env)),
      gh_pr_field, gh_repo_field, gh_sender_field]"

section \<open>Parsers\<close>

definition gh_getSenderAuthor :: "env \<Rightarrow> git_conf \<Rightarrow> gh_user \<Rightarrow> gh_user \<Rightarrow> (user \<times> user) act" where
  "gh_getSenderAuthor env c senderPre authorPre =
     bnd (attempt (gh_GetUserInfo env c (ghu_Name senderPre))) (\<lambda>r.
     let sender = (case r of
           Inl _ \<Rightarrow> empty_user\<lparr>usr_Name := ghu_Name senderPre, usr_ID := ghu_ID senderPre\<rparr> | Inr u \<Rightarrow> u)
     in
     if usr_ID sender = ghu_ID authorPre then ret (sender, sender)
     else
       bnd (attempt (gh_GetUserInfo env c (ghu_Name authorPre))) (\<lambda>r.
       ret (sender, (case r of
         Inl _ \<Rightarrow> empty_user\<lparr>usr_Name := ghu_Name authorPre, usr_ID := ghu_ID authorPre\<rparr> | Inr u \<Rightarrow> u))))"

definition gh_parsePullRequestWebhook :: "env \<Rightarrow> git_conf \<Rightarrow> string \<Rightarrow> webhook option act" where
  "gh_parsePullRequestWebhook env c jsonString =
     bnd (lift (unmarshal PullRequestWebhook_json gh_event_zero jsonString)) (\<lambda>dat.
     let p = ghe_PullRequest dat in
     bnd (gh_getSenderAuthor env c (ghe_Sender dat) (ghp_User p)) (\<lambda>(sender, author).
     ret (Some (empty_webhook\<lparr>wh_EventType := EventTypePullRequest, wh_Repo := ghe_Repo dat, wh_Sender := sender,
       wh_PullRequest := Some (empty_pull_request\<lparr>
         pr_ID := ghe_Number dat, pr_Title := ghp_Title p, pr_URL := repo_URL (ghe_Repo dat),
         pr_State := ghp_State p, pr_Action := ghe_Action dat, pr_Author := author,
         pr_Labels := ghp_Labels p,
         pr_LabelChanged := (if ghe_Action dat = PullRequestActionLabeled \<or> ghe_Action dat = PullRequestActionUnlabeled
                             then [ghe_Label dat] else []),
         pr_Base := ghp_Base p, pr_Head := ghp_Head p\<rparr>)\<rparr>))))"

definition gh_parsePushWebhook :: "env \<Rightarrow> git_conf \<Rightarrow> string \<Rightarrow> webhook option act" where
  "gh_parsePushWebhook env c jsonString =
     bnd (lift (unmarshal gh_PushWebhook_json gh_event_zero jsonString)) (\<lambda>dat.
     if null_sha (ghe_Sha dat) then ret None
     else
       bnd (attempt (gh_GetUserInfo env c (ghu_Name (ghe_Sender dat)))) (\<lambda>r.
       ret (Some (empty_webhook\<lparr>wh_EventType := EventTypePush, wh_Repo := ghe_Repo dat,
         wh_Sender := \<lparr>usr_ID = ghu_ID (ghe_Sender dat), usr_Name = ghu_Name (ghe_Sender dat),
                        usr_Email = (case r of Inl _ \<Rightarrow> [] | Inr u \<Rightarrow> usr_Email u)\<rparr>,
         wh_Push := Some \<lparr>push_Ref = ghe_Ref dat, push_Sha = ghe_Sha dat\<rparr>\<rparr>))))"

definition gh_issue_pull_request :: "env \<Rightarrow> git_conf \<Rightarrow> string \<Rightarrow> pull_request option act" where
  "gh_issue_pull_request env c url =
     (if url \<noteq> [] then
        bnd (lift (Atoi (last (Split url ''/'')))) (\<lambda>prID.
        bnd (gh_GetPullRequest env c prID) (\<lambda>pr. ret (Some pr)))
      else ret None)"

definition gh_parseIssueCommentWebhook :: "env \<Rightarrow> git_conf \<Rightarrow> string \<Rightarrow> webhook option act" where
  "gh_parseIssueCommentWebhook env c jsonString =
     bnd (lift (unmarshal (IssueCommentWebhook_json env) gh_event_zero jsonString)) (\<lambda>dat.
     if ghe_Action dat \<noteq> ''created'' then ret None
     else
       bnd (gh_issue_pull_request env c (ghe_IssueURL dat)) (\<lambda>pr.
       bnd (gh_getSenderAuthor env c (ghe_Sender dat) (ghc_User (ghe_Comment dat))) (\<lambda>(sender, author).
       ret (Some (empty_webhook\<lparr>wh_EventType := EventTypeIssueComment, wh_Repo := ghe_Repo dat, wh_Sender := sender,
         wh_IssueComment := Some \<lparr>ic_Body = ghc_Body (ghe_Comment dat), ic_CreatedAt = ghc_CreatedAt (ghe_Comment dat),
           ic_PullRequest = pr, ic_Author = author, ic_ReviewState = []\<rparr>\<rparr>)))))"

definition gh_parsePullRequestReviewWebhook :: "env \<Rightarrow> git_conf \<Rightarrow> string \<Rightarrow> webhook option act" where
  "gh_parsePullRequestReviewWebhook env c jsonString =
     bnd (lift (unmarshal (PullRequestReviewWebhook_json env) gh_event_zero jsonString)) (\<lambda>dat.
     if ghe_Action dat \<noteq> ''submitted'' then ret None
     else
       bnd (gh_getSenderAuthor env c (ghe_Sender dat) (ghc_User (ghe_Comment dat))) (\<lambda>(sender, author).
       ret (Some (empty_webhook\<lparr>wh_EventType := EventTypePullRequestReview, wh_Repo := ghe_Repo dat,
         wh_Sender := sender,
         wh_IssueComment := Some \<lparr>ic_Body = ghc_Body (ghe_Comment dat), ic_CreatedAt = ghc_CreatedAt (ghe_Comment dat),
           ic_PullRequest = Some (convertPullRequestToShared (ghe_PullRequest dat)), ic_Author = author,
           ic_ReviewState = ghc_State (ghe_Comment dat)\<rparr>\<rparr>))))"

definition gh_parsePullRequestReviewCommentWebhook :: "env \<Rightarrow> git_conf \<Rightarrow> string \<Rightarrow> webhook option act" where
  "gh_parsePullRequestReviewCommentWebhook env c jsonString =
     bnd (lift (unmarshal (PullRequestReviewCommentWebhook_json env) gh_event_zero jsonString)) (\<lambda>dat.
     if ghe_Action dat \<noteq> ''created'' then ret None
     else
       bnd (gh_getSenderAuthor env c (ghe_Sender dat) (ghc_User (ghe_Comment dat))) (\<lambda>(sender, author).
       ret (Some (empty_webhook\<lparr>wh_EventType := EventTypePullRequestReviewComment, wh_Repo := ghe_Repo dat,
         wh_Sender := sender,
         wh_IssueComment := Some \<lparr>ic_Body = ghc_Body (ghe_Comment dat), ic_CreatedAt = ghc_CreatedAt (ghe_Comment dat),
           ic_PullRequest = Some (convertPullRequestToShared (ghe_PullRequest dat)), ic_Author = author,
           ic_ReviewState = []\<rparr>\<rparr>))))"

definition gh_ParseWebhook :: "env \<Rightarrow> git_conf \<Rightarrow> header \<Rightarrow> string \<Rightarrow> webhook option act" where
  "gh_ParseWebhook env c h jsonString =
     bnd (lift (gh_Validate (GitWebhookSecret c) (Replace1 (header_Get h ''x-hub-signature'') ''sha1='' [])
                  jsonString)) (\<lambda>_.
     let eventType = header_Get h ''x-github-event'' in
     if eventType = EventTypePullRequest then gh_parsePullRequestWebhook env c jsonString
     else if eventType = EventTypePush then gh_parsePushWebhook env c jsonString
     else if eventType = EventTypeIssueComment then gh_parseIssueCommentWebhook env c jsonString
     else if eventType = EventTypePullRequestReview then gh_parsePullRequestReviewWebhook env c jsonString
     else if eventType = EventTypePullRequestReviewComment then
       gh_parsePullRequestReviewCommentWebhook env c jsonString
     else ret None)"

section \<open>Facts\<close>

text \<open>A payload whose signature does not match is rejected before anything is done with it.\<close>

lemma gh_ParseWebhook_rejects:
  assumes "Replace1 (header_Get h ''x-hub-signature'') ''sha1='' [] \<noteq> HashPayload (GitWebhookSecret c) body"
  shows "gh_ParseWebhook env c h body s =
    (Err (Fail ''invalid request : X-Hub-Signature does not match secret''), s)"
  using assms by (simp add: gh_ParseWebhook_def gh_Validate_def IsValidPayload_def bnd_def lift_def)

lemma gh_getSenderAuthor_only_sync: "only_sync.keeps (gh_getSenderAuthor env c u v)"
  unfolding gh_getSenderAuthor_def gh_GetUserInfo_def gh_request_def Let_def
  by (auto intro!: only_sync_intros RequestHTTP_only_sync)

lemma gh_ParseWebhook_only_sync: "only_sync.keeps (gh_ParseWebhook env c h body)"
  unfolding gh_ParseWebhook_def gh_parsePullRequestWebhook_def gh_parsePushWebhook_def
    gh_parseIssueCommentWebhook_def gh_parsePullRequestReviewWebhook_def
    gh_parsePullRequestReviewCommentWebhook_def gh_issue_pull_request_def gh_GetPullRequest_def
    gh_GetUserInfo_def gh_request_def Let_def
  by (auto intro!: only_sync_intros RequestHTTP_only_sync gh_getSenderAuthor_only_sync)

lemma gh_getSenderAuthor_made: "made.keeps http_calls (gh_getSenderAuthor env c u v)"
  unfolding gh_getSenderAuthor_def gh_GetUserInfo_def gh_request_def Let_def
  by (auto intro!: made_intros RequestHTTP_made)

lemma gh_ParseWebhook_made: "made.keeps http_calls (gh_ParseWebhook env c h body)"
  unfolding gh_ParseWebhook_def gh_parsePullRequestWebhook_def gh_parsePushWebhook_def
    gh_parseIssueCommentWebhook_def gh_parsePullRequestReviewWebhook_def
    gh_parsePullRequestReviewCommentWebhook_def gh_issue_pull_request_def gh_GetPullRequest_def
    gh_GetUserInfo_def gh_request_def Let_def
  by (auto intro!: made_intros RequestHTTP_made gh_getSenderAuthor_made)

end
