(* ===== verification/Gitlab.thy ===== *)
theory Gitlab
  imports Github
begin

text \<open>
  \<open>pkg/git/gitlab/gitlab.go\<close> and \<open>gitlab_types.go\<close>: the requests of the GitLab
  client, and \<open>pkg/git/diff.go\<close>, which only this client uses. The parser of unified
  diffs is third-party code, an argument here.
\<close>

section \<open>Changed lines of a diff\<close>

record hunk_stat =
  hs_Added :: int
  hs_Changed :: int
  hs_Deleted :: int

text \<open>\<open>GetChangedLinesFromDiff\<close>; the two parsers answer the statistics of the hunks.\<close>

definition GetChangedLinesFromDiff ::
  "(string \<Rightarrow> hunk_stat list res) \<Rightarrow> (string \<Rightarrow> hunk_stat list list res) \<Rightarrow> string \<Rightarrow> (int \<times> int) res" where
  "GetChangedLinesFromDiff parseHunks parseMultiFile diffString =
     res_bind
       (if HasPrefix diffString ''@@'' then parseHunks diffString
        else res_bind (parseMultiFile diffString) (\<lambda>files. Ok (concat files)))
       (\<lambda>hunks. Ok
          (foldl (\<lambda>n h. n + (hs_Added h + hs_Changed h)) 0 hunks,
           foldl (\<lambda>n h. n + (hs_Deleted h + hs_Changed h)) 0 hunks))"

section \<open>Types of the API\<close>

record gl_merge_request =
  glm_ID :: int
  glm_Title :: string
  glm_State :: string
  glm_AuthorID :: int
  glm_AuthorUserName :: string
  glm_WebURL :: string
  glm_TargetBranch :: string
  glm_SourceBranch :: string
  glm_SHA :: string
  glm_Labels :: "string list"
  glm_HasConflicts :: bool

record gl_tree =
  glt_ID :: string
  glt_Type :: string
  glt_Path :: string

record gl_user_info =
  gli_ID :: int
  gli_UserName :: string
  gli_PublicEmail :: string
  gli_Email :: string

record gl_diff =
  gld_OldPath :: string
  gld_NewPath :: string
  gld_Diff :: string

definition gl_merge_request_json :: "gl_merge_request setter" where
  "gl_merge_request_json = d_struct
     [(''iid'', d_int (\<lambda>v a. a\<lparr>glm_ID := v\<rparr>)),
      (''title'', d_string (\<lambda>v a. a\<lparr>glm_Title := v\<rparr>)),
      (''state'', d_string (\<lambda>v a. a\<lparr>glm_State := v\<rparr>)),
      (''author'', d_struct
         [(''id'', d_int (\<lambda>v a. a\<lparr>glm_AuthorID := v\<rparr>)),
          (''username'', d_string (\<lambda>v a. a\<lparr>glm_AuthorUserName := v\<rparr>))]),
      (''web_url'', d_string (\<lambda>v a. a\<lparr>glm_WebURL := v\<rparr>)),
      (''target_branch'', d_string (\<lambda>v a. a\<lparr>glm_TargetBranch := v\<rparr>)),
      (''source_branch'', d_string (\<lambda>v a. a\<lparr>glm_SourceBranch := v\<rparr>)),
      (''sha'', d_string (\<lambda>v a. a\<lparr>glm_SHA := v\<rparr>)),
      (''labels'', d_list (d_string (\<lambda>v _. v)) [] (\<lambda>v a. a\<lparr>glm_Labels := v\<rparr>)),
      (''has_conflicts'', d_bool (\<lambda>v a. a\<lparr>glm_HasConflicts := v\<rparr>))]"

definition gl_merge_request_zero :: gl_merge_request where
  "gl_merge_request_zero = \<lparr>glm_ID = 0, glm_Title = [], glm_State = [], glm_AuthorID = 0,
     glm_AuthorUserName = [], glm_WebURL = [], glm_TargetBranch = [], glm_SourceBranch = [],
     glm_SHA = [], glm_Labels = [], glm_HasConflicts = False\<rparr>"

definition gl_hook_json :: "webhook_entry setter" where
  "gl_hook_json = d_struct
     [(''id'', d_int (\<lambda>v a. a\<lparr>whe_ID := v\<rparr>)), (''url'', d_string (\<lambda>v a. a\<lparr>whe_URL := v\<rparr>))]"

definition gl_status_json :: "commit_status setter" where
  "gl_status_json = d_struct
     [(''name'', d_string (\<lambda>v a. a\<lparr>cs_Context := v\<rparr>)),
      (''status'', d_string (\<lambda>v a. a\<lparr>cs_State := v\<rparr>)),
      (''description'', d_string (\<lambda>v a. a\<lparr>cs_Description := v\<rparr>)),
      (''target_url'', d_string (\<lambda>v a. a\<lparr>cs_TargetURL := v\<rparr>))]"

definition gl_user_info_json :: "gl_user_info setter" where
  "gl_user_info_json = d_struct
     [(''id'', d_int (\<lambda>v a. a\<lparr>gli_ID := v\<rparr>)),
      (''username'', d_string (\<lambda>v a. a\<lparr>gli_UserName := v\<rparr>)),
      (''public_email'', d_string (\<lambda>v a. a\<lparr>gli_PublicEmail := v\<rparr>)),
      (''email'', d_string (\<lambda>v a. a\<lparr>gli_Email := v\<rparr>))]"

definition gl_user_info_zero :: gl_user_info where
  "gl_user_info_zero = \<lparr>gli_ID = 0, gli_UserName = [], gli_PublicEmail = [], gli_Email = []\<rparr>"

definition gl_tree_json :: "gl_tree setter" where
  "gl_tree_json = d_struct
     [(''id'', d_string (\<lambda>v a. a\<lparr>glt_ID := v\<rparr>)),
      (''type'', d_string (\<lambda>v a. a\<lparr>glt_Type := v\<rparr>)),
      (''path'', d_string (\<lambda>v a. a\<lparr>glt_Path := v\<rparr>))]"

definition gl_tree_zero :: gl_tree where
  "gl_tree_zero = \<lparr>glt_ID = [], glt_Type = [], glt_Path = []\<rparr>"

definition gl_diff_json :: "gl_diff setter" where
  "gl_diff_json = d_struct
     [(''old_path'', d_string (\<lambda>v a. a\<lparr>gld_OldPath := v\<rparr>)),
      (''new_path'', d_string (\<lambda>v a. a\<lparr>gld_NewPath := v\<rparr>)),
      (''diff'', d_string (\<lambda>v a. a\<lparr>gld_Diff := v\<rparr>))]"

definition gl_diff_zero :: gl_diff where
  "gl_diff_zero = \<lparr>gld_OldPath = [], gld_NewPath = [], gld_Diff = []\<rparr>"

definition gl_changes_json :: "gl_diff list setter" where
  "gl_changes_json = d_struct [(''changes'', d_list gl_diff_json gl_diff_zero (\<lambda>v _. v))]"

definition gl_commit_json :: "commit setter" where
  "gl_commit_json = d_struct
     [(''id'', d_string (\<lambda>v a. a\<lparr>cmt_SHA := v\<rparr>)),
      (''message'', d_string (\<lambda>v a. a\<lparr>cmt_Message := v\<rparr>)),
      (''author_name'', d_string (\<lambda>v a. a\<lparr>cmt_Author := (cmt_Author a)\<lparr>usr_Name := v\<rparr>\<rparr>)),
      (''author_email'', d_string (\<lambda>v a. a\<lparr>cmt_Author := (cmt_Author a)\<lparr>usr_Email := v\<rparr>\<rparr>)),
      (''committer_name'', d_string (\<lambda>v a. a\<lparr>cmt_Committer := (cmt_Committer a)\<lparr>usr_Name := v\<rparr>\<rparr>)),
      (''committer_email'', d_string (\<lambda>v a. a\<lparr>cmt_Committer := (cmt_Committer a)\<lparr>usr_Email := v\<rparr>\<rparr>))]"

text \<open>The struct has no tag on its \<open>Commit\<close> field, so its key is the field's name.\<close>

definition gl_branch_json :: "branch setter" where
  "gl_branch_json = d_struct
     [(''name'', d_string (\<lambda>v a. a\<lparr>br_Name := v\<rparr>)),
      (''Commit'', d_nested br_CommitID (\<lambda>v a. a\<lparr>br_CommitID := v\<rparr>)
         (d_struct [(''id'', d_string (\<lambda>v _. v)), (''title'', d_string (\<lambda>_ a. a))]))]"

section \<open>Operations\<close>

definition gl_Init :: "git_conf \<Rightarrow> git_conf" where
  "gl_Init c = c\<lparr>hdr := [(''Content-Type'', ''application/json'')]
     @ (if GitToken c \<noteq> [] then [(''PRIVATE-TOKEN'', GitToken c)] else [])\<rparr>"

definition gl_project_url :: "git_conf \<Rightarrow> string" where
  "gl_project_url c = GitAPIURL c @ ''/api/v4/projects/'' @ QueryEscape (GitRepository c)"

definition gl_request :: "env \<Rightarrow> git_conf \<Rightarrow> string \<Rightarrow> string \<Rightarrow> json option \<Rightarrow> (string \<times> header) act" where
  "gl_request env c method url data = RequestHTTP env method url (hdr c) data"

definition gl_ListWebhook :: "env \<Rightarrow> git_conf \<Rightarrow> webhook_entry list act" where
  "gl_ListWebhook env c =
     GetPaginatedRequest env (gl_project_url c @ ''/hooks'') (hdr c) (unmarshal_list gl_hook_json hook_zero)"

definition gl_registration_body :: "string \<Rightarrow> string \<Rightarrow> string \<Rightarrow> json" where
  "gl_registration_body repo uri secret = JObj
     [(''enable_ssl_verification'', JBool False), (''confidential_issues_events'', JBool True),
      (''confidential_note_events'', JBool True), (''deployment_events'', JBool True),
      (''id'', JStr repo), (''issues_events'', JBool True), (''job_events'', JBool True),
      (''merge_requests_events'', JBool True), (''note_events'', JBool True),
      (''pipeline_events'', JBool True), (''push_events'', JBool True),
      (''tag_push_events'', JBool True), (''wiki_page_events'', JBool True),
      (''url'', JStr uri), (''token'', JStr secret)]"

definition gl_RegisterWebhook :: "env \<Rightarrow> git_conf \<Rightarrow> string \<Rightarrow> unit act" where
  "gl_RegisterWebhook env c uri =
     bnd (gl_request env c ''POST'' (gl_project_url c @ ''/hooks'')
            (Some (gl_registration_body (QueryEscape (GitRepository c)) uri (GitWebhookSecret c))))
       (\<lambda>_. ret ())"

definition gl_DeleteWebhook :: "env \<Rightarrow> git_conf \<Rightarrow> int \<Rightarrow> unit act" where
  "gl_DeleteWebhook env c i =
     bnd (gl_request env c ''DELETE'' (gl_project_url c @ ''/hooks/'' @ Itoa i) None) (\<lambda>_. ret ())"

definition gl_state_in :: "string \<Rightarrow> string" where
  "gl_state_in status =
     (if status = ''running'' then ''pending''
      else if status = ''failed'' \<or> status = ''canceled'' then ''failure''
      else status)"

definition gl_state_out :: "string \<Rightarrow> string" where
  "gl_state_out state =
     (if state = ''pending'' then ''running''
      else if state = ''failure'' \<or> state = ''error'' then ''failed''
      else state)"

definition gl_ListCommitStatuses :: "env \<Rightarrow> git_conf \<Rightarrow> string \<Rightarrow> commit_status list act" where
  "gl_ListCommitStatuses env c ref =
     bnd (GetPaginatedRequest env (gl_project_url c @ ''/repository/commits/'' @ ref @ ''/statuses'') (hdr c)
            (unmarshal_list gl_status_json status_zero))
       (\<lambda>statuses. ret (map (\<lambda>s. s\<lparr>cs_State := gl_state_in (cs_State s)\<rparr>) statuses))"

text \<open>GitLab refuses a transition to the state a commit already has; that error is dropped.\<close>

definition gl_SetCommitStatus :: "env \<Rightarrow> git_conf \<Rightarrow> string \<Rightarrow> commit_status \<Rightarrow> unit act" where
  "gl_SetCommitStatus env c sha status =
     (if sha = FakeSha then ret ()
      else bnd (attempt (gl_request env c ''POST'' (gl_project_url c @ ''/statuses/'' @ sha)
                  (Some (status_body (gl_state_out (cs_State status)) status)))) (\<lambda>r.
           case r of
             Inl e \<Rightarrow> if Contains (ToLower (err_msg e)) ''cannot transition status via'' then ret () else throw e
           | Inr _ \<Rightarrow> ret ()))"

definition gl_GetUserInfo :: "env \<Rightarrow> git_conf \<Rightarrow> string \<Rightarrow> user act" where
  "gl_GetUserInfo env c userID =
     bnd (gl_request env c ''GET'' (GitAPIURL c @ ''/api/v4/users/'' @ userID) None) (\<lambda>(result, _).
     bnd (lift (unmarshal gl_user_info_json gl_user_info_zero result)) (\<lambda>i.
     ret \<lparr>usr_ID = gli_ID i, usr_Name = gli_UserName i,
          usr_Email = (if gli_PublicEmail i = [] then gli_Email i else gli_PublicEmail i)\<rparr>))"

definition gl_CanUserWriteToRepo :: "env \<Rightarrow> git_conf \<Rightarrow> user \<Rightarrow> bool act" where
  "gl_CanUserWriteToRepo env c u =
     bnd (gl_request env c ''GET'' (gl_project_url c @ ''/members/all/'' @ Itoa (usr_ID u)) None)
       (\<lambda>(result, _).
     bnd (lift (unmarshal (d_struct [(''access_level'', d_int (\<lambda>v _. v))]) 0 result)) (\<lambda>level.
     ret (level \<ge> 30)))"

definition gl_issue_path :: "string \<Rightarrow> string res" where
  "gl_issue_path issueType =
     (if issueType = IssueTypeIssue then Ok ''issues''
      else if issueType = IssueTypePullRequest then Ok ''merge_requests''
      else Err (Fail (''issue type '' @ issueType @ '' is not supported'')))"

definition gl_RegisterComment :: "env \<Rightarrow> git_conf \<Rightarrow> string \<Rightarrow> int \<Rightarrow> string \<Rightarrow> unit act" where
  "gl_RegisterComment env c issueType issueNo body =
     bnd (lift (gl_issue_path issueType)) (\<lambda>t.
     bnd (gl_request env c ''POST'' (gl_project_url c @ ''/'' @ t @ ''/'' @ Itoa issueNo @ ''/notes'')
            (Some (JObj [(''body'', JStr body)]))) (\<lambda>_. ret ()))"

definition convertState :: "string \<Rightarrow> string" where
  "convertState original =
     (if original = ''opened'' then PullRequestStateOpen
      else if original = ''closed'' then PullRequestStateClosed
      else original)"

definition gl_pull_request :: "gl_merge_request \<Rightarrow> pull_request" where
  "gl_pull_request mr = empty_pull_request\<lparr>
     pr_ID := glm_ID mr, pr_Title := glm_Title mr, pr_State := convertState (glm_State mr),
     pr_Author := empty_user\<lparr>usr_ID := glm_AuthorID mr, usr_Name := glm_AuthorUserName mr\<rparr>,
     pr_URL := glm_WebURL mr, pr_Base := empty_ref\<lparr>ref_Ref := glm_TargetBranch mr\<rparr>,
     pr_Head := \<lparr>ref_Ref = glm_SourceBranch mr, ref_Sha = glm_SHA mr\<rparr>,
     pr_Labels := glm_Labels mr\<rparr>"

definition gl_ListPullRequests :: "env \<Rightarrow> git_conf \<Rightarrow> bool \<Rightarrow> pull_request list act" where
  "gl_ListPullRequests env c onlyOpen =
     bnd (GetPaginatedRequest env
            (gl_project_url c @ ''/merge_requests?with_merge_status_recheck=true''
             @ (if onlyOpen then ''&state=opened'' else [])) (hdr c)
            (unmarshal_list gl_merge_request_json gl_merge_request_zero))
       (\<lambda>mrs. ret (map gl_pull_request mrs))"

definition gl_GetBranch :: "env \<Rightarrow> git_conf \<Rightarrow> string \<Rightarrow> branch act" where
  "gl_GetBranch env c b =
     bnd (gl_request env c ''GET'' (gl_project_url c @ ''/repository/branches/'' @ b) None) (\<lambda>(raw, _).
     lift (unmarshal gl_branch_json branch_zero raw))"

definition gl_GetPullRequest :: "env \<Rightarrow> git_conf \<Rightarrow> int \<Rightarrow> pull_request act" where
  "gl_GetPullRequest env c i =
     bnd (gl_request env c ''GET'' (gl_project_url c @ ''/merge_requests/'' @ Itoa i) None) (\<lambda>(raw, _).
     bnd (lift (unmarshal gl_merge_request_json gl_merge_request_zero raw)) (\<lambda>mr.
     bnd (gl_GetBranch env c (glm_TargetBranch mr)) (\<lambda>targetBranch.
     ret ((gl_pull_request mr)\<lparr>
       pr_Base := \<lparr>ref_Ref = glm_TargetBranch mr, ref_Sha = br_CommitID targetBranch\<rparr>,
       pr_Mergeable := \<not> glm_HasConflicts mr\<rparr>))))"

definition gl_merge_body :: "string \<Rightarrow> string \<Rightarrow> string \<Rightarrow> json" where
  "gl_merge_body sha method msg =
     JObj (omitempty ''merge_commit_message'' (if method = MergeMethodSquash then [] else msg)
           @ omitempty ''squash_commit_message'' (if method = MergeMethodSquash then msg else [])
           @ [(''squash'', JBool (method = MergeMethodSquash)), (''sha'', JStr sha),
              (''should_remove_source_branch'', JBool False)])"

definition gl_MergePullRequest :: "env \<Rightarrow> git_conf \<Rightarrow> int \<Rightarrow> string \<Rightarrow> string \<Rightarrow> string \<Rightarrow> unit act" where
  "gl_MergePullRequest env c i sha method msg =
     bnd (gl_request env c ''PUT'' (gl_project_url c @ ''/merge_requests/'' @ Itoa i @ ''/merge'')
            (Some (gl_merge_body sha method msg))) (\<lambda>_. ret ())"

fun gl_changes ::
  "(string \<Rightarrow> hunk_stat list res) \<Rightarrow> (string \<Rightarrow> hunk_stat list list res) \<Rightarrow> gl_diff list \<Rightarrow> change list res" where
  "gl_changes ph pm [] = Ok []"
| "gl_changes ph pm (d # ds) =
     res_bind (GetChangedLinesFromDiff ph pm (gld_Diff d)) (\<lambda>(additions, deletions).
     res_bind (gl_changes ph pm ds) (\<lambda>cs.
     Ok (\<lparr>chg_Filename = gld_NewPath d, chg_OldFilename = gld_OldPath d,
          chg_Additions = additions, chg_Deletions = deletions,
          chg_Changes = additions + deletions\<rparr> # cs)))"

definition gl_GetPullRequestDiff ::
  "(string \<Rightarrow> hunk_stat list res) \<Rightarrow> (string \<Rightarrow> hunk_stat list list res) \<Rightarrow> env \<Rightarrow> git_conf \<Rightarrow> int \<Rightarrow> change list act" where
  "gl_GetPullRequestDiff ph pm env c i =
     bnd (gl_request env c ''GET'' (gl_project_url c @ ''/merge_requests/'' @ Itoa i @ ''/changes'') None)
       (\<lambda>(result, _).
     bnd (lift (unmarshal gl_changes_json [] result)) (\<lambda>ds.
     lift (gl_changes ph pm ds)))"

definition gl_ListPullRequestCommits :: "env \<Rightarrow> git_conf \<Rightarrow> int \<Rightarrow> commit list act" where
  "gl_ListPullRequestCommits env c i =
     bnd (gl_request env c ''GET'' (gl_project_url c @ ''/merge_requests/'' @ Itoa i @ ''/commits'') None)
       (\<lambda>(result, _).
     lift (unmarshal_list gl_commit_json commit_zero result))"

definition gl_label_body :: "string \<Rightarrow> string \<Rightarrow> json" where
  "gl_label_body add remove = JObj [(''add_labels'', JStr add), (''remove_labels'', JStr remove)]"

definition gl_SetLabel :: "env \<Rightarrow> git_conf \<Rightarrow> string \<Rightarrow> int \<Rightarrow> string \<Rightarrow> unit act" where
  "gl_SetLabel env c issueType i label =
     bnd (lift (gl_issue_path issueType)) (\<lambda>t.
     bnd (gl_request env c ''PUT'' (gl_project_url c @ ''/'' @ t @ ''/'' @ Itoa i)
            (Some (gl_label_body label []))) (\<lambda>_. ret ()))"

definition gl_DeleteLabel :: "env \<Rightarrow> git_conf \<Rightarrow> string \<Rightarrow> int \<Rightarrow> string \<Rightarrow> unit act" where
  "gl_DeleteLabel env c issueType i label =
     bnd (lift (gl_issue_path issueType)) (\<lambda>t.
     bnd (gl_request env c ''PUT'' (gl_project_url c @ ''/'' @ t @ ''/'' @ Itoa i)
            (Some (gl_label_body [] label))) (\<lambda>_. ret ()))"

fun gl_manifest_infos :: "env \<Rightarrow> nat \<Rightarrow> git_conf \<Rightarrow> string \<Rightarrow> string \<Rightarrow> string list \<Rightarrow> string list act" where
  "gl_manifest_infos env 0 c path revision infos = diverge"
| "gl_manifest_infos env (Suc n) c path revision infos =
     bnd (gl_request env c ''GET''
            (gl_project_url c @ ''/repository/tree?path='' @ path @ ''&ref='' @ revision) None) (\<lambda>(raw, _).
     bnd (lift (unmarshal_list gl_tree_json gl_tree_zero raw)) (\<lambda>repos.
     fold_each repos
       (\<lambda>repo infos.
          if glt_Type repo = ''blob'' then ret (infos @ [glt_ID repo])
          else if glt_Type repo = ''tree'' then
            gl_manifest_infos env n c (glt_Path repo) revision infos
          else ret infos)
       infos))"

definition gl_GetManifestInfos :: "env \<Rightarrow> git_conf \<Rightarrow> string \<Rightarrow> string \<Rightarrow> string list \<Rightarrow> string list act" where
  "gl_GetManifestInfos env c path revision infos =
     gl_manifest_infos env (e_fuel env) c path revision infos"

definition gl_ObjectFromManifest :: "env \<Rightarrow> git_conf \<Rightarrow> string \<Rightarrow> string \<Rightarrow> unst list act" where
  "gl_ObjectFromManifest env c info ns =
     bnd (gl_request env c ''GET'' (gl_project_url c @ ''/repository/blobs/'' @ info @ ''/raw'') None)
       (\<lambda>(raw, _).
     lift (manifest_objects env ns (SplitMultipleObjectsYAML raw)))"

definition gl_Validate :: "string \<Rightarrow> string \<Rightarrow> unit res" where
  "gl_Validate secret headerToken =
     (if secret \<noteq> headerToken then Err (Fail ''invalid request : X-Gitlab-Token does not match secret'')
      else Ok ())"

end
