(* ===== verification/WebhookGitlab.thy ===== *)
theory WebhookGitlab
  imports Gitlab Hmac
begin

text \<open>
  \<open>ParseWebhook\<close> of \<open>pkg/git/gitlab/gitlab.go\<close> with \<open>parser.go\<close>, \<open>time.go\<close> and the
  payload types of \<open>webhook.go\<close>: the check of the token and the conversion of a
  GitLab event to the common \<open>webhook\<close>.
\<close>

section \<open>Time stamps\<close>

text \<open>
  \<open>time.Parse("2006-01-02 15:04:05 MST", s)\<close>. The result lists year, month, day,
  hour, minute, second and nanosecond; the zone is checked but does not move the
  instant, since Go gives an abbreviation it does not know the offset zero (the
  process runs in UTC). Each reader answers its value and the rest of the input.
\<close>

definition is_digit_at :: "string \<Rightarrow> nat \<Rightarrow> bool" where
  "is_digit_at s i \<longleftrightarrow> i < length s \<and> ascii_digit (s ! i)"

definition read_digits :: "nat \<Rightarrow> string \<Rightarrow> (nat \<times> string) option" where
  "read_digits n s = (if n \<le> length s \<and> list_all ascii_digit (take n s)
                      then Some (digits_val (take n s), drop n s) else None)"

definition getnum :: "string \<Rightarrow> (nat \<times> string) option" where
  "getnum s = (if \<not> is_digit_at s 0 then None
               else if \<not> is_digit_at s 1 then read_digits 1 s else read_digits 2 s)"

definition in_range :: "nat \<Rightarrow> nat \<Rightarrow> (nat \<times> string) option \<Rightarrow> (nat \<times> string) option" where
  "in_range lo hi r = (case r of Some (v, s) \<Rightarrow> if lo \<le> v \<and> v \<le> hi then r else None | None \<Rightarrow> None)"

definition skip_char :: "char \<Rightarrow> string \<Rightarrow> string option" where
  "skip_char c s = (if s \<noteq> [] \<and> hd s = c then Some (tl s) else None)"

text \<open>A space of the layout stands for any number of spaces, or for the end.\<close>

definition skip_space :: "string \<Rightarrow> string option" where
  "skip_space s = (if s \<noteq> [] \<and> hd s \<noteq> CHR '' '' then None else Some (dropWhile (\<lambda>c. c = CHR '' '') s))"

definition fraction :: "string \<Rightarrow> nat \<times> string" where
  "fraction s =
     (if 2 \<le> length s \<and> (hd s = CHR ''.'' \<or> hd s = CHR '','') \<and> is_digit_at s 1 then
        (let ds = takeWhile ascii_digit (tl s); used = take 9 ds
         in (digits_val used * 10 ^ (9 - length used), drop (length ds) (tl s)))
      else (0, s))"

definition signed_offset :: "string \<Rightarrow> nat" where
  "signed_offset s =
     (if s \<noteq> [] \<and> (hd s = CHR ''+'' \<or> hd s = CHR ''-'') then
        (let ds = takeWhile ascii_digit (tl s)
         in if ds = [] \<or> digits_val ds > 23 then 0 else 1 + length ds)
      else 0)"

definition parseTimeZone :: "string \<Rightarrow> nat option" where
  "parseTimeZone s =
     (if length s < 3 then None
      else if 4 \<le> length s \<and> (take 4 s = ''ChST'' \<or> take 4 s = ''MeST'') then Some 4
      else if take 3 s = ''GMT'' then Some (3 + signed_offset (drop 3 s))
      else if hd s = CHR ''+'' \<or> hd s = CHR ''-'' then
        (if signed_offset s > 0 then Some (signed_offset s) else None)
      else
        (let nUpper = length (takeWhile ascii_upper (take 6 s))
         in if nUpper = 5 \<and> s ! 4 = CHR ''T'' then Some 5
            else if nUpper = 4 \<and> (s ! 3 = CHR ''T'' \<or> take 4 s = ''WITA'') then Some 4
            else if nUpper = 3 then Some 3 else None))"

definition zone_rest :: "string \<Rightarrow> string option" where
  "zone_rest s = (if HasPrefix s ''UTC'' then Some (drop 3 s)
                  else map_option (\<lambda>n. drop n s) (parseTimeZone s))"

definition leap_year :: "nat \<Rightarrow> bool" where
  "leap_year y \<longleftrightarrow> y mod 4 = 0 \<and> (y mod 100 \<noteq> 0 \<or> y mod 400 = 0)"

definition days_in :: "nat \<Rightarrow> nat \<Rightarrow> nat" where
  "days_in m y = (if m = 2 then (if leap_year y then 29 else 28)
                  else if m \<in> {4, 6, 9, 11} then 30 else 31)"

definition parse_time :: "string \<Rightarrow> nat list option" where
  "parse_time s0 =
     Option.bind (read_digits 4 s0) (\<lambda>(y, s1).
     Option.bind (skip_char (CHR ''-'') s1) (\<lambda>s2.
     Option.bind (in_range 1 12 (read_digits 2 s2)) (\<lambda>(mo, s3).
     Option.bind (skip_char (CHR ''-'') s3) (\<lambda>s4.
     Option.bind (read_digits 2 s4) (\<lambda>(d, s5).
     Option.bind (skip_space s5) (\<lambda>s6.
     Option.bind (in_range 0 23 (getnum s6)) (\<lambda>(h, s7).
     Option.bind (skip_char (CHR '':'') s7) (\<lambda>s8.
     Option.bind (in_range 0 59 (read_digits 2 s8)) (\<lambda>(mi, s9).
     Option.bind (skip_char (CHR '':'') s9) (\<lambda>s10.
     Option.bind (in_range 0 59 (read_digits 2 s10)) (\<lambda>(se, s11).
     (case fraction s11 of (ns, s12) \<Rightarrow>
     Option.bind (skip_space s12) (\<lambda>s13.
     Option.bind (zone_rest s13) (\<lambda>s14.
     if s14 = [] \<and> 1 \<le> d \<and> d \<le> days_in mo y then Some [y, mo, d, h, mi, se, ns] else None))))))))))))))"

text \<open>\<open>gitlabTime.UnmarshalJSON\<close>; the zero time has no fields here.\<close>

record gl_time =
  glt_Fields :: "nat list"
  glt_Text :: string

definition gl_time_zero :: gl_time where
  "gl_time_zero = \<lparr>glt_Fields = [], glt_Text = []\<rparr>"

fun d_gl_time :: "gl_time setter" where
  "d_gl_time JNull a = Some gl_time_zero"
| "d_gl_time (JStr s) a = map_option (\<lambda>fs. \<lparr>glt_Fields = fs, glt_Text = s\<rparr>) (parse_time s)"
| "d_gl_time _ a = None"

section \<open>Payloads\<close>

record gl_user =
  glu_ID :: int
  glu_Name :: string
  glu_Email :: string

record gl_merge_event =
  gle_User :: gl_user
  gle_AuthorID :: int
  gle_Title :: string
  gle_ID :: int
  gle_BaseRef :: string
  gle_HeadRef :: string
  gle_LastCommit :: string
  gle_State :: string
  gle_Action :: string
  gle_OldRev :: string
  gle_Project :: repository
  gle_Labels :: "string list"
  gle_Changes :: "(string list \<times> string list) option"

record gl_push_event =
  glp_Ref :: string
  glp_Project :: repository
  glp_UserName :: string
  glp_UserID :: int
  glp_Sha :: string

record gl_note_event =
  gln_User :: gl_user
  gln_Project :: repository
  gln_Note :: string
  gln_AuthorID :: int
  gln_CreatedAt :: gl_time
  gln_UpdatedAt :: gl_time
  gln_ID :: int
  gln_Title :: string
  gln_State :: string
  gln_URL :: string
  gln_MRAuthorID :: int
  gln_SourceBranch :: string
  gln_TargetBranch :: string
  gln_LastCommit :: string

definition repo_zero :: repository where
  "repo_zero = \<lparr>repo_Name = [], repo_URL = []\<rparr>"

definition gl_user_zero :: gl_user where
  "gl_user_zero = \<lparr>glu_ID = 0, glu_Name = [], glu_Email = []\<rparr>"

definition gl_merge_event_zero :: gl_merge_event where
  "gl_merge_event_zero = \<lparr>gle_User = gl_user_zero, gle_AuthorID = 0, gle_Title = [], gle_ID = 0, gle_BaseRef = [],
     gle_HeadRef = [], gle_LastCommit = [], gle_State = [], gle_Action = [], gle_OldRev = [],
     gle_Project = repo_zero, gle_Labels = [], gle_Changes = None\<rparr>"

definition gl_push_event_zero :: gl_push_event where
  "gl_push_event_zero = \<lparr>glp_Ref = [], glp_Project = repo_zero, glp_UserName = [], glp_UserID = 0, glp_Sha = []\<rparr>"

definition gl_note_event_zero :: gl_note_event where
  "gl_note_event_zero = \<lparr>gln_User = gl_user_zero, gln_Project = repo_zero, gln_Note = [], gln_AuthorID = 0,
     gln_CreatedAt = gl_time_zero, gln_UpdatedAt = gl_time_zero, gln_ID = 0, gln_Title = [], gln_State = [],
     gln_URL = [], gln_MRAuthorID = 0, gln_SourceBranch = [], gln_TargetBranch = [], gln_LastCommit = []\<rparr>"

definition gl_user_json :: "gl_user setter" where
  "gl_user_json = d_struct
     [(''id'', d_int (\<lambda>v a. a\<lparr>glu_ID := v\<rparr>)), (''name'', d_string (\<lambda>v a. a\<lparr>glu_Name := v\<rparr>)),
      (''email'', d_string (\<lambda>v a. a\<lparr>glu_Email := v\<rparr>))]"

definition gl_project_json :: "repository setter" where
  "gl_project_json = d_struct
     [(''path_with_namespace'', d_string (\<lambda>v a. a\<lparr>repo_Name := v\<rparr>)),
      (''web_url'', d_string (\<lambda>v a. a\<lparr>repo_URL := v\<rparr>))]"

definition gl_label_json :: "string setter" where
  "gl_label_json = d_struct [(''title'', d_string (\<lambda>v _. v))]"

definition gl_label_change_json :: "(string list \<times> string list) setter" where
  "gl_label_change_json = d_struct
     [(''previous'', d_list gl_label_json [] (\<lambda>v a. (v, snd a))),
      (''current'', d_list gl_label_json [] (\<lambda>v a. (fst a, v)))]"

definition gl_object_json :: "gl_merge_event setter" where
  "gl_object_json = d_struct
     [(''author_id'', d_int (\<lambda>v a. a\<lparr>gle_AuthorID := v\<rparr>)), (''title'', d_string (\<lambda>v a. a\<lparr>gle_Title := v\<rparr>)),
      (''iid'', d_int (\<lambda>v a. a\<lparr>gle_ID := v\<rparr>)), (''target_branch'', d_string (\<lambda>v a. a\<lparr>gle_BaseRef := v\<rparr>)),
      (''source_branch'', d_string (\<lambda>v a. a\<lparr>gle_HeadRef := v\<rparr>)),
      (''last_commit'', d_struct [(''id'', d_string (\<lambda>v a. a\<lparr>gle_LastCommit := v\<rparr>))]),
      (''state'', d_string (\<lambda>v a. a\<lparr>gle_State := v\<rparr>)), (''action'', d_string (\<lambda>v a. a\<lparr>gle_Action := v\<rparr>)),
      (''oldrev'', d_string (\<lambda>v a. a\<lparr>gle_OldRev := v\<rparr>))]"

definition MergeRequestWebhook_json :: "gl_merge_event setter" where
  "MergeRequestWebhook_json = d_struct
     [(''kind'', d_string (\<lambda>_ a. a)), (''user'', d_nested gle_User (\<lambda>v a. a\<lparr>gle_User := v\<rparr>) gl_user_json),
      (''object_attributes'', gl_object_json),
      (''project'', d_nested gle_Project (\<lambda>v a. a\<lparr>gle_Project := v\<rparr>) gl_project_json),
      (''labels'', d_list gl_label_json [] (\<lambda>v a. a\<lparr>gle_Labels := v\<rparr>)),
      (''changes'', d_struct [(''labels'', d_ptr gl_label_change_json ([], []) (\<lambda>v a. a\<lparr>gle_Changes := v\<rparr>))])]"

definition gl_PushWebhook_json :: "gl_push_event setter" where
  "gl_PushWebhook_json = d_struct
     [(''object_kind'', d_string (\<lambda>_ a. a)), (''ref'', d_string (\<lambda>v a. a\<lparr>glp_Ref := v\<rparr>)),
      (''project'', d_nested glp_Project (\<lambda>v a. a\<lparr>glp_Project := v\<rparr>) gl_project_json),
      (''user_name'', d_string (\<lambda>v a. a\<lparr>glp_UserName := v\<rparr>)), (''user_id'', d_int (\<lambda>v a. a\<lparr>glp_UserID := v\<rparr>)),
      (''after'', d_string (\<lambda>v a. a\<lparr>glp_Sha := v\<rparr>))]"

definition NoteHook_json :: "gl_note_event setter" where
  "NoteHook_json = d_struct
     [(''user'', d_nested gln_User (\<lambda>v a. a\<lparr>gln_User := v\<rparr>) gl_user_json),
      (''project'', d_nested gln_Project (\<lambda>v a. a\<lparr>gln_Project := v\<rparr>) gl_project_json),
      (''object_attributes'', d_struct
         [(''note'', d_string (\<lambda>v a. a\<lparr>gln_Note := v\<rparr>)), (''author_id'', d_int (\<lambda>v a. a\<lparr>gln_AuthorID := v\<rparr>)),
          (''created_at'', d_nested gln_CreatedAt (\<lambda>v a. a\<lparr>gln_CreatedAt := v\<rparr>) d_gl_time),
          (''updated_at'', d_nested gln_UpdatedAt (\<lambda>v a. a\<lparr>gln_UpdatedAt := v\<rparr>) d_gl_time)]),
      (''merge_request'', d_struct
         [(''iid'', d_int (\<lambda>v a. a\<lparr>gln_ID := v\<rparr>)), (''title'', d_string (\<lambda>v a. a\<lparr>gln_Title := v\<rparr>)),
          (''state'', d_string (\<lambda>v a. a\<lparr>gln_State := v\<rparr>)), (''url'', d_string (\<lambda>v a. a\<lparr>gln_URL := v\<rparr>)),
          (''author_id'', d_int (\<lambda>v a. a\<lparr>gln_MRAuthorID := v\<rparr>)),
          (''source_branch'', d_string (\<lambda>v a. a\<lparr>gln_SourceBranch := v\<rparr>)),
          (''target_branch'', d_string (\<lambda>v a. a\<lparr>gln_TargetBranch := v\<rparr>)),
          (''last_commit'', d_struct [(''id'', d_string (\<lambda>v a. a\<lparr>gln_LastCommit := v\<rparr>))])])]"

section \<open>Parsers\<close>

definition gl_sender :: "gl_user \<Rightarrow> user" where
  "gl_sender u = \<lparr>usr_ID = glu_ID u, usr_Name = glu_Name u, usr_Email = glu_Email u\<rparr>"

definition gl_getSenderAuthor :: "env \<Rightarrow> git_conf \<Rightarrow> gl_user \<Rightarrow> int \<Rightarrow> (user \<times> user) act" where
  "gl_getSenderAuthor env c senderPre authorID =
     (let sender = gl_sender senderPre in
      if usr_ID sender = authorID then ret (sender, sender)
      else bnd (gl_GetUserInfo env c (Itoa authorID)) (\<lambda>author. ret (sender, author)))"

text \<open>\<open>diffLabels\<close>: the maps are only asked for membership of a title.\<close>

definition diffLabels :: "string list \<Rightarrow> string list \<Rightarrow> string list \<times> bool" where
  "diffLabels prev cur =
     (let removed = filter (\<lambda>l. l \<notin> set cur) prev; added = filter (\<lambda>l. l \<notin> set prev) cur
      in (removed @ added, added \<noteq> []))"

definition gl_state :: "string \<Rightarrow> string" where
  "gl_state st = (if st = ''opened'' then PullRequestStateOpen
                  else if st = ''closed'' then PullRequestStateClosed else st)"

text \<open>The author of a merge request, with a fallback when the server does not tell.\<close>

definition gl_mr_author :: "env \<Rightarrow> git_conf \<Rightarrow> int \<Rightarrow> user act" where
  "gl_mr_author env c authorID =
     bnd (attempt (gl_GetUserInfo env c (Itoa authorID))) (\<lambda>r.
     ret (case r of Inl _ \<Rightarrow> empty_user\<lparr>usr_ID := authorID\<rparr> | Inr u \<Rightarrow> u))"

definition gl_parsePullRequestReviewWebhook :: "env \<Rightarrow> git_conf \<Rightarrow> gl_merge_event \<Rightarrow> webhook option act" where
  "gl_parsePullRequestReviewWebhook env c dat =
     (let sender = gl_sender (gle_User dat) in
      bnd (gl_mr_author env c (gle_AuthorID dat)) (\<lambda>mrAuthor.
      bnd (gl_GetBranch env c (gle_BaseRef dat)) (\<lambda>baseBranch.
      let reviewState = (if gle_Action dat = ''approved'' then PullRequestReviewStateApproved
                         else if gle_Action dat = ''unapproved'' then PullRequestReviewStateUnapproved
                         else gle_Action dat)
      in ret (Some (empty_webhook\<lparr>wh_EventType := EventTypePullRequestReview, wh_Repo := gle_Project dat,
           wh_Sender := sender,
           wh_IssueComment := Some \<lparr>ic_Body = [], ic_CreatedAt = None,
             ic_PullRequest = Some (empty_pull_request\<lparr>
               pr_ID := gle_ID dat, pr_Title := gle_Title dat, pr_Author := mrAuthor,
               pr_URL := repo_URL (gle_Project dat),
               pr_Base := \<lparr>ref_Ref = gle_BaseRef dat, ref_Sha = br_CommitID baseBranch\<rparr>,
               pr_Head := \<lparr>ref_Ref = gle_HeadRef dat, ref_Sha = gle_LastCommit dat\<rparr>,
               pr_State := gl_state (gle_State dat)\<rparr>),
             ic_Author = sender, ic_ReviewState = reviewState\<rparr>\<rparr>)))))"

text \<open>The action and the changed labels of a merge request event (the \<open>switch\<close> of the parser).\<close>

definition gl_action :: "gl_merge_event \<Rightarrow> string \<times> string list" where
  "gl_action dat =
     (let action = gle_Action dat in
      if action = ''close'' then (PullRequestActionClose, [])
      else if action = ''open'' then (PullRequestActionOpen, [])
      else if action = ''reopen'' then (PullRequestActionReOpen, [])
      else if action = ''update'' then
        (if gle_OldRev dat \<noteq> [] then (PullRequestActionSynchronize, [])
         else (case gle_Changes dat of
                 None \<Rightarrow> (action, [])
               | Some (prev, cur) \<Rightarrow>
                   (case diffLabels prev cur of (changed, isUnlabeled) \<Rightarrow>
                      (if isUnlabeled then PullRequestActionUnlabeled else PullRequestActionLabeled, changed))))
      else (action, []))"

definition gl_parsePullRequestWebhook :: "env \<Rightarrow> git_conf \<Rightarrow> string \<Rightarrow> webhook option act" where
  "gl_parsePullRequestWebhook env c jsonString =
     bnd (lift (unmarshal MergeRequestWebhook_json gl_merge_event_zero jsonString)) (\<lambda>dat.
     bnd (gl_getSenderAuthor env c (gle_User dat) (gle_AuthorID dat)) (\<lambda>(sender, author).
     if gle_Action dat = ''approved'' \<or> gle_Action dat = ''unapproved'' then
       gl_parsePullRequestReviewWebhook env c dat
     else
       bnd (gl_GetBranch env c (gle_BaseRef dat)) (\<lambda>baseBranch.
       case gl_action dat of (action, changed) \<Rightarrow>
       ret (Some (empty_webhook\<lparr>wh_EventType := EventTypePullRequest, wh_Repo := gle_Project dat, wh_Sender := sender,
         wh_PullRequest := Some (empty_pull_request\<lparr>
           pr_ID := gle_ID dat, pr_Title := gle_Title dat, pr_URL := repo_URL (gle_Project dat),
           pr_Author := author,
           pr_Base := \<lparr>ref_Ref = gle_BaseRef dat, ref_Sha = br_CommitID baseBranch\<rparr>,
           pr_Head := \<lparr>ref_Ref = gle_HeadRef dat, ref_Sha = gle_LastCommit dat\<rparr>,
           pr_Action := action, pr_LabelChanged := changed, pr_State := gl_state (gle_State dat),
           pr_Labels := gle_Labels dat\<rparr>)\<rparr>)))))"

definition gl_parsePushWebhook :: "env \<Rightarrow> git_conf \<Rightarrow> string \<Rightarrow> webhook option act" where
  "gl_parsePushWebhook env c jsonString =
     bnd (lift (unmarshal gl_PushWebhook_json gl_push_event_zero jsonString)) (\<lambda>dat.
     if null_sha (glp_Sha dat) then ret None
     else
       bnd (attempt (gl_GetUserInfo env c (Itoa (glp_UserID dat)))) (\<lambda>r.
       ret (Some (empty_webhook\<lparr>wh_EventType := EventTypePush, wh_Repo := glp_Project dat,
         wh_Sender := \<lparr>usr_ID = glp_UserID dat, usr_Name = glp_UserName dat,
                        usr_Email = (case r of Inl _ \<Rightarrow> [] | Inr u \<Rightarrow> usr_Email u)\<rparr>,
         wh_Push := Some \<lparr>push_Ref = glp_Ref dat, push_Sha = glp_Sha dat\<rparr>\<rparr>))))"

definition gl_note_pull_request :: "env \<Rightarrow> git_conf \<Rightarrow> gl_note_event \<Rightarrow> pull_request option act" where
  "gl_note_pull_request env c dat =
     (if gln_TargetBranch dat \<noteq> [] then
        bnd (gl_mr_author env c (gln_MRAuthorID dat)) (\<lambda>mrAuthor.
        bnd (gl_GetBranch env c (gln_TargetBranch dat)) (\<lambda>baseBranch.
        ret (Some (empty_pull_request\<lparr>
          pr_ID := gln_ID dat, pr_Title := gln_Title dat, pr_State := gl_state (gln_State dat),
          pr_Author := mrAuthor, pr_URL := gln_URL dat,
          pr_Base := \<lparr>ref_Ref = gln_TargetBranch dat, ref_Sha = br_CommitID baseBranch\<rparr>,
          pr_Head := \<lparr>ref_Ref = gln_SourceBranch dat, ref_Sha = gln_LastCommit dat\<rparr>\<rparr>))))
      else ret None)"

definition gl_parseIssueComment :: "env \<Rightarrow> git_conf \<Rightarrow> string \<Rightarrow> webhook option act" where
  "gl_parseIssueComment env c jsonString =
     bnd (lift (unmarshal NoteHook_json gl_note_event_zero jsonString)) (\<lambda>dat.
     if glt_Fields (gln_CreatedAt dat) \<noteq> glt_Fields (gln_UpdatedAt dat) then ret None
     else
       bnd (gl_getSenderAuthor env c (gln_User dat) (gln_AuthorID dat)) (\<lambda>(sender, author).
       bnd (gl_note_pull_request env c dat) (\<lambda>pr.
       ret (Some (empty_webhook\<lparr>wh_EventType := EventTypeIssueComment, wh_Repo := gln_Project dat,
         wh_Sender := sender,
         wh_IssueComment := Some \<lparr>ic_Body = gln_Note dat, ic_CreatedAt = Some (glt_Text (gln_CreatedAt dat)),
           ic_PullRequest = pr, ic_Author = author, ic_ReviewState = []\<rparr>\<rparr>)))))"

definition gl_ParseWebhook :: "env \<Rightarrow> git_conf \<Rightarrow> header \<Rightarrow> string \<Rightarrow> webhook option act" where
  "gl_ParseWebhook env c h jsonString =
     bnd (lift (gl_Validate (GitWebhookSecret c) (header_Get h ''x-gitlab-token''))) (\<lambda>_.
     let eventFromHeader = header_Get h ''x-gitlab-event'' in
     if eventFromHeader = ''Merge Request Hook'' then gl_parsePullRequestWebhook env c jsonString
     else if eventFromHeader = ''Push Hook'' \<or> eventFromHeader = ''Tag Push Hook'' then
       gl_parsePushWebhook env c jsonString
     else if eventFromHeader = ''Note Hook'' then gl_parseIssueComment env c jsonString
     else ret None)"

section \<open>Facts\<close>

lemma gl_ParseWebhook_rejects:
  assumes "header_Get h ''x-gitlab-token'' \<noteq> GitWebhookSecret c"
  shows "gl_ParseWebhook env c h body s =
    (Err (Fail ''invalid request : X-Gitlab-Token does not match secret''), s)"
  using assms by (auto simp: gl_ParseWebhook_def gl_Validate_def bnd_def lift_def)

lemma gl_users_only_sync: "only_sync.keeps (gl_GetUserInfo env c i)" "only_sync.keeps (gl_GetBranch env c b)"
  unfolding gl_GetUserInfo_def gl_GetBranch_def gl_request_def
  by (auto intro!: only_sync_intros RequestHTTP_only_sync)

lemma gl_users_made: "made.keeps http_calls (gl_GetUserInfo env c i)" "made.keeps http_calls (gl_GetBranch env c b)"
  unfolding gl_GetUserInfo_def gl_GetBranch_def gl_request_def
  by (auto intro!: made_intros RequestHTTP_made)

lemma gl_getSenderAuthor_only_sync: "only_sync.keeps (gl_getSenderAuthor env c u v)"
  unfolding gl_getSenderAuthor_def Let_def by (auto intro!: only_sync_intros gl_users_only_sync)

lemma gl_getSenderAuthor_made: "made.keeps http_calls (gl_getSenderAuthor env c u v)"
  unfolding gl_getSenderAuthor_def Let_def by (auto intro!: made_intros gl_users_made)

lemmas gl_parsers =
  gl_ParseWebhook_def gl_parsePullRequestWebhook_def gl_parsePullRequestReviewWebhook_def
  gl_parsePushWebhook_def gl_parseIssueComment_def gl_note_pull_request_def gl_mr_author_def

lemma gl_ParseWebhook_only_sync: "only_sync.keeps (gl_ParseWebhook env c h body)"
  unfolding gl_parsers Let_def
  by (auto intro!: only_sync_intros gl_users_only_sync gl_getSenderAuthor_only_sync split: prod.splits)

lemma gl_ParseWebhook_made: "made.keeps http_calls (gl_ParseWebhook env c h body)"
  unfolding gl_parsers Let_def
  by (auto intro!: made_intros gl_users_made gl_getSenderAuthor_made split: prod.splits)

end
