(* ===== verification/GitFake.thy ===== *)
theory GitFake
  imports GitHttp "HOL-Library.AList"
begin

text \<open>
  \<open>pkg/git/fake\<close>: the in-memory Git server, which the program falls back to for a
  repository that is neither on github.com nor on gitlab.com. Its package
  variables \<open>Users\<close>, \<open>Repos\<close> and \<open>Branches\<close> are the field \<open>fake\<close> of the state. The
  second part states what the controller relies on in a webhook registry as a
  locale and shows that this server provides it.
\<close>

section \<open>Access to a repository\<close>

text \<open>
  Every operation first looks the repository up. \<open>with_repo\<close> is that prefix: the
  body works on the repository and stores it back (the map holds pointers).
\<close>

definition with_repo :: "string \<Rightarrow> (call list \<Rightarrow> fake_repo \<Rightarrow> 'a res \<times> fake_repo) \<Rightarrow> 'a act" where
  "with_repo name body = (\<lambda>s.
     case fk_Repos (fake s) of
       None \<Rightarrow> (Err (Fail ''repos not initialized''), s)
     | Some repos \<Rightarrow>
         (case repos name of
            None \<Rightarrow> (Err (Fail ''404 no such repository''), s)
          | Some r \<Rightarrow>
              (case body (hist s) r of (v, r') \<Rightarrow>
                 (v, s\<lparr>fake := (fake s)\<lparr>fk_Repos := Some (repos(name \<mapsto> r'))\<rparr>\<rparr>))))"

definition map_append :: "('k \<rightharpoonup> 'v list) \<Rightarrow> 'k \<Rightarrow> 'v \<Rightarrow> ('k \<rightharpoonup> 'v list)" where
  "map_append m k v = m(k \<mapsto> (case m k of None \<Rightarrow> [] | Some vs \<Rightarrow> vs) @ [v])"

section \<open>Operations\<close>

definition fk_ListWebhook :: "env \<Rightarrow> string \<Rightarrow> webhook_entry list act" where
  "fk_ListWebhook env name = with_repo name (\<lambda>h r.
     (Ok (range_order env h (case fk_Webhooks r of None \<Rightarrow> [] | Some ws \<Rightarrow> map snd ws)), r))"

definition fk_RegisterWebhook :: "env \<Rightarrow> string \<Rightarrow> string \<Rightarrow> unit act" where
  "fk_RegisterWebhook env name url = with_repo name (\<lambda>h r.
     case fk_Webhooks r of
       None \<Rightarrow> (Err (Fail ''webhooks not initialized''), r)
     | Some ws \<Rightarrow>
         (let i = int (e_intn env h 100)
          in (Ok (), r\<lparr>fk_Webhooks := Some (AList.update i \<lparr>whe_ID = i, whe_URL = url\<rparr> ws)\<rparr>)))"

definition fk_DeleteWebhook :: "string \<Rightarrow> int \<Rightarrow> unit act" where
  "fk_DeleteWebhook name i = with_repo name (\<lambda>_ r.
     (Ok (), r\<lparr>fk_Webhooks := map_option (AList.delete i) (fk_Webhooks r)\<rparr>))"

definition fk_ListCommitStatuses :: "string \<Rightarrow> string \<Rightarrow> commit_status list act" where
  "fk_ListCommitStatuses name ref = with_repo name (\<lambda>_ r.
     case fk_CommitStatuses r of
       None \<Rightarrow> (Err (Fail ''commit statuses not initialized''), r)
     | Some m \<Rightarrow>
         (case m ref of None \<Rightarrow> (Err (Fail ''404 no such ref''), r) | Some ss \<Rightarrow> (Ok ss, r)))"

definition fk_SetCommitStatus :: "string \<Rightarrow> string \<Rightarrow> commit_status \<Rightarrow> unit act" where
  "fk_SetCommitStatus name sha status = with_repo name (\<lambda>_ r.
     case fk_CommitStatuses r of
       None \<Rightarrow> (Err (Fail ''commit statuses not initialized''), r)
     | Some m \<Rightarrow> (Ok (), r\<lparr>fk_CommitStatuses := Some (map_append m sha status)\<rparr>))"

definition fk_GetUserInfo :: "string \<Rightarrow> user act" where
  "fk_GetUserInfo userName = (\<lambda>s.
     case fk_Users (fake s) of
       None \<Rightarrow> (Err (Fail ''users not initialized''), s)
     | Some m \<Rightarrow> (case m userName of None \<Rightarrow> (Err (Fail ''404 no such user''), s) | Some u \<Rightarrow> (Ok u, s)))"

definition fk_CanUserWriteToRepo :: "string \<Rightarrow> user \<Rightarrow> bool act" where
  "fk_CanUserWriteToRepo name u = with_repo name (\<lambda>_ r.
     case fk_UserCanWrite r of
       None \<Rightarrow> (Err (Fail ''userCanWrite not initialized''), r)
     | Some m \<Rightarrow>
         (case m (usr_Name u) of None \<Rightarrow> (Err (Fail ''404 no such user''), r) | Some b \<Rightarrow> (Ok b, r)))"

definition fk_RegisterComment :: "env \<Rightarrow> string \<Rightarrow> int \<Rightarrow> string \<Rightarrow> unit act" where
  "fk_RegisterComment env name issueNo body = with_repo name (\<lambda>h r.
     case fk_Comments r of
       None \<Rightarrow> (Err (Fail ''comments not initialized''), r)
     | Some m \<Rightarrow>
         (Ok (), r\<lparr>fk_Comments := Some (map_append m issueNo
            \<lparr>ic_Body = body, ic_CreatedAt = Some (e_now env h),
             ic_PullRequest = Some (empty_pull_request\<lparr>pr_ID := issueNo\<rparr>),
             ic_Author = empty_user, ic_ReviewState = []\<rparr>)\<rparr>))"

definition fk_ListPullRequests :: "env \<Rightarrow> string \<Rightarrow> pull_request list act" where
  "fk_ListPullRequests env name = with_repo name (\<lambda>h r.
     (Ok (range_order env h (case fk_PullRequests r of None \<Rightarrow> [] | Some ps \<Rightarrow> map snd ps)), r))"

definition fk_GetPullRequest :: "string \<Rightarrow> int \<Rightarrow> pull_request act" where
  "fk_GetPullRequest name i = with_repo name (\<lambda>_ r.
     case fk_PullRequests r of
       None \<Rightarrow> (Err (Fail ''pull requests not initialized''), r)
     | Some ps \<Rightarrow> (case map_of ps i of None \<Rightarrow> (Err (Fail ''404 no such pr''), r) | Some p \<Rightarrow> (Ok p, r)))"

text \<open>Reading a nil map finds nothing; storing into a nil map panics.\<close>

definition fk_MergePullRequest :: "string \<Rightarrow> int \<Rightarrow> string \<Rightarrow> unit act" where
  "fk_MergePullRequest name i message = with_repo name (\<lambda>_ r.
     case map_of (case fk_PullRequests r of None \<Rightarrow> [] | Some ps \<Rightarrow> ps) i of
       None \<Rightarrow> (Err (Fail ''404 no such pr''), r)
     | Some p \<Rightarrow>
         (let r1 = r\<lparr>fk_PullRequests := map_option
                 (AList.update i (p\<lparr>pr_Mergeable := False, pr_State := PullRequestStateClosed\<rparr>))
                 (fk_PullRequests r)\<rparr>;
              cm = \<lparr>cmt_SHA = ref_Sha (pr_Head p),
                    cmt_Message = (if message = [] then pr_Title p @ ''(#'' @ Itoa (pr_ID p) @ '')'' else message),
                    cmt_Author = empty_user, cmt_Committer = empty_user\<rparr>
          in case fk_Commits r1 of
               None \<Rightarrow> (Panic ''assignment to entry in nil map'', r1)
             | Some m \<Rightarrow> (Ok (), r1\<lparr>fk_Commits := Some (map_append m (ref_Ref (pr_Base p)) cm)\<rparr>)))"

definition fk_GetPullRequestDiff :: "string \<Rightarrow> int \<Rightarrow> change list act" where
  "fk_GetPullRequestDiff name i = with_repo name (\<lambda>_ r.
     case fk_PullRequestDiffs r of
       None \<Rightarrow> (Err (Fail ''pull request diffs not initialized''), r)
     | Some m \<Rightarrow> (case m i of None \<Rightarrow> (Err (Fail ''404 no such pr''), r) | Some d \<Rightarrow> (Ok d, r)))"

definition fk_ListPullRequestCommits :: "string \<Rightarrow> int \<Rightarrow> commit list act" where
  "fk_ListPullRequestCommits name i = with_repo name (\<lambda>_ r.
     case fk_PullRequestCommits r of
       None \<Rightarrow> (Err (Fail ''pull request commits not initialized''), r)
     | Some m \<Rightarrow> (case m i of None \<Rightarrow> (Err (Fail ''404 no such pr''), r) | Some cs \<Rightarrow> (Ok cs, r)))"

definition fk_SetLabel :: "string \<Rightarrow> int \<Rightarrow> string \<Rightarrow> unit act" where
  "fk_SetLabel name i label = with_repo name (\<lambda>_ r.
     case fk_PullRequests r of
       None \<Rightarrow> (Err (Fail ''pull requests not initialized''), r)
     | Some ps \<Rightarrow>
         (case map_of ps i of
            None \<Rightarrow> (Err (Fail ''404 no such PR''), r)
          | Some p \<Rightarrow>
              (Ok (), r\<lparr>fk_PullRequests := Some (AList.update i (p\<lparr>pr_Labels := pr_Labels p @ [label]\<rparr>) ps)\<rparr>)))"

text \<open>The index loop of \<open>DeleteLabel\<close> and the two slice expressions that cut the label out.\<close>

fun label_index :: "string \<Rightarrow> string list \<Rightarrow> nat option" where
  "label_index l [] = None"
| "label_index l (x # xs) = (if x = l then Some 0 else map_option Suc (label_index l xs))"

definition cut_label :: "string \<Rightarrow> string list \<Rightarrow> string list" where
  "cut_label l ls =
     (case label_index l ls of
        None \<Rightarrow> ls
      | Some idx \<Rightarrow>
          if int idx = int (length ls) - 1 then take idx ls
          else take idx ls @ drop (idx + 1) ls)"

definition fk_DeleteLabel :: "string \<Rightarrow> int \<Rightarrow> string \<Rightarrow> unit act" where
  "fk_DeleteLabel name i label = with_repo name (\<lambda>_ r.
     case fk_PullRequests r of
       None \<Rightarrow> (Err (Fail ''pull requests not initialized''), r)
     | Some ps \<Rightarrow>
         (case map_of ps i of
            None \<Rightarrow> (Err (Fail ''404 no such PR''), r)
          | Some p \<Rightarrow>
              (Ok (), r\<lparr>fk_PullRequests := Some (AList.update i (p\<lparr>pr_Labels := cut_label label (pr_Labels p)\<rparr>) ps)\<rparr>)))"

definition fk_GetBranch :: "string \<Rightarrow> branch act" where
  "fk_GetBranch b = (\<lambda>s.
     case fk_Branches (fake s) of
       None \<Rightarrow> (Err (Fail ''branches not initialized''), s)
     | Some m \<Rightarrow>
         (case m b of None \<Rightarrow> (Err (Fail (''404 no such branch ('' @ b @ '')'')), s) | Some v \<Rightarrow> (Ok v, s)))"

lemma label_index_Some: "label_index l ls = Some i \<Longrightarrow> i < length ls \<and> take i ls @ drop (Suc i) ls = remove1 l ls"
  by (induction ls arbitrary: i) (auto split: if_splits)

lemma label_index_None: "label_index l ls = None \<Longrightarrow> l \<notin> set ls"
  by (induction ls) (auto split: if_splits)

lemma cut_label_remove1: "cut_label l ls = remove1 l ls"
proof (cases "label_index l ls")
  case None
  then show ?thesis by (simp add: cut_label_def label_index_None remove1_idem)
next
  case (Some i)
  from label_index_Some[OF Some] have i: "i < length ls" and eq: "take i ls @ drop (Suc i) ls = remove1 l ls"
    by auto
  show ?thesis
  proof (cases "int i = int (length ls) - 1")
    case True
    then have "drop (Suc i) ls = []" by simp
    with eq True Some show ?thesis by (simp add: cut_label_def)
  next
    case False
    with eq Some show ?thesis by (simp add: cut_label_def)
  qed
qed

section \<open>A webhook registry\<close>

text \<open>
  What a client of \<open>ListWebhook\<close>, \<open>RegisterWebhook\<close> and \<open>DeleteWebhook\<close> relies on:
  in the states of \<open>inv\<close> the operations succeed, \<open>hooks\<close> is the set of registered
  entries with one entry for each ID, listing shows exactly them, deleting
  removes the entry of the ID and registering adds an entry for the URL. The
  operations touch only the server, not the rest \<open>view\<close> of the state.
\<close>

locale webhook_registry =
  fixes hooks :: "st \<Rightarrow> webhook_entry set"
    and inv :: "st \<Rightarrow> bool"
    and view :: "st \<Rightarrow> 'v"
    and list_hooks :: "webhook_entry list act"
    and register :: "string \<Rightarrow> unit act"
    and delete :: "int \<Rightarrow> unit act"
  assumes unique_id: "inv s \<Longrightarrow> e \<in> hooks s \<Longrightarrow> e' \<in> hooks s \<Longrightarrow> whe_ID e = whe_ID e' \<Longrightarrow> e = e'"
    and list_law: "inv s \<Longrightarrow> \<exists>es s'. list_hooks s = (Ok es, s') \<and> set es = hooks s \<and> hooks s' = hooks s
                     \<and> inv s' \<and> view s' = view s"
    and delete_law: "inv s \<Longrightarrow> \<exists>s'. delete i s = (Ok (), s') \<and> hooks s' = {e \<in> hooks s. whe_ID e \<noteq> i}
                     \<and> inv s' \<and> view s' = view s"
    and register_law: "inv s \<Longrightarrow> \<exists>i s'. register u s = (Ok (), s')
                     \<and> hooks s' = insert \<lparr>whe_ID = i, whe_URL = u\<rparr> {e \<in> hooks s. whe_ID e \<noteq> i}
                     \<and> inv s' \<and> view s' = view s"
begin

text \<open>
  The deletion loop over listed entries: it succeeds and removes exactly the
  entries with the address.
\<close>

lemma delete_loop:
  assumes "inv s" and "set es \<subseteq> hooks s0" and "hooks s \<subseteq> hooks s0" and "inv s0"
  shows "\<exists>s'. for_each es (\<lambda>h. if whe_URL h = addr then delete (whe_ID h) else ret ()) s = (Ok (), s')
     \<and> hooks s' = hooks s - {e \<in> set es. whe_URL e = addr} \<and> inv s' \<and> view s' = view s"
  using assms
proof (induction es arbitrary: s)
  case Nil
  then show ?case by (simp add: ret_def)
next
  case (Cons h es)
  show ?case
  proof (cases "whe_URL h = addr")
    case True
    from delete_law[OF Cons.prems(1), of "whe_ID h"] obtain s1 where
      d: "delete (whe_ID h) s = (Ok (), s1)" and h1: "hooks s1 = {e \<in> hooks s. whe_ID e \<noteq> whe_ID h}"
      and i1: "inv s1" and v1: "view s1 = view s" by blast
    have "h \<in> hooks s0" using Cons.prems(2) by simp
    then have same: "e = h" if "e \<in> hooks s" "whe_ID e = whe_ID h" for e
      using that Cons.prems(3,4) unique_id by blast
    have h1': "hooks s1 = hooks s - {h}" unfolding h1 using same by blast
    have "set es \<subseteq> hooks s0" and "hooks s1 \<subseteq> hooks s0" using Cons.prems h1' by auto
    from Cons.IH[OF i1 this Cons.prems(4)] obtain s2 where
      "for_each es (\<lambda>h. if whe_URL h = addr then delete (whe_ID h) else ret ()) s1 = (Ok (), s2)"
      and "hooks s2 = hooks s1 - {e \<in> set es. whe_URL e = addr}" and "inv s2" and "view s2 = view s1"
      by blast
    then show ?thesis using True d h1' v1 by (intro exI[of _ s2]) (auto simp: bnd_def)
  next
    case False
    have "set es \<subseteq> hooks s0" using Cons.prems(2) by simp
    from Cons.IH[OF Cons.prems(1) this Cons.prems(3,4)] False show ?thesis
      by (auto simp: bnd_def ret_def)
  qed
qed

lemma delete_all:
  assumes "inv s"
  shows "\<exists>s'. bnd list_hooks (\<lambda>es. for_each es
            (\<lambda>h. if whe_URL h = addr then delete (whe_ID h) else ret ())) s = (Ok (), s')
     \<and> hooks s' = {e \<in> hooks s. whe_URL e \<noteq> addr} \<and> inv s' \<and> view s' = view s"
proof -
  from list_law[OF assms] obtain es s1 where l: "list_hooks s = (Ok es, s1)" and es: "set es = hooks s"
    and h1: "hooks s1 = hooks s" and i1: "inv s1" and v1: "view s1 = view s" by blast
  have sub: "set es \<subseteq> hooks s" and sub1: "hooks s1 \<subseteq> hooks s" using es h1 by simp_all
  from delete_loop[OF i1 sub sub1 assms] obtain s2 where
    f: "for_each es (\<lambda>h. if whe_URL h = addr then delete (whe_ID h) else ret ()) s1 = (Ok (), s2)"
    and h2: "hooks s2 = hooks s1 - {e \<in> set es. whe_URL e = addr}" and i2: "inv s2" and v2: "view s2 = view s1"
    by blast
  have "hooks s2 = {e \<in> hooks s. whe_URL e \<noteq> addr}" unfolding h2 h1 es by blast
  then show ?thesis using l f i2 v2 v1 by (intro exI[of _ s2]) (simp add: bnd_def)
qed

end

text \<open>The fake server's registry: the entries of the repository's map, stored under their own IDs.\<close>

definition fk_hooks :: "string \<Rightarrow> st \<Rightarrow> webhook_entry set" where
  "fk_hooks name s =
     (case fk_Repos (fake s) of
        Some repos \<Rightarrow> (case repos name of
            Some r \<Rightarrow> (case fk_Webhooks r of Some ws \<Rightarrow> set (map snd ws) | None \<Rightarrow> {})
          | None \<Rightarrow> {})
      | None \<Rightarrow> {})"

definition fk_inv :: "env \<Rightarrow> string \<Rightarrow> st \<Rightarrow> bool" where
  "fk_inv env name s \<longleftrightarrow> order_ok env \<and>
     (\<exists>repos r ws. fk_Repos (fake s) = Some repos \<and> repos name = Some r \<and> fk_Webhooks r = Some ws
        \<and> distinct (map fst ws) \<and> (\<forall>(k, e) \<in> set ws. whe_ID e = k))"

definition fk_view ::
  "st \<Rightarrow> call list \<times> application \<times> plain_mgr option \<times> helm_mgr option \<times> config_vars \<times> sync_tables" where
  "fk_view s = (hist s, app s, plainManager s, helmManager s, cfg s, tables s)"

lemma set_update_alist:
  assumes "distinct (map fst ws)"
  shows "set (AList.update k v ws) = insert (k, v) {p \<in> set ws. fst p \<noteq> k}"
  using assms by (induction ws) (auto simp: image_iff)

lemma set_delete_alist: "set (AList.delete k ws) = {p \<in> set ws. fst p \<noteq> k}"
  by (auto simp: AList.delete_eq)

lemma fk_invE:
  assumes "fk_inv env name s"
  obtains repos r ws where "order_ok env" "fk_Repos (fake s) = Some repos" "repos name = Some r" "fk_Webhooks r = Some ws"
    "distinct (map fst ws)" "\<forall>(k, e) \<in> set ws. whe_ID e = k"
  using assms unfolding fk_inv_def by blast

lemma fk_List_law:
  assumes inv: "fk_inv env name s"
  shows "\<exists>es s'. fk_ListWebhook env name s = (Ok es, s') \<and> set es = fk_hooks name s
    \<and> fk_hooks name s' = fk_hooks name s \<and> fk_inv env name s' \<and> fk_view s' = fk_view s"
proof -
  obtain repos r ws where o: "order_ok env"
    and R: "fk_Repos (fake s) = Some repos" "repos name = Some r" "fk_Webhooks r = Some ws"
    using inv by (rule fk_invE)
  have "repos(name \<mapsto> r) = repos" using R(2) by auto
  then have "fk_ListWebhook env name s = (Ok (range_order env (hist s) (map snd ws)), s)"
    using R by (simp add: fk_ListWebhook_def with_repo_def)
  moreover have "set (range_order env (hist s) (map snd ws)) = fk_hooks name s"
    using R o by (simp add: range_order_set fk_hooks_def)
  ultimately show ?thesis using inv by blast
qed

lemma fk_Delete_law:
  assumes inv: "fk_inv env name s"
  shows "\<exists>s'. fk_DeleteWebhook name i s = (Ok (), s')
    \<and> fk_hooks name s' = {e \<in> fk_hooks name s. whe_ID e \<noteq> i} \<and> fk_inv env name s' \<and> fk_view s' = fk_view s"
proof -
  obtain repos r ws where R: "fk_Repos (fake s) = Some repos" "repos name = Some r" "fk_Webhooks r = Some ws"
    and d: "distinct (map fst ws)" and k: "\<forall>(k, e) \<in> set ws. whe_ID e = k"
    using inv by (rule fk_invE)
  let ?s = "s\<lparr>fake := (fake s)\<lparr>fk_Repos := Some (repos(name \<mapsto> r\<lparr>fk_Webhooks := Some (AList.delete i ws)\<rparr>))\<rparr>\<rparr>"
  have "fk_DeleteWebhook name i s = (Ok (), ?s)"
    using R by (simp add: fk_DeleteWebhook_def with_repo_def)
  moreover have "fk_hooks name ?s = {e \<in> fk_hooks name s. whe_ID e \<noteq> i}"
    using R k by (force simp: fk_hooks_def set_delete_alist image_iff)
  moreover have "fk_inv env name ?s"
    using inv d k by (auto simp: fk_inv_def set_delete_alist distinct_delete)
  moreover have "fk_view ?s = fk_view s" by (simp add: fk_view_def)
  ultimately show ?thesis by blast
qed

lemma fk_Register_law:
  assumes inv: "fk_inv env name s"
  shows "\<exists>i s'. fk_RegisterWebhook env name u s = (Ok (), s')
    \<and> fk_hooks name s' = insert \<lparr>whe_ID = i, whe_URL = u\<rparr> {e \<in> fk_hooks name s. whe_ID e \<noteq> i}
    \<and> fk_inv env name s' \<and> fk_view s' = fk_view s"
proof -
  obtain repos r ws where R: "fk_Repos (fake s) = Some repos" "repos name = Some r" "fk_Webhooks r = Some ws"
    and d: "distinct (map fst ws)" and k: "\<forall>(k, e) \<in> set ws. whe_ID e = k"
    using inv by (rule fk_invE)
  let ?i = "int (e_intn env (hist s) 100)"
  let ?e = "\<lparr>whe_ID = ?i, whe_URL = u\<rparr>"
  let ?s = "s\<lparr>fake := (fake s)\<lparr>fk_Repos := Some (repos(name \<mapsto> r\<lparr>fk_Webhooks := Some (AList.update ?i ?e ws)\<rparr>))\<rparr>\<rparr>"
  have "fk_RegisterWebhook env name u s = (Ok (), ?s)"
    using R by (simp add: fk_RegisterWebhook_def with_repo_def Let_def)
  moreover have "fk_hooks name ?s = insert ?e {e \<in> fk_hooks name s. whe_ID e \<noteq> ?i}"
    using R k by (force simp: fk_hooks_def set_update_alist[OF d] image_iff)
  moreover have "fk_inv env name ?s"
    using inv d k by (auto simp: fk_inv_def set_update_alist[OF d] distinct_update)
  moreover have "fk_view ?s = fk_view s" by (simp add: fk_view_def)
  ultimately show ?thesis by blast
qed

interpretation fake_hooks: webhook_registry "fk_hooks name" "fk_inv env name" fk_view
  "fk_ListWebhook env name" "fk_RegisterWebhook env name" "fk_DeleteWebhook name" for env name
proof unfold_locales
  fix s e e'
  assume inv: "fk_inv env name s" and e: "e \<in> fk_hooks name s" "e' \<in> fk_hooks name s" and i: "whe_ID e = whe_ID e'"
  obtain repos r ws where R: "fk_Repos (fake s) = Some repos" "repos name = Some r" "fk_Webhooks r = Some ws"
    and d: "distinct (map fst ws)" and k: "\<forall>(k, e) \<in> set ws. whe_ID e = k"
    using inv by (rule fk_invE)
  from e R k have "(whe_ID e, e) \<in> set ws" "(whe_ID e', e') \<in> set ws" by (auto simp: fk_hooks_def)
  with i d show "e = e'" by (simp add: eq_key_imp_eq_value)
qed (rule fk_List_law fk_Delete_law fk_Register_law, assumption)+

end
