(* ===== verification/GitCli.thy ===== *)
theory GitCli
  imports Github Gitlab GitFake
begin

text \<open>
  The choice of the Git client of an Application (\<open>GetToken\<close> of
  \<open>api/v1/application_types.go\<close>, \<open>GetGitCli\<close> of \<open>internal/utils/utils.go\<close>) and the
  calls through the interface \<open>git.Client\<close> that the controller and the manifest
  managers make.
\<close>

section \<open>Choosing a client\<close>

text \<open>The token: none, a literal value, or a key of a secret in the Application's namespace.\<close>

definition GetToken :: "env \<Rightarrow> string act" where
  "GetToken env =
     bnd get_app (\<lambda>a.
     case src_Token (app_source a) of
       None \<Rightarrow> ret []
     | Some t \<Rightarrow>
         (case tok_ValueFrom t of
            None \<Rightarrow> (if tok_Value t \<noteq> [] then ret (tok_Value t) else throw (Fail ''token is empty''))
          | Some r \<Rightarrow>
              bnd (ext (CGetSecret (app_Namespace a) (skr_Name r))
                     (\<lambda>h. e_get_secret env h (app_Namespace a) (skr_Name r))) (\<lambda>dat.
              case dat (skr_Key r) of
                None \<Rightarrow> throw (Fail (''token secret/key '' @ skr_Name r @ ''/'' @ skr_Key r @ '' not valid''))
              | Some v \<Rightarrow> ret v)))"

text \<open>
  \<open>GetGitCli\<close>. The three types are all that \<open>GetGitType\<close> answers, so its default
  branch is dead; \<open>Init\<close> has no error.
\<close>

definition GetGitCli :: "env \<Rightarrow> git_client act" where
  "GetGitCli env =
     bnd get_app (\<lambda>a.
     bnd (lift (GetGitType (app_source a))) (\<lambda>gitType.
     bnd (lift (GetAPIUrl (app_source a))) (\<lambda>apiurl.
     bnd (lift (GetRepository (app_source a))) (\<lambda>gitRepo.
     bnd (GetToken env) (\<lambda>gitToken.
     let c = \<lparr>GitAPIURL = apiurl, GitRepository = gitRepo, GitToken = gitToken,
              GitWebhookSecret = stat_Secrets (app_Status a), hdr = []\<rparr>
     in if gitType = GitTypeGitHub then ret (GithubClient (gh_Init c))
        else if gitType = GitTypeGitLab then ret (GitlabClient (gl_Init c))
        else if gitType = GitTypeFake then ret (FakeClient gitRepo)
        else throw (Fail (''git type '' @ gitType @ '' is not supported'')))))))"

section \<open>Calls through the interface\<close>

fun cli_ListWebhook :: "env \<Rightarrow> git_client \<Rightarrow> webhook_entry list act" where
  "cli_ListWebhook env (GithubClient c) = gh_ListWebhook env c"
| "cli_ListWebhook env (GitlabClient c) = gl_ListWebhook env c"
| "cli_ListWebhook env (FakeClient r) = fk_ListWebhook env r"

fun cli_RegisterWebhook :: "env \<Rightarrow> git_client \<Rightarrow> string \<Rightarrow> unit act" where
  "cli_RegisterWebhook env (GithubClient c) url = gh_RegisterWebhook env c url"
| "cli_RegisterWebhook env (GitlabClient c) url = gl_RegisterWebhook env c url"
| "cli_RegisterWebhook env (FakeClient r) url = fk_RegisterWebhook env r url"

fun cli_DeleteWebhook :: "env \<Rightarrow> git_client \<Rightarrow> int \<Rightarrow> unit act" where
  "cli_DeleteWebhook env (GithubClient c) i = gh_DeleteWebhook env c i"
| "cli_DeleteWebhook env (GitlabClient c) i = gl_DeleteWebhook env c i"
| "cli_DeleteWebhook env (FakeClient r) i = fk_DeleteWebhook r i"

text \<open>The fake client's \<open>GetManifestInfos\<close> and \<open>ObjectFromManifest\<close> answer nil, whatever they are given.\<close>

fun cli_GetManifestInfos :: "env \<Rightarrow> git_client \<Rightarrow> string \<Rightarrow> string \<Rightarrow> string list \<Rightarrow> string list act" where
  "cli_GetManifestInfos env (GithubClient c) path revision infos = gh_GetManifestInfos env c path revision infos"
| "cli_GetManifestInfos env (GitlabClient c) path revision infos = gl_GetManifestInfos env c path revision infos"
| "cli_GetManifestInfos env (FakeClient r) path revision infos = ret []"

fun cli_ObjectFromManifest :: "env \<Rightarrow> git_client \<Rightarrow> string \<Rightarrow> string \<Rightarrow> unst list act" where
  "cli_ObjectFromManifest env (GithubClient c) info ns = gh_ObjectFromManifest env c info ns"
| "cli_ObjectFromManifest env (GitlabClient c) info ns = gl_ObjectFromManifest env c info ns"
| "cli_ObjectFromManifest env (FakeClient r) info ns = ret []"

section \<open>Calls they make\<close>

lemma gh_manifest_infos_made: "made.keeps http_calls (gh_manifest_infos env n c path rv infos)"
  by (induction n arbitrary: path infos)
     (auto intro!: made_intros RequestHTTP_made simp: gh_request_def)

lemma gl_manifest_infos_made: "made.keeps http_calls (gl_manifest_infos env n c path rv infos)"
  by (induction n arbitrary: path infos)
     (auto intro!: made_intros RequestHTTP_made GetPaginatedRequest_made simp: gl_request_def)

lemma gh_manifest_infos_only_sync: "only_sync.keeps (gh_manifest_infos env n c path rv infos)"
  by (induction n arbitrary: path infos)
     (auto intro!: only_sync_intros RequestHTTP_only_sync simp: gh_request_def)

lemma gl_manifest_infos_only_sync: "only_sync.keeps (gl_manifest_infos env n c path rv infos)"
  by (induction n arbitrary: path infos)
     (auto intro!: only_sync_intros RequestHTTP_only_sync GetPaginatedRequest_only_sync simp: gl_request_def)

lemma cli_GetManifestInfos_made: "made.keeps http_calls (cli_GetManifestInfos env g path rv infos)"
  by (cases g) (auto simp: gh_GetManifestInfos_def gl_GetManifestInfos_def
      intro!: gh_manifest_infos_made gl_manifest_infos_made made_intros)

lemma cli_GetManifestInfos_only_sync: "only_sync.keeps (cli_GetManifestInfos env g path rv infos)"
  by (cases g) (auto simp: gh_GetManifestInfos_def gl_GetManifestInfos_def
      intro!: gh_manifest_infos_only_sync gl_manifest_infos_only_sync only_sync_intros)

lemma cli_ObjectFromManifest_made: "made.keeps http_calls (cli_ObjectFromManifest env g info ns)"
  by (cases g) (auto simp: gh_ObjectFromManifest_def gl_ObjectFromManifest_def gh_request_def gl_request_def
      intro!: RequestHTTP_made made_intros)

lemma cli_ObjectFromManifest_only_sync: "only_sync.keeps (cli_ObjectFromManifest env g info ns)"
  by (cases g) (auto simp: gh_ObjectFromManifest_def gl_ObjectFromManifest_def gh_request_def gl_request_def
      intro!: RequestHTTP_only_sync only_sync_intros)

lemma GetToken_made: "(\<And>ns n. CGetSecret ns n \<in> A) \<Longrightarrow> made.keeps A (GetToken env)"
  unfolding GetToken_def
  by (auto intro!: made_intros split: option.splits if_splits)

lemma GetToken_only_sync: "only_sync.keeps (GetToken env)"
  unfolding GetToken_def
  by (auto intro!: only_sync_intros split: option.splits if_splits)

lemma GetGitCli_made: "(\<And>ns n. CGetSecret ns n \<in> A) \<Longrightarrow> made.keeps A (GetGitCli env)"
  unfolding GetGitCli_def Let_def
  by (auto intro!: made_intros GetToken_made split: if_splits)

lemma GetGitCli_only_sync: "only_sync.keeps (GetGitCli env)"
  unfolding GetGitCli_def Let_def
  by (auto intro!: only_sync_intros GetToken_only_sync split: if_splits)

end
