(* ===== verification/Manifest.thy ===== *)
theory Manifest
  imports GitCli
begin

text \<open>
  \<open>pkg/manifestmanager/manifestmanager.go\<close> and \<open>plainyaml.go\<close>, with the cluster
  selection of \<open>pkg/cluster/cluster.go\<close>: the manager that compares the manifests of
  a Git repository with the destination cluster, applies them and prunes what the
  repository no longer lists. A manager is a pointer, so its state is read from
  and written to the global variable of \<open>pkg/sync\<close> that holds it.
\<close>

section \<open>Destination cluster\<close>

definition getDestClusterSecret :: "env \<Rightarrow> string \<Rightarrow> string \<Rightarrow> (string \<rightharpoonup> string) act" where
  "getDestClusterSecret env destName appNamespace =
     (let secretName = destName @ ''-kubeconfig'' in
      bnd (attempt (ext (CGetSecret appNamespace secretName)
                      (\<lambda>h. e_get_secret env h appNamespace secretName))) (\<lambda>r.
      case r of
        Inl e \<Rightarrow> throw (Fail (''unable to find cluster secret '' @ secretName @ '': '' @ err_msg e))
      | Inr dat \<Rightarrow> ret dat))"

text \<open>A missing key reads as no bytes; parsing the kubeconfig is third-party code.\<close>

definition secretToClusterConfig :: "env \<Rightarrow> (string \<rightharpoonup> string) \<Rightarrow> string res" where
  "secretToClusterConfig env dat =
     e_rest_config env (case dat ''value'' of None \<Rightarrow> [] | Some v \<Rightarrow> v)"

definition GetApplicationClusterConfig :: "env \<Rightarrow> application \<Rightarrow> string act" where
  "GetApplicationClusterConfig env a =
     bnd (getDestClusterSecret env (dst_Name (app_dest a)) (app_Namespace a)) (\<lambda>dat.
     lift (secretToClusterConfig env dat))"

section \<open>Records of deployed objects\<close>

definition app_label :: "application \<Rightarrow> string" where
  "app_label a = app_Name a @ ''-'' @ app_Namespace a"

definition getDeployResourceList :: "env \<Rightarrow> application \<Rightarrow> deploy_resource list act" where
  "getDeployResourceList env a = ext (CListDR (app_label a)) (\<lambda>h. e_list_dr env h (app_label a))"

definition dr_name :: "application \<Rightarrow> unst \<Rightarrow> string" where
  "dr_name a u = ToLower (app_Name a @ ''-'' @ u_Kind u @ ''-'' @ u_Name u @ ''-'' @ u_Namespace u)"

definition new_dr :: "application \<Rightarrow> unst \<Rightarrow> deploy_resource" where
  "new_dr a u = \<lparr>dr_Name = dr_name a u, dr_Namespace = app_Namespace a,
     dr_Labels = [(''cd.tmax.io/application'', app_label a)],
     dr_Application = app_Name a,
     dr_Spec = \<lparr>drs_Name = u_Name u, drs_Namespace = u_Namespace u,
                drs_APIVersion = u_APIVersion u, drs_Kind = u_Kind u\<rparr>\<rparr>"

definition updateDeployResource :: "env \<Rightarrow> unst \<Rightarrow> application \<Rightarrow> deploy_resource act" where
  "updateDeployResource env u a =
     (let d = new_dr a u in
      bnd (attempt (ext (CGetDR (app_Namespace a) (dr_name a u))
                      (\<lambda>h. e_get_dr env h (app_Namespace a) (dr_name a u)))) (\<lambda>r.
      case r of
        Inl e \<Rightarrow> (if \<not> is_not_found e then throw e
                  else ext (CCreateDR d) (\<lambda>h. e_create_dr env h d))
      | Inr found \<Rightarrow> ret found))"

text \<open>The object a record stands for: only its kind and name are set.\<close>

definition dr_object :: "deploy_resource \<Rightarrow> unst" where
  "dr_object d = \<lparr>u_APIVersion = drs_APIVersion (dr_Spec d), u_Kind = drs_Kind (dr_Spec d),
     u_Name = drs_Name (dr_Spec d), u_Namespace = drs_Namespace (dr_Spec d), u_Content = []\<rparr>"

text \<open>
  \<open>deleteDeployResource\<close> and \<open>clearApplicationResources\<close> differ only in the client
  of the deployed object: the operator's own, or the one of the destination.
\<close>

definition delete_resource :: "env \<Rightarrow> kcli \<Rightarrow> deploy_resource \<Rightarrow> unit act" where
  "delete_resource env cli d =
     bnd (ext (CDeleteDR d) (\<lambda>h. e_delete_dr env h d)) (\<lambda>_.
     bnd (attempt (ext (CGetObj cli (dr_object d)) (\<lambda>h. e_get_obj env h cli (dr_object d)))) (\<lambda>r.
     case r of
       Inl e \<Rightarrow> (if \<not> is_not_found e then throw e else ret ())
     | Inr found \<Rightarrow> ext (CDeleteObj cli found) (\<lambda>h. e_delete_obj env h cli found)))"

definition deleteDeployResource :: "env \<Rightarrow> deploy_resource \<Rightarrow> unit act" where
  "deleteDeployResource env d = delete_resource env DefaultCli d"

section \<open>The plain YAML manager\<close>

definition NewPlainYamlManager :: "git_client \<Rightarrow> plain_mgr" where
  "NewPlainYamlManager gitCli = \<lparr>pm_TargetCli = DefaultCli, pm_GitCli = gitCli\<rparr>"

definition nil_deref :: string where
  "nil_deref = ''runtime error: invalid memory address or nil pointer dereference''"

text \<open>A method call on the manager; on a nil manager it panics.\<close>

definition plain_mgr :: "plain_mgr act" where
  "plain_mgr = (\<lambda>s. case plainManager s of None \<Rightarrow> (Panic nil_deref, s) | Some m \<Rightarrow> (Ok m, s))"

definition set_TargetCli :: "kcli \<Rightarrow> unit act" where
  "set_TargetCli c = modify (\<lambda>s. s\<lparr>plainManager := map_option (\<lambda>m. m\<lparr>pm_TargetCli := c\<rparr>) (plainManager s)\<rparr>)"

definition plain_setTargetClient :: "env \<Rightarrow> unit act" where
  "plain_setTargetClient env =
     bnd get_app (\<lambda>a.
     if dst_Name (app_dest a) \<noteq> [] then
       bnd (GetApplicationClusterConfig env a) (\<lambda>config.
       bnd (ext (CNewClient config) (\<lambda>h. e_new_client env h config)) (\<lambda>_.
       set_TargetCli (ClusterCli config)))
     else set_TargetCli DefaultCli)"

text \<open>
  \<open>compareDeployWithManifest\<close> answers an object and an error, either of which may be
  nil. A missing object makes the Application out of sync and comes back with the
  error; a difference after the dry run makes it out of sync too.
\<close>

definition compareDeployWithManifest :: "env \<Rightarrow> unst \<Rightarrow> (unst option \<times> error option) act" where
  "compareDeployWithManifest env manifest =
     bnd plain_mgr (\<lambda>m.
     let cli = pm_TargetCli m in
     bnd (attempt (ext (CGetObj cli manifest) (\<lambda>h. e_get_obj env h cli manifest))) (\<lambda>r.
     case r of
       Inl e \<Rightarrow> (if is_not_found e then
                   bnd (update_app (set_sync SyncStatusCodeOutOfSync)) (\<lambda>_. ret (Some manifest, Some e))
                 else ret (None, Some e))
     | Inr deployed \<Rightarrow>
         bnd (attempt (lift (e_merge_patch env deployed manifest))) (\<lambda>r.
         case r of
           Inl e \<Rightarrow> ret (None, Some e)
         | Inr patched \<Rightarrow>
             bnd (attempt (ext (CUpdateObj cli True patched) (\<lambda>h. e_update_obj env h cli True patched))) (\<lambda>r.
             case r of
               Inl e \<Rightarrow> ret (None, Some e)
             | Inr dry \<Rightarrow>
                 if e_render env deployed \<noteq> e_render env dry then
                   bnd (update_app (set_sync SyncStatusCodeOutOfSync)) (\<lambda>_. ret (Some dry, None))
                 else ret (None, None)))))"

definition applyManifest :: "env \<Rightarrow> bool \<Rightarrow> unst \<Rightarrow> unit act" where
  "applyManifest env exist u =
     bnd plain_mgr (\<lambda>m.
     let cli = pm_TargetCli m in
     if \<not> exist then ext (CCreateObj cli u) (\<lambda>h. e_create_obj env h cli u)
     else bnd (ext (CUpdateObj cli False u) (\<lambda>h. e_update_obj env h cli False u)) (\<lambda>_. ret ()))"

definition clearApplicationResources :: "env \<Rightarrow> deploy_resource \<Rightarrow> unit act" where
  "clearApplicationResources env d = bnd plain_mgr (\<lambda>m. delete_resource env (pm_TargetCli m) d)"

text \<open>The body of the inner loop of \<open>Sync\<close>, on one object; \<open>upd\<close> is the map \<open>updatedDeployResources\<close>.\<close>

definition sync_object ::
  "env \<Rightarrow> bool \<Rightarrow> unst \<Rightarrow> (string \<rightharpoonup> deploy_resource) \<Rightarrow> (string \<rightharpoonup> deploy_resource) act" where
  "sync_object env forced u upd =
     bnd get_app (\<lambda>a.
     bnd (updateDeployResource env u a) (\<lambda>d.
     bnd (compareDeployWithManifest env u) (\<lambda>r.
     case r of
       (None, Some e) \<Rightarrow> throw e
     | (None, None) \<Rightarrow> ret (upd(dr_Name d \<mapsto> d))
     | (Some ob, err) \<Rightarrow>
         bnd (if pol_AutoSync (app_policy a) \<or> forced
              then applyManifest env (err = None) ob else ret ()) (\<lambda>_.
         ret (upd(dr_Name d \<mapsto> d))))))"

definition prune ::
  "(deploy_resource \<Rightarrow> unit act) \<Rightarrow> deploy_resource list \<Rightarrow> (string \<rightharpoonup> deploy_resource) \<Rightarrow> unit act" where
  "prune clear old upd = for_each old (\<lambda>d. if upd (dr_Name d) = None then clear d else ret ())"

text \<open>The body of the outer loop, on one manifest file.\<close>

definition sync_file ::
  "env \<Rightarrow> bool \<Rightarrow> git_client \<Rightarrow> string \<Rightarrow> string \<Rightarrow> (string \<rightharpoonup> deploy_resource) \<Rightarrow> (string \<rightharpoonup> deploy_resource) act" where
  "sync_file env forced g ns info upd =
     bnd (cli_ObjectFromManifest env g info ns) (\<lambda>obs. fold_each obs (sync_object env forced) upd)"

definition plain_Sync :: "env \<Rightarrow> bool \<Rightarrow> unit act" where
  "plain_Sync env forced =
     bnd plain_mgr (\<lambda>m.
     bnd (plain_setTargetClient env) (\<lambda>_.
     bnd get_app (\<lambda>a.
     bnd (cli_GetManifestInfos env (pm_GitCli m) (src_Path (app_source a)) (src_TargetRevision (app_source a)) [])
       (\<lambda>infos.
     bnd (getDeployResourceList env a) (\<lambda>old.
     bnd (fold_each infos (sync_file env forced (pm_GitCli m) (dst_Namespace (app_dest a))) Map.empty) (\<lambda>upd.
     bnd (prune (clearApplicationResources env) old upd) (\<lambda>_.
     update_app (\<lambda>a. if app_sync a = SyncStatusCodeUnknown then set_sync SyncStatusCodeSynced a else a))))))))"

definition plain_Clear :: "env \<Rightarrow> unit act" where
  "plain_Clear env =
     bnd plain_mgr (\<lambda>_.
     bnd (plain_setTargetClient env) (\<lambda>_.
     bnd get_app (\<lambda>a.
     bnd (getDeployResourceList env a) (\<lambda>ds.
     for_each ds (clearApplicationResources env)))))"

section \<open>What every operation leaves alone\<close>

lemma GetApplicationClusterConfig_only_sync: "only_sync.keeps (GetApplicationClusterConfig env a)"
  unfolding GetApplicationClusterConfig_def getDestClusterSecret_def Let_def
  by (auto intro!: only_sync_intros split: sum.splits)

lemma updateDeployResource_only_sync: "only_sync.keeps (updateDeployResource env u a)"
  unfolding updateDeployResource_def Let_def
  by (auto intro!: only_sync_intros split: sum.splits)

lemma delete_resource_only_sync: "only_sync.keeps (delete_resource env cli d)"
  unfolding delete_resource_def
  by (auto intro!: only_sync_intros split: sum.splits)

lemma plain_mgr_only_sync: "only_sync.keeps plain_mgr"
  by (rule only_sync.keepsI) (auto simp: plain_mgr_def only_sync_def set_sync_def split: option.splits)

lemma plain_mgr_made: "made.keeps A plain_mgr"
  by (rule made.keepsI) (auto simp: plain_mgr_def made_def split: option.splits)

lemma set_TargetCli_made: "made.keeps A (set_TargetCli c)"
  unfolding set_TargetCli_def by (rule made_modify) simp

lemma set_TargetCli_only_sync: "only_sync.keeps (set_TargetCli c)"
  unfolding set_TargetCli_def by (rule only_sync_modify) simp

lemma plain_setTargetClient_only_sync: "only_sync.keeps (plain_setTargetClient env)"
  unfolding plain_setTargetClient_def
  by (auto intro!: only_sync_intros GetApplicationClusterConfig_only_sync set_TargetCli_only_sync)

lemma getDeployResourceList_only_sync: "only_sync.keeps (getDeployResourceList env a)"
  unfolding getDeployResourceList_def by (intro only_sync_intros)

lemma compareDeployWithManifest_only_sync: "only_sync.keeps (compareDeployWithManifest env u)"
  unfolding compareDeployWithManifest_def Let_def
  by (auto intro!: only_sync_intros plain_mgr_only_sync split: sum.splits)

lemma applyManifest_only_sync: "only_sync.keeps (applyManifest env exist u)"
  unfolding applyManifest_def Let_def
  by (auto intro!: only_sync_intros plain_mgr_only_sync)

lemma clearApplicationResources_only_sync: "only_sync.keeps (clearApplicationResources env d)"
  unfolding clearApplicationResources_def
  by (intro only_sync_intros plain_mgr_only_sync delete_resource_only_sync)

lemma prune_only_sync: "(\<And>d. only_sync.keeps (clear d)) \<Longrightarrow> only_sync.keeps (prune clear old upd)"
  unfolding prune_def by (auto intro!: only_sync_intros)

lemma sync_object_only_sync: "only_sync.keeps (sync_object env forced u upd)"
  unfolding sync_object_def
  by (auto intro!: only_sync_intros updateDeployResource_only_sync
        compareDeployWithManifest_only_sync applyManifest_only_sync split: prod.splits option.splits)

lemma only_sync_finish:
  "only_sync.keeps (update_app (\<lambda>a. if app_sync a = c then set_sync d a else a))"
  by (rule only_sync.keepsI) (simp add: update_app_def modify_def only_sync_def set_sync_def)

lemma plain_Sync_only_sync: "only_sync.keeps (plain_Sync env forced)"
  unfolding plain_Sync_def sync_file_def
  by (intro only_sync_intros plain_mgr_only_sync plain_setTargetClient_only_sync
        cli_GetManifestInfos_only_sync getDeployResourceList_only_sync cli_ObjectFromManifest_only_sync
        sync_object_only_sync prune_only_sync clearApplicationResources_only_sync only_sync_finish)

lemma plain_Clear_only_sync: "only_sync.keeps (plain_Clear env)"
  unfolding plain_Clear_def
  by (intro only_sync_intros plain_mgr_only_sync plain_setTargetClient_only_sync
        getDeployResourceList_only_sync clearApplicationResources_only_sync)

section \<open>A sync that may not deploy\<close>

text \<open>
  The calls that put something on a cluster: the creation of an object, an update
  that is not a dry run, and a chart installation that is not a dry run. \<open>quiet\<close>
  relates two states when the Application's specification is the same and, unless
  it asks for automatic sync, no such call was made in between.
\<close>

definition deploys :: "call set" where
  "deploys = {c. (\<exists>k u. c = CCreateObj k u) \<or> (\<exists>k u. c = CUpdateObj k False u)
                 \<or> (\<exists>o' ch. c = CHelmInstall o' ch \<and> \<not> ch_DryRun ch)}"

lemma deploys_simps [simp]:
  "CCreateObj k u \<in> deploys" "CUpdateObj k dry u \<in> deploys \<longleftrightarrow> \<not> dry"
  "CHelmInstall o' ch \<in> deploys \<longleftrightarrow> \<not> ch_DryRun ch"
  "CHttp rq \<notin> deploys" "CGetSecret ns n \<notin> deploys" "CListDR l \<notin> deploys" "CGetDR ns n \<notin> deploys"
  "CCreateDR d \<notin> deploys" "CDeleteDR d \<notin> deploys" "CNewClient x \<notin> deploys" "CGetObj k u \<notin> deploys"
  "CDeleteObj k u \<notin> deploys" "CStat x \<notin> deploys" "CClone x y z \<notin> deploys" "COpen x \<notin> deploys"
  "CWorktree x \<notin> deploys" "CPull x \<notin> deploys" "CHelmNew o' \<notin> deploys" "CHelmUninstall o' x \<notin> deploys"
  by (auto simp: deploys_def)

definition quiet :: "st \<Rightarrow> st \<Rightarrow> bool" where
  "quiet s t \<longleftrightarrow> only_sync s t \<and> (\<not> pol_AutoSync (app_policy (app s)) \<longrightarrow> made (- deploys) s t)"

interpretation quiet: step_rel quiet
proof unfold_locales
  fix s show "quiet s s" by (simp add: quiet_def only_sync.step_refl made.step_refl)
next
  fix s t u assume "quiet s t" and "quiet t u"
  then show "quiet s u"
    unfolding quiet_def by (metis only_sync.step_trans only_sync_spec made.step_trans)
qed

lemma quiet_keeps: "only_sync.keeps m \<Longrightarrow> made.keeps (- deploys) m \<Longrightarrow> quiet.keeps m"
  by (simp add: quiet.keeps_def only_sync.keeps_def made.keeps_def quiet_def)

lemma quiet_get_app:
  assumes "\<And>a. pol_AutoSync (app_policy a) \<Longrightarrow> only_sync.keeps (f a)"
    and "\<And>a. \<not> pol_AutoSync (app_policy a) \<Longrightarrow> quiet.keeps (f a)"
  shows "quiet.keeps (bnd get_app f)"
proof (rule quiet.keepsI)
  fix s
  have run: "bnd get_app f s = f (app s) s" by (simp add: bnd_def prog_simps)
  show "quiet s (snd (bnd get_app f s))"
  proof (cases "pol_AutoSync (app_policy (app s))")
    case True
    then show ?thesis using assms(1) by (simp add: run quiet_def only_sync.keeps_def)
  next
    case False
    then show ?thesis using assms(2) by (simp add: run quiet.keeps_def)
  qed
qed

lemma quiet_ext: "c \<notin> deploys \<Longrightarrow> quiet.keeps (ext c f)"
  by (intro quiet_keeps only_sync_ext made_ext) simp

lemma quiet_get: "quiet.keeps get_app"
  by (intro quiet_keeps only_sync_get_app made_get_app)

lemmas quiet_intros = quiet.keeps_intros quiet_ext quiet_get

lemma http_not_deploys: "http_calls \<subseteq> - deploys"
  by (auto simp: http_calls_def deploys_def)

lemma quiet_http: "only_sync.keeps m \<Longrightarrow> made.keeps http_calls m \<Longrightarrow> quiet.keeps m"
  by (rule quiet_keeps) (auto intro: made_weaken[OF http_not_deploys])

lemma GetApplicationClusterConfig_quiet: "quiet.keeps (GetApplicationClusterConfig env a)"
  unfolding GetApplicationClusterConfig_def getDestClusterSecret_def Let_def
  by (auto intro!: quiet_intros split: sum.splits)

lemma updateDeployResource_quiet: "quiet.keeps (updateDeployResource env u a)"
  unfolding updateDeployResource_def Let_def
  by (auto intro!: quiet_intros split: sum.splits)

lemma delete_resource_quiet: "quiet.keeps (delete_resource env cli d)"
  unfolding delete_resource_def
  by (auto intro!: quiet_intros split: sum.splits)

lemma plain_mgr_quiet: "quiet.keeps plain_mgr"
  by (rule quiet_keeps[OF plain_mgr_only_sync plain_mgr_made])

lemma plain_setTargetClient_quiet: "quiet.keeps (plain_setTargetClient env)"
proof -
  have "quiet.keeps (set_TargetCli c)" for c
    by (rule quiet_keeps[OF set_TargetCli_only_sync set_TargetCli_made])
  then show ?thesis
    unfolding plain_setTargetClient_def
    by (auto intro!: quiet_intros GetApplicationClusterConfig_quiet)
qed

lemma getDeployResourceList_quiet: "quiet.keeps (getDeployResourceList env a)"
  unfolding getDeployResourceList_def by (intro quiet_intros) simp

lemma quiet_set_sync: "quiet.keeps (update_app (set_sync c))"
  by (intro quiet_keeps only_sync_set made_update_app)

lemma compareDeployWithManifest_quiet: "quiet.keeps (compareDeployWithManifest env u)"
  unfolding compareDeployWithManifest_def Let_def
  by (auto intro!: quiet_intros plain_mgr_quiet quiet_set_sync split: sum.splits)

lemma clearApplicationResources_quiet: "quiet.keeps (clearApplicationResources env d)"
  unfolding clearApplicationResources_def
  by (intro quiet_intros plain_mgr_quiet delete_resource_quiet)

lemma prune_quiet: "(\<And>d. quiet.keeps (clear d)) \<Longrightarrow> quiet.keeps (prune clear old upd)"
  unfolding prune_def by (auto intro!: quiet_intros)

lemma sync_object_quiet: "quiet.keeps (sync_object env False u upd)"
  unfolding sync_object_def
proof (rule quiet_get_app, goal_cases)
  case (1 a)
  show ?case
    by (auto intro!: only_sync_intros updateDeployResource_only_sync compareDeployWithManifest_only_sync
          applyManifest_only_sync split: prod.splits option.splits)
next
  case (2 a)
  then show ?case
    by (auto intro!: quiet_intros updateDeployResource_quiet compareDeployWithManifest_quiet
          split: prod.splits option.splits)
qed

lemma plain_Sync_quiet: "quiet.keeps (plain_Sync env False)"
proof -
  have "quiet.keeps (update_app (\<lambda>a. if app_sync a = c then set_sync d a else a))" for c d
    by (intro quiet_keeps only_sync_finish made_update_app)
  moreover have "quiet.keeps (cli_GetManifestInfos env g p rv is)" for g p rv "is"
    by (intro quiet_http cli_GetManifestInfos_only_sync cli_GetManifestInfos_made)
  moreover have "quiet.keeps (cli_ObjectFromManifest env g i ns)" for g i ns
    by (intro quiet_http cli_ObjectFromManifest_only_sync cli_ObjectFromManifest_made)
  ultimately show ?thesis
    unfolding plain_Sync_def sync_file_def
    by (intro quiet_intros plain_mgr_quiet plain_setTargetClient_quiet getDeployResourceList_quiet
          sync_object_quiet prune_quiet clearApplicationResources_quiet)
qed

text \<open>\<open>Clear\<close> never deploys, whatever the policy.\<close>

lemma plain_Clear_made: "made.keeps (- deploys) (plain_Clear env)"
proof -
  have "made.keeps (- deploys) (plain_setTargetClient env)"
    unfolding plain_setTargetClient_def GetApplicationClusterConfig_def getDestClusterSecret_def Let_def
    by (auto intro!: made_intros set_TargetCli_made split: sum.splits)
  moreover have "made.keeps (- deploys) (clearApplicationResources env d)" for d
    unfolding clearApplicationResources_def delete_resource_def
    by (auto intro!: made_intros plain_mgr_made split: sum.splits)
  moreover have "made.keeps (- deploys) (getDeployResourceList env a)" for a
    unfolding getDeployResourceList_def by (intro made_intros) simp
  ultimately show ?thesis
    unfolding plain_Clear_def by (intro made_intros plain_mgr_made)
qed

section \<open>The interface\<close>

text \<open>
  \<open>ManifestManager\<close> as its clients see it: both operations change nothing of the
  Application but its sync status, a sync that is neither forced nor automatic
  deploys nothing, and clearing deploys nothing. The client's view is the body of
  \<open>CheckSync\<close> once a manager is chosen.
\<close>

locale manifest_manager =
  fixes Sync :: "bool \<Rightarrow> unit act"
    and Clear :: "unit act"
  assumes Sync_frame: "only_sync.keeps (Sync forced)"
    and Sync_unforced: "quiet.keeps (Sync False)"
    and Clear_frame: "only_sync.keeps Clear"
    and Clear_deploys: "made.keeps (- deploys) Clear"
begin

lemma checked_sync_frame:
  "only_sync.keeps (bnd (update_app (set_sync c)) (\<lambda>_. Sync forced))"
  by (intro only_sync_intros Sync_frame)

lemma checked_sync_quiet: "quiet.keeps (bnd (update_app (set_sync c)) (\<lambda>_. Sync False))"
  by (intro quiet_intros quiet_set_sync Sync_unforced)

lemma Clear_quiet: "quiet.keeps Clear"
  by (intro quiet_keeps Clear_frame Clear_deploys)

lemma unforced_deploys_nothing:
  assumes "Sync False s = (r, s')" and "\<not> pol_AutoSync (app_policy (app s))"
  shows "set (new_calls s s') \<inter> deploys = {}"
proof -
  from quiet.keepsD[OF Sync_unforced assms(1)] have "made (- deploys) s s'"
    using assms(2) by (simp add: quiet_def)
  from new_calls_made[OF this] show ?thesis by blast
qed

end

interpretation plain: manifest_manager "plain_Sync env" "plain_Clear env" for env
  by unfold_locales
     (rule plain_Sync_only_sync plain_Sync_quiet plain_Clear_only_sync plain_Clear_made)+

end
