(* ===== verification/Helm.thy ===== *)
theory Helm
  imports Manifest
begin

text \<open>
  \<open>pkg/manifestmanager/helm.go\<close> with \<open>util/gitclient\<close> and \<open>util/helmclient\<close>: the
  manager of Helm sources. It keeps a clone of the repository under \<open>/tmp\<close>, renders
  the chart with a dry run, records the rendered objects, prunes the recorded
  objects that are gone, and installs the chart when it may. go-git and the Helm
  SDK are the services \<open>e_clone\<close> ... \<open>e_helm_uninstall\<close> of the environment.
\<close>

section \<open>The local clone\<close>

definition repo_path :: "application \<Rightarrow> string" where
  "repo_path a = ''/tmp/repo-'' @ app_Name a @ ''-'' @ app_Namespace a"

definition Clone :: "env \<Rightarrow> string \<Rightarrow> string \<Rightarrow> string \<Rightarrow> unit act" where
  "Clone env url localPath revision =
     ext (CClone url localPath (''refs/heads/'' @ revision))
       (\<lambda>h. e_clone env h url localPath (''refs/heads/'' @ revision))"

definition Open :: "env \<Rightarrow> string \<Rightarrow> unit act" where
  "Open env localRepoPath = ext (COpen localRepoPath) (\<lambda>h. e_open env h localRepoPath)"

text \<open>go-git reports that there was nothing to pull as the error \<open>NoErrAlreadyUpToDate\<close>.\<close>

definition NoErrAlreadyUpToDate :: error where
  "NoErrAlreadyUpToDate = Fail ''already up-to-date''"

definition Pull :: "env \<Rightarrow> string \<Rightarrow> unit act" where
  "Pull env repo =
     bnd (attempt (ext (CWorktree repo) (\<lambda>h. e_worktree env h repo))) (\<lambda>r.
     case r of
       Inl e \<Rightarrow> crash (err_msg e)
     | Inr _ \<Rightarrow>
         bnd (attempt (ext (CPull repo) (\<lambda>h. e_pull env h repo))) (\<lambda>r.
         case r of
           Inl e \<Rightarrow> (if e \<noteq> NoErrAlreadyUpToDate then throw e else ret ())
         | Inr _ \<Rightarrow> ret ()))"

definition gitRepoClone :: "env \<Rightarrow> unit act" where
  "gitRepoClone env =
     bnd get_app (\<lambda>a. Clone env (src_RepoURL (app_source a)) (repo_path a) (src_TargetRevision (app_source a)))"

definition gitPull :: "env \<Rightarrow> unit act" where
  "gitPull env = bnd get_app (\<lambda>a. bnd (Open env (repo_path a)) (\<lambda>_. Pull env (repo_path a)))"

section \<open>Charts\<close>

definition setChartSpec :: "application \<Rightarrow> chart_spec" where
  "setChartSpec a =
     \<lparr>ch_ReleaseName = app_Name a @ ''-'' @ app_Namespace a,
      ch_ChartName = repo_path a @ ''/'' @ src_Path (app_source a),
      ch_Namespace = (if dst_Namespace (app_dest a) = [] then ''default'' else dst_Namespace (app_dest a)),
      ch_UpgradeCRDs = True, ch_Wait = False, ch_DryRun = False\<rparr>"

definition helm_mgr :: "helm_mgr act" where
  "helm_mgr = (\<lambda>s. case helmManager s of None \<Rightarrow> (Panic nil_deref, s) | Some m \<Rightarrow> (Ok m, s))"

definition set_helm_Client :: "helm_options \<Rightarrow> unit act" where
  "set_helm_Client o' = modify (\<lambda>s. s\<lparr>helmManager := map_option (\<lambda>m. m\<lparr>hm_Client := o'\<rparr>) (helmManager s)\<rparr>)"

text \<open>\<open>NewHelmManager\<close> panics when the Helm client cannot be built.\<close>

definition NewHelmManager :: "env \<Rightarrow> helm_mgr act" where
  "NewHelmManager env =
     (let o' = \<lparr>ho_Namespace = [], ho_RestConfig = None\<rparr> in
      bnd (attempt (ext (CHelmNew o') (\<lambda>h. e_helm_new env h o'))) (\<lambda>r.
      case r of Inl e \<Rightarrow> crash (err_msg e) | Inr _ \<Rightarrow> ret \<lparr>hm_Client = o'\<rparr>))"

definition helm_setTargetClient :: "env \<Rightarrow> unit act" where
  "helm_setTargetClient env =
     bnd get_app (\<lambda>a.
     if dst_Name (app_dest a) \<noteq> [] then
       bnd (GetApplicationClusterConfig env a) (\<lambda>config.
       let o' = \<lparr>ho_Namespace = dst_Namespace (app_dest a), ho_RestConfig = Some config\<rparr> in
       bnd (ext (CHelmNew o') (\<lambda>h. e_helm_new env h o')) (\<lambda>_. set_helm_Client o'))
     else
       (let o' = \<lparr>ho_Namespace = dst_Namespace (app_dest a), ho_RestConfig = None\<rparr> in
        bnd (ext (CHelmNew o') (\<lambda>h. e_helm_new env h o')) (\<lambda>_. set_helm_Client o')))"

definition InstallChart :: "env \<Rightarrow> chart_spec \<Rightarrow> string act" where
  "InstallChart env chart =
     bnd helm_mgr (\<lambda>m. ext (CHelmInstall (hm_Client m) chart) (\<lambda>h. e_helm_install env h (hm_Client m) chart))"

text \<open>\<open>installHelmChart\<close> turns every error of Helm into a panic.\<close>

definition installHelmChart :: "env \<Rightarrow> chart_spec \<Rightarrow> bool \<Rightarrow> string act" where
  "installHelmChart env chart dryRun =
     bnd (attempt (InstallChart env (chart\<lparr>ch_DryRun := dryRun\<rparr>))) (\<lambda>r.
     case r of Inl e \<Rightarrow> crash (err_msg e) | Inr manifest \<Rightarrow> ret manifest)"

definition UninstallReleaseByName :: "env \<Rightarrow> string \<Rightarrow> unit act" where
  "UninstallReleaseByName env releaseName =
     bnd helm_mgr (\<lambda>m.
     bnd (attempt (ext (CHelmUninstall (hm_Client m) releaseName)
                     (\<lambda>h. e_helm_uninstall env h (hm_Client m) releaseName))) (\<lambda>r.
     case r of Inl e \<Rightarrow> crash (err_msg e) | Inr _ \<Rightarrow> ret ()))"

text \<open>The log line dereferences the optional \<open>helm\<close> section of the source.\<close>

definition uninstallRelease :: "env \<Rightarrow> unit act" where
  "uninstallRelease env =
     bnd get_app (\<lambda>a.
     case src_Helm (app_source a) of
       None \<Rightarrow> crash nil_deref
     | Some _ \<Rightarrow> UninstallReleaseByName env (app_Name a @ ''-'' @ app_Namespace a))"

text \<open>The loop body of \<open>objectFromManifest\<close> on one rendered document.\<close>

definition helm_document :: "env \<Rightarrow> string \<Rightarrow> unst list \<Rightarrow> unst list act" where
  "helm_document env doc obs =
     bnd (lift (e_yaml_to_json env doc)) (\<lambda>bytes.
     if bytes = ''null'' then ret obs
     else
       bnd (helm_setTargetClient env) (\<lambda>_.
       bnd (lift (BytesToUnstructuredObject env bytes)) (\<lambda>ob.
       bnd get_app (\<lambda>a. ret (obs @ [default_namespace (dst_Namespace (app_dest a)) ob])))))"

definition objectFromManifest :: "env \<Rightarrow> chart_spec \<Rightarrow> unst list act" where
  "objectFromManifest env chart =
     bnd (installHelmChart env chart True) (\<lambda>manifest.
     fold_each (SplitMultipleObjectsYAML manifest) (helm_document env) [])"

definition clearDeployResource :: "env \<Rightarrow> deploy_resource \<Rightarrow> unit act" where
  "clearDeployResource env d = ext (CDeleteDR d) (\<lambda>h. e_delete_dr env h d)"

section \<open>Sync and Clear\<close>

definition fetch_repo :: "env \<Rightarrow> unit act" where
  "fetch_repo env =
     bnd get_app (\<lambda>a.
     bnd (ext (CStat (repo_path a)) (\<lambda>h. Ok (e_stat env h (repo_path a)))) (\<lambda>st.
     case st of
       StatNotExist \<Rightarrow> gitRepoClone env
     | StatExists \<Rightarrow> gitPull env
     | StatError \<Rightarrow> ret ()))"

definition record_object ::
  "env \<Rightarrow> unst \<Rightarrow> (string \<rightharpoonup> deploy_resource) \<Rightarrow> (string \<rightharpoonup> deploy_resource) act" where
  "record_object env u upd =
     bnd get_app (\<lambda>a. bnd (updateDeployResource env u a) (\<lambda>d. ret (upd(dr_Name d \<mapsto> d))))"

definition helm_Sync :: "env \<Rightarrow> bool \<Rightarrow> unit act" where
  "helm_Sync env forced =
     bnd helm_mgr (\<lambda>_.
     bnd (fetch_repo env) (\<lambda>_.
     bnd get_app (\<lambda>a.
     let chart = setChartSpec a in
     bnd (helm_setTargetClient env) (\<lambda>_.
     bnd (getDeployResourceList env a) (\<lambda>old.
     bnd (objectFromManifest env chart) (\<lambda>obs.
     bnd (fold_each obs (record_object env) Map.empty) (\<lambda>upd.
     bnd (prune (deleteDeployResource env) old upd) (\<lambda>_.
     if forced \<or> pol_AutoSync (app_policy a) then
       bnd (installHelmChart env chart False) (\<lambda>_. update_app (set_sync SyncStatusCodeSynced))
     else ret ()))))))))"

definition helm_Clear :: "env \<Rightarrow> unit act" where
  "helm_Clear env =
     bnd helm_mgr (\<lambda>_.
     bnd (helm_setTargetClient env) (\<lambda>_.
     bnd (uninstallRelease env) (\<lambda>_.
     bnd get_app (\<lambda>a.
     bnd (getDeployResourceList env a) (\<lambda>ds.
     for_each ds (clearDeployResource env))))))"

section \<open>Frame\<close>

lemma helm_mgr_only_sync: "only_sync.keeps helm_mgr"
  by (rule only_sync.keepsI) (auto simp: helm_mgr_def only_sync_def set_sync_def split: option.splits)

lemma helm_mgr_made: "made.keeps A helm_mgr"
  by (rule made.keepsI) (auto simp: helm_mgr_def made_def split: option.splits)

lemma set_helm_Client_only_sync: "only_sync.keeps (set_helm_Client o')"
  unfolding set_helm_Client_def by (rule only_sync_modify) simp

lemma set_helm_Client_made: "made.keeps A (set_helm_Client o')"
  unfolding set_helm_Client_def by (rule made_modify) simp

lemmas helm_mgr_quiet = quiet_keeps[OF helm_mgr_only_sync helm_mgr_made]
lemmas set_helm_Client_quiet = quiet_keeps[OF set_helm_Client_only_sync set_helm_Client_made]

lemma helm_setTargetClient_quiet: "quiet.keeps (helm_setTargetClient env)"
  unfolding helm_setTargetClient_def Let_def
  by (auto intro!: quiet_intros GetApplicationClusterConfig_quiet set_helm_Client_quiet)

lemma quiet_only_sync: "quiet.keeps m \<Longrightarrow> only_sync.keeps m"
  by (simp add: quiet.keeps_def only_sync.keeps_def quiet_def)

lemmas helm_setTargetClient_only_sync = quiet_only_sync[OF helm_setTargetClient_quiet]

lemma fetch_repo_quiet: "quiet.keeps (fetch_repo env)"
  unfolding fetch_repo_def gitRepoClone_def gitPull_def Clone_def Open_def Pull_def
  by (auto intro!: quiet_intros split: stat_result.splits sum.splits)

lemma installHelmChart_only_sync: "only_sync.keeps (installHelmChart env ch dry)"
  unfolding installHelmChart_def InstallChart_def
  by (auto intro!: only_sync_intros helm_mgr_only_sync split: sum.splits)

lemma installHelmChart_dry_made: "made.keeps (- deploys) (installHelmChart env ch True)"
  unfolding installHelmChart_def InstallChart_def
  by (auto intro!: made_intros helm_mgr_made split: sum.splits)

lemma objectFromManifest_quiet: "quiet.keeps (objectFromManifest env ch)"
proof -
  have "quiet.keeps (helm_document env doc obs)" for doc obs
    unfolding helm_document_def
    by (auto intro!: quiet_intros helm_setTargetClient_quiet)
  moreover have "quiet.keeps (installHelmChart env ch True)"
    by (intro quiet_keeps installHelmChart_only_sync installHelmChart_dry_made)
  ultimately show ?thesis
    unfolding objectFromManifest_def by (intro quiet_intros)
qed

lemma record_object_quiet: "quiet.keeps (record_object env u upd)"
  unfolding record_object_def by (intro quiet_intros updateDeployResource_quiet)

lemma deleteDeployResource_quiet: "quiet.keeps (deleteDeployResource env d)"
  unfolding deleteDeployResource_def by (rule delete_resource_quiet)

lemmas helm_steps_quiet =
  helm_mgr_quiet fetch_repo_quiet helm_setTargetClient_quiet getDeployResourceList_quiet
  objectFromManifest_quiet record_object_quiet deleteDeployResource_quiet prune_quiet

lemma helm_Sync_only_sync: "only_sync.keeps (helm_Sync env forced)"
  unfolding helm_Sync_def Let_def
  by (auto intro!: only_sync_intros installHelmChart_only_sync helm_steps_quiet[THEN quiet_only_sync]
        prune_only_sync deleteDeployResource_quiet[THEN quiet_only_sync])

lemma helm_Sync_quiet: "quiet.keeps (helm_Sync env False)"
  unfolding helm_Sync_def Let_def
proof (rule quiet.keeps_bnd[OF helm_mgr_quiet], rule quiet.keeps_bnd[OF fetch_repo_quiet], rule quiet_get_app, goal_cases)
  case (1 a)
  show ?case
    by (auto intro!: only_sync_intros installHelmChart_only_sync helm_steps_quiet[THEN quiet_only_sync]
        prune_only_sync deleteDeployResource_quiet[THEN quiet_only_sync])
next
  case (2 a)
  then show ?case by (auto intro!: quiet_intros helm_steps_quiet)
qed

lemma helm_Clear_only_sync: "only_sync.keeps (helm_Clear env)"
  unfolding helm_Clear_def uninstallRelease_def UninstallReleaseByName_def clearDeployResource_def
  by (auto intro!: only_sync_intros helm_mgr_only_sync helm_setTargetClient_only_sync
        getDeployResourceList_only_sync split: option.splits sum.splits)

lemma helm_Clear_made: "made.keeps (- deploys) (helm_Clear env)"
  unfolding helm_Clear_def uninstallRelease_def UninstallReleaseByName_def clearDeployResource_def
    helm_setTargetClient_def GetApplicationClusterConfig_def getDestClusterSecret_def
    getDeployResourceList_def Let_def
  by (auto intro!: made_intros helm_mgr_made set_helm_Client_made split: option.splits sum.splits)

interpretation helm: manifest_manager "helm_Sync env" "helm_Clear env" for env
  by unfold_locales
     (rule helm_Sync_only_sync helm_Sync_quiet helm_Clear_only_sync helm_Clear_made)+

end
