(* ===== verification/SyncCheck.thy ===== *)
theory SyncCheck
  imports Helm
begin

text \<open>
  \<open>pkg/sync/sync.go\<close>: the check that the controller, its periodic routines, the
  webhook dispatcher and the API server all end in. The managers are created once
  and kept in global variables.
\<close>

definition defaultSyncCheckPerod :: "64 word" where
  "defaultSyncCheckPerod = 60"

definition SetDefaultSyncStatus :: "application \<Rightarrow> application" where
  "SetDefaultSyncStatus a = a\<lparr>app_Status := (app_Status a)\<lparr>stat_Sync :=
     \<lparr>sync_Status = SyncStatusCodeUnknown, sync_TimeCheck = 0\<rparr>\<rparr>\<rparr>"

definition SetDefaultSyncCheckPeriod :: "application \<Rightarrow> application" where
  "SetDefaultSyncCheckPeriod a = a\<lparr>app_Spec := (app_Spec a)\<lparr>spec_SyncPolicy :=
     (app_policy a)\<lparr>pol_SyncCheckPeriod := defaultSyncCheckPerod\<rparr>\<rparr>\<rparr>"

text \<open>The first two statements of \<open>CheckSync\<close>: each manager is created when it is nil.\<close>

definition ensure_plain :: "env \<Rightarrow> unit act" where
  "ensure_plain env =
     bnd (gets plainManager) (\<lambda>m.
     case m of
       None \<Rightarrow> bnd (GetGitCli env) (\<lambda>gitCli.
         modify (\<lambda>s. s\<lparr>plainManager := Some (NewPlainYamlManager gitCli)\<rparr>))
     | Some _ \<Rightarrow> ret ())"

definition ensure_helm :: "env \<Rightarrow> unit act" where
  "ensure_helm env =
     bnd (gets helmManager) (\<lambda>m.
     case m of
       None \<Rightarrow> bnd (NewHelmManager env) (\<lambda>hm. modify (\<lambda>s. s\<lparr>helmManager := Some hm\<rparr>))
     | Some _ \<Rightarrow> ret ())"

definition CheckSync :: "env \<Rightarrow> bool \<Rightarrow> unit act" where
  "CheckSync env forced =
     bnd (ensure_plain env) (\<lambda>_.
     bnd (ensure_helm env) (\<lambda>_.
     bnd get_app (\<lambda>a.
     if src_Type (app_source a) = ApplicationSourceTypePlainYAML then
       bnd (update_app (set_sync SyncStatusCodeUnknown)) (\<lambda>_. plain_Sync env forced)
     else if src_Type (app_source a) = ApplicationSourceTypeHelm then
       bnd (update_app (set_sync SyncStatusCodeUnknown)) (\<lambda>_. helm_Sync env forced)
     else throw (Fail ''get sync manager failed''))))"

section \<open>Frame\<close>

lemma ensure_plain_only_sync: "only_sync.keeps (ensure_plain env)"
  unfolding ensure_plain_def
  by (auto intro!: only_sync_intros GetGitCli_only_sync only_sync_modify split: option.splits)

lemma ensure_helm_only_sync: "only_sync.keeps (ensure_helm env)"
  unfolding ensure_helm_def NewHelmManager_def Let_def
  by (auto intro!: only_sync_intros only_sync_modify split: option.splits sum.splits)

lemma ensure_plain_made: "made.keeps (- deploys) (ensure_plain env)"
  unfolding ensure_plain_def
  by (auto intro!: made_intros GetGitCli_made made_modify split: option.splits)

lemma ensure_helm_made: "made.keeps (- deploys) (ensure_helm env)"
  unfolding ensure_helm_def NewHelmManager_def Let_def
  by (auto intro!: made_intros made_modify split: option.splits sum.splits)

lemma CheckSync_only_sync: "only_sync.keeps (CheckSync env forced)"
  unfolding CheckSync_def
  by (auto intro!: only_sync_intros ensure_plain_only_sync ensure_helm_only_sync
        plain.checked_sync_frame helm.checked_sync_frame)

lemma CheckSync_quiet: "quiet.keeps (CheckSync env False)"
  unfolding CheckSync_def
  by (auto intro!: quiet_intros quiet_keeps[OF ensure_plain_only_sync ensure_plain_made]
        quiet_keeps[OF ensure_helm_only_sync ensure_helm_made]
        plain.checked_sync_quiet helm.checked_sync_quiet)

end
