(* ===== verification/SyncRoutine.thy ===== *)
theory SyncRoutine
  imports SyncCheck
begin

text \<open>
  The periodic routines of \<open>controllers/application_controller.go\<close> and
  \<open>PeriodicSyncCheck\<close> of \<open>pkg/sync/sync.go\<close>: the tables of stop channels, tickers
  and periods, and the goroutines behind them. Channels and tickers are numbers
  that \<open>make\<close> and \<open>NewTicker\<close> draw from one counter.
\<close>

definition appKeyName :: "application \<Rightarrow> string" where
  "appKeyName a = app_Name a @ ''/'' @ app_Namespace a"

definition get_tables :: "sync_tables act" where
  "get_tables = gets tables"

definition update_tables :: "(sync_tables \<Rightarrow> sync_tables) \<Rightarrow> unit act" where
  "update_tables f = modify (\<lambda>s. s\<lparr>tables := f (tables s)\<rparr>)"

lemma tables_apply [prog_simps]:
  "get_tables s = (Ok (tables s), s)" "update_tables f s = (Ok (), s\<lparr>tables := f (tables s)\<rparr>)"
  by (simp_all add: get_tables_def update_tables_def gets_def modify_def)

text \<open>A new channel or ticker number.\<close>

definition fresh_id :: "nat act" where
  "fresh_id = bnd get_tables (\<lambda>t.
     bnd (update_tables (\<lambda>t. t\<lparr>next_id := Suc (next_id t)\<rparr>)) (\<lambda>_. ret (next_id t)))"

text \<open>
  \<open>time.Second * time.Duration(period)\<close>, in 64-bit arithmetic, and \<open>time.NewTicker\<close>,
  which panics on a duration that is not positive.
\<close>

definition ticker_duration :: "64 word \<Rightarrow> 64 word" where
  "ticker_duration period = 1000000000 * period"

definition NewTicker :: "64 word \<Rightarrow> nat act" where
  "NewTicker d =
     (if sint d \<le> 0 then crash ''non-positive interval for NewTicker''
      else bnd fresh_id (\<lambda>i. bnd (update_tables (\<lambda>t. t\<lparr>active := insert i (active t)\<rparr>)) (\<lambda>_. ret i)))"

text \<open>
  A send on the unbuffered stop channel waits for the routine that receives from
  it, and this routine then returns. With no such routine the send blocks for ever.
\<close>

definition send_stop :: "nat \<Rightarrow> unit act" where
  "send_stop ch = bnd get_tables (\<lambda>t.
     if \<exists>r \<in> set (routines t). rt_Done r = ch
     then update_tables (\<lambda>t. t\<lparr>routines := filter (\<lambda>r. rt_Done r \<noteq> ch) (routines t)\<rparr>)
     else diverge)"

definition registerSyncFlag :: "(nat \<times> nat) act" where
  "registerSyncFlag =
     bnd get_app (\<lambda>a.
     bnd fresh_id (\<lambda>done_ch.
     bnd (update_tables (\<lambda>t. t\<lparr>syncStopFlags := (syncStopFlags t)(appKeyName a \<mapsto> done_ch)\<rparr>)) (\<lambda>_.
     bnd (NewTicker (ticker_duration (pol_SyncCheckPeriod (app_policy a)))) (\<lambda>ticker.
     bnd (update_tables (\<lambda>t. t\<lparr>syncTickers := (syncTickers t)(appKeyName a \<mapsto> ticker)\<rparr>)) (\<lambda>_.
     bnd (update_tables (\<lambda>t. t\<lparr>syncPeriods :=
            (syncPeriods t)(appKeyName a \<mapsto> pol_SyncCheckPeriod (app_policy a))\<rparr>)) (\<lambda>_.
     ret (done_ch, ticker)))))))"

definition deleteSyncFlag :: "unit act" where
  "deleteSyncFlag =
     bnd get_app (\<lambda>a.
     bnd get_tables (\<lambda>t.
     bnd (case (syncStopFlags t (appKeyName a), syncTickers t (appKeyName a)) of
            (Some ch, Some ticker) \<Rightarrow>
              bnd (send_stop ch) (\<lambda>_. update_tables (\<lambda>t. t\<lparr>active := active t - {ticker}\<rparr>))
          | _ \<Rightarrow> ret ()) (\<lambda>_.
     update_tables (\<lambda>t. t\<lparr>syncStopFlags := (syncStopFlags t)(appKeyName a := None),
                          syncTickers := (syncTickers t)(appKeyName a := None),
                          syncPeriods := (syncPeriods t)(appKeyName a := None)\<rparr>))))"

text \<open>\<open>go sync.PeriodicSyncCheck(...)\<close> on the object of the running handler.\<close>

definition go_PeriodicSyncCheck :: "nat \<Rightarrow> nat \<Rightarrow> unit act" where
  "go_PeriodicSyncCheck done_ch ticker =
     update_tables (\<lambda>t. t\<lparr>routines := routines t @ [\<lparr>rt_Done = done_ch, rt_Ticker = ticker, rt_App = None\<rparr>]\<rparr>)"

definition manageSyncRoutine :: "unit act" where
  "manageSyncRoutine =
     bnd (update_app (set_sync SyncStatusCodeUnknown)) (\<lambda>_.
     bnd deleteSyncFlag (\<lambda>_.
     bnd registerSyncFlag (\<lambda>(done_ch, ticker).
     go_PeriodicSyncCheck done_ch ticker)))"

section \<open>A tick\<close>

text \<open>
  The branch \<open>case <-ticker.C\<close> of the loop of \<open>PeriodicSyncCheck\<close>: a sync check of
  the routine's own object, whose error is logged.
\<close>

definition PeriodicSyncCheck_tick :: "env \<Rightarrow> unit act" where
  "PeriodicSyncCheck_tick env = bnd (attempt (CheckSync env False)) (\<lambda>_. ret ())"

section \<open>The tables\<close>

text \<open>
  \<open>tables_ok a t\<close>, where \<open>a\<close> is the object of the running handler: the three tables
  have the same keys; a key's channel is that of a running routine on an
  Application with this key, which listens to the key's ticker; every running
  routine is registered in this way; channels belong to one routine, tickers to
  one key, and the active tickers are the registered ones.
\<close>

definition routine_key :: "application \<Rightarrow> routine \<Rightarrow> string" where
  "routine_key a r = appKeyName (case rt_App r of None \<Rightarrow> a | Some b \<Rightarrow> b)"

definition tables_ok :: "application \<Rightarrow> sync_tables \<Rightarrow> bool" where
  "tables_ok a t \<longleftrightarrow>
     (\<forall>k. syncTickers t k = None \<longleftrightarrow> syncStopFlags t k = None)
     \<and> (\<forall>k. syncPeriods t k = None \<longleftrightarrow> syncStopFlags t k = None)
     \<and> (\<forall>k ch. syncStopFlags t k = Some ch \<longrightarrow> ch < next_id t
          \<and> (\<exists>r \<in> set (routines t). rt_Done r = ch \<and> routine_key a r = k \<and> syncTickers t k = Some (rt_Ticker r)))
     \<and> (\<forall>r \<in> set (routines t). syncStopFlags t (routine_key a r) = Some (rt_Done r))
     \<and> distinct (map rt_Done (routines t))
     \<and> (\<forall>k i. syncTickers t k = Some i \<longrightarrow> i < next_id t)
     \<and> (\<forall>k k' i. syncTickers t k = Some i \<longrightarrow> syncTickers t k' = Some i \<longrightarrow> k = k')
     \<and> (\<forall>i. i \<in> active t \<longleftrightarrow> (\<exists>k. syncTickers t k = Some i))"

text \<open>The effect of the two operations on tables in order.\<close>

definition without_key :: "string \<Rightarrow> sync_tables \<Rightarrow> sync_tables" where
  "without_key k t = t\<lparr>
     routines := filter (\<lambda>r. Some (rt_Done r) \<noteq> syncStopFlags t k) (routines t),
     active := {i \<in> active t. Some i \<noteq> syncTickers t k},
     syncStopFlags := (syncStopFlags t)(k := None), syncTickers := (syncTickers t)(k := None),
     syncPeriods := (syncPeriods t)(k := None)\<rparr>"

definition with_key :: "string \<Rightarrow> 64 word \<Rightarrow> sync_tables \<Rightarrow> sync_tables" where
  "with_key k period t = t\<lparr>
     syncStopFlags := (syncStopFlags t)(k \<mapsto> next_id t), syncTickers := (syncTickers t)(k \<mapsto> Suc (next_id t)),
     syncPeriods := (syncPeriods t)(k \<mapsto> period),
     routines := routines t @ [\<lparr>rt_Done = next_id t, rt_Ticker = Suc (next_id t), rt_App = None\<rparr>],
     active := insert (Suc (next_id t)) (active t),
     next_id := Suc (Suc (next_id t))\<rparr>"

lemma tables_okD:
  assumes "tables_ok a t"
  shows "syncTickers t k = None \<longleftrightarrow> syncStopFlags t k = None"
    and "syncPeriods t k = None \<longleftrightarrow> syncStopFlags t k = None"
    and "syncStopFlags t k = Some ch \<Longrightarrow> ch < next_id t"
    and "syncStopFlags t k = Some ch \<Longrightarrow>
      \<exists>r \<in> set (routines t). rt_Done r = ch \<and> routine_key a r = k \<and> syncTickers t k = Some (rt_Ticker r)"
    and "r \<in> set (routines t) \<Longrightarrow> syncStopFlags t (routine_key a r) = Some (rt_Done r)"
    and "distinct (map rt_Done (routines t))"
    and "syncTickers t k = Some i \<Longrightarrow> i < next_id t"
    and "syncTickers t k = Some i \<Longrightarrow> syncTickers t k' = Some i \<Longrightarrow> k = k'"
    and "i \<in> active t \<longleftrightarrow> (\<exists>k. syncTickers t k = Some i)"
  using assms unfolding tables_ok_def by blast+

lemma tables_okI:
  assumes "\<And>k. syncTickers t k = None \<longleftrightarrow> syncStopFlags t k = None"
    and "\<And>k. syncPeriods t k = None \<longleftrightarrow> syncStopFlags t k = None"
    and "\<And>k ch. syncStopFlags t k = Some ch \<Longrightarrow> ch < next_id t"
    and "\<And>k ch. syncStopFlags t k = Some ch \<Longrightarrow>
      \<exists>r \<in> set (routines t). rt_Done r = ch \<and> routine_key a r = k \<and> syncTickers t k = Some (rt_Ticker r)"
    and "\<And>r. r \<in> set (routines t) \<Longrightarrow> syncStopFlags t (routine_key a r) = Some (rt_Done r)"
    and "distinct (map rt_Done (routines t))"
    and "\<And>k i. syncTickers t k = Some i \<Longrightarrow> i < next_id t"
    and "\<And>k k' i. syncTickers t k = Some i \<Longrightarrow> syncTickers t k' = Some i \<Longrightarrow> k = k'"
    and "\<And>i. i \<in> active t \<longleftrightarrow> (\<exists>k. syncTickers t k = Some i)"
  shows "tables_ok a t"
  unfolding tables_ok_def using assms by (intro conjI allI impI ballI) auto

text \<open>A channel determines its key.\<close>

lemma channel_key:
  assumes "tables_ok a t" and "syncStopFlags t k = Some ch" and "syncStopFlags t k' = Some ch"
  shows "k = k'"
proof -
  from tables_okD(4)[OF assms(1,2)] obtain r where r: "r \<in> set (routines t)" "rt_Done r = ch" "routine_key a r = k"
    by blast
  from tables_okD(4)[OF assms(1,3)] obtain r' where r': "r' \<in> set (routines t)" "rt_Done r' = ch" "routine_key a r' = k'"
    by blast
  have "inj_on rt_Done (set (routines t))"
    using tables_okD(6)[OF assms(1)] by (simp add: distinct_map)
  with r r' have "r = r'" by (metis inj_onD)
  with r r' show ?thesis by simp
qed

lemma without_key_tickers:
  assumes "tables_ok a t"
  shows "(\<exists>k'. syncTickers (without_key k t) k' = Some i)
    \<longleftrightarrow> (\<exists>k'. syncTickers t k' = Some i) \<and> Some i \<noteq> syncTickers t k"
proof
  assume "\<exists>k'. syncTickers (without_key k t) k' = Some i"
  then obtain k' where k': "k' \<noteq> k" "syncTickers t k' = Some i" by (auto simp: without_key_def split: if_splits)
  with tables_okD(8)[OF assms, of k' i k] have "syncTickers t k \<noteq> Some i" by blast
  with k' show "(\<exists>k'. syncTickers t k' = Some i) \<and> Some i \<noteq> syncTickers t k" by metis
next
  assume "(\<exists>k'. syncTickers t k' = Some i) \<and> Some i \<noteq> syncTickers t k"
  then obtain k' where "syncTickers t k' = Some i" "k' \<noteq> k" by metis
  then show "\<exists>k'. syncTickers (without_key k t) k' = Some i" by (intro exI[of _ k']) (simp add: without_key_def)
qed

lemma without_key_channel:
  assumes "tables_ok a t" and "syncStopFlags (without_key k t) k' = Some ch"
  shows "\<exists>r \<in> set (routines (without_key k t)).
    rt_Done r = ch \<and> routine_key a r = k' \<and> syncTickers (without_key k t) k' = Some (rt_Ticker r)"
proof -
  have f: "syncStopFlags t k' = Some ch" and ne: "k' \<noteq> k" using assms(2) by (auto simp: without_key_def split: if_splits)
  from tables_okD(4)[OF assms(1) f] obtain r where
    r: "r \<in> set (routines t)" "rt_Done r = ch" "routine_key a r = k'" "syncTickers t k' = Some (rt_Ticker r)"
    by blast
  have "syncStopFlags t k \<noteq> Some (rt_Done r)" using channel_key[OF assms(1) f] r(2) ne by blast
  with r ne show ?thesis by (auto simp: without_key_def)
qed

lemma without_key_ok:
  assumes ok: "tables_ok a t"
  shows "tables_ok a (without_key k t)"
proof (rule tables_okI)
  fix r assume "r \<in> set (routines (without_key k t))"
  then have r: "r \<in> set (routines t)" and ne: "syncStopFlags t k \<noteq> Some (rt_Done r)"
    by (auto simp: without_key_def dest: sym)
  from tables_okD(5)[OF ok r] ne show "syncStopFlags (without_key k t) (routine_key a r) = Some (rt_Done r)"
    by (auto simp: without_key_def)
next
  show "distinct (map rt_Done (routines (without_key k t)))"
    using tables_okD(6)[OF ok] by (simp add: without_key_def distinct_map inj_on_def)
next
  fix i show "i \<in> active (without_key k t) \<longleftrightarrow> (\<exists>k'. syncTickers (without_key k t) k' = Some i)"
    unfolding without_key_tickers[OF ok] using tables_okD(9)[OF ok, of i] by (auto simp: without_key_def)
qed (use tables_okD(1-3,7,8)[OF ok] without_key_channel[OF ok] in \<open>auto simp: without_key_def split: if_splits\<close>)

lemma with_key_channel:
  assumes "tables_ok a t" and "syncStopFlags (with_key (appKeyName a) period t) k = Some ch"
  shows "\<exists>r \<in> set (routines (with_key (appKeyName a) period t)).
    rt_Done r = ch \<and> routine_key a r = k \<and> syncTickers (with_key (appKeyName a) period t) k = Some (rt_Ticker r)"
proof (cases "k = appKeyName a")
  case True
  with assms(2) show ?thesis by (simp add: with_key_def routine_key_def)
next
  case False
  with assms(2) have "syncStopFlags t k = Some ch" by (simp add: with_key_def)
  from tables_okD(4)[OF assms(1) this] False show ?thesis by (auto simp: with_key_def)
qed

lemma with_key_routine:
  assumes "tables_ok a t" and "syncStopFlags t (appKeyName a) = None"
    and "r \<in> set (routines (with_key (appKeyName a) period t))"
  shows "syncStopFlags (with_key (appKeyName a) period t) (routine_key a r) = Some (rt_Done r)"
proof (cases "r \<in> set (routines t)")
  case True
  note flag = tables_okD(5)[OF assms(1) True]
  with assms(2) have "routine_key a r \<noteq> appKeyName a" by auto
  with flag show ?thesis by (simp add: with_key_def)
next
  case False
  with assms(3) have "r = \<lparr>rt_Done = next_id t, rt_Ticker = Suc (next_id t), rt_App = None\<rparr>" by (auto simp: with_key_def)
  then show ?thesis by (simp add: with_key_def routine_key_def)
qed

lemma with_key_ok:
  assumes ok: "tables_ok a t" and free: "syncStopFlags t (appKeyName a) = None"
  shows "tables_ok a (with_key (appKeyName a) period t)"
proof (rule tables_okI)
  fix r assume "r \<in> set (routines (with_key (appKeyName a) period t))"
  then show "syncStopFlags (with_key (appKeyName a) period t) (routine_key a r) = Some (rt_Done r)"
    by (rule with_key_routine[OF ok free])
next
  have "rt_Done r < next_id t" if "r \<in> set (routines t)" for r
    using tables_okD(5)[OF ok that] tables_okD(3)[OF ok] by blast
  then show "distinct (map rt_Done (routines (with_key (appKeyName a) period t)))"
    using tables_okD(6)[OF ok] by (fastforce simp: with_key_def)
next
  fix k k' i
  assume k: "syncTickers (with_key (appKeyName a) period t) k = Some i"
  then show "i < next_id (with_key (appKeyName a) period t)"
    using tables_okD(7)[OF ok, of k i] by (auto simp: with_key_def split: if_splits)
  have new: "syncTickers t k \<noteq> Some (Suc (next_id t))" for k
    using tables_okD(7)[OF ok, of k "Suc (next_id t)"] by auto
  assume "syncTickers (with_key (appKeyName a) period t) k' = Some i"
  with k show "k = k'"
    using new tables_okD(8)[OF ok, of k i k'] by (auto simp: with_key_def split: if_splits)
next
  fix i
  have none: "syncTickers t (appKeyName a) = None" using free tables_okD(1)[OF ok] by simp
  then have "(\<exists>k. syncTickers (with_key (appKeyName a) period t) k = Some i)
      \<longleftrightarrow> i = Suc (next_id t) \<or> (\<exists>k. syncTickers t k = Some i)"
    by (simp add: with_key_def) (metis option.distinct(1))
  then show "i \<in> active (with_key (appKeyName a) period t)
      \<longleftrightarrow> (\<exists>k. syncTickers (with_key (appKeyName a) period t) k = Some i)"
    using tables_okD(9)[OF ok, of i] by (simp add: with_key_def)
next
  fix k ch assume f: "syncStopFlags (with_key (appKeyName a) period t) k = Some ch"
  then show "ch < next_id (with_key (appKeyName a) period t)"
    using tables_okD(3)[OF ok, of k ch] by (auto simp: with_key_def split: if_splits)
  show "\<exists>r \<in> set (routines (with_key (appKeyName a) period t)).
      rt_Done r = ch \<and> routine_key a r = k \<and> syncTickers (with_key (appKeyName a) period t) k = Some (rt_Ticker r)"
    by (rule with_key_channel[OF ok f])
qed (use tables_okD(1,2)[OF ok] in \<open>auto simp: with_key_def\<close>)

section \<open>The operations on tables in order\<close>

lemma tables_ok_app:
  "appKeyName b = appKeyName a \<Longrightarrow> tables_ok b t = tables_ok a t"
  by (simp add: tables_ok_def routine_key_def split: option.splits)

lemma set_sync_key [simp]: "appKeyName (set_sync c a) = appKeyName a"
  by (simp add: appKeyName_def)

lemma tables_ok_set_sync [simp]: "tables_ok (set_sync c a) t = tables_ok a t"
  by (rule tables_ok_app) simp

lemma deleteSyncFlag_ok:
  assumes ok: "tables_ok (app s) (tables s)"
  shows "deleteSyncFlag s = (Ok (), s\<lparr>tables := without_key (appKeyName (app s)) (tables s)\<rparr>)"
proof -
  let ?k = "appKeyName (app s)" and ?t = "tables s"
  show ?thesis
  proof (cases "syncStopFlags ?t ?k")
    case None
    with tables_okD(1,2)[OF ok, of ?k] have "syncTickers ?t ?k = None" "syncPeriods ?t ?k = None" by simp_all
    with None show ?thesis
      by (simp add: deleteSyncFlag_def without_key_def bnd_def prog_simps)
  next
    case (Some ch)
    from tables_okD(4)[OF ok Some] obtain r where
      r: "r \<in> set (routines ?t)" "rt_Done r = ch" and tick: "syncTickers ?t ?k = Some (rt_Ticker r)"
      by blast
    have "\<exists>r \<in> set (routines ?t). rt_Done r = ch" using r by blast
    moreover have "{i \<in> active ?t. i \<noteq> rt_Ticker r} = active ?t - {rt_Ticker r}" by auto
    ultimately show ?thesis using Some tick
      by (simp add: deleteSyncFlag_def send_stop_def without_key_def bnd_def prog_simps)
  qed
qed

lemma register_and_start:
  assumes "sint (ticker_duration (pol_SyncCheckPeriod (app_policy (app s)))) > 0"
  shows "bnd registerSyncFlag (\<lambda>(done_ch, ticker). go_PeriodicSyncCheck done_ch ticker) s =
    (Ok (), s\<lparr>tables := with_key (appKeyName (app s)) (pol_SyncCheckPeriod (app_policy (app s))) (tables s)\<rparr>)"
  using assms
  by (simp add: registerSyncFlag_def NewTicker_def fresh_id_def go_PeriodicSyncCheck_def with_key_def
      bnd_def prog_simps)

lemma register_panics:
  assumes "sint (ticker_duration (pol_SyncCheckPeriod (app_policy (app s)))) \<le> 0"
  shows "fst (registerSyncFlag s) = Panic ''non-positive interval for NewTicker''"
  using assms
  by (simp add: registerSyncFlag_def NewTicker_def fresh_id_def bnd_def prog_simps)

lemma manageSyncRoutine_ok:
  assumes ok: "tables_ok (app s) (tables s)"
    and pos: "sint (ticker_duration (pol_SyncCheckPeriod (app_policy (app s)))) > 0"
  shows "manageSyncRoutine s =
    (Ok (), s\<lparr>app := set_sync SyncStatusCodeUnknown (app s),
              tables := with_key (appKeyName (app s)) (pol_SyncCheckPeriod (app_policy (app s)))
                          (without_key (appKeyName (app s)) (tables s))\<rparr>)"
proof -
  let ?s = "s\<lparr>app := set_sync SyncStatusCodeUnknown (app s)\<rparr>"
  have key: "appKeyName (app ?s) = appKeyName (app s)" by (simp add: appKeyName_def)
  have "tables_ok (app ?s) (tables ?s)"
    using ok by simp
  from deleteSyncFlag_ok[OF this] key
  have "deleteSyncFlag ?s = (Ok (), ?s\<lparr>tables := without_key (appKeyName (app s)) (tables s)\<rparr>)" by simp
  moreover have "sint (ticker_duration (pol_SyncCheckPeriod
      (app_policy (app (?s\<lparr>tables := without_key (appKeyName (app s)) (tables s)\<rparr>))))) > 0"
    using pos by simp
  note register_and_start[OF this]
  ultimately show ?thesis using key
    by (simp add: manageSyncRoutine_def bnd_def prog_simps)
qed

lemma manageSyncRoutine_panics:
  assumes ok: "tables_ok (app s) (tables s)"
    and neg: "sint (ticker_duration (pol_SyncCheckPeriod (app_policy (app s)))) \<le> 0"
  shows "fst (manageSyncRoutine s) = Panic ''non-positive interval for NewTicker''"
proof -
  let ?s = "s\<lparr>app := set_sync SyncStatusCodeUnknown (app s)\<rparr>"
  let ?t = "?s\<lparr>tables := without_key (appKeyName (app ?s)) (tables ?s)\<rparr>"
  have "tables_ok (app ?s) (tables ?s)" using ok by simp
  from deleteSyncFlag_ok[OF this] have
    "manageSyncRoutine s = bnd registerSyncFlag (\<lambda>(d, t). go_PeriodicSyncCheck d t) ?t"
    by (simp add: manageSyncRoutine_def bnd_def prog_simps)
  moreover have "fst (registerSyncFlag ?t) = Panic ''non-positive interval for NewTicker''"
    using neg by (intro register_panics) simp
  ultimately show ?thesis by (simp add: fst_bnd_Panic)
qed

text \<open>On tables in order the routine is restarted, or the ticker panics; the send never blocks.\<close>

lemma manageSyncRoutine_run:
  assumes "tables_ok (app s) (tables s)"
  shows "(\<exists>s'. manageSyncRoutine s = (Ok (), s'))
    \<or> fst (manageSyncRoutine s) = Panic ''non-positive interval for NewTicker''"
  using manageSyncRoutine_ok[OF assms] manageSyncRoutine_panics[OF assms] by (meson not_le)

lemma manageSyncRoutine_tables:
  assumes "tables_ok (app s) (tables s)" and "manageSyncRoutine s = (Ok (), s')"
  shows "tables_ok (app s') (tables s')"
    and "hist s' = hist s" and "app s' = set_sync SyncStatusCodeUnknown (app s)"
    and "plainManager s' = plainManager s" and "helmManager s' = helmManager s"
    and "cfg s' = cfg s" and "fake s' = fake s"
proof -
  have pos: "sint (ticker_duration (pol_SyncCheckPeriod (app_policy (app s)))) > 0"
    using manageSyncRoutine_panics[OF assms(1)] assms(2) by (metis fst_conv not_le res.distinct(3))
  note run = manageSyncRoutine_ok[OF assms(1) pos]
  let ?t = "without_key (appKeyName (app s)) (tables s)"
  have "tables_ok (app s) ?t" by (rule without_key_ok[OF assms(1)])
  moreover have "syncStopFlags ?t (appKeyName (app s)) = None" by (simp add: without_key_def)
  ultimately have "tables_ok (app s) (with_key (appKeyName (app s)) (pol_SyncCheckPeriod (app_policy (app s))) ?t)"
    by (rule with_key_ok)
  then show "tables_ok (app s') (tables s')"
    using assms(2) run by auto
  show "hist s' = hist s" "app s' = set_sync SyncStatusCodeUnknown (app s)"
    "plainManager s' = plainManager s" "helmManager s' = helmManager s" "cfg s' = cfg s" "fake s' = fake s"
    using assms(2) run by auto
qed

section \<open>Properties\<close>

lemma ticker_duration_sint: "sint (ticker_duration p) = signed_take_bit 63 (1000000000 * sint p)"
  unfolding ticker_duration_def by (simp add: sint_word_ariths)

lemma ticker_duration_exact: "sint (ticker_duration p) = 1000000000 * sint p \<longleftrightarrow> \<bar>sint p\<bar> \<le> 9223372036"
proof
  assume "sint (ticker_duration p) = 1000000000 * sint p"
  moreover have "sint (ticker_duration p) \<in> {- (2 ^ 63) ..< 2 ^ 63}"
    using sint_greater_eq[of "ticker_duration p"] sint_less[of "ticker_duration p"] by simp
  ultimately show "\<bar>sint p\<bar> \<le> 9223372036" by auto
next
  assume "\<bar>sint p\<bar> \<le> 9223372036"
  then show "sint (ticker_duration p) = 1000000000 * sint p"
    unfolding ticker_duration_sint by (intro signed_take_bit_int_eq_self) simp_all
qed

text \<open>The duration after one wrap around.\<close>

lemma ticker_duration_wraps:
  assumes "9223372036 < sint p" and "sint p \<le> 27670116110"
  shows "sint (ticker_duration p) = 1000000000 * sint p - 2 ^ 64"
proof -
  let ?d = "1000000000 * sint p"
  have "signed_take_bit 63 ?d = signed_take_bit 63 (?d - 2 ^ 64)"
    by (rule signed_take_bit_eq_iff_take_bit_eq[THEN iffD2]) (simp add: take_bit_eq_mod mod_diff_eq[symmetric])
  also have "\<dots> = ?d - 2 ^ 64" by (rule signed_take_bit_int_eq_self) (use assms in simp_all)
  finally show ?thesis by (simp add: ticker_duration_sint)
qed

text \<open>
  C20: What becomes of a period of \<open>p\<close> seconds. From 1 to 9223372036 the routine is
  restarted with a ticker of exactly \<open>p\<close> seconds, and outside of the range of \<open>-9223372036\<close> to
  9223372036 the duration is never \<open>p\<close> seconds. From \<open>-9223372036\<close> to 0 \<open>manageSyncRoutine\<close> panics,
  and so it does for every period above 9223372036 up to 18446744073, which overflows to a duration
  that is not positive. Above that, up to 27670116110, the routine is restarted with
  a ticker that is too fast by \<open>2 ^ 64\<close> nanoseconds.
\<close>

theorem sync_period_bounds:
  assumes "tables_ok (app s) (tables s)" and "pol_SyncCheckPeriod (app_policy (app s)) = p"
  shows "(1 \<le> sint p \<and> sint p \<le> 9223372036 \<longrightarrow>
      (\<exists>s'. manageSyncRoutine s = (Ok (), s')) \<and> sint (ticker_duration p) = 1000000000 * sint p)
   \<and> (9223372036 < \<bar>sint p\<bar> \<longrightarrow> sint (ticker_duration p) \<noteq> 1000000000 * sint p)
   \<and> (- 9223372036 \<le> sint p \<and> sint p \<le> 0 \<or> 9223372036 < sint p \<and> sint p \<le> 18446744073 \<longrightarrow>
      fst (manageSyncRoutine s) = Panic ''non-positive interval for NewTicker'')
   \<and> (18446744073 < sint p \<and> sint p \<le> 27670116110 \<longrightarrow>
      (\<exists>s'. manageSyncRoutine s = (Ok (), s')) \<and> sint (ticker_duration p) = 1000000000 * sint p - 2 ^ 64)"
proof -
  have runs: "\<exists>s'. manageSyncRoutine s = (Ok (), s')" if "0 < sint (ticker_duration p)"
    using manageSyncRoutine_ok[OF assms(1)] that assms(2) by blast
  have panics: "fst (manageSyncRoutine s) = Panic ''non-positive interval for NewTicker''" if "sint (ticker_duration p) \<le> 0"
    using manageSyncRoutine_panics[OF assms(1)] that assms(2) by blast
  have "fst (manageSyncRoutine s) = Panic ''non-positive interval for NewTicker''" if "- 9223372036 \<le> sint p" "sint p \<le> 0"
    by (rule panics) (use ticker_duration_exact[of p] that in linarith)
  moreover have "fst (manageSyncRoutine s) = Panic ''non-positive interval for NewTicker''"
    if "9223372036 < sint p" "sint p \<le> 18446744073"
    by (rule panics) (use ticker_duration_wraps[of p] that in simp)
  moreover have "(\<exists>s'. manageSyncRoutine s = (Ok (), s')) \<and> sint (ticker_duration p) = 1000000000 * sint p - 2 ^ 64"
    if "18446744073 < sint p" "sint p \<le> 27670116110"
    using runs ticker_duration_wraps[of p] that by simp
  moreover have "(\<exists>s'. manageSyncRoutine s = (Ok (), s')) \<and> sint (ticker_duration p) = 1000000000 * sint p"
    if "1 \<le> sint p" "sint p \<le> 9223372036"
    using runs ticker_duration_exact[of p] that by simp
  moreover have "sint (ticker_duration p) \<noteq> 1000000000 * sint p" if "9223372036 < \<bar>sint p\<bar>"
    using ticker_duration_exact[of p] that by simp
  ultimately show ?thesis by blast
qed

text \<open>A period of a little more than 584 years is checked three times a second.\<close>

theorem sync_period_bounds_witness:
  "(\<exists>s'. manageSyncRoutine (sample_st\<lparr>app := sample_user_app\<lparr>app_Spec :=
     (app_Spec sample_user_app)\<lparr>spec_SyncPolicy := \<lparr>pol_AutoSync = False, pol_SyncCheckPeriod = 18446744074\<rparr>\<rparr>\<rparr>\<rparr>) = (Ok (), s'))
   \<and> sint (ticker_duration 18446744074) = 290448384"
proof -
  let ?s = "sample_st\<lparr>app := sample_user_app\<lparr>app_Spec :=
     (app_Spec sample_user_app)\<lparr>spec_SyncPolicy := \<lparr>pol_AutoSync = False, pol_SyncCheckPeriod = 18446744074\<rparr>\<rparr>\<rparr>\<rparr>"
  have "tables_ok (app ?s) (tables ?s)" "pol_SyncCheckPeriod (app_policy (app ?s)) = 18446744074"
    by (simp_all add: tables_ok_def sample_st_def)
  from sync_period_bounds[OF this] show ?thesis by simp
qed

text \<open>
  C18: With the tables in order, restarting the routine of an Application whose
  period makes a positive duration succeeds, makes no external call, ends every
  earlier routine of this Application and leaves exactly one new routine for it,
  registered with the Application's current period; the others keep running.
\<close>

theorem manageSyncRoutine_restarts:
  assumes "tables_ok (app s) (tables s)"
    and "sint (ticker_duration (pol_SyncCheckPeriod (app_policy (app s)))) > 0"
  shows "\<exists>s' r. manageSyncRoutine s = (Ok (), s') \<and> hist s' = hist s \<and> tables_ok (app s') (tables s')
    \<and> routines (tables s') = filter (\<lambda>r. routine_key (app s) r \<noteq> appKeyName (app s)) (routines (tables s)) @ [r]
    \<and> rt_App r = None \<and> syncPeriods (tables s') (appKeyName (app s)) = Some (pol_SyncCheckPeriod (app_policy (app s)))"
proof -
  let ?k = "appKeyName (app s)" and ?t = "without_key (appKeyName (app s)) (tables s)"
  have eq: "Some (rt_Done r) \<noteq> syncStopFlags (tables s) ?k \<longleftrightarrow> routine_key (app s) r \<noteq> ?k"
    if "r \<in> set (routines (tables s))" for r
    using tables_okD(5)[OF assms(1) that] channel_key[OF assms(1)] by metis
  have old: "routines ?t = filter (\<lambda>r. routine_key (app s) r \<noteq> ?k) (routines (tables s))"
    using eq by (simp add: without_key_def cong: filter_cong)
  let ?p = "pol_SyncCheckPeriod (app_policy (app s))"
  let ?s = "s\<lparr>app := set_sync SyncStatusCodeUnknown (app s), tables := with_key ?k ?p ?t\<rparr>"
  let ?r = "\<lparr>rt_Done = next_id ?t, rt_Ticker = Suc (next_id ?t), rt_App = None\<rparr>"
  note run = manageSyncRoutine_ok[OF assms]
  have "routines (tables ?s) = routines ?t @ [?r]" by (simp add: with_key_def)
  then have "routines (tables ?s) =
      filter (\<lambda>r. routine_key (app s) r \<noteq> appKeyName (app s)) (routines (tables s)) @ [?r]"
    by (simp only: old)
  moreover have "syncPeriods (tables ?s) ?k = Some ?p" by (simp add: with_key_def)
  moreover have "hist ?s = hist s" "rt_App ?r = None" by simp_all
  ultimately show ?thesis
    using run manageSyncRoutine_tables(1)[OF assms(1) run] by blast
qed

theorem manageSyncRoutine_restarts_witness:
  "\<exists>s' r. manageSyncRoutine sample_st = (Ok (), s') \<and> routines (tables s') = [r]"
proof -
  have t: "tables_ok (app sample_st) (tables sample_st)" by (simp add: tables_ok_def sample_st_def)
  moreover have "sint (ticker_duration (pol_SyncCheckPeriod (app_policy (app sample_st)))) > 0"
    by (simp add: ticker_duration_def sample_defs)
  moreover have "routines (tables sample_st) = []" by (simp add: sample_st_def)
  ultimately show ?thesis using manageSyncRoutine_restarts[of sample_st] by auto
qed

text \<open>
  C19: An Application whose period is zero, negative or too long by overflow makes
  \<open>manageSyncRoutine\<close> panic in \<open>NewTicker\<close>, and only these do.
\<close>

theorem manageSyncRoutine_panics_iff:
  assumes "tables_ok (app s) (tables s)"
  shows "fst (manageSyncRoutine s) = Panic ''non-positive interval for NewTicker''
     \<longleftrightarrow> sint (ticker_duration (pol_SyncCheckPeriod (app_policy (app s)))) \<le> 0"
proof
  assume p: "fst (manageSyncRoutine s) = Panic ''non-positive interval for NewTicker''"
  show "sint (ticker_duration (pol_SyncCheckPeriod (app_policy (app s)))) \<le> 0"
  proof (rule ccontr)
    assume "\<not> ?thesis"
    then show False using manageSyncRoutine_ok[OF assms] p by simp
  qed
qed (rule manageSyncRoutine_panics[OF assms])

theorem manageSyncRoutine_panics_iff_witness:
  "fst (manageSyncRoutine (sample_st\<lparr>app := sample_user_app\<lparr>app_Spec :=
     (app_Spec sample_user_app)\<lparr>spec_SyncPolicy := \<lparr>pol_AutoSync = False, pol_SyncCheckPeriod = 0\<rparr>\<rparr>\<rparr>\<rparr>))
   = Panic ''non-positive interval for NewTicker''"
  by (subst manageSyncRoutine_panics_iff) (simp_all add: tables_ok_def sample_st_def ticker_duration_def)

end
