(* ===== verification/AppController.thy ===== *)
theory AppController
  imports SyncRoutine
begin

text \<open>
  \<open>controllers/application_controller.go\<close>: the reconciler of Applications, with
  \<open>RandomString\<close> of \<open>internal/utils/rand.go\<close>. The condition helpers of apimachinery
  and the finalizer helpers of controller-runtime are parameters of the
  environment; \<open>cond_laws\<close> and \<open>finalizer_laws\<close> state their documented behaviour.
\<close>

section \<open>Helpers from the libraries\<close>

definition conds :: "application \<Rightarrow> condition list" where
  "conds a = stat_Conditions (app_Status a)"

definition set_conds :: "condition list \<Rightarrow> application \<Rightarrow> application" where
  "set_conds cs a = a\<lparr>app_Status := (app_Status a)\<lparr>stat_Conditions := cs\<rparr>\<rparr>"

definition cond_index :: "condition list \<Rightarrow> string \<Rightarrow> nat option" where
  "cond_index cs t = find_index_of (\<lambda>c. cond_Type c = t) cs"

definition cond_laws :: "env \<Rightarrow> bool" where
  "cond_laws env \<longleftrightarrow>
     (\<forall>cs t. e_find_cond env cs t = cond_index cs t)
     \<and> (\<forall>cs c. e_set_cond env cs c =
          (case cond_index cs (cond_Type c) of None \<Rightarrow> cs @ [c] | Some i \<Rightarrow> cs[i := c]))"

definition finalizer_laws :: "env \<Rightarrow> bool" where
  "finalizer_laws env \<longleftrightarrow>
     (\<forall>fs f. e_contains_finalizer env fs f \<longleftrightarrow> f \<in> set fs)
     \<and> (\<forall>fs f. e_add_finalizer env fs f = (if f \<in> set fs then fs else fs @ [f]))
     \<and> (\<forall>fs f. e_remove_finalizer env fs f = filter (\<lambda>g. g \<noteq> f) fs)"

section \<open>Random strings\<close>

definition random_charset :: string where
  "random_charset = ''abcdefghijklmnopqrstuvwxyz1234567890''"

definition random_char :: "env \<Rightarrow> char act" where
  "random_char env = ext (CRandom (length random_charset)) (\<lambda>h.
     let i = e_intn env h (length random_charset) in
     if i < length random_charset then Ok (random_charset ! i)
     else Panic ''runtime error: index out of range'')"

fun RandomString :: "env \<Rightarrow> nat \<Rightarrow> string act" where
  "RandomString env 0 = ret []"
| "RandomString env (Suc n) = bnd (random_char env) (\<lambda>c. bnd (RandomString env n) (\<lambda>str. ret (c # str)))"

section \<open>Conditions\<close>

definition finalizer :: string where
  "finalizer = ''cd.tmax.io/finalizer''"

definition not_ready :: condition where
  "not_ready = \<lparr>cond_Type = ApplicationConditionReady, cond_Status = ConditionFalse,
     cond_Reason = ''NotReady'', cond_Message = ''Not Ready''\<rparr>"

definition webhook_not_registered :: condition where
  "webhook_not_registered = \<lparr>cond_Type = ApplicationConditionWebhookRegistered, cond_Status = ConditionFalse,
     cond_Reason = ''webhookNotRegistered'', cond_Message = ''Webhook Not Registered''\<rparr>"

text \<open>
  Writes through the pointer \<open>webhookRegistered\<close> followed by \<open>SetStatusCondition\<close>:
  when the pointer is the \<open>i\<close>-th element of the slice, the element has changed
  before the call.
\<close>

definition put_cond :: "env \<Rightarrow> nat option \<Rightarrow> condition \<Rightarrow> unit act" where
  "put_cond env i c = update_app (\<lambda>a.
     let cs = (case i of None \<Rightarrow> conds a | Some i \<Rightarrow> (conds a)[i := c])
     in set_conds (e_set_cond env cs c) a)"

text \<open>
  The part of \<open>setWebhookRegisteredCond\<close> between the two conditions: the entries
  with the Application's own address block the registration, a failed listing
  does not.
\<close>

definition register_webhook :: "env \<Rightarrow> condition \<Rightarrow> condition act" where
  "register_webhook env c0 =
     bnd (attempt (GetGitCli env)) (\<lambda>r.
     case r of
       Inl e \<Rightarrow> ret (c0\<lparr>cond_Reason := ''gitCliErr'', cond_Message := err_msg e\<rparr>)
     | Inr gitCli \<Rightarrow>
         bnd (gets (\<lambda>s. GetWebhookServerAddress (CurrentExternalHostName (cfg s)) (app s))) (\<lambda>addr.
         bnd (attempt (cli_ListWebhook env gitCli)) (\<lambda>r.
         let c1 = (case r of
               Inl e \<Rightarrow> c0\<lparr>cond_Reason := ''webhookRegisterFailed'', cond_Message := err_msg e\<rparr>
             | Inr _ \<Rightarrow> c0);
             entries = (case r of Inl _ \<Rightarrow> [] | Inr es \<Rightarrow> es)
         in
         if \<exists>e \<in> set entries. addr = whe_URL e then
           ret (c1\<lparr>cond_Reason := ''webhookRegisterFailed'',
                   cond_Message := ''same webhook has already registered''\<rparr>)
         else
           bnd (attempt (cli_RegisterWebhook env gitCli addr)) (\<lambda>r.
           case r of
             Inl e \<Rightarrow> ret (c1\<lparr>cond_Reason := ''webhookRegisterFailed'', cond_Message := err_msg e\<rparr>)
           | Inr _ \<Rightarrow> ret (c1\<lparr>cond_Status := ConditionTrue, cond_Reason := ''webhookRegisterSuccess'',
                             cond_Message := ''Webhook Register Success''\<rparr>)))))"

definition setWebhookRegisteredCond :: "env \<Rightarrow> unit act" where
  "setWebhookRegisteredCond env =
     bnd get_app (\<lambda>a.
     let i = e_find_cond env (conds a) ApplicationConditionWebhookRegistered;
         c = (case i of None \<Rightarrow> webhook_not_registered | Some i \<Rightarrow> conds a ! i)
     in
     if src_Token (app_source a) = None then
       put_cond env i (c\<lparr>cond_Reason := ApplicationConditionReasonNoGitToken,
                         cond_Message := ''Skipped to register webhook''\<rparr>)
     else if cond_Status c = ConditionFalse \<and> stat_Secrets (app_Status a) \<noteq> [] then
       bnd (register_webhook env (c\<lparr>cond_Status := ConditionFalse, cond_Reason := [], cond_Message := []\<rparr>)) (\<lambda>c'.
       bnd (put_cond env i c') (\<lambda>_. put_cond env i c'))
     else put_cond env i c)"

definition setReadyCond :: "env \<Rightarrow> unit act" where
  "setReadyCond env =
     bnd get_app (\<lambda>a.
     case e_find_cond env (conds a) ApplicationConditionWebhookRegistered of
       None \<Rightarrow> ret ()
     | Some w \<Rightarrow>
         if stat_Secrets (app_Status a) \<noteq> []
            \<and> (cond_Status (conds a ! w) = ConditionTrue
               \<or> cond_Reason (conds a ! w) = ApplicationConditionReasonNoGitToken) then
           (case e_find_cond env (conds a) ApplicationConditionReady of
              None \<Rightarrow> crash nil_deref
            | Some i \<Rightarrow> update_app (set_conds ((conds a)[i := (conds a ! i)
                \<lparr>cond_Status := ConditionTrue, cond_Reason := ''Ready'', cond_Message := ''Ready''\<rparr>])))
         else ret ())"

section \<open>Default values\<close>

definition checkAppDestNamespace :: "env \<Rightarrow> unit act" where
  "checkAppDestNamespace env =
     bnd get_app (\<lambda>a.
     let ns = dst_Namespace (app_dest a) in
     bnd (attempt (ext (CGetNamespace ns) (\<lambda>h. e_get_namespace env h ns))) (\<lambda>r.
     case r of
       Inr _ \<Rightarrow> ret ()
     | Inl e \<Rightarrow> (if \<not> is_not_found e then throw e
                 else ext (CCreateNamespace ns) (\<lambda>h. e_create_namespace env h ns))))"

definition setSecretString :: "env \<Rightarrow> unit act" where
  "setSecretString env =
     bnd get_app (\<lambda>a.
     if stat_Secrets (app_Status a) = [] then
       bnd (RandomString env 20) (\<lambda>str.
       update_app (\<lambda>a. a\<lparr>app_Status := (app_Status a)\<lparr>stat_Secrets := str\<rparr>\<rparr>))
     else ret ())"

definition setDefaultValues :: "env \<Rightarrow> unit act" where
  "setDefaultValues env =
     bnd (checkAppDestNamespace env) (\<lambda>_.
     bnd (update_app (\<lambda>a. if app_sync a = [] then SetDefaultSyncStatus a else a)) (\<lambda>_.
     bnd (update_app (\<lambda>a. if pol_SyncCheckPeriod (app_policy a) = 0 then SetDefaultSyncCheckPeriod a else a)) (\<lambda>_.
     setSecretString env)))"

section \<open>Finalizer\<close>

text \<open>\<open>mgr.Clear\<close> on the global manager of the source type, which may still be nil.\<close>

definition clearDeployedResources :: "env \<Rightarrow> unit act" where
  "clearDeployedResources env =
     bnd get_app (\<lambda>a.
     if src_Type (app_source a) = ApplicationSourceTypePlainYAML then plain_Clear env
     else if src_Type (app_source a) = ApplicationSourceTypeHelm then helm_Clear env
     else throw (Fail ''get sync manager failed''))"

definition clearWebhook :: "env \<Rightarrow> unit act" where
  "clearWebhook env =
     bnd get_app (\<lambda>a.
     case src_Token (app_source a) of
       None \<Rightarrow> ret ()
     | Some _ \<Rightarrow>
         bnd (GetGitCli env) (\<lambda>gitCli.
         bnd (gets (\<lambda>s. GetWebhookServerAddress (CurrentExternalHostName (cfg s)) a)) (\<lambda>addr.
         bnd (cli_ListWebhook env gitCli) (\<lambda>hookList.
         for_each hookList (\<lambda>h. if whe_URL h = addr then cli_DeleteWebhook env gitCli (whe_ID h) else ret ())))))"

definition clearGitRepo :: "env \<Rightarrow> unit act" where
  "clearGitRepo env = bnd get_app (\<lambda>a.
     ext (CRemoveAll (repo_path a)) (\<lambda>h. e_remove_all env h (repo_path a)))"

definition finalizeApp :: "env \<Rightarrow> unit act" where
  "finalizeApp env =
     bnd deleteSyncFlag (\<lambda>_.
     bnd (clearDeployedResources env) (\<lambda>_.
     bnd (clearWebhook env) (\<lambda>_.
     bnd get_app (\<lambda>a.
     if src_Type (app_source a) = ApplicationSourceTypeHelm then clearGitRepo env else ret ()))))"

text \<open>\<open>r.Update\<close>: the API server's answer overwrites the object.\<close>

definition Update_app :: "env \<Rightarrow> unit act" where
  "Update_app env =
     bnd get_app (\<lambda>a.
     bnd (ext (CUpdateApp a) (\<lambda>h. e_update_app env h a)) (\<lambda>a'. update_app (\<lambda>_. a')))"

definition set_finalizers :: "(string list \<Rightarrow> string list) \<Rightarrow> unit act" where
  "set_finalizers f = update_app (\<lambda>a. a\<lparr>app_Finalizers := f (app_Finalizers a)\<rparr>)"

definition handleFinalizer :: "env \<Rightarrow> unit act" where
  "handleFinalizer env =
     bnd get_app (\<lambda>a.
     if app_DeletionTimestamp a \<noteq> None then
       bnd (if e_contains_finalizer env (app_Finalizers a) finalizer then finalizeApp env else ret ()) (\<lambda>_.
       bnd (set_finalizers (\<lambda>fs. e_remove_finalizer env fs finalizer)) (\<lambda>_.
       Update_app env))
     else if \<not> e_contains_finalizer env (app_Finalizers a) finalizer then
       bnd (set_finalizers (\<lambda>fs. e_add_finalizer env fs finalizer)) (\<lambda>_. Update_app env)
     else ret ())"

section \<open>Reconcile\<close>

definition Patch_status :: "env \<Rightarrow> application \<Rightarrow> unit act" where
  "Patch_status env original =
     bnd get_app (\<lambda>a.
     bnd (attempt (ext (CPatchStatus original a) (\<lambda>h. e_patch_status env h original a))) (\<lambda>r.
     case r of Inl _ \<Rightarrow> ret () | Inr a' \<Rightarrow> update_app (\<lambda>_. a')))"

text \<open>
  \<open>cond\<close> points to the ready condition in the slice of conditions the API server
  delivered, or, when there was none, to a new condition that is never written
  again. The slice has no spare capacity, so appending a condition moves it: after
  that \<open>cond\<close> still shows the old element.
\<close>

definition cond_status :: "condition list \<Rightarrow> nat option \<Rightarrow> condition list \<Rightarrow> string" where
  "cond_status before i after =
     (case i of
        None \<Rightarrow> ConditionFalse
      | Some i \<Rightarrow> if length after = length before then cond_Status (after ! i) else cond_Status (before ! i))"

definition reconcile_body :: "env \<Rightarrow> condition list \<Rightarrow> nat option \<Rightarrow> unit act" where
  "reconcile_body env before i =
     bnd (setWebhookRegisteredCond env) (\<lambda>_.
     bnd (setReadyCond env) (\<lambda>_.
     bnd get_app (\<lambda>a.
     bnd (if cond_status before i (conds a) = ConditionTrue
          then bnd manageSyncRoutine (\<lambda>_. CheckSync env False) else ret ()) (\<lambda>_.
     bnd (setDefaultValues env) (\<lambda>_.
     handleFinalizer env)))))"

definition Reconcile :: "env \<Rightarrow> string \<Rightarrow> string \<Rightarrow> unit act" where
  "Reconcile env ns name =
     bnd (attempt (ext (CGetApp ns name) (\<lambda>h. e_get_app env h ns name))) (\<lambda>r.
     case r of
       Inl e \<Rightarrow> (if is_not_found e then ret () else throw e)
     | Inr instance_app \<Rightarrow>
         bnd (update_app (\<lambda>_. instance_app)) (\<lambda>_.
         let i = e_find_cond env (conds instance_app) ApplicationConditionReady in
         bnd (case i of
                None \<Rightarrow> update_app (\<lambda>a. set_conds (e_set_cond env (conds a) not_ready) a)
              | Some _ \<Rightarrow> ret ()) (\<lambda>_.
         deferred (Patch_status env instance_app) (reconcile_body env (conds instance_app) i))))"

end
