(* ===== verification/Response.thy ===== *)
theory Response
  imports GoJson
begin

text \<open>
  \<open>internal/utils/response.go\<close> on a model of \<open>http.ResponseWriter\<close>: the status and
  the headers are sent with the first write, and a header set after that stays
  behind.
\<close>

record writer =
  rw_Header :: "string \<rightharpoonup> string"
  rw_Sent :: "(int \<times> (string \<rightharpoonup> string)) option"
  rw_Body :: string

definition new_writer :: writer where
  "new_writer = \<lparr>rw_Header = Map.empty, rw_Sent = None, rw_Body = []\<rparr>"

definition set_header :: "string \<Rightarrow> string \<Rightarrow> writer \<Rightarrow> writer" where
  "set_header k v w = w\<lparr>rw_Header := (rw_Header w)(k \<mapsto> v)\<rparr>"

definition WriteHeader :: "int \<Rightarrow> writer \<Rightarrow> writer" where
  "WriteHeader code w =
     (case rw_Sent w of None \<Rightarrow> w\<lparr>rw_Sent := Some (code, rw_Header w)\<rparr> | Some _ \<Rightarrow> w)"

definition write_body :: "string \<Rightarrow> writer \<Rightarrow> writer" where
  "write_body b w = (WriteHeader 200 w)\<lparr>rw_Body := rw_Body w @ b\<rparr>"

definition RespondJSON :: "json \<Rightarrow> writer \<Rightarrow> writer" where
  "RespondJSON dat w = write_body (json_print dat) (set_header ''Content-Type'' ''application/json'' w)"

definition RespondError :: "int \<Rightarrow> string \<Rightarrow> writer \<Rightarrow> writer" where
  "RespondError code msg w = RespondJSON (JObj [(''message'', JStr msg)]) (WriteHeader code w)"

text \<open>A handler that writes nothing is answered with an empty 200.\<close>

definition reply_code :: "writer \<Rightarrow> int" where
  "reply_code w = (case rw_Sent w of None \<Rightarrow> 200 | Some (code, _) \<Rightarrow> code)"

lemma RespondError_code: "rw_Sent w = None \<Longrightarrow> reply_code (RespondError code msg w) = code"
  by (simp add: reply_code_def RespondError_def RespondJSON_def write_body_def set_header_def WriteHeader_def)

end
