(* ===== verification/Server.thy ===== *)
theory Server
  imports WebhookGithub WebhookGitlab AppController Response
begin

text \<open>
  \<open>pkg/server\<close> (webhook handler and plugins), \<open>pkg/dispatcher\<close>, and the sync endpoint
  of \<open>pkg/apiserver/apis/v1/applications/deploy.go\<close>: the ways a push or a user asks
  for a forced sync. The variables of the route come from the router (third-party)
  and are an argument, as is what reading the request body gives.
\<close>

section \<open>Plugins\<close>

text \<open>A plugin is its \<open>Handle\<close> method; the registry maps an event to its plugins in order.\<close>

type_synonym plugin = "webhook \<Rightarrow> unit act"
type_synonym registry = "string \<rightharpoonup> plugin list"

definition getPlugins :: "registry \<Rightarrow> string \<Rightarrow> plugin list" where
  "getPlugins reg ev = (case reg ev of None \<Rightarrow> [] | Some ps \<Rightarrow> ps)"

definition addPlugin :: "string \<Rightarrow> plugin \<Rightarrow> registry \<Rightarrow> registry" where
  "addPlugin ev p reg =
     (let reg1 = (if reg ev = None then reg(ev \<mapsto> []) else reg)
      in reg1(ev \<mapsto> getPlugins reg1 ev @ [p]))"

definition AddPlugin :: "string list \<Rightarrow> plugin \<Rightarrow> registry \<Rightarrow> registry" where
  "AddPlugin events p reg = foldl (\<lambda>reg ev. addPlugin ev p reg) reg events"

text \<open>Every plugin runs, whatever the ones before answered; the last error is returned.\<close>

definition HandleEvent :: "registry \<Rightarrow> webhook \<Rightarrow> unit act" where
  "HandleEvent reg wh =
     bnd (fold_each (getPlugins reg (wh_EventType wh))
            (\<lambda>p retErr. bnd (attempt (p wh)) (\<lambda>r.
               ret (case r of Inl e \<Rightarrow> Some e | Inr _ \<Rightarrow> retErr))) None) (\<lambda>retErr.
     case retErr of None \<Rightarrow> ret () | Some e \<Rightarrow> throw e)"

section \<open>Dispatcher\<close>

definition Handle :: "env \<Rightarrow> plugin" where
  "Handle env wh =
     (if wh_Push wh = None then throw (Fail ''push struct is nil'')
      else if wh_EventType wh = EventTypePush then
        bnd (update_app (set_sync SyncStatusCodeOutOfSync)) (\<lambda>_. CheckSync env True)
      else ret ())"

text \<open>The registration in \<open>cmd/controller/main.go\<close>.\<close>

definition operator_plugins :: "env \<Rightarrow> registry" where
  "operator_plugins env = AddPlugin [EventTypePullRequest, EventTypePush] (Handle env) Map.empty"

section \<open>Webhook handler\<close>

fun cli_ParseWebhook :: "env \<Rightarrow> git_client \<Rightarrow> header \<Rightarrow> string \<Rightarrow> webhook option act" where
  "cli_ParseWebhook env (GithubClient c) h body = gh_ParseWebhook env c h body"
| "cli_ParseWebhook env (GitlabClient c) h body = gl_ParseWebhook env c h body"
| "cli_ParseWebhook env (FakeClient r) h body = ret None"

definition webhook_ServeHTTP ::
  "env \<Rightarrow> registry \<Rightarrow> (string \<rightharpoonup> string) \<Rightarrow> header \<Rightarrow> string res \<Rightarrow> writer act" where
  "webhook_ServeHTTP env reg vars h body_read =
     bnd (RandomString env 10) (\<lambda>reqID.
     case (vars ''namespace'', vars ''appName'') of
       (Some ns, Some appName) \<Rightarrow>
         bnd (attempt (lift body_read)) (\<lambda>r.
         case r of
           Inl _ \<Rightarrow> ret (RespondError 500 (''req: '' @ reqID @ '', cannot read webhook body'') new_writer)
         | Inr body \<Rightarrow>
         bnd (attempt (ext (CGetApp ns appName) (\<lambda>hs. e_get_app env hs ns appName))) (\<lambda>r.
         case r of
           Inl _ \<Rightarrow> ret (RespondError 400
             (''req: '' @ reqID @ '', cannot get Application '' @ ns @ ''/'' @ appName) new_writer)
         | Inr a \<Rightarrow>
         bnd (update_app (\<lambda>_. a)) (\<lambda>_.
         bnd (attempt (GetGitCli env)) (\<lambda>r.
         case r of
           Inl e \<Rightarrow> ret (RespondError 500 (''req: '' @ reqID @ '', err: '' @ err_msg e) new_writer)
         | Inr gitCli \<Rightarrow>
         bnd (attempt (cli_ParseWebhook env gitCli h body)) (\<lambda>r.
         case r of
           Inl _ \<Rightarrow> ret (RespondError 500 (''req: '' @ reqID @ '', cannot parse webhook body'') new_writer)
         | Inr None \<Rightarrow> ret new_writer
         | Inr (Some wh) \<Rightarrow> bnd (attempt (HandleEvent reg wh)) (\<lambda>_. ret new_writer))))))
     | _ \<Rightarrow> ret (RespondError 400
         (''req: '' @ reqID @ '', path is not in form of '' @ [CHR 0x27] @ ''/webhook/{namespace}/{appName}'' @ [CHR 0x27]) new_writer))"

section \<open>Sync endpoint\<close>

definition updateDeploy :: "env \<Rightarrow> (string \<rightharpoonup> string) \<Rightarrow> writer act" where
  "updateDeploy env vars =
     bnd (RandomString env 10) (\<lambda>reqID.
     case (vars ''namespace'', vars ''applicationName'') of
       (Some ns, Some applicationName) \<Rightarrow>
         bnd (attempt (ext (CGetApp ns applicationName) (\<lambda>hs. e_get_app env hs ns applicationName))) (\<lambda>r.
         case r of
           Inl _ \<Rightarrow> ret (RespondError 400
             (''req: '' @ reqID @ '', no Application '' @ ns @ ''/'' @ applicationName @ '' is found'') new_writer)
         | Inr a \<Rightarrow>
         bnd (update_app (\<lambda>_. a)) (\<lambda>_.
         bnd (attempt (CheckSync env True)) (\<lambda>_. ret new_writer)))
     | _ \<Rightarrow> ret (RespondError 400 ''url is malformed'' new_writer))"

section \<open>Facts\<close>

lemma getPlugins_addPlugin:
  "getPlugins (addPlugin ev p reg) ev' = (if ev' = ev then getPlugins reg ev @ [p] else getPlugins reg ev')"
  by (simp add: getPlugins_def addPlugin_def Let_def split: option.splits)

lemma getPlugins_AddPlugin:
  "getPlugins (AddPlugin events p reg) ev = getPlugins reg ev @ replicate (count_list events ev) p"
proof (induction events arbitrary: reg)
  case Nil
  show ?case by (simp add: AddPlugin_def)
next
  case (Cons e events)
  have "AddPlugin (e # events) p reg = AddPlugin events p (addPlugin e p reg)" by (simp add: AddPlugin_def)
  then show ?case
    by (simp add: Cons.IH getPlugins_addPlugin replicate_append_same[symmetric])
qed

lemma Handle_only_sync: "only_sync.keeps (Handle env wh)"
  unfolding Handle_def by (auto intro!: only_sync_intros CheckSync_only_sync)

lemma cli_ParseWebhook_only_sync: "only_sync.keeps (cli_ParseWebhook env g h body)"
  by (cases g) (auto intro!: gh_ParseWebhook_only_sync gl_ParseWebhook_only_sync only_sync_intros)

end
