(* ===== verification/Operator.thy ===== *)
theory Operator
  imports Server
begin

text \<open>
  The operator as a state machine: reconciles and the ticks of the periodic
  routines, in any order, each run to its end (\<open>controllers/application_controller.go\<close>,
  \<open>pkg/sync/sync.go\<close>). The invariant is the order of the tables: each Application
  has at most one running routine, and stopping it never blocks.
\<close>

section \<open>Statements that leave the tables alone\<close>

definition same_key :: "st \<Rightarrow> st \<Rightarrow> bool" where
  "same_key s t \<longleftrightarrow> appKeyName (app t) = appKeyName (app s) \<and> tables t = tables s"

interpretation same_key: step_rel same_key
  by unfold_locales (simp_all add: same_key_def)

lemma same_key_ext: "same_key.keeps (ext c f)"
  by (rule same_key.keepsI) (simp add: ext_def same_key_def)

lemma same_key_get_app: "same_key.keeps get_app"
  unfolding get_app_def by (rule same_key.keeps_gets)

lemma same_key_update_app:
  "(\<And>a. app_Name (f a) = app_Name a \<and> app_Namespace (f a) = app_Namespace a) \<Longrightarrow> same_key.keeps (update_app f)"
  unfolding update_app_def by (rule same_key.keeps_modify) (simp add: same_key_def appKeyName_def)

lemma same_key_only_sync: "only_sync.keeps m \<Longrightarrow> same_key.keeps m"
  unfolding only_sync.keeps_def same_key.keeps_def same_key_def
  by (metis only_sync_def set_sync_key)

lemmas same_key_intros = same_key.keeps_intros same_key_ext same_key_get_app

lemma with_repo_same_key: "same_key.keeps (with_repo n body)"
  by (rule same_key.keepsI) (auto simp: with_repo_def same_key_def split: option.splits prod.splits)

lemma RequestHTTP_same_key: "same_key.keeps (RequestHTTP env m u hs d)"
  by (rule same_key_only_sync[OF RequestHTTP_only_sync])

lemma cli_ListWebhook_same_key: "same_key.keeps (cli_ListWebhook env g)"
  by (cases g) (auto simp: gh_ListWebhook_def gl_ListWebhook_def fk_ListWebhook_def
      intro!: same_key_only_sync[OF GetPaginatedRequest_only_sync] with_repo_same_key)

lemma cli_RegisterWebhook_same_key: "same_key.keeps (cli_RegisterWebhook env g u)"
  by (cases g) (auto simp: gh_RegisterWebhook_def gl_RegisterWebhook_def fk_RegisterWebhook_def
      gh_request_def gl_request_def Let_def
      intro!: same_key_intros RequestHTTP_same_key with_repo_same_key)

lemma cli_DeleteWebhook_same_key: "same_key.keeps (cli_DeleteWebhook env g i)"
  by (cases g) (auto simp: gh_DeleteWebhook_def gl_DeleteWebhook_def fk_DeleteWebhook_def
      gh_request_def gl_request_def
      intro!: same_key_intros RequestHTTP_same_key with_repo_same_key)

lemma GetGitCli_same_key: "same_key.keeps (GetGitCli env)"
  by (rule same_key_only_sync[OF GetGitCli_only_sync])

lemma put_cond_same_key: "same_key.keeps (put_cond env i c)"
  unfolding put_cond_def by (rule same_key_update_app) (simp add: set_conds_def Let_def)

lemma setWebhookRegisteredCond_same_key: "same_key.keeps (setWebhookRegisteredCond env)"
  unfolding setWebhookRegisteredCond_def register_webhook_def Let_def
  by (auto intro!: same_key_intros GetGitCli_same_key cli_ListWebhook_same_key
        cli_RegisterWebhook_same_key put_cond_same_key split: sum.splits)

lemma setReadyCond_same_key: "same_key.keeps (setReadyCond env)"
  unfolding setReadyCond_def
  by (auto intro!: same_key_intros same_key_update_app simp: set_conds_def split: option.splits)

lemma RandomString_same_key: "same_key.keeps (RandomString env n)"
  by (induction n) (auto intro!: same_key_intros simp: random_char_def)

lemma setDefaultValues_same_key: "same_key.keeps (setDefaultValues env)"
  unfolding setDefaultValues_def checkAppDestNamespace_def setSecretString_def Let_def
  by (auto intro!: same_key_intros same_key_update_app RandomString_same_key
        simp: SetDefaultSyncStatus_def SetDefaultSyncCheckPeriod_def split: sum.splits)

lemma CheckSync_same_key: "same_key.keeps (CheckSync env forced)"
  by (rule same_key_only_sync[OF CheckSync_only_sync])

lemma clearWebhook_same_key: "same_key.keeps (clearWebhook env)"
  unfolding clearWebhook_def
  by (auto intro!: same_key_intros GetGitCli_same_key cli_ListWebhook_same_key
        cli_DeleteWebhook_same_key split: option.splits)

section \<open>Handlers keep the tables in order\<close>

text \<open>
  What the API server promises of an Application it answers: it is the one that
  was asked for.
\<close>

definition app_api_ok :: "env \<Rightarrow> bool" where
  "app_api_ok env \<longleftrightarrow>
     (\<forall>h ns n a. e_get_app env h ns n = Ok a \<longrightarrow> app_Namespace a = ns \<and> app_Name a = n)
     \<and> (\<forall>h a b. e_update_app env h a = Ok b \<longrightarrow> app_Namespace b = app_Namespace a \<and> app_Name b = app_Name a)
     \<and> (\<forall>h a b c. e_patch_status env h a b = Ok c \<longrightarrow> app_Namespace c = app_Namespace b \<and> app_Name c = app_Name b)"

definition orderly :: "st \<Rightarrow> st \<Rightarrow> bool" where
  "orderly s t \<longleftrightarrow>
     (tables_ok (app s) (tables s) \<longrightarrow>
        tables_ok (app t) (tables t) \<and> appKeyName (app t) = appKeyName (app s))"

interpretation orderly: step_rel orderly
  by unfold_locales (simp_all add: orderly_def)

lemma orderly_same_key: "same_key.keeps m \<Longrightarrow> orderly.keeps_alive m"
proof (intro orderly.alive_keeps orderly.keepsI)
  fix s assume "same_key.keeps m"
  then have eq: "tables (snd (m s)) = tables s" and key: "appKeyName (app (snd (m s))) = appKeyName (app s)"
    by (simp_all add: same_key.keeps_def same_key_def)
  show "orderly s (snd (m s))" using tables_ok_app[OF key] by (simp add: orderly_def eq key)
qed

lemma deleteSyncFlag_orderly: "orderly.keeps_alive deleteSyncFlag"
  unfolding orderly.keeps_alive_def
proof (intro allI impI)
  fix s
  show "orderly s (snd (deleteSyncFlag s))"
  proof (cases "tables_ok (app s) (tables s)")
    case True
    then show ?thesis by (simp add: deleteSyncFlag_ok orderly_def without_key_ok)
  next
    case False
    then show ?thesis by (simp add: orderly_def)
  qed
qed

lemma manageSyncRoutine_orderly: "orderly.keeps_alive manageSyncRoutine"
  unfolding orderly.keeps_alive_def
proof (intro allI impI)
  fix s
  assume p: "\<forall>p. fst (manageSyncRoutine s) \<noteq> Panic p" and l: "fst (manageSyncRoutine s) \<noteq> Loops"
  show "orderly s (snd (manageSyncRoutine s))"
  proof (cases "tables_ok (app s) (tables s)")
    case True
    have "\<exists>s'. manageSyncRoutine s = (Ok (), s')"
      using manageSyncRoutine_run[OF True] p by (metis fst_conv)
    then obtain s' where run: "manageSyncRoutine s = (Ok (), s')" by blast
    with manageSyncRoutine_tables[OF True run] show ?thesis by (simp add: orderly_def)
  next
    case False
    then show ?thesis by (simp add: orderly_def)
  qed
qed

lemma orderly_Update_app: "app_api_ok env \<Longrightarrow> orderly.keeps_alive (Update_app env)"
  unfolding Update_app_def
  by (rule orderly_same_key, rule same_key.keepsI)
     (auto simp: bnd_def prog_simps same_key_def appKeyName_def app_api_ok_def split: res.splits)

lemma orderly_Patch_status: "app_api_ok env \<Longrightarrow> orderly.keeps_alive (Patch_status env o')"
  unfolding Patch_status_def
  by (rule orderly_same_key, rule same_key.keepsI)
     (auto simp: bnd_def attempt_def prog_simps same_key_def appKeyName_def app_api_ok_def split: res.splits)

lemmas orderly_steps =
  orderly.alive_bnd orderly.alive_keeps[OF orderly.keeps_ret] orderly.alive_keeps[OF orderly.keeps_throw]
  orderly_same_key[OF same_key_get_app] deleteSyncFlag_orderly manageSyncRoutine_orderly

lemma clearDeployedResources_same_key: "same_key.keeps (clearDeployedResources env)"
  unfolding clearDeployedResources_def
  by (auto intro!: same_key_intros plain_Clear_only_sync[THEN same_key_only_sync]
        helm_Clear_only_sync[THEN same_key_only_sync])

lemma finalizeApp_orderly: "orderly.keeps_alive (finalizeApp env)"
  unfolding finalizeApp_def clearGitRepo_def
  by (auto intro!: orderly_steps clearDeployedResources_same_key[THEN orderly_same_key]
        clearWebhook_same_key[THEN orderly_same_key] same_key_ext[THEN orderly_same_key])

lemma handleFinalizer_orderly: "app_api_ok env \<Longrightarrow> orderly.keeps_alive (handleFinalizer env)"
proof -
  have "orderly.keeps_alive (set_finalizers f)" for f
    unfolding set_finalizers_def by (intro orderly_same_key same_key_update_app) simp
  then show "app_api_ok env \<Longrightarrow> ?thesis"
    unfolding handleFinalizer_def
    by (auto intro!: orderly_steps finalizeApp_orderly orderly_Update_app)
qed

lemma reconcile_body_orderly: "app_api_ok env \<Longrightarrow> orderly.keeps_alive (reconcile_body env before i)"
  unfolding reconcile_body_def
  by (auto intro!: orderly_steps setWebhookRegisteredCond_same_key[THEN orderly_same_key]
        setReadyCond_same_key[THEN orderly_same_key] CheckSync_same_key[THEN orderly_same_key]
        setDefaultValues_same_key[THEN orderly_same_key] handleFinalizer_orderly)

lemma Reconcile_tables:
  assumes api: "app_api_ok env" and ok: "\<And>a. tables_ok a (tables s)"
    and run: "Reconcile env ns name s = (r, s')" and r: "\<And>p. r \<noteq> Panic p" "r \<noteq> Loops"
  shows "tables_ok (app s') (tables s')"
proof (cases "e_get_app env (hist s) ns name")
  case (Ok a)
  let ?s = "s\<lparr>hist := CGetApp ns name # hist s, app := a\<rparr>"
  define rest where "rest = (let i = e_find_cond env (conds a) ApplicationConditionReady in
     bnd (case i of
            None \<Rightarrow> update_app (\<lambda>a. set_conds (e_set_cond env (conds a) not_ready) a)
          | Some _ \<Rightarrow> ret ()) (\<lambda>_.
     deferred (Patch_status env a) (reconcile_body env (conds a) i)))"
  have "Reconcile env ns name s = rest ?s"
    using Ok by (simp add: Reconcile_def rest_def bnd_def attempt_def prog_simps)
  moreover have "orderly.keeps_alive rest"
    unfolding rest_def Let_def
    by (auto intro!: orderly_steps orderly.alive_deferred orderly_Patch_status[OF api]
          reconcile_body_orderly[OF api] same_key_update_app[THEN orderly_same_key]
          simp: set_conds_def split: option.splits)
  ultimately have "orderly ?s s'"
    using run r by (intro orderly.keeps_aliveD[of rest ?s r s']) simp_all
  moreover have "tables_ok (app ?s) (tables ?s)" using ok by simp
  ultimately show ?thesis by (simp add: orderly_def)
next
  case (Err e)
  with run ok show ?thesis
    by (auto simp: Reconcile_def bnd_def attempt_def prog_simps split: if_splits)
next
  case (Panic q)
  with run r show ?thesis by (auto simp: Reconcile_def bnd_def attempt_def prog_simps)
next
  case Loops
  with run r show ?thesis by (auto simp: Reconcile_def bnd_def attempt_def prog_simps)
qed

section \<open>The machine\<close>

text \<open>
  When a handler has returned, its object belongs to the routine it started. A
  tick works on the routine's object and leaves it there. A panic ends the process
  unless it happens in a request handler, where \<open>net/http\<close> recovers it.
\<close>

definition settle :: "st \<Rightarrow> st" where
  "settle s = s\<lparr>tables := (tables s)\<lparr>routines :=
     map (\<lambda>r. case rt_App r of None \<Rightarrow> r\<lparr>rt_App := Some (app s)\<rparr> | Some _ \<Rightarrow> r) (routines (tables s))\<rparr>\<rparr>"

definition store_app :: "nat \<Rightarrow> st \<Rightarrow> st" where
  "store_app ch s = s\<lparr>tables := (tables s)\<lparr>routines :=
     map (\<lambda>r. if rt_Done r = ch then r\<lparr>rt_App := Some (app s)\<rparr> else r) (routines (tables s))\<rparr>\<rparr>"

datatype event =
    EvReconcile string string
  | EvTick nat
  | EvWebhook "string \<rightharpoonup> string" header "string res"
  | EvSync "string \<rightharpoonup> string"

inductive op_step :: "env \<Rightarrow> st \<Rightarrow> event \<Rightarrow> st \<Rightarrow> bool" for env where
  reconciles:
    "\<lbrakk>Reconcile env ns name s = (r, s'); r = Ok () \<or> r = Err e\<rbrakk>
     \<Longrightarrow> op_step env s (EvReconcile ns name) (settle s')"
| ticks:
    "\<lbrakk>rt \<in> set (routines (tables s)); rt_Ticker rt \<in> active (tables s); rt_App rt = Some a;
      PeriodicSyncCheck_tick env (s\<lparr>app := a\<rparr>) = (Ok (), s')\<rbrakk>
     \<Longrightarrow> op_step env s (EvTick (rt_Done rt)) (store_app (rt_Done rt) s')"
| webhooks:
    "\<lbrakk>webhook_ServeHTTP env (operator_plugins env) vars h body s = (r, s'); r \<noteq> Loops\<rbrakk>
     \<Longrightarrow> op_step env s (EvWebhook vars h body) s'"
| syncs:
    "\<lbrakk>updateDeploy env vars s = (r, s'); r \<noteq> Loops\<rbrakk> \<Longrightarrow> op_step env s (EvSync vars) s'"

inductive_cases op_step_reconcileE: "op_step env s (EvReconcile ns name) s'"
inductive_cases op_step_tickE: "op_step env s (EvTick ch) s'"
inductive_cases op_step_webhookE: "op_step env s (EvWebhook vars h body) s'"
inductive_cases op_step_syncE: "op_step env s (EvSync vars) s'"

definition no_tables :: sync_tables where
  "no_tables = \<lparr>syncStopFlags = Map.empty, syncTickers = Map.empty, syncPeriods = Map.empty,
     routines = [], active = {}, next_id = 0\<rparr>"

inductive op_reachable :: "env \<Rightarrow> st \<Rightarrow> bool" for env where
  start: "tables s = no_tables \<Longrightarrow> op_reachable env s"
| step: "op_reachable env s \<Longrightarrow> op_step env s ev s' \<Longrightarrow> op_reachable env s'"

definition settled :: "sync_tables \<Rightarrow> bool" where
  "settled t \<longleftrightarrow> (\<forall>r \<in> set (routines t). rt_App r \<noteq> None)"

definition op_inv :: "st \<Rightarrow> bool" where
  "op_inv s \<longleftrightarrow> tables_ok (app s) (tables s) \<and> settled (tables s)"

lemma routine_key_settled: "rt_App r \<noteq> None \<Longrightarrow> routine_key a r = routine_key b r"
  by (auto simp: routine_key_def)

lemma tables_ok_map:
  assumes ok: "tables_ok a t"
    and f: "\<And>r. r \<in> set (routines t) \<Longrightarrow>
      rt_Done (f r) = rt_Done r \<and> rt_Ticker (f r) = rt_Ticker r \<and> routine_key b (f r) = routine_key a r"
  shows "tables_ok b (t\<lparr>routines := map f (routines t)\<rparr>)"
proof -
  have d: "map rt_Done (map f (routines t)) = map rt_Done (routines t)" using f by simp
  have fl: "\<exists>r' \<in> set (map f (routines t)). rt_Done r' = ch \<and> routine_key b r' = k \<and> syncTickers t k = Some (rt_Ticker r')"
    if "syncStopFlags t k = Some ch" for k ch
    using tables_okD(4)[OF ok that] f by fastforce
  have rs: "syncStopFlags t (routine_key b r') = Some (rt_Done r')" if "r' \<in> set (map f (routines t))" for r'
    using that f tables_okD(5)[OF ok] by auto
  show ?thesis
  proof (rule tables_okI, goal_cases)
    case (1 k) show ?case using tables_okD(1)[OF ok, of k] by simp
  next
    case (2 k) show ?case using tables_okD(2)[OF ok, of k] by simp
  next
    case (3 k ch) then show ?case using tables_okD(3)[OF ok, of k ch] by simp
  next
    case (4 k ch) then show ?case using fl[of k ch] by simp
  next
    case (5 r) then show ?case using rs[of r] by simp
  next
    case 6 show ?case using tables_okD(6)[OF ok] by (simp add: d del: map_map)
  next
    case (7 k i) then show ?case using tables_okD(7)[OF ok, of k i] by simp
  next
    case (8 k k' i) then show ?case using tables_okD(8)[OF ok, of k i k'] by simp
  next
    case (9 i) show ?case using tables_okD(9)[OF ok, of i] by simp
  qed
qed

lemma tables_ok_settled:
  assumes "tables_ok a t" and "settled t"
  shows "tables_ok b t"
proof -
  have "tables_ok b (t\<lparr>routines := map id (routines t)\<rparr>)"
    using assms(2) by (intro tables_ok_map[OF assms(1)]) (auto simp: settled_def intro: routine_key_settled)
  then show ?thesis by simp
qed

lemma settle_inv:
  assumes "tables_ok (app s) (tables s)"
  shows "op_inv (settle s)"
proof -
  let ?f = "\<lambda>r. case rt_App r of None \<Rightarrow> r\<lparr>rt_App := Some (app s)\<rparr> | Some _ \<Rightarrow> r"
  have "tables_ok (app s) ((tables s)\<lparr>routines := map ?f (routines (tables s))\<rparr>)"
    by (rule tables_ok_map[OF assms]) (auto simp: routine_key_def split: option.splits)
  then show ?thesis
    by (auto simp: op_inv_def settle_def settled_def split: option.splits)
qed

lemma store_app_inv:
  assumes ok: "tables_ok a (tables s)" and st: "settled (tables s)"
    and rt: "rt \<in> set (routines (tables s))" and key: "routine_key a rt = appKeyName (app s)"
  shows "op_inv (store_app (rt_Done rt) s)"
proof -
  let ?f = "\<lambda>r. if rt_Done r = rt_Done rt then r\<lparr>rt_App := Some (app s)\<rparr> else r"
  have same: "r = rt" if "r \<in> set (routines (tables s))" "rt_Done r = rt_Done rt" for r
    using that rt tables_okD(6)[OF ok] by (simp add: distinct_map inj_on_def)
  have "tables_ok a ((tables s)\<lparr>routines := map ?f (routines (tables s))\<rparr>)"
  proof (rule tables_ok_map[OF ok])
    fix r assume r: "r \<in> set (routines (tables s))"
    show "rt_Done (?f r) = rt_Done r \<and> rt_Ticker (?f r) = rt_Ticker r \<and> routine_key a (?f r) = routine_key a r"
      using same[OF r] key by (auto simp: routine_key_def)
  qed
  moreover have "settled ((tables s)\<lparr>routines := map ?f (routines (tables s))\<rparr>)"
    using st by (auto simp: settled_def)
  ultimately show ?thesis
    using tables_ok_settled by (auto simp: op_inv_def store_app_def)
qed

lemma PeriodicSyncCheck_tick_same_key: "same_key.keeps (PeriodicSyncCheck_tick env)"
  unfolding PeriodicSyncCheck_tick_def by (intro same_key_intros CheckSync_same_key)

text \<open>Request handlers load another Application but leave the tables alone.\<close>

definition same_tables :: "st \<Rightarrow> st \<Rightarrow> bool" where
  "same_tables s t \<longleftrightarrow> tables t = tables s"

interpretation same_tables: step_rel same_tables
  by unfold_locales (simp_all add: same_tables_def)

lemma same_tables_key: "same_key.keeps m \<Longrightarrow> same_tables.keeps m"
  by (simp add: same_key.keeps_def same_tables.keeps_def same_key_def same_tables_def)

lemma same_tables_update_app: "same_tables.keeps (update_app f)"
  unfolding update_app_def by (rule same_tables.keeps_modify) (simp add: same_tables_def)

lemmas same_tables_intros =
  same_tables.keeps_intros same_tables_update_app same_key_ext[THEN same_tables_key]
  RandomString_same_key[THEN same_tables_key] GetGitCli_same_key[THEN same_tables_key]
  CheckSync_same_key[THEN same_tables_key]

lemma HandleEvent_same_tables: "same_tables.keeps (HandleEvent (operator_plugins env) wh)"
proof -
  have "p = Handle env" if "p \<in> set (getPlugins (operator_plugins env) ev)" for p ev
    using that unfolding operator_plugins_def getPlugins_AddPlugin by (auto simp: getPlugins_def)
  moreover have "same_tables.keeps (Handle env wh)"
    by (rule same_tables_key[OF same_key_only_sync[OF Handle_only_sync]])
  ultimately show ?thesis
    unfolding HandleEvent_def
    by (auto intro!: same_tables.keeps_bnd same_tables.keeps_fold_each same_tables.keeps_attempt
          same_tables.keeps_ret same_tables.keeps_throw split: option.splits)
qed

lemma webhook_ServeHTTP_same_tables:
  "same_tables.keeps (webhook_ServeHTTP env (operator_plugins env) vars h body)"
  unfolding webhook_ServeHTTP_def
  by (auto intro!: same_tables_intros HandleEvent_same_tables
        cli_ParseWebhook_only_sync[THEN same_key_only_sync, THEN same_tables_key]
        split: option.splits sum.splits)

lemma updateDeploy_same_tables: "same_tables.keeps (updateDeploy env vars)"
  unfolding updateDeploy_def
  by (auto intro!: same_tables_intros split: option.splits sum.splits)

lemma op_step_inv:
  assumes api: "app_api_ok env" and inv: "op_inv s" and step: "op_step env s ev s'"
  shows "op_inv s'"
  using step
proof cases
  case (reconciles ns name r t e)
  have any: "tables_ok a (tables s)" for a
    using inv tables_ok_settled by (auto simp: op_inv_def)
  have "tables_ok (app t) (tables t)"
    using reconciles(4) by (intro Reconcile_tables[OF api any reconciles(3)]) auto
  then show ?thesis unfolding reconciles(2) by (rule settle_inv)
next
  case (ticks rt a t)
  have "same_key (s\<lparr>app := a\<rparr>) t"
    using same_key.keepsD[OF PeriodicSyncCheck_tick_same_key ticks(6)] .
  then have t: "tables t = tables s" "appKeyName (app t) = appKeyName a" by (simp_all add: same_key_def)
  have "routine_key (app s) rt = appKeyName (app t)" using ticks(5) t by (simp add: routine_key_def)
  then show ?thesis
    unfolding ticks(2) using inv ticks(3) t by (intro store_app_inv[of "app s"]) (auto simp: op_inv_def)
next
  case (webhooks vars h body r)
  have "same_tables s s'" using same_tables.keepsD[OF webhook_ServeHTTP_same_tables webhooks(2)] .
  then show ?thesis using inv tables_ok_settled by (auto simp: op_inv_def same_tables_def)
next
  case (syncs vars r)
  have "same_tables s s'" using same_tables.keepsD[OF updateDeploy_same_tables syncs(2)] .
  then show ?thesis using inv tables_ok_settled by (auto simp: op_inv_def same_tables_def)
qed

lemma op_reachable_inv: "op_reachable env s \<Longrightarrow> app_api_ok env \<Longrightarrow> op_inv s"
proof (induction rule: op_reachable.induct)
  case (start s)
  then show ?case by (simp add: op_inv_def tables_ok_def settled_def no_tables_def)
next
  case (step s ev s')
  then show ?case using op_step_inv by blast
qed

section \<open>What the invariant gives\<close>

lemma registered_unique:
  assumes "op_inv s" and "r \<in> set (routines (tables s))" and "r' \<in> set (routines (tables s))"
    and "routine_key (app s) r = routine_key (app s) r'"
  shows "r = r'"
proof -
  have ok: "tables_ok (app s) (tables s)" using assms(1) by (simp add: op_inv_def)
  have "rt_Done r = rt_Done r'"
    using tables_okD(5)[OF ok assms(2)] tables_okD(5)[OF ok assms(3)] assms(4) by simp
  then show ?thesis
    using tables_okD(6)[OF ok] assms(2,3) by (simp add: distinct_map inj_on_def)
qed

lemma routine_registered:
  assumes "op_inv s" and "r \<in> set (routines (tables s))"
  shows "syncStopFlags (tables s) (routine_key (app s) r) = Some (rt_Done r)"
    and "rt_Ticker r \<in> active (tables s)"
proof -
  have ok: "tables_ok (app s) (tables s)" using assms(1) by (simp add: op_inv_def)
  show f: "syncStopFlags (tables s) (routine_key (app s) r) = Some (rt_Done r)"
    by (rule tables_okD(5)[OF ok assms(2)])
  from tables_okD(4)[OF ok f] obtain r' where r': "r' \<in> set (routines (tables s))" "rt_Done r' = rt_Done r"
    "syncTickers (tables s) (routine_key (app s) r) = Some (rt_Ticker r')" by blast
  have "r' = r" using r'(1,2) assms(2) tables_okD(6)[OF ok] by (simp add: distinct_map inj_on_def)
  with r'(3) show "rt_Ticker r \<in> active (tables s)" using tables_okD(9)[OF ok] by blast
qed

text \<open>A closed run: a ready Application is reconciled once on a fresh operator.\<close>

definition sample_ready :: application where
  "sample_ready = set_conds
     [not_ready\<lparr>cond_Status := ConditionTrue\<rparr>,
      webhook_not_registered\<lparr>cond_Reason := ApplicationConditionReasonNoGitToken\<rparr>]
     (sample_user_app\<lparr>app_Status := (app_Status sample_user_app)\<lparr>stat_Secrets := ''s''\<rparr>\<rparr>)"

definition sample_ready_env :: env where
  "sample_ready_env = sample_env\<lparr>e_get_app := (\<lambda>_ ns n. Ok (sample_ready\<lparr>app_Name := n, app_Namespace := ns\<rparr>))\<rparr>"

definition sample_managed :: st where
  "sample_managed = sample_st\<lparr>
     plainManager := Some \<lparr>pm_TargetCli = DefaultCli, pm_GitCli = FakeClient []\<rparr>,
     helmManager := Some \<lparr>hm_Client = \<lparr>ho_Namespace = [], ho_RestConfig = None\<rparr>\<rparr>\<rparr>"

definition sample_after :: st where
  "sample_after = settle (snd (Reconcile sample_ready_env ''demo'' ''guestbook'' sample_managed))"

lemma sample_api_ok: "app_api_ok sample_env" "app_api_ok sample_ready_env"
  by (auto simp: app_api_ok_def sample_ready_env_def sample_env_def)

lemma sample_run:
  "fst (Reconcile sample_ready_env ''demo'' ''guestbook'' sample_managed) = Ok ()
   \<and> map (\<lambda>r. map_option appKeyName (rt_App r)) (routines (tables sample_after)) = [Some ''guestbook/demo'']"
proof -
  have "case Reconcile sample_ready_env ''demo'' ''guestbook'' sample_managed of (r, s) \<Rightarrow>
      r = Ok () \<and> map (\<lambda>r. map_option appKeyName (rt_App r)) (routines (tables (settle s))) = [Some ''guestbook/demo'']"
    by code_simp
  then show ?thesis by (simp add: sample_after_def case_prod_beta)
qed

lemma sample_after_reachable: "op_reachable sample_ready_env sample_after"
proof -
  have "op_reachable sample_ready_env sample_managed"
    by (rule op_reachable.start) (simp add: sample_managed_def sample_st_def no_tables_def)
  moreover have "op_step sample_ready_env sample_managed (EvReconcile ''demo'' ''guestbook'') sample_after"
    unfolding sample_after_def
    by (rule op_step.reconciles[where r = "Ok ()" and e = "Fail []"]) (simp_all add: prod_eq_iff sample_run)
  ultimately show ?thesis by (rule op_reachable.step)
qed

lemma sample_after_routine:
  obtains r a where "r \<in> set (routines (tables sample_after))" and "rt_App r = Some a"
    and "appKeyName a = ''guestbook/demo''"
  using sample_run by (cases "routines (tables sample_after)") auto

section \<open>Properties\<close>

text \<open>
  C1: In every state the operator can reach, by any order of reconciles, ticks,
  webhooks and sync requests that return, two running periodic routines never
  belong to the same Application, and a running routine is the one whose stop
  channel and running ticker are registered under the Application's key.
\<close>

theorem op_one_routine:
  assumes "app_api_ok env" and "op_reachable env s"
    and "r \<in> set (routines (tables s))" and "rt_App r = Some a"
  shows "syncStopFlags (tables s) (appKeyName a) = Some (rt_Done r) \<and> rt_Ticker r \<in> active (tables s)
    \<and> (\<forall>r' b. r' \<in> set (routines (tables s)) \<and> rt_App r' = Some b \<and> appKeyName b = appKeyName a \<longrightarrow> r' = r)"
proof -
  have inv: "op_inv s" using op_reachable_inv[OF assms(2,1)] .
  have k: "routine_key (app s) q = appKeyName b" if "rt_App q = Some b" for q b
    using that by (simp add: routine_key_def)
  show ?thesis
    using routine_registered[OF inv assms(3)] registered_unique[OF inv _ assms(3)] k assms(4) by metis
qed

theorem op_one_routine_witness:
  "\<exists>r \<in> set (routines (tables sample_after)). syncStopFlags (tables sample_after) ''guestbook/demo'' = Some (rt_Done r)"
proof -
  obtain r a where r: "r \<in> set (routines (tables sample_after))" "rt_App r = Some a" "appKeyName a = ''guestbook/demo''"
    by (rule sample_after_routine)
  from op_one_routine[OF sample_api_ok(2) sample_after_reachable r(1,2)] r show ?thesis by auto
qed

text \<open>
  C2: Stopping the periodic routine of an Application never blocks: in every
  reachable state \<open>deleteSyncFlag\<close> returns, after it no routine of the Application
  runs and its ticker is stopped, and the routines of the others are untouched.
\<close>

theorem op_stop_never_blocks:
  assumes "app_api_ok env" and "op_reachable env s"
  shows "\<exists>s'. deleteSyncFlag s = (Ok (), s') \<and> syncStopFlags (tables s') (appKeyName (app s)) = None
    \<and> routines (tables s') = filter (\<lambda>r. routine_key (app s) r \<noteq> appKeyName (app s)) (routines (tables s))
    \<and> active (tables s') = active (tables s) - {i. syncTickers (tables s) (appKeyName (app s)) = Some i}"
proof -
  have ok: "tables_ok (app s) (tables s)"
    using op_reachable_inv[OF assms(2,1)] by (simp add: op_inv_def)
  let ?k = "appKeyName (app s)"
  have "Some (rt_Done r) \<noteq> syncStopFlags (tables s) ?k \<longleftrightarrow> routine_key (app s) r \<noteq> ?k"
    if "r \<in> set (routines (tables s))" for r
    using tables_okD(5)[OF ok that] channel_key[OF ok] by metis
  then have "filter (\<lambda>r. Some (rt_Done r) \<noteq> syncStopFlags (tables s) ?k) (routines (tables s))
      = filter (\<lambda>r. routine_key (app s) r \<noteq> ?k) (routines (tables s))"
    by (intro filter_cong) auto
  then show ?thesis
    using deleteSyncFlag_ok[OF ok] by (auto simp: without_key_def)
qed

theorem op_stop_never_blocks_witness:
  "\<exists>s'. deleteSyncFlag sample_after = (Ok (), s')"
  using op_stop_never_blocks[OF sample_api_ok(2) sample_after_reachable] by blast

end
