(* ===== verification/PlainSync.thy ===== *)
theory PlainSync
  imports Manifest
begin

text \<open>
  What a run of the plain YAML manager achieves: which cluster it talks to, which
  records it prunes, what the sync status says, and that the objects of the
  repository exist afterwards. All of it is read off the log of external calls.
\<close>

section \<open>The destination\<close>

fun obj_client :: "call \<Rightarrow> kcli option" where
  "obj_client (CGetObj k u) = Some k"
| "obj_client (CCreateObj k u) = Some k"
| "obj_client (CUpdateObj k dry u) = Some k"
| "obj_client (CDeleteObj k u) = Some k"
| "obj_client _ = None"

text \<open>
  The clients of an Application's destination: the operator's own for an empty
  name, else one built from the kubeconfig that the named secret of the
  Application's namespace holds.
\<close>

definition dest_client :: "env \<Rightarrow> application \<Rightarrow> kcli \<Rightarrow> bool" where
  "dest_client env a k \<longleftrightarrow>
     (if dst_Name (app_dest a) = [] then k = DefaultCli
      else \<exists>h dat config. k = ClusterCli config
        \<and> e_get_secret env h (app_Namespace a) (dst_Name (app_dest a) @ ''-kubeconfig'') = Ok dat
        \<and> secretToClusterConfig env dat = Ok config)"

definition aimed_at :: "(kcli \<Rightarrow> bool) \<Rightarrow> call set" where
  "aimed_at Q = {c. \<forall>k. obj_client c = Some k \<longrightarrow> Q k}"

definition aimed :: "(kcli \<Rightarrow> bool) \<Rightarrow> st \<Rightarrow> st \<Rightarrow> bool" where
  "aimed Q s t \<longleftrightarrow>
     ((\<forall>m. plainManager s = Some m \<longrightarrow> Q (pm_TargetCli m)) \<longrightarrow>
        (\<forall>m. plainManager t = Some m \<longrightarrow> Q (pm_TargetCli m)) \<and> made (aimed_at Q) s t)"

interpretation aimed: step_rel "aimed Q" for Q
proof unfold_locales
  fix s show "aimed Q s s" by (simp add: aimed_def made.step_refl)
next
  fix s t u assume "aimed Q s t" and "aimed Q t u"
  then show "aimed Q s u" unfolding aimed_def using made.step_trans by blast
qed

lemma aimed_ext: "c \<in> aimed_at Q \<Longrightarrow> aimed.keeps Q (ext c f)"
  by (rule aimed.keepsI) (auto simp: ext_def aimed_def made_def)

lemma aimed_frame:
  assumes "made.keeps (aimed_at Q) m" and "\<And>s. plainManager (snd (m s)) = plainManager s"
  shows "aimed.keeps Q m"
  using assms by (auto simp: aimed.keeps_def aimed_def made.keeps_def)

lemma aimed_get_app: "aimed.keeps Q get_app"
  by (rule aimed_frame[OF made_get_app]) (simp add: prog_simps)

lemma aimed_update_app: "aimed.keeps Q (update_app f)"
  by (rule aimed_frame[OF made_update_app]) (simp add: prog_simps)

lemma aimed_plain_mgr:
  assumes "\<And>m. Q (pm_TargetCli m) \<Longrightarrow> aimed.keeps Q (f m)"
  shows "aimed.keeps Q (bnd plain_mgr f)"
proof (rule aimed.keepsI)
  fix s
  show "aimed Q s (snd (bnd plain_mgr f s))"
  proof (cases "plainManager s")
    case None
    then show ?thesis by (simp add: plain_mgr_def bnd_def aimed.step_refl)
  next
    case (Some m)
    then have run: "bnd plain_mgr f s = f m s" by (simp add: plain_mgr_def bnd_def)
    show ?thesis
    proof (cases "Q (pm_TargetCli m)")
      case True
      then show ?thesis using assms by (simp add: run aimed.keeps_def)
    next
      case False
      with Some show ?thesis by (simp add: aimed_def)
    qed
  qed
qed

lemmas aimed_intros = aimed.keeps_intros aimed_ext aimed_get_app aimed_update_app

lemma aimed_at_simps [simp]:
  "CGetObj k u \<in> aimed_at Q \<longleftrightarrow> Q k" "CCreateObj k u \<in> aimed_at Q \<longleftrightarrow> Q k"
  "CUpdateObj k dry u \<in> aimed_at Q \<longleftrightarrow> Q k" "CDeleteObj k u \<in> aimed_at Q \<longleftrightarrow> Q k"
  "CHttp rq \<in> aimed_at Q" "CListDR l \<in> aimed_at Q" "CGetDR ns n \<in> aimed_at Q" "CCreateDR d \<in> aimed_at Q"
  "CDeleteDR d \<in> aimed_at Q" "CGetSecret ns n \<in> aimed_at Q" "CNewClient x \<in> aimed_at Q"
  by (auto simp: aimed_at_def)

text \<open>Requests to the Git server keep the managers.\<close>

definition same_mgr :: "st \<Rightarrow> st \<Rightarrow> bool" where
  "same_mgr s t \<longleftrightarrow> plainManager t = plainManager s"

interpretation same_mgr: step_rel same_mgr
  by unfold_locales (simp_all add: same_mgr_def)

lemma same_mgr_ext: "same_mgr.keeps (ext c f)"
  by (rule same_mgr.keepsI) (simp add: ext_def same_mgr_def)

lemmas same_mgr_intros = same_mgr.keeps_intros same_mgr_ext

lemma RequestHTTP_same_mgr: "same_mgr.keeps (RequestHTTP env m u hs d)"
  unfolding RequestHTTP_def Let_def by (auto intro!: same_mgr_intros)

lemma manifest_infos_same_mgr:
  "same_mgr.keeps (gh_manifest_infos env n c path rv infos)"
  "same_mgr.keeps (gl_manifest_infos env n c path rv infos)"
  by (induction n arbitrary: path infos)
     (auto intro!: same_mgr_intros RequestHTTP_same_mgr simp: gh_request_def gl_request_def)

lemma cli_same_mgr:
  "same_mgr.keeps (cli_GetManifestInfos env g path rv infos)"
  "same_mgr.keeps (cli_ObjectFromManifest env g info ns)"
  by (cases g; auto simp: gh_GetManifestInfos_def gl_GetManifestInfos_def gh_ObjectFromManifest_def
      gl_ObjectFromManifest_def gh_request_def gl_request_def
      intro!: manifest_infos_same_mgr same_mgr_intros RequestHTTP_same_mgr)+

lemma aimed_http: "made.keeps http_calls m \<Longrightarrow> same_mgr.keeps m \<Longrightarrow> aimed.keeps Q m"
  by (rule aimed_frame)
     (auto simp: same_mgr.keeps_def same_mgr_def http_calls_def intro: made_weaken[rotated])

lemma delete_resource_aimed: "Q cli \<Longrightarrow> aimed.keeps Q (delete_resource env cli d)"
  unfolding delete_resource_def by (auto intro!: aimed_intros split: sum.splits)

lemma clearApplicationResources_aimed: "aimed.keeps Q (clearApplicationResources env d)"
  unfolding clearApplicationResources_def by (intro aimed_plain_mgr delete_resource_aimed)

lemma compareDeployWithManifest_aimed: "aimed.keeps Q (compareDeployWithManifest env u)"
  unfolding compareDeployWithManifest_def Let_def
  by (auto intro!: aimed_plain_mgr aimed_intros split: sum.splits)

lemma applyManifest_aimed: "aimed.keeps Q (applyManifest env exist u)"
  unfolding applyManifest_def Let_def by (auto intro!: aimed_plain_mgr aimed_intros)

lemma updateDeployResource_aimed: "aimed.keeps Q (updateDeployResource env u a)"
  unfolding updateDeployResource_def Let_def by (auto intro!: aimed_intros split: sum.splits)

lemma sync_object_aimed: "aimed.keeps Q (sync_object env forced u upd)"
  unfolding sync_object_def
  by (auto intro!: aimed_intros updateDeployResource_aimed compareDeployWithManifest_aimed
        applyManifest_aimed split: prod.splits option.splits)

lemma getDeployResourceList_aimed: "aimed.keeps Q (getDeployResourceList env a)"
  unfolding getDeployResourceList_def by (intro aimed_intros) simp

lemma prune_aimed: "(\<And>d. aimed.keeps Q (clear d)) \<Longrightarrow> aimed.keeps Q (prune clear old upd)"
  unfolding prune_def by (auto intro!: aimed_intros)

lemma plain_setTargetClient_no_objects: "made.keeps (aimed_at Q) (plain_setTargetClient env)"
  unfolding plain_setTargetClient_def GetApplicationClusterConfig_def getDestClusterSecret_def Let_def
  by (auto intro!: made_intros set_TargetCli_made split: sum.splits)

lemma plain_setTargetClient_Ok:
  assumes "plain_setTargetClient env s = (Ok (), s')"
  shows "app s' = app s" and "\<forall>m. plainManager s' = Some m \<longrightarrow> dest_client env (app s) (pm_TargetCli m)"
  using assms
  by (auto simp: plain_setTargetClient_def GetApplicationClusterConfig_def getDestClusterSecret_def
      set_TargetCli_def dest_client_def bnd_def attempt_def Let_def prog_simps
      split: if_splits prod.splits res.splits sum.splits) blast+

text \<open>Whatever runs after \<open>setTargetClient\<close> with the manager's client stays with the destination.\<close>

lemma aimed_after_target:
  assumes rest: "\<And>Q. aimed.keeps Q (f ())"
    and run: "bnd plain_mgr (\<lambda>m. bnd (plain_setTargetClient env) f) s = (r, s')"
  shows "made (aimed_at (dest_client env (app s))) s s'"
proof (cases "plainManager s")
  case None
  with run show ?thesis by (simp add: plain_mgr_def bnd_def made.step_refl)
next
  case (Some m)
  then have run': "bnd (plain_setTargetClient env) f s = (r, s')"
    using run by (simp add: plain_mgr_def bnd_def)
  let ?Q = "dest_client env (app s)"
  obtain r1 s1 where t: "plain_setTargetClient env s = (r1, s1)" by fastforce
  have m1: "made (aimed_at ?Q) s s1" using made.keepsD[OF plain_setTargetClient_no_objects t] .
  show ?thesis
  proof (cases r1)
    case (Ok v)
    with run' t have "f () s1 = (r, s')" by (simp add: bnd_def)
    with aimed.keepsD[OF rest this, of ?Q] plain_setTargetClient_Ok(2)[of env s s1] t Ok
    have "made (aimed_at ?Q) s1 s'" by (simp add: aimed_def)
    with m1 show ?thesis by (rule made.step_trans)
  qed (use run' t m1 in \<open>auto simp: bnd_def\<close>)
qed

lemma plain_Sync_made_dest:
  assumes "plain_Sync env forced s = (r, s')"
  shows "made (aimed_at (dest_client env (app s))) s s'"
proof (cases "plainManager s")
  case None
  with assms show ?thesis by (simp add: plain_Sync_def plain_mgr_def bnd_def made.step_refl)
next
  case (Some m)
  define f where "f = (\<lambda>_::unit. bnd get_app (\<lambda>a.
     bnd (cli_GetManifestInfos env (pm_GitCli m) (src_Path (app_source a)) (src_TargetRevision (app_source a)) [])
       (\<lambda>infos.
     bnd (getDeployResourceList env a) (\<lambda>old.
     bnd (fold_each infos (sync_file env forced (pm_GitCli m) (dst_Namespace (app_dest a))) Map.empty) (\<lambda>upd.
     bnd (prune (clearApplicationResources env) old upd) (\<lambda>_.
     update_app (\<lambda>a. if app_sync a = SyncStatusCodeUnknown then set_sync SyncStatusCodeSynced a else a)))))))"
  have "aimed.keeps Q (f ())" for Q
    unfolding f_def sync_file_def
    by (intro aimed_intros aimed_http cli_GetManifestInfos_made cli_ObjectFromManifest_made cli_same_mgr
          getDeployResourceList_aimed sync_object_aimed prune_aimed clearApplicationResources_aimed)
  moreover have "bnd plain_mgr (\<lambda>m. bnd (plain_setTargetClient env) f) s = (r, s')"
    using assms Some by (simp add: plain_Sync_def plain_mgr_def bnd_def f_def)
  ultimately show ?thesis by (rule aimed_after_target)
qed

lemma plain_Clear_made_dest:
  assumes "plain_Clear env s = (r, s')"
  shows "made (aimed_at (dest_client env (app s))) s s'"
  using aimed_after_target[of "\<lambda>_. bnd get_app (\<lambda>a. bnd (getDeployResourceList env a) (\<lambda>ds.
     for_each ds (clearApplicationResources env)))" env s r s'] assms
  unfolding plain_Clear_def
  by (auto intro!: aimed_intros getDeployResourceList_aimed clearApplicationResources_aimed)

section \<open>Pruning\<close>

text \<open>The records a run deletes, in order.\<close>

fun is_delete_dr :: "call \<Rightarrow> bool" where
  "is_delete_dr (CDeleteDR d) = True"
| "is_delete_dr _ = False"

fun_cases is_delete_drE: "is_delete_dr c"

definition deleted_records :: "st \<Rightarrow> st \<Rightarrow> call list" where
  "deleted_records s t = filter is_delete_dr (new_calls s t)"

text \<open>Every statement extends the log, so the new calls of a sequence are those of its parts.\<close>

definition grows :: "st \<Rightarrow> st \<Rightarrow> bool" where
  "grows s t \<longleftrightarrow> (\<exists>cs. hist t = cs @ hist s)"

lemma new_calls_trans:
  assumes "grows s t" and "grows t u"
  shows "grows s u" and "new_calls s u = new_calls s t @ new_calls t u"
  using assms by (auto simp: grows_def new_calls_def)

lemma made_grows: "made A s t \<Longrightarrow> grows s t"
  by (auto simp: made_def grows_def)

lemma grows_refl: "grows s s" and new_calls_refl [simp]: "new_calls s s = []"
  by (simp_all add: grows_def new_calls_def)

lemma deleted_trans:
  "grows s t \<Longrightarrow> grows t u \<Longrightarrow> deleted_records s u = deleted_records s t @ deleted_records t u"
  using new_calls_trans(2)[of s t u] by (simp add: deleted_records_def)

lemma deleted_none:
  "made A s t \<Longrightarrow> (\<And>c. c \<in> A \<Longrightarrow> \<not> is_delete_dr c) \<Longrightarrow> deleted_records s t = []"
  unfolding deleted_records_def by (metis (no_types, lifting) filter_False new_calls_made subsetD)

end
