(* ===== verification/ManagerReuse.thy ===== *)
theory ManagerReuse
  imports Operator PlainSync
begin

text \<open>
  The plain manager is created once, with the Git client of the Application that
  happened to be checked first, and is kept in a global variable. Every later event
  keeps that client, so it reads the manifests of every other Application too.
\<close>

definition same_git :: "st \<Rightarrow> st \<Rightarrow> bool" where
  "same_git s t \<longleftrightarrow> (\<forall>m. plainManager s = Some m \<longrightarrow>
     (\<exists>m'. plainManager t = Some m' \<and> pm_GitCli m' = pm_GitCli m))"

interpretation same_git: step_rel same_git
proof unfold_locales
  fix s show "same_git s s" by (simp add: same_git_def)
next
  fix s t u assume "same_git s t" and "same_git t u"
  then show "same_git s u" unfolding same_git_def by metis
qed

lemma same_git_same: "(\<And>s. plainManager (snd (m s)) = plainManager s) \<Longrightarrow> same_git.keeps m"
  by (rule same_git.keepsI) (simp add: same_git_def)

lemma same_git_mgr: "same_mgr.keeps m \<Longrightarrow> same_git.keeps m"
  by (rule same_git_same) (simp add: same_mgr.keeps_def same_mgr_def)

lemma same_git_ext: "same_git.keeps (ext c f)"
  by (rule same_git_same) (simp add: prog_simps)

lemma same_git_update_app: "same_git.keeps (update_app f)"
  by (rule same_git_same) (simp add: prog_simps)

lemma same_git_get_app: "same_git.keeps get_app"
  by (rule same_git_same) (simp add: prog_simps)

lemma same_git_modify: "(\<And>s. plainManager (f s) = plainManager s) \<Longrightarrow> same_git.keeps (modify f)"
  by (rule same_git_same) (simp add: prog_simps)

lemma same_git_plain_mgr: "same_git.keeps plain_mgr"
  by (rule same_git_same) (simp add: plain_mgr_def split: option.split)

lemma same_git_helm_mgr: "same_git.keeps helm_mgr"
  by (rule same_git_same) (simp add: helm_mgr_def split: option.split)

lemma same_git_set_TargetCli: "same_git.keeps (set_TargetCli c)"
  unfolding set_TargetCli_def by (rule same_git.keeps_modify) (simp add: same_git_def)

lemma same_git_set_helm_Client: "same_git.keeps (set_helm_Client o')"
  unfolding set_helm_Client_def by (rule same_git_modify) simp

lemmas same_git_intros =
  same_git.keeps_intros same_git_ext same_git_update_app same_git_get_app same_git_plain_mgr same_git_helm_mgr
  same_git_set_TargetCli same_git_set_helm_Client

section \<open>Git clients\<close>

lemma with_repo_same_git: "same_git.keeps (with_repo n body)"
  by (rule same_git_same) (auto simp: with_repo_def split: option.splits prod.splits)

lemma RequestHTTP_same_git: "same_git.keeps (RequestHTTP env m u hs d)"
  by (rule same_git_mgr[OF RequestHTTP_same_mgr])

lemma paginate_same_git: "same_git.keeps (paginate env n u hs d acc)"
  by (induction n arbitrary: u acc) (auto intro!: same_git_intros RequestHTTP_same_git split: option.splits)

lemma GetPaginatedRequest_same_git: "same_git.keeps (GetPaginatedRequest env u hs d)"
  unfolding GetPaginatedRequest_def by (intro same_git_intros paginate_same_git)

lemmas same_git_http = RequestHTTP_same_git GetPaginatedRequest_same_git with_repo_same_git

lemma cli_webhooks_same_git:
  "same_git.keeps (cli_ListWebhook env g)" "same_git.keeps (cli_RegisterWebhook env g u)"
  "same_git.keeps (cli_DeleteWebhook env g i)"
  by (cases g; auto simp: gh_ListWebhook_def gl_ListWebhook_def fk_ListWebhook_def gh_RegisterWebhook_def
      gl_RegisterWebhook_def fk_RegisterWebhook_def gh_DeleteWebhook_def gl_DeleteWebhook_def
      fk_DeleteWebhook_def gh_request_def gl_request_def Let_def
      intro!: same_git_intros same_git_http)+

lemma cli_parse_same_git: "same_git.keeps (cli_ParseWebhook env g h body)"
proof (cases g)
  case (GithubClient c)
  have u: "same_git.keeps (gh_getSenderAuthor env c x y)" for x y
    unfolding gh_getSenderAuthor_def gh_GetUserInfo_def gh_request_def Let_def
    by (auto intro!: same_git_intros same_git_http)
  show ?thesis
    unfolding GithubClient cli_ParseWebhook.simps gh_ParseWebhook_def gh_parsePullRequestWebhook_def
      gh_parsePushWebhook_def gh_parseIssueCommentWebhook_def gh_parsePullRequestReviewWebhook_def
      gh_parsePullRequestReviewCommentWebhook_def gh_issue_pull_request_def gh_GetPullRequest_def
      gh_GetUserInfo_def gh_request_def Let_def
    by (auto intro!: same_git_intros same_git_http u)
next
  case (GitlabClient c)
  have u: "same_git.keeps (gl_GetUserInfo env c i)" "same_git.keeps (gl_GetBranch env c b)" for i b
    unfolding gl_GetUserInfo_def gl_GetBranch_def gl_request_def
    by (auto intro!: same_git_intros same_git_http)
  show ?thesis
    unfolding GitlabClient cli_ParseWebhook.simps gl_parsers gl_getSenderAuthor_def Let_def
    by (auto intro!: same_git_intros u split: prod.splits)
next
  case (FakeClient r)
  then show ?thesis by (simp add: same_git.keeps_ret)
qed

lemma GetGitCli_same_git: "same_git.keeps (GetGitCli env)"
  unfolding GetGitCli_def GetToken_def Let_def
  by (auto intro!: same_git_intros split: option.splits)

section \<open>Managers\<close>

lemma cluster_same_git: "same_git.keeps (GetApplicationClusterConfig env a)"
  unfolding GetApplicationClusterConfig_def getDestClusterSecret_def Let_def
  by (auto intro!: same_git_intros split: sum.splits)

lemma delete_resource_same_git: "same_git.keeps (delete_resource env cli d)"
  unfolding delete_resource_def by (auto intro!: same_git_intros split: sum.splits)

lemma updateDeployResource_same_git: "same_git.keeps (updateDeployResource env u a)"
  unfolding updateDeployResource_def Let_def by (auto intro!: same_git_intros split: sum.splits)

lemma getDeployResourceList_same_git: "same_git.keeps (getDeployResourceList env a)"
  unfolding getDeployResourceList_def by (intro same_git_intros)

lemma sync_object_same_git: "same_git.keeps (sync_object env forced u upd)"
  unfolding sync_object_def compareDeployWithManifest_def applyManifest_def Let_def
  by (auto intro!: same_git_intros updateDeployResource_same_git split: sum.splits prod.splits option.splits)

lemma plain_same_git: "same_git.keeps (plain_Sync env forced)" "same_git.keeps (plain_Clear env)"
  unfolding plain_Sync_def plain_Clear_def sync_file_def prune_def clearApplicationResources_def plain_setTargetClient_def
  by (auto intro!: same_git_intros cluster_same_git delete_resource_same_git getDeployResourceList_same_git
        sync_object_same_git cli_same_mgr[THEN same_git_mgr])

lemma helm_setTargetClient_same_git: "same_git.keeps (helm_setTargetClient env)"
  unfolding helm_setTargetClient_def Let_def by (auto intro!: same_git_intros cluster_same_git)

lemma installHelmChart_same_git: "same_git.keeps (installHelmChart env ch dry)"
  unfolding installHelmChart_def InstallChart_def by (auto intro!: same_git_intros split: sum.splits)

lemma fetch_repo_same_git: "same_git.keeps (fetch_repo env)"
  unfolding fetch_repo_def gitRepoClone_def gitPull_def Clone_def Open_def Pull_def
  by (auto intro!: same_git_intros split: stat_result.splits sum.splits)

lemma helm_same_git: "same_git.keeps (helm_Sync env forced)" "same_git.keeps (helm_Clear env)"
  unfolding helm_Sync_def helm_Clear_def objectFromManifest_def helm_document_def record_object_def prune_def
    deleteDeployResource_def uninstallRelease_def UninstallReleaseByName_def clearDeployResource_def Let_def
  by (auto intro!: same_git_intros fetch_repo_same_git helm_setTargetClient_same_git getDeployResourceList_same_git
        installHelmChart_same_git updateDeployResource_same_git delete_resource_same_git
        split: option.splits sum.splits)

lemma ensure_same_git: "same_git.keeps (ensure_plain env)" "same_git.keeps (ensure_helm env)"
proof -
  have "same_git s (snd (ensure_plain env s))" for s
    by (cases "plainManager s") (simp_all add: same_git_def ensure_plain_def bnd_def prog_simps)
  then show "same_git.keeps (ensure_plain env)" by (rule same_git.keepsI)
  show "same_git.keeps (ensure_helm env)"
    unfolding ensure_helm_def NewHelmManager_def Let_def
    by (auto intro!: same_git_intros same_git_modify split: option.splits sum.splits)
qed

lemma CheckSync_same_git: "same_git.keeps (CheckSync env forced)"
  unfolding CheckSync_def by (auto intro!: same_git_intros ensure_same_git plain_same_git helm_same_git)

section \<open>Handlers\<close>

lemma tables_same_git: "same_git.keeps deleteSyncFlag" "same_git.keeps manageSyncRoutine"
proof -
  have g: "same_git.keeps get_tables" unfolding get_tables_def by (intro same_git_intros)
  have u: "same_git.keeps (update_tables f)" for f
    unfolding update_tables_def by (rule same_git_modify) simp
  have s: "same_git.keeps (send_stop ch)" for ch
    unfolding send_stop_def by (auto intro!: same_git_intros g u)
  show d: "same_git.keeps deleteSyncFlag"
    unfolding deleteSyncFlag_def by (auto intro!: same_git_intros g u s split: option.splits)
  have "same_git.keeps fresh_id" unfolding fresh_id_def by (auto intro!: same_git_intros g u)
  then show "same_git.keeps manageSyncRoutine"
    unfolding manageSyncRoutine_def registerSyncFlag_def NewTicker_def go_PeriodicSyncCheck_def
    by (auto intro!: same_git_intros g u d)
qed

lemma RandomString_same_git: "same_git.keeps (RandomString env n)"
  by (induction n) (auto intro!: same_git_intros simp: random_char_def)

lemma conds_same_git: "same_git.keeps (setWebhookRegisteredCond env)" "same_git.keeps (setReadyCond env)"
  unfolding setWebhookRegisteredCond_def setReadyCond_def register_webhook_def put_cond_def Let_def
  by (auto intro!: same_git_intros GetGitCli_same_git cli_webhooks_same_git split: option.splits sum.splits)

lemma setDefaultValues_same_git: "same_git.keeps (setDefaultValues env)"
  unfolding setDefaultValues_def checkAppDestNamespace_def setSecretString_def Let_def
  by (auto intro!: same_git_intros RandomString_same_git split: sum.splits)

lemma handleFinalizer_same_git: "same_git.keeps (handleFinalizer env)"
  unfolding handleFinalizer_def finalizeApp_def clearDeployedResources_def clearWebhook_def clearGitRepo_def
    set_finalizers_def Update_app_def
  by (auto intro!: same_git_intros tables_same_git plain_same_git helm_same_git GetGitCli_same_git
        cli_webhooks_same_git split: option.splits)

lemma Reconcile_same_git: "same_git.keeps (Reconcile env ns n)"
  unfolding Reconcile_def reconcile_body_def Patch_status_def Let_def
  by (auto intro!: same_git_intros conds_same_git tables_same_git CheckSync_same_git setDefaultValues_same_git
        handleFinalizer_same_git split: option.splits sum.splits)

lemma HandleEvent_same_git: "same_git.keeps (HandleEvent (operator_plugins env) wh)"
proof -
  have "p = Handle env" if "p \<in> set (getPlugins (operator_plugins env) ev)" for p ev
    using that unfolding operator_plugins_def getPlugins_AddPlugin by (auto simp: getPlugins_def)
  moreover have "same_git.keeps (Handle env wh)"
    unfolding Handle_def by (auto intro!: same_git_intros CheckSync_same_git)
  ultimately show ?thesis
    unfolding HandleEvent_def
    by (auto intro!: same_git.keeps_bnd same_git.keeps_fold_each same_git.keeps_attempt
          same_git.keeps_ret same_git.keeps_throw split: option.splits)
qed

lemma endpoints_same_git:
  "same_git.keeps (webhook_ServeHTTP env (operator_plugins env) vars h body)" "same_git.keeps (updateDeploy env vars)"
  unfolding webhook_ServeHTTP_def updateDeploy_def
  by (auto intro!: same_git_intros RandomString_same_git GetGitCli_same_git cli_parse_same_git
        HandleEvent_same_git CheckSync_same_git split: option.splits sum.splits)

lemma tick_same_git: "same_git.keeps (PeriodicSyncCheck_tick env)"
  unfolding PeriodicSyncCheck_tick_def by (auto intro!: same_git_intros CheckSync_same_git)

section \<open>Properties\<close>

text \<open>
  C14: Once the plain manager exists, no event of the operator, be it a reconcile, a
  tick, a webhook or a sync request of any Application, gives it another Git
  client: the client of the first Application stays for all of them.
\<close>

theorem first_git_client_stays:
  assumes "op_step env s ev s'" and "plainManager s = Some m"
  shows "\<exists>m'. plainManager s' = Some m' \<and> pm_GitCli m' = pm_GitCli m"
proof -
  have "same_git s s'"
    using assms(1)
  proof cases
    case (reconciles ns name r t e)
    then show ?thesis
      using same_git.keepsD[OF Reconcile_same_git reconciles(3)] by (simp add: same_git_def settle_def)
  next
    case (ticks rt a t)
    have "same_git (s\<lparr>app := a\<rparr>) t"
      by (rule same_git.keepsD[OF tick_same_git ticks(6)])
    then show ?thesis unfolding ticks(2) by (simp add: same_git_def store_app_def)
  next
    case (webhooks vars h body r)
    then show ?thesis using same_git.keepsD[OF endpoints_same_git(1)] by blast
  next
    case (syncs vars r)
    then show ?thesis using same_git.keepsD[OF endpoints_same_git(2)] by blast
  qed
  with assms(2) show ?thesis by (simp add: same_git_def)
qed

theorem first_git_client_stays_witness:
  "\<exists>m. plainManager sample_after = Some m \<and> pm_GitCli m = FakeClient []"
proof -
  have "op_step sample_ready_env sample_managed (EvReconcile ''demo'' ''guestbook'') sample_after"
    unfolding sample_after_def
    by (rule op_step.reconciles[where r = "Ok ()" and e = "Fail []"]) (simp_all add: prod_eq_iff sample_run)
  from first_git_client_stays[OF this] show ?thesis by (auto simp: sample_managed_def)
qed

end
