(* ===== verification/PlainPrune.thy ===== *)
theory PlainPrune
  imports PlainSync
begin

text \<open>The record calls: the lookup of a record and its deletion.\<close>

fun record_call :: "call \<Rightarrow> bool" where
  "record_call (CGetDR ns n) = True"
| "record_call (CDeleteDR d) = True"
| "record_call _ = False"

definition quiet_on_records :: "call set" where
  "quiet_on_records = {c. \<not> record_call c}"

lemma quiet_on_records_simps [simp]:
  "CGetObj k u \<in> quiet_on_records" "CCreateObj k u \<in> quiet_on_records" "CUpdateObj k dry u \<in> quiet_on_records"
  "CDeleteObj k u \<in> quiet_on_records" "CHttp rq \<in> quiet_on_records" "CListDR l \<in> quiet_on_records"
  "CCreateDR d \<in> quiet_on_records" "CGetSecret ns n \<in> quiet_on_records" "CNewClient x \<in> quiet_on_records"
  "CGetDR ns n \<notin> quiet_on_records" "CDeleteDR d \<notin> quiet_on_records"
  by (simp_all add: quiet_on_records_def)

text \<open>What a run did with records: the names it looked up, and the deletions in order.\<close>

definition looked_up :: "st \<Rightarrow> st \<Rightarrow> (string \<times> string) set" where
  "looked_up s t = {(ns, n). CGetDR ns n \<in> set (new_calls s t)}"

lemma looked_up_refl [simp]: "looked_up s s = {}"
  by (simp add: looked_up_def)

lemma looked_up_trans:
  "grows s t \<Longrightarrow> grows t u \<Longrightarrow> looked_up s u = looked_up s t \<union> looked_up t u"
  using new_calls_trans(2)[of s t u] by (auto simp: looked_up_def)

lemma quiet_records:
  assumes "made quiet_on_records s t"
  shows "grows s t" and "looked_up s t = {}" and "deleted_records s t = []"
proof -
  note calls = new_calls_made[OF assms]
  show "grows s t" by (rule made_grows[OF assms])
  show "looked_up s t = {}" using calls by (auto simp: looked_up_def)
  show "deleted_records s t = []"
    by (rule deleted_none[OF assms]) (auto simp: quiet_on_records_def elim: is_delete_drE)
qed

lemma http_quiet_records: "http_calls \<subseteq> quiet_on_records"
  by (auto simp: http_calls_def)

lemma plain_setTargetClient_records: "made.keeps quiet_on_records (plain_setTargetClient env)"
  unfolding plain_setTargetClient_def GetApplicationClusterConfig_def getDestClusterSecret_def Let_def
  by (auto intro!: made_intros set_TargetCli_made split: sum.splits)

lemma getDeployResourceList_records: "made.keeps quiet_on_records (getDeployResourceList env a)"
  unfolding getDeployResourceList_def by (intro made_intros) simp

lemma compareDeployWithManifest_records: "made.keeps quiet_on_records (compareDeployWithManifest env u)"
  unfolding compareDeployWithManifest_def Let_def
  by (auto intro!: made_intros plain_mgr_made split: sum.splits)

lemma applyManifest_records: "made.keeps quiet_on_records (applyManifest env exist u)"
  unfolding applyManifest_def Let_def by (auto intro!: made_intros plain_mgr_made)

lemma cli_records:
  "made.keeps quiet_on_records (cli_GetManifestInfos env g path rv infos)"
  "made.keeps quiet_on_records (cli_ObjectFromManifest env g info ns)"
  by (rule made_weaken[OF http_quiet_records] cli_GetManifestInfos_made cli_ObjectFromManifest_made)+

text \<open>
  What the API server promises of the records: a lookup answers the record of that
  name, and a created record keeps the name it was given.
\<close>

definition dr_api_ok :: "env \<Rightarrow> bool" where
  "dr_api_ok env \<longleftrightarrow>
     (\<forall>h ns n d. e_get_dr env h ns n = Ok d \<longrightarrow> dr_Name d = n)
     \<and> (\<forall>h d d'. e_create_dr env h d = Ok d' \<longrightarrow> dr_Name d' = dr_Name d)"

lemma updateDeployResource_run:
  assumes "dr_api_ok env" and "updateDeployResource env u a s = (Ok d, s')"
  shows "dr_Name d = dr_name a u" and "grows s s'"
    and "looked_up s s' = {(app_Namespace a, dr_name a u)}" and "deleted_records s s' = []"
proof -
  let ?get = "CGetDR (app_Namespace a) (dr_name a u)"
  consider "e_get_dr env (hist s) (app_Namespace a) (dr_name a u) = Ok d" "hist s' = ?get # hist s"
    | "e_create_dr env (?get # hist s) (new_dr a u) = Ok d" "hist s' = CCreateDR (new_dr a u) # ?get # hist s"
    using assms(2)
    by (auto simp: updateDeployResource_def Let_def bnd_def attempt_def prog_simps
        split: res.splits if_splits)
  then have "dr_Name d = dr_name a u \<and> (\<exists>cs. new_calls s s' = ?get # cs \<and> hist s' = rev cs @ ?get # hist s
      \<and> cs \<in> {[], [CCreateDR (new_dr a u)]})"
  proof cases
    case 1
    with assms(1) show ?thesis by (simp add: dr_api_ok_def new_calls_def)
  next
    case 2
    with assms(1) show ?thesis by (simp add: dr_api_ok_def new_calls_def new_dr_def)
  qed
  then show "dr_Name d = dr_name a u" "grows s s'" "looked_up s s' = {(app_Namespace a, dr_name a u)}"
    "deleted_records s s' = []"
    by (auto simp: grows_def looked_up_def deleted_records_def)
qed

text \<open>The names already synced are those looked up, and nothing is deleted.\<close>

definition synced_names :: "st \<Rightarrow> st \<Rightarrow> (string \<rightharpoonup> deploy_resource) \<Rightarrow> bool" where
  "synced_names s t upd \<longleftrightarrow> grows s t \<and> only_sync s t \<and> deleted_records s t = []
     \<and> looked_up s t = {(app_Namespace (app s), n) | n. n \<in> dom upd}"

lemma synced_names_quiet:
  assumes "synced_names s t upd" and "made quiet_on_records t t'" and "only_sync t t'"
  shows "synced_names s t' upd"
proof -
  note q = quiet_records[OF assms(2)]
  have g: "grows s t" and os: "only_sync s t" using assms(1) by (simp_all add: synced_names_def)
  show ?thesis
    using assms(1) new_calls_trans(1)[OF g q(1)] looked_up_trans[OF g q(1)] deleted_trans[OF g q(1)] q(2,3)
      only_sync.step_trans[OF os assms(3)]
    by (simp add: synced_names_def)
qed

lemma sync_object_names:
  assumes api: "dr_api_ok env" and inv: "synced_names s t upd"
    and run: "sync_object env forced u upd t = (Ok upd', t')"
  shows "synced_names s t' upd'" and "upd' (dr_name (app s) u) \<noteq> None"
    and "\<And>n. upd n \<noteq> None \<Longrightarrow> upd' n \<noteq> None"
proof -
  have os: "only_sync t t'" using only_sync.keepsD[OF sync_object_only_sync run] .
  obtain d t1 where d: "updateDeployResource env u (app t) t = (Ok d, t1)"
    and rest: "bnd (compareDeployWithManifest env u) (\<lambda>r. case r of
       (None, Some e) \<Rightarrow> throw e
     | (None, None) \<Rightarrow> ret (upd(dr_Name d \<mapsto> d))
     | (Some ob, err) \<Rightarrow>
         bnd (if pol_AutoSync (app_policy (app t)) \<or> forced
              then applyManifest env (err = None) ob else ret ()) (\<lambda>_.
         ret (upd(dr_Name d \<mapsto> d)))) t1 = (Ok upd', t')"
    (is "bnd _ ?k t1 = _")
    using run unfolding sync_object_def by (auto simp: bnd_def prog_simps split: prod.splits res.splits)
  have "made.keeps quiet_on_records (bnd (compareDeployWithManifest env u) ?k)"
    by (auto intro!: made_intros compareDeployWithManifest_records applyManifest_records
        split: prod.splits option.splits)
  from made.keepsD[OF this rest] have q: "made quiet_on_records t1 t'" .
  have upd': "upd' = upd(dr_Name d \<mapsto> d)"
    using rest by (auto simp: bnd_def prog_simps split: prod.splits res.splits option.splits)
  have name: "dr_name (app t) u = dr_name (app s) u" "app_Namespace (app t) = app_Namespace (app s)"
    using inv only_sync_name by (auto simp: synced_names_def dr_name_def)
  note r = updateDeployResource_run[OF api d] and q' = quiet_records[OF q]
  have g: "grows s t" "grows t t'" using inv r(2) q'(1) new_calls_trans(1) by (auto simp: synced_names_def)
  have "looked_up s t' = looked_up s t \<union> {(app_Namespace (app s), dr_name (app s) u)}"
    using looked_up_trans[OF g] looked_up_trans[OF r(2) q'(1)] r(3) q'(2) name by simp
  moreover have "deleted_records s t' = []"
    using deleted_trans[OF g] deleted_trans[OF r(2) q'(1)] r(4) q'(3) inv by (simp add: synced_names_def)
  moreover have "only_sync s t'" using inv os only_sync.step_trans by (auto simp: synced_names_def)
  ultimately show "synced_names s t' upd'"
    using inv g new_calls_trans(1)[OF g] by (auto simp: synced_names_def upd' r(1) name)
  show "upd' (dr_name (app s) u) \<noteq> None" by (simp add: upd' r(1) name)
  show "\<And>n. upd n \<noteq> None \<Longrightarrow> upd' n \<noteq> None" by (simp add: upd')
qed

lemma sync_file_names:
  assumes api: "dr_api_ok env" and inv: "synced_names s t upd"
    and run: "sync_file env forced g ns info upd t = (Ok upd', t')"
  shows "synced_names s t' upd'"
proof -
  obtain obs t1 where o: "cli_ObjectFromManifest env g info ns t = (Ok obs, t1)"
    and f: "fold_each obs (sync_object env forced) upd t1 = (Ok upd', t')"
    using run unfolding sync_file_def by (elim bnd_eq_OkE)
  have "synced_names s t1 upd"
    by (rule synced_names_quiet[OF inv made.keepsD[OF cli_records(2) o]
          only_sync.keepsD[OF cli_ObjectFromManifest_only_sync o]])
  from fold_each_invariant[OF f, of "\<lambda>_ upd t. synced_names s t upd", OF this]
  show ?thesis using sync_object_names(1)[OF api] by blast
qed

text \<open>A pruned record is deleted once, and no record is looked up again.\<close>

lemma clearApplicationResources_run:
  assumes "clearApplicationResources env d s = (Ok (), s')"
  shows "grows s s'" and "looked_up s s' = {}" and "deleted_records s s' = [CDeleteDR d]"
proof -
  obtain m where m: "plainManager s = Some m" and run: "delete_resource env (pm_TargetCli m) d s = (Ok (), s')"
    using assms by (auto simp: clearApplicationResources_def plain_mgr_def bnd_def split: option.splits)
  define s1 where "s1 = s\<lparr>hist := CDeleteDR d # hist s\<rparr>"
  let ?k = "\<lambda>_::unit. bnd (attempt (ext (CGetObj (pm_TargetCli m) (dr_object d))
      (\<lambda>h. e_get_obj env h (pm_TargetCli m) (dr_object d)))) (\<lambda>r. case r of
       Inl e \<Rightarrow> (if \<not> is_not_found e then throw e else ret ())
     | Inr found \<Rightarrow> ext (CDeleteObj (pm_TargetCli m) found) (\<lambda>h. e_delete_obj env h (pm_TargetCli m) found))"
  have k: "?k () s1 = (Ok (), s')"
    using run by (auto simp: delete_resource_def bnd_def ext_apply s1_def split: res.splits)
  have "made.keeps quiet_on_records (?k ())" by (auto intro!: made_intros split: sum.splits)
  from quiet_records[OF made.keepsD[OF this k]]
  have q: "grows s1 s'" "looked_up s1 s' = {}" "deleted_records s1 s' = []" .
  have s1: "grows s s1" "looked_up s s1 = {}" "deleted_records s s1 = [CDeleteDR d]"
    by (auto simp: s1_def grows_def looked_up_def deleted_records_def new_calls_def)
  show "grows s s'" by (rule new_calls_trans(1)[OF s1(1) q(1)])
  show "looked_up s s' = {}" "deleted_records s s' = [CDeleteDR d]"
    using s1 q looked_up_trans[OF s1(1) q(1)] deleted_trans[OF s1(1) q(1)] by simp_all
qed

lemma prune_run:
  assumes "prune (clearApplicationResources env) old upd s = (Ok (), s')"
  shows "grows s s' \<and> looked_up s s' = {}
    \<and> deleted_records s s' = map CDeleteDR (filter (\<lambda>d. upd (dr_Name d) = None) old)"
proof (rule for_each_invariant[OF assms[unfolded prune_def]])
  show "grows s s \<and> looked_up s s = {} \<and> deleted_records s s = map CDeleteDR (filter (\<lambda>d. upd (dr_Name d) = None) [])"
    by (simp add: grows_refl deleted_records_def)
next
  fix ys x t t'
  assume P: "grows s t \<and> looked_up s t = {} \<and> deleted_records s t = map CDeleteDR (filter (\<lambda>d. upd (dr_Name d) = None) ys)"
    and run: "(if upd (dr_Name x) = None then clearApplicationResources env x else ret ()) t = (Ok (), t')"
  show "grows s t' \<and> looked_up s t' = {} \<and> deleted_records s t' = map CDeleteDR (filter (\<lambda>d. upd (dr_Name d) = None) (ys @ [x]))"
  proof (cases "upd (dr_Name x) = None")
    case True
    with run have c: "clearApplicationResources env x t = (Ok (), t')" by simp
    note r = clearApplicationResources_run[OF c]
    have g: "grows s t" using P by simp
    show ?thesis
      using new_calls_trans(1)[OF g r(1)] looked_up_trans[OF g r(1)] deleted_trans[OF g r(1)] r(2,3) P True
      by simp
  next
    case False
    with run P show ?thesis by (simp add: ret_def)
  qed
qed

text \<open>The phases of a sync that succeeds.\<close>

lemma plain_Sync_phases:
  assumes "plain_Sync env forced s = (Ok (), s')"
  obtains m infos old upd s1 s2 s3 s4 s5 where
    "plainManager s = Some m"
    and "plain_setTargetClient env s = (Ok (), s1)" and "app s1 = app s"
    and "cli_GetManifestInfos env (pm_GitCli m) (src_Path (app_source (app s)))
           (src_TargetRevision (app_source (app s))) [] s1 = (Ok infos, s2)"
    and "e_list_dr env (hist s2) (app_label (app s)) = Ok old"
    and "getDeployResourceList env (app s) s2 = (Ok old, s3)"
    and "fold_each infos (sync_file env forced (pm_GitCli m) (dst_Namespace (app_dest (app s)))) Map.empty s3 = (Ok upd, s4)"
    and "prune (clearApplicationResources env) old upd s4 = (Ok (), s5)"
    and "s' = s5\<lparr>app := (if app_sync (app s5) = SyncStatusCodeUnknown
                         then set_sync SyncStatusCodeSynced (app s5) else app s5)\<rparr>"
  using assms unfolding plain_Sync_def
proof (elim bnd_eq_OkE, goal_cases)
  case (1 m s0 u s1 a s1' infos s2 old s3 upd s4 u' s5)
  have m: "plainManager s = Some m" "s0 = s"
    using 1(2) by (auto simp: plain_mgr_def split: option.splits)
  have t: "plain_setTargetClient env s = (Ok (), s1)" using 1(3) m(2) by simp
  have a: "app s1 = app s" by (rule plain_setTargetClient_Ok(1)[OF t])
  have a': "a = app s" "s1' = s1" using 1(4) a by (simp_all add: get_app_apply)
  have l: "e_list_dr env (hist s2) (app_label (app s)) = Ok old"
    using 1(6) by (simp add: getDeployResourceList_def ext_apply a')
  have p: "prune (clearApplicationResources env) old upd s4 = (Ok (), s5)" using 1(8) by simp
  show ?case
    by (rule 1(1)[OF m(1) t a 1(5)[unfolded a'] l 1(6)[unfolded a'] 1(7)[unfolded a'] p])
       (use 1(9) in \<open>simp add: update_app_apply\<close>)
qed


lemma synced_names_start: "synced_names s s Map.empty"
  by (simp add: synced_names_def grows_refl deleted_records_def only_sync.step_refl)

lemma sync_file_made: "made.keeps UNIV (sync_file env forced g ns info upd)"
proof -
  have u: "made.keeps UNIV (updateDeployResource env u a)" for u a
    unfolding updateDeployResource_def Let_def by (auto intro!: made_intros split: sum.splits)
  note m = compareDeployWithManifest_records applyManifest_records cli_records(2)
  show ?thesis
    unfolding sync_file_def sync_object_def
    by (auto intro!: made_intros u m[THEN made_weaken[OF subset_UNIV]] split: prod.splits option.splits)
qed

text \<open>The names of the first phases are those of the manifests.\<close>

lemma plain_Sync_first:
  assumes "plain_setTargetClient env s = (Ok (), s1)"
    and "cli_GetManifestInfos env g path rv [] s1 = (Ok infos, s2)"
  shows "made quiet_on_records s s2" and "only_sync s s2"
proof -
  show "made quiet_on_records s s2"
    by (rule made.step_trans[OF made.keepsD[OF plain_setTargetClient_records assms(1)]
          made.keepsD[OF cli_records(1) assms(2)]])
  show "only_sync s s2"
    by (rule only_sync.step_trans[OF only_sync.keepsD[OF plain_setTargetClient_only_sync assms(1)]
          only_sync.keepsD[OF cli_GetManifestInfos_only_sync assms(2)]])
qed

lemma plain_Sync_names:
  assumes api: "dr_api_ok env" and t: "plain_setTargetClient env s = (Ok (), s1)"
    and i: "cli_GetManifestInfos env g path rv [] s1 = (Ok infos, s2)"
    and l: "getDeployResourceList env a s2 = (Ok old, s3)"
    and f: "fold_each infos (sync_file env forced g ns) Map.empty s3 = (Ok upd, s4)"
  shows "synced_names s s4 upd"
proof -
  have "synced_names s s2 Map.empty"
    by (rule synced_names_quiet[OF synced_names_start plain_Sync_first[OF t i]])
  then have "synced_names s s3 Map.empty"
    by (rule synced_names_quiet)
       (rule made.keepsD[OF getDeployResourceList_records l] only_sync.keepsD[OF getDeployResourceList_only_sync l])+
  from fold_each_invariant[OF f, of "\<lambda>_ upd t. synced_names s t upd", OF this]
  show ?thesis using sync_file_names[OF api] by blast
qed

text \<open>The names a successful sync has seen, and the records it prunes.\<close>

lemma plain_Sync_records:
  assumes api: "dr_api_ok env" and run: "plain_Sync env forced s = (Ok (), s')"
  obtains s2 old and upd :: "string \<rightharpoonup> deploy_resource" where
    "grows s s2" and "grows (s2\<lparr>hist := CListDR (app_label (app s)) # hist s2\<rparr>) s'"
    and "e_list_dr env (hist s2) (app_label (app s)) = Ok old"
    and "looked_up s s' = {(app_Namespace (app s), n) | n. n \<in> dom upd}"
    and "deleted_records s s' = map CDeleteDR (filter (\<lambda>d. upd (dr_Name d) = None) old)"
  using run
proof (rule plain_Sync_phases, goal_cases)
  case (1 m infos old upd s1 s2 s3 s4 s5)
  note names = plain_Sync_names[OF api 1(3,5,7,8)]
  note pr = prune_run[OF 1(9)]
  have h: "hist s' = hist s5" by (simp add: 1(10))
  have s3: "hist s3 = CListDR (app_label (app s)) # hist s2"
    using 1(7) by (auto simp: getDeployResourceList_def ext_apply)
  have g: "grows s s4" "grows s4 s5" using names pr by (simp_all add: synced_names_def)
  have g3: "grows s3 s4"
    by (rule made_grows[OF made.keepsD[OF made.keeps_fold_each 1(8)]]) (rule sync_file_made)
  have eq: "looked_up s s' = looked_up s s5" "deleted_records s s' = deleted_records s s5"
    by (simp_all add: looked_up_def deleted_records_def new_calls_def h)
  show ?case
  proof (rule 1(1)[of s2 old upd])
    show "grows s s2" by (rule made_grows[OF plain_Sync_first(1)[OF 1(3,5)]])
    show "grows (s2\<lparr>hist := CListDR (app_label (app s)) # hist s2\<rparr>) s'"
      using new_calls_trans(1)[OF g3 g(2)] by (simp add: grows_def s3 h)
    show "e_list_dr env (hist s2) (app_label (app s)) = Ok old" by (rule 1(6))
    show "looked_up s s' = {(app_Namespace (app s), n) | n. n \<in> dom upd}"
      using names pr looked_up_trans[OF g] by (simp add: eq synced_names_def)
    show "deleted_records s s' = map CDeleteDR (filter (\<lambda>d. upd (dr_Name d) = None) old)"
      using names pr deleted_trans[OF g] by (simp add: eq synced_names_def)
  qed
qed

section \<open>A sample repository\<close>

text \<open>
  A GitHub server with one manifest file, and a cluster that stores a record of the
  object the file lists and one of an object it no longer lists.
\<close>

definition sample_manifest_url :: string where
  "sample_manifest_url = ''http://raw/cm.yaml''"

definition sample_record :: "string \<Rightarrow> deploy_resource" where
  "sample_record n = new_dr sample_user_app
     \<lparr>u_APIVersion = ''v1'', u_Kind = ''ConfigMap'', u_Name = n, u_Namespace = ''web'', u_Content = []\<rparr>"

definition sample_git_env :: env where
  "sample_git_env = sample_env\<lparr>
     e_http := (\<lambda>_ rq. Ok \<lparr>rs_StatusCode = 200, rs_Header = [],
       rs_Body = (if rq_URI rq = sample_manifest_url then ''kind: ConfigMap''
                  else ''[{'' @ print_string ''type'' @ '':'' @ print_string ''file'' @ '',''
                       @ print_string ''download_url'' @ '':'' @ print_string sample_manifest_url @ ''}]'')\<rparr>),
     e_get_dr := (\<lambda>_ _ n. if n = dr_Name (sample_record ''cm'') then Ok (sample_record ''cm'') else Err (NotFound [])),
     e_list_dr := (\<lambda>_ _. Ok [sample_record ''cm'', sample_record ''old''])\<rparr>"

definition sample_git_st :: st where
  "sample_git_st = sample_st\<lparr>plainManager := Some \<lparr>pm_TargetCli = DefaultCli,
     pm_GitCli = GithubClient \<lparr>GitAPIURL = ''http://git'', GitRepository = ''o/r'', GitToken = [],
       GitWebhookSecret = [], hdr = []\<rparr>\<rparr>\<rparr>"

lemma sample_git_run:
  "fst (plain_Sync sample_git_env True sample_git_st) = Ok ()
   \<and> filter is_delete_dr (rev (hist (snd (plain_Sync sample_git_env True sample_git_st))))
       = [CDeleteDR (sample_record ''old'')]"
proof -
  have "case plain_Sync sample_git_env True sample_git_st of (r, s) \<Rightarrow>
      r = Ok () \<and> filter is_delete_dr (rev (hist s)) = [CDeleteDR (sample_record ''old'')]"
    by code_simp
  then show ?thesis by (simp add: case_prod_beta)
qed

lemma sample_git_api: "dr_api_ok sample_git_env"
  by (auto simp: dr_api_ok_def sample_git_env_def sample_env_def split: if_splits)

lemma sample_git_result:
  obtains s' where "plain_Sync sample_git_env True sample_git_st = (Ok (), s')"
    and "s' = snd (plain_Sync sample_git_env True sample_git_st)"
  using sample_git_run by (metis prod.collapse)

section \<open>Properties\<close>

text \<open>
  C4: A successful sync of the plain manager prunes exactly what the repository no
  longer lists: of the records the API server listed for the Application during
  the run, it deletes, once each and in order, those whose name was not looked up
  for an object of the manifests, and no other record.
\<close>

theorem plain_Sync_prunes:
  assumes "dr_api_ok env" and "plain_Sync env forced s = (Ok (), s')"
  shows "\<exists>h old. suffix (CListDR (app_label (app s)) # h) (hist s')
    \<and> e_list_dr env h (app_label (app s)) = Ok old
    \<and> filter is_delete_dr (new_calls s s') =
        map CDeleteDR (filter (\<lambda>d. CGetDR (app_Namespace (app s)) (dr_Name d) \<notin> set (new_calls s s')) old)"
proof -
  obtain s2 old and upd :: "string \<rightharpoonup> deploy_resource" where r: "grows (s2\<lparr>hist := CListDR (app_label (app s)) # hist s2\<rparr>) s'"
    "e_list_dr env (hist s2) (app_label (app s)) = Ok old"
    "looked_up s s' = {(app_Namespace (app s), n) | n. n \<in> dom upd}"
    "deleted_records s s' = map CDeleteDR (filter (\<lambda>d. upd (dr_Name d) = None) old)"
    by (rule plain_Sync_records[OF assms])
  have "CGetDR (app_Namespace (app s)) n \<in> set (new_calls s s') \<longleftrightarrow> upd n \<noteq> None" for n
    using r(3) by (auto simp: looked_up_def dom_def set_eq_iff)
  with r show ?thesis
    by (intro exI[of _ "hist s2"] exI[of _ old]) (auto simp: grows_def suffix_def deleted_records_def)
qed


theorem plain_Sync_prunes_witness:
  "\<exists>old. filter (\<lambda>d. CGetDR ''demo'' (dr_Name d) \<notin>
      set (new_calls sample_git_st (snd (plain_Sync sample_git_env True sample_git_st)))) old
    = [sample_record ''old'']"
proof -
  obtain s' where run: "plain_Sync sample_git_env True sample_git_st = (Ok (), s')"
    and s': "s' = snd (plain_Sync sample_git_env True sample_git_st)"
    by (rule sample_git_result)
  have "filter is_delete_dr (new_calls sample_git_st s') = map CDeleteDR [sample_record ''old'']"
    using sample_git_run by (simp add: s' new_calls_def sample_git_st_def sample_st_def)
  moreover have "app_Namespace (app sample_git_st) = ''demo''"
    by (simp add: sample_git_st_def sample_st_def sample_user_app_def)
  ultimately show ?thesis
    using plain_Sync_prunes[OF sample_git_api run] by (auto simp: s' Cons_eq_map_conv)
qed

end
