(* ===== verification/PlainStatus.thy ===== *)
theory PlainStatus
  imports PlainPrune
begin

text \<open>
  What a successful sync of the plain manager leaves behind: the sync status it
  reports, and which of the delivered objects exist on the destination afterwards.
\<close>

section \<open>The sync status\<close>

text \<open>
  \<open>tracks forced\<close>: in a run that may deploy, the sync status becomes OutOfSync when
  something was deployed and stays when nothing was.
\<close>

definition may_deploy :: "bool \<Rightarrow> st \<Rightarrow> bool" where
  "may_deploy forced s \<longleftrightarrow> forced \<or> pol_AutoSync (app_policy (app s))"

definition tracks :: "bool \<Rightarrow> st \<Rightarrow> st \<Rightarrow> bool" where
  "tracks forced s t \<longleftrightarrow> grows s t \<and> only_sync s t \<and>
     (may_deploy forced s \<longrightarrow>
       app_sync (app t) = (if set (new_calls s t) \<inter> deploys = {} then app_sync (app s) else SyncStatusCodeOutOfSync))"

lemma may_deploy_only_sync: "only_sync s t \<Longrightarrow> may_deploy forced t = may_deploy forced s"
  using only_sync_spec by (simp add: may_deploy_def)

interpretation tracks: step_rel "tracks forced" for forced
proof unfold_locales
  fix s show "tracks forced s s"
    by (simp add: tracks_def grows_refl only_sync.step_refl)
next
  fix s t u assume st: "tracks forced s t" and tu: "tracks forced t u"
  have g: "grows s t" "grows t u" and o: "only_sync s t" "only_sync t u"
    using st tu by (simp_all add: tracks_def)
  show "tracks forced s u"
    using st tu new_calls_trans[OF g] only_sync.step_trans[OF o] may_deploy_only_sync[OF o(1)]
    by (auto simp: tracks_def)
qed

lemma tracks_quiet: "made (- deploys) s t \<Longrightarrow> only_sync s t \<Longrightarrow> app_sync (app t) = app_sync (app s) \<Longrightarrow> tracks forced s t"
  using new_calls_made[of "- deploys" s t] by (auto simp: tracks_def made_grows)

text \<open>Statements that neither deploy nor touch the Application.\<close>

definition same_app :: "st \<Rightarrow> st \<Rightarrow> bool" where
  "same_app s t \<longleftrightarrow> app t = app s"

interpretation same_app: step_rel same_app
  by unfold_locales (simp_all add: same_app_def)

lemma same_app_ext: "same_app.keeps (ext c f)"
  by (rule same_app.keepsI) (simp add: ext_def same_app_def)

lemma same_app_get_app: "same_app.keeps get_app"
  unfolding get_app_def by (rule same_app.keeps_gets)

lemma same_app_plain_mgr: "same_app.keeps plain_mgr"
  by (rule same_app.keepsI) (auto simp: plain_mgr_def same_app_def split: option.splits)

lemmas same_app_intros =
  same_app.keeps_intros same_app_ext same_app_get_app same_app_plain_mgr

lemma RequestHTTP_same_app: "same_app.keeps (RequestHTTP env m u hs d)"
  unfolding RequestHTTP_def Let_def by (auto intro!: same_app_intros)

lemma manifest_infos_same_app:
  "same_app.keeps (gh_manifest_infos env n c path rv infos)"
  "same_app.keeps (gl_manifest_infos env n c path rv infos)"
  by (induction n arbitrary: path infos)
     (auto intro!: same_app_intros RequestHTTP_same_app simp: gh_request_def gl_request_def)

lemma cli_same_app:
  "same_app.keeps (cli_GetManifestInfos env g path rv infos)"
  "same_app.keeps (cli_ObjectFromManifest env g info ns)"
  by (cases g; auto simp: gh_GetManifestInfos_def gl_GetManifestInfos_def gh_ObjectFromManifest_def
      gl_ObjectFromManifest_def gh_request_def gl_request_def
      intro!: manifest_infos_same_app same_app_intros RequestHTTP_same_app)+

lemma GetPaginatedRequest_same_app: "same_app.keeps (GetPaginatedRequest env u hs d)"
proof -
  have "same_app.keeps (paginate env n u hs d acc)" for n u acc
    by (induction n arbitrary: u acc) (auto intro!: same_app_intros RequestHTTP_same_app split: option.splits)
  then show ?thesis unfolding GetPaginatedRequest_def by (intro same_app_intros)
qed

lemma with_repo_same_app: "same_app.keeps (with_repo n body)"
  by (rule same_app.keepsI) (auto simp: with_repo_def same_app_def split: option.splits prod.splits)

lemma webhook_ops_same_app:
  "same_app.keeps (cli_ListWebhook env g)" "same_app.keeps (cli_RegisterWebhook env g u)"
  "same_app.keeps (cli_DeleteWebhook env g i)" "same_app.keeps (GetGitCli env)"
  by (cases g; auto simp: gh_ListWebhook_def gl_ListWebhook_def fk_ListWebhook_def gh_RegisterWebhook_def
      gl_RegisterWebhook_def fk_RegisterWebhook_def gh_DeleteWebhook_def gl_DeleteWebhook_def fk_DeleteWebhook_def
      gh_request_def gl_request_def Let_def GetGitCli_def GetToken_def
      intro!: same_app_intros GetPaginatedRequest_same_app RequestHTTP_same_app with_repo_same_app
      split: option.splits)+

lemma plain_setTargetClient_same_app: "same_app.keeps (plain_setTargetClient env)"
proof -
  have "same_app.keeps (set_TargetCli c)" for c
    unfolding set_TargetCli_def by (rule same_app.keeps_modify) (simp add: same_app_def)
  then show ?thesis
    unfolding plain_setTargetClient_def GetApplicationClusterConfig_def getDestClusterSecret_def Let_def
    by (auto intro!: same_app_intros split: sum.splits)
qed

lemma updateDeployResource_same_app: "same_app.keeps (updateDeployResource env u a)"
  unfolding updateDeployResource_def Let_def by (auto intro!: same_app_intros split: sum.splits)

lemma applyManifest_same_app: "same_app.keeps (applyManifest env exist u)"
  unfolding applyManifest_def Let_def by (auto intro!: same_app_intros)

lemma clearApplicationResources_same_app: "same_app.keeps (clearApplicationResources env d)"
  unfolding clearApplicationResources_def delete_resource_def
  by (auto intro!: same_app_intros split: sum.splits)

lemma getDeployResourceList_same_app: "same_app.keeps (getDeployResourceList env a)"
  unfolding getDeployResourceList_def by (intro same_app_intros)

lemma prune_same_app: "same_app.keeps (prune (clearApplicationResources env) old upd)"
  unfolding prune_def by (auto intro!: same_app_intros clearApplicationResources_same_app)

lemma tracks_same_app:
  assumes "made.keeps (- deploys) m" and "only_sync.keeps m" and "same_app.keeps m"
  shows "tracks.keeps forced m"
  using assms by (auto simp: tracks.keeps_def made.keeps_def only_sync.keeps_def same_app.keeps_def
      same_app_def intro!: tracks_quiet)

lemma not_deploys_http: "made.keeps http_calls m \<Longrightarrow> made.keeps (- deploys) m"
  by (rule made_weaken[OF http_not_deploys])

text \<open>The comparison reports a difference as an object to deploy, exactly when it sets OutOfSync.\<close>

lemma compareDeployWithManifest_result:
  assumes "compareDeployWithManifest env u s = (Ok (ob, err), s')"
  shows "made (- deploys) s s'"
    and "app s' = (if ob = None then app s else set_sync SyncStatusCodeOutOfSync (app s))"
proof -
  have "made.keeps (- deploys) (compareDeployWithManifest env u)"
    unfolding compareDeployWithManifest_def Let_def
    by (auto intro!: made_intros plain_mgr_made split: sum.splits)
  then show "made (- deploys) s s'" using assms by (rule made.keepsD)
  show "app s' = (if ob = None then app s else set_sync SyncStatusCodeOutOfSync (app s))"
    using assms
    by (auto simp: compareDeployWithManifest_def plain_mgr_def bnd_def attempt_def Let_def prog_simps
        split: option.splits res.splits if_splits)
qed

text \<open>A successful apply deploys.\<close>

lemma applyManifest_result:
  assumes "applyManifest env exist u s = (Ok (), s')"
  shows "grows s s'" and "set (new_calls s s') \<inter> deploys \<noteq> {}" and "app s' = app s"
  using assms
  by (auto simp: applyManifest_def plain_mgr_def bnd_def Let_def prog_simps grows_def new_calls_def
      split: option.splits res.splits if_splits)

lemma applied_tracks:
  assumes "compareDeployWithManifest env u s = (Ok (Some x, err), t)" and "applyManifest env exist x t = (Ok (), s')"
  shows "tracks forced s s'"
proof -
  note cr = compareDeployWithManifest_result[OF assms(1)] and ap = applyManifest_result[OF assms(2)]
  note g = made_grows[OF cr(1)]
  have "only_sync s s'"
    using only_sync.keepsD[OF compareDeployWithManifest_only_sync assms(1)]
      only_sync.keepsD[OF applyManifest_only_sync assms(2)]
    by (blast intro: only_sync.step_trans)
  moreover have "set (new_calls s s') \<inter> deploys \<noteq> {}"
    using ap(2) by (auto simp: new_calls_trans(2)[OF g ap(1)])
  moreover have "app_sync (app s') = SyncStatusCodeOutOfSync" by (simp add: ap(3) cr(2))
  ultimately show ?thesis using new_calls_trans(1)[OF g ap(1)] by (simp add: tracks_def)
qed

lemma sync_object_tracks: "tracks.keeps_ok forced (sync_object env forced u upd)"
proof (rule tracks.keeps_okI)
  fix s upd' s' assume run: "sync_object env forced u upd s = (Ok upd', s')"
  obtain d s1 ob err s2 where d: "updateDeployResource env u (app s) s = (Ok d, s1)"
    and c: "compareDeployWithManifest env u s1 = (Ok (ob, err), s2)"
    and rest: "(case (ob, err) of
       (None, Some e) \<Rightarrow> throw e
     | (None, None) \<Rightarrow> ret (upd(dr_Name d \<mapsto> d))
     | (Some ob, err) \<Rightarrow>
         bnd (if pol_AutoSync (app_policy (app s)) \<or> forced
              then applyManifest env (err = None) ob else ret ()) (\<lambda>_.
         ret (upd(dr_Name d \<mapsto> d)))) s2 = (Ok upd', s')"
    using run unfolding sync_object_def
    by (auto simp: get_app_apply elim!: bnd_eq_OkE)
  have "tracks.keeps forced (updateDeployResource env u (app s))"
    by (intro tracks_same_app updateDeployResource_only_sync updateDeployResource_same_app)
       (auto simp: updateDeployResource_def Let_def intro!: made_intros split: sum.splits)
  then have 1: "tracks forced s s1" using d by (rule tracks.keepsD)
  note cr = compareDeployWithManifest_result[OF c]
  have oc: "only_sync s1 s2" by (rule only_sync.keepsD[OF compareDeployWithManifest_only_sync c])
  have "tracks forced s1 s'"
  proof (cases ob)
    case None
    with rest have "s' = s2" by (auto simp: prog_simps split: option.splits)
    then show ?thesis using cr oc None by (intro tracks_quiet) simp_all
  next
    case (Some x)
    show ?thesis
    proof (cases "may_deploy forced s")
      case False
      with rest Some have "s' = s2" by (auto simp: may_deploy_def prog_simps bnd_def)
      then show ?thesis
        using False cr(1) oc may_deploy_only_sync[of s s1] 1 by (simp add: tracks_def made_grows)
    next
      case True
      with rest Some have "applyManifest env (err = None) x s2 = (Ok (), s')"
        by (auto simp: may_deploy_def prog_simps elim!: bnd_eq_OkE)
      with c Some show ?thesis by (blast intro: applied_tracks)
    qed
  qed
  with 1 show "tracks forced s s'" by (rule tracks.step_trans)
qed

lemma plain_Sync_tracks:
  assumes "plain_Sync env forced s = (Ok (), s')"
  obtains t where "tracks forced s t" and "hist s' = hist t"
    and "app s' = (if app_sync (app t) = SyncStatusCodeUnknown
                   then set_sync SyncStatusCodeSynced (app t) else app t)"
  using assms
proof (rule plain_Sync_phases, goal_cases)
  case (1 m infos old upd s1 s2 s3 s4 s5)
  have k1: "tracks.keeps forced (plain_setTargetClient env)"
    by (intro tracks_same_app plain_setTargetClient_only_sync plain_setTargetClient_same_app)
       (auto simp: plain_setTargetClient_def GetApplicationClusterConfig_def getDestClusterSecret_def Let_def
          intro!: made_intros set_TargetCli_made split: sum.splits)
  have k2: "tracks.keeps forced (cli_GetManifestInfos env g p rv is)" for g p rv "is"
    by (intro tracks_same_app not_deploys_http cli_GetManifestInfos_made cli_GetManifestInfos_only_sync cli_same_app)
  have k2': "tracks.keeps forced (cli_ObjectFromManifest env g i ns)" for g i ns
    by (intro tracks_same_app not_deploys_http cli_ObjectFromManifest_made cli_ObjectFromManifest_only_sync cli_same_app)
  have k3: "tracks.keeps forced (getDeployResourceList env a)" for a
    by (intro tracks_same_app getDeployResourceList_only_sync getDeployResourceList_same_app)
       (auto simp: getDeployResourceList_def intro!: made_intros)
  have k4: "tracks.keeps_ok forced (sync_file env forced g ns i upd)" for g ns i upd
    unfolding sync_file_def by (intro tracks.ok_bnd tracks.ok_keeps[OF k2'] tracks.ok_fold_each sync_object_tracks)
  have k5: "tracks.keeps forced (prune (clearApplicationResources env) old upd)"
    by (intro tracks_same_app prune_only_sync clearApplicationResources_only_sync prune_same_app)
       (auto simp: prune_def clearApplicationResources_def delete_resource_def
          intro!: made_intros plain_mgr_made split: sum.splits)
  have "tracks forced s s5"
    using tracks.keepsD[OF k1 1(3)] tracks.keepsD[OF k2 1(5)] tracks.keepsD[OF k3 1(7)]
      tracks.keeps_okD[OF tracks.ok_fold_each 1(8)] k4 tracks.keepsD[OF k5 1(9)]
    by (meson tracks.step_trans)
  then show ?case by (rule 1(1)) (simp_all add: 1(10))
qed

section \<open>Objects that exist\<close>

text \<open>
  A destination cluster that keeps what it is given: \<open>present\<close> says, for a log of
  calls, which objects a client's cluster has. An object found or created is
  there, and an object is there until it is deleted.
\<close>

type_synonym object_key = "string \<times> string \<times> string \<times> string"

definition object_key :: "unst \<Rightarrow> object_key" where
  "object_key u = (u_APIVersion u, u_Kind u, u_Namespace u, u_Name u)"

definition cluster_ok :: "env \<Rightarrow> (call list \<Rightarrow> kcli \<Rightarrow> object_key set) \<Rightarrow> bool" where
  "cluster_ok env present \<longleftrightarrow>
     (\<forall>h k u v. e_get_obj env h k u = Ok v \<longrightarrow> object_key v = object_key u \<and> object_key u \<in> present h k)
     \<and> (\<forall>h k u. e_create_obj env h k u = Ok () \<longrightarrow> object_key u \<in> present (CCreateObj k u # h) k)
     \<and> (\<forall>h k x c. x \<in> present h k \<longrightarrow> (\<forall>u. c = CDeleteObj k u \<longrightarrow> object_key u \<noteq> x) \<longrightarrow> x \<in> present (c # h) k)"

definition lands :: "(call list \<Rightarrow> kcli \<Rightarrow> object_key set) \<Rightarrow> kcli \<Rightarrow> st \<Rightarrow> st \<Rightarrow> bool" where
  "lands present k s t \<longleftrightarrow> grows s t \<and> present (hist s) k \<subseteq> present (hist t) k"

interpretation lands: step_rel "lands present k" for present k
proof unfold_locales
  fix s show "lands present k s s" by (simp add: lands_def grows_refl)
next
  fix s t u assume st: "lands present k s t" and tu: "lands present k t u"
  then show "lands present k s u"
    using new_calls_trans[of s t u] by (auto simp: lands_def)
qed

lemma present_mono:
  assumes "cluster_ok env present" and "x \<in> present h k"
    and "\<And>u. CDeleteObj k u \<in> set cs \<Longrightarrow> object_key u \<noteq> x"
  shows "x \<in> present (cs @ h) k"
  using assms(3)
proof (induction cs)
  case Nil
  with assms(2) show ?case by simp
next
  case (Cons c cs)
  then have "x \<in> present (cs @ h) k" by auto
  with Cons.prems assms(1) show ?case unfolding cluster_ok_def by (metis append_Cons list.set_intros(1))
qed

text \<open>Calls that delete no object.\<close>

definition aside :: "call set" where
  "aside = {c. \<forall>k u. c \<noteq> CDeleteObj k u}"

lemma aside_simps [simp]:
  "CHttp rq \<in> aside" "CGetSecret ns n \<in> aside" "CListDR l \<in> aside" "CGetDR ns n \<in> aside"
  "CCreateDR d \<in> aside" "CNewClient x \<in> aside"
  by (simp_all add: aside_def)

lemma lands_aside:
  assumes "cluster_ok env present" and "made aside s t"
  shows "lands present k s t"
proof -
  obtain cs where cs: "hist t = cs @ hist s" "set cs \<subseteq> aside" using assms(2) by (auto simp: made_def)
  have "x \<in> present (hist t) k" if "x \<in> present (hist s) k" for x
    unfolding cs(1) by (rule present_mono[OF assms(1) that]) (use cs(2) in \<open>auto simp: aside_def\<close>)
  then show ?thesis
    using made_grows[OF assms(2)] by (auto simp: lands_def)
qed

lemma http_aside: "http_calls \<subseteq> aside"
  by (auto simp: http_calls_def)

text \<open>An object that a sync may deploy is there after it, found or created.\<close>

lemma compare_applies:
  assumes cl: "cluster_ok env present" and m: "plainManager s = Some m" "pm_TargetCli m = k"
    and c: "compareDeployWithManifest env u s = (Ok (ob, err), s1)"
    and a: "case (ob, err) of (None, Some e) \<Rightarrow> False | (None, None) \<Rightarrow> s' = s1
            | (Some x, err) \<Rightarrow> applyManifest env (err = None) x s1 = (Ok (), s')"
  shows "lands present k s s'" and "object_key u \<in> present (hist s') k" and "plainManager s' = plainManager s"
proof -
  let ?g = "CGetObj k u"
  consider (absent) "e_create_obj env (?g # hist s) k u = Ok ()" "hist s' = CCreateObj k u # ?g # hist s"
    | (found) v cs where "e_get_obj env (hist s) k u = Ok v" "hist s' = cs @ ?g # hist s"
        "\<forall>c \<in> set cs. \<exists>dry x. c = CUpdateObj k dry x"
    using c a m
    by (auto simp: compareDeployWithManifest_def applyManifest_def plain_mgr_def bnd_def attempt_def Let_def prog_simps
        split: option.splits res.splits if_splits) fastforce+
  then have "lands present k s s' \<and> object_key u \<in> present (hist s') k"
  proof cases
    case absent
    have mono: "x \<in> present (hist s') k" if "x \<in> present (hist s) k" for x
      using present_mono[OF cl that, of "[CCreateObj k u, ?g]"] by (simp add: absent(2))
    have "object_key u \<in> present (hist s') k"
      using cl absent unfolding cluster_ok_def by metis
    with mono show ?thesis
      by (auto simp: lands_def grows_def absent(2))
  next
    case found
    have cs: "CDeleteObj k w \<notin> set cs" for w
      using found(3) by blast
    have mono: "x \<in> present (hist s') k" if "x \<in> present (hist s) k" for x
      using present_mono[OF cl that, of "cs @ [?g]"] cs by (auto simp: found(2))
    have "object_key u \<in> present (hist s) k"
      using cl found(1) unfolding cluster_ok_def by metis
    with mono show ?thesis
      by (auto simp: lands_def grows_def found(2))
  qed
  then show "lands present k s s'" and "object_key u \<in> present (hist s') k" by simp_all
  show "plainManager s' = plainManager s"
    using c a m
    by (auto simp: compareDeployWithManifest_def applyManifest_def plain_mgr_def bnd_def attempt_def Let_def prog_simps
        split: option.splits res.splits if_splits)
qed

lemma updateDeployResource_same_mgr: "same_mgr.keeps (updateDeployResource env u a)"
  unfolding updateDeployResource_def Let_def by (auto intro!: same_mgr_intros split: sum.splits)

lemma updateDeployResource_aside: "made.keeps aside (updateDeployResource env u a)"
  unfolding updateDeployResource_def Let_def by (auto intro!: made_intros split: sum.splits)

lemma sync_object_lands:
  assumes cl: "cluster_ok env present" and may: "may_deploy forced s"
    and m: "plainManager s = Some m" "pm_TargetCli m = k"
    and run: "sync_object env forced u upd s = (Ok upd', s')"
  shows "lands present k s s'" and "object_key u \<in> present (hist s') k" and "plainManager s' = plainManager s"
proof -
  obtain d s1 ob err s2 where d: "updateDeployResource env u (app s) s = (Ok d, s1)"
    and c: "compareDeployWithManifest env u s1 = (Ok (ob, err), s2)"
    and rest: "(case (ob, err) of
       (None, Some e) \<Rightarrow> throw e
     | (None, None) \<Rightarrow> ret (upd(dr_Name d \<mapsto> d))
     | (Some ob, err) \<Rightarrow>
         bnd (if pol_AutoSync (app_policy (app s)) \<or> forced
              then applyManifest env (err = None) ob else ret ()) (\<lambda>_.
         ret (upd(dr_Name d \<mapsto> d)))) s2 = (Ok upd', s')"
    using run unfolding sync_object_def
    by (auto simp: get_app_apply elim!: bnd_eq_OkE)
  have m1: "plainManager s1 = plainManager s"
    using same_mgr.keepsD[OF updateDeployResource_same_mgr d] by (simp add: same_mgr_def)
  have "case (ob, err) of (None, Some e) \<Rightarrow> False | (None, None) \<Rightarrow> s' = s2
            | (Some x, err) \<Rightarrow> applyManifest env (err = None) x s2 = (Ok (), s')"
    using rest may by (auto simp: may_deploy_def prog_simps elim!: bnd_eq_OkE split: option.splits)
  note r = compare_applies[OF cl _ m(2) c this]
  have "lands present k s s1"
    by (rule lands_aside[OF cl made.keepsD[OF updateDeployResource_aside d]])
  then show "lands present k s s'" using r(1) m(1) m1 lands.step_trans by metis
  show "object_key u \<in> present (hist s') k" using r(2) m(1) m1 by simp
  show "plainManager s' = plainManager s" using r(3) m(1) m1 by simp
qed

text \<open>Pruning removes only the objects of the pruned records.\<close>

lemma clear_keeps:
  assumes cl: "cluster_ok env present" and m: "plainManager s = Some m" "pm_TargetCli m = k"
    and run: "clearApplicationResources env d s = (Ok (), s')"
  shows "present (hist s) k - {object_key (dr_object d)} \<subseteq> present (hist s') k"
    and "plainManager s' = plainManager s"
proof -
  have get: "\<And>h v. e_get_obj env h k (dr_object d) = Ok v \<Longrightarrow> object_key v = object_key (dr_object d)"
    using cl unfolding cluster_ok_def by blast
  let ?h = "CGetObj k (dr_object d) # CDeleteDR d # hist s"
  have run': "delete_resource env k d s = (Ok (), s')"
    using run m by (simp add: clearApplicationResources_def plain_mgr_def bnd_def)
  consider (gone) "s' = s\<lparr>hist := ?h\<rparr>"
    | (found) v where "e_get_obj env (CDeleteDR d # hist s) k (dr_object d) = Ok v"
        "s' = s\<lparr>hist := CDeleteObj k v # ?h\<rparr>"
    using run' by (auto simp: delete_resource_def bnd_def attempt_def prog_simps split: res.splits if_splits)
  then have "\<exists>cs. hist s' = cs @ hist s \<and> plainManager s' = plainManager s
      \<and> (\<forall>c \<in> set cs. \<forall>u. c = CDeleteObj k u \<longrightarrow> object_key u = object_key (dr_object d))"
  proof cases
    case gone
    then show ?thesis by (intro exI[of _ "[CGetObj k (dr_object d), CDeleteDR d]"]) simp
  next
    case found
    then show ?thesis using get[OF found(1)]
      by (intro exI[of _ "[CDeleteObj k v, CGetObj k (dr_object d), CDeleteDR d]"]) simp
  qed
  then obtain cs where cs: "hist s' = cs @ hist s" "plainManager s' = plainManager s"
    and all: "\<forall>c \<in> set cs. \<forall>u. c = CDeleteObj k u \<longrightarrow> object_key u = object_key (dr_object d)"
    by (elim exE conjE)
  show "present (hist s) k - {object_key (dr_object d)} \<subseteq> present (hist s') k"
  proof (rule subsetI)
    fix x assume "x \<in> present (hist s) k - {object_key (dr_object d)}"
    with all show "x \<in> present (hist s') k"
      unfolding cs(1) by (intro present_mono[OF cl]) auto
  qed
  show "plainManager s' = plainManager s" by (rule cs(2))
qed

definition pruned_objects :: "deploy_resource list \<Rightarrow> (string \<rightharpoonup> deploy_resource) \<Rightarrow> unst set" where
  "pruned_objects old upd = {dr_object d | d. d \<in> set old \<and> upd (dr_Name d) = None}"

lemma prune_keeps:
  assumes cl: "cluster_ok env present" and m: "plainManager s = Some m" "pm_TargetCli m = k"
    and run: "prune (clearApplicationResources env) old upd s = (Ok (), s')"
  shows "present (hist s) k - object_key ` pruned_objects old upd \<subseteq> present (hist s') k"
proof -
  let ?I = "\<lambda>_ t. plainManager t = Some m
    \<and> present (hist s) k - object_key ` pruned_objects old upd \<subseteq> present (hist t) k"
  have "?I old s'"
  proof (rule for_each_invariant[OF run[unfolded prune_def], of ?I], goal_cases)
    case 1
    show ?case using m by simp
  next
    case (2 ys x t t')
    show ?case
    proof (cases "upd (dr_Name x) = None")
      case True
      then have c: "clearApplicationResources env x t = (Ok (), t')" using 2(3) by simp
      have mt: "plainManager t = Some m" using 2(1) by simp
      have "dr_object x \<in> pruned_objects old upd" using True 2(2) by (auto simp: pruned_objects_def)
      then show ?thesis using 2(1) clear_keeps[OF cl mt m(2) c] by auto
    next
      case False
      with 2 show ?thesis by (simp add: ret_def)
    qed
  qed
  then show ?thesis by simp
qed

text \<open>
  What a part of a run delivered: \<open>called\<close> says that the run from one state to
  another contains a run of the given operation with the given result.
\<close>

definition called :: "'a act \<Rightarrow> st \<Rightarrow> st \<Rightarrow> 'a \<Rightarrow> bool" where
  "called m s s' v \<longleftrightarrow> (\<exists>t t'. grows s t \<and> m t = (Ok v, t') \<and> grows t' s')"

lemma calledI: "grows s t \<Longrightarrow> m t = (Ok v, t') \<Longrightarrow> grows t' s' \<Longrightarrow> called m s s' v"
  by (auto simp: called_def)

lemma called_mono: "called m s t v \<Longrightarrow> grows t s' \<Longrightarrow> called m s s' v"
  unfolding called_def using new_calls_trans(1) by blast

lemma called_earlier: "grows r s \<Longrightarrow> called m s t v \<Longrightarrow> called m r t v"
  unfolding called_def using new_calls_trans(1) by blast

text \<open>The objects of a file that is done: each has its record noted and is on the cluster.\<close>

definition objects_done ::
    "(call list \<Rightarrow> kcli \<Rightarrow> object_key set) \<Rightarrow> kcli \<Rightarrow> st \<Rightarrow> unst list \<Rightarrow> (string \<rightharpoonup> deploy_resource) \<Rightarrow> st \<Rightarrow> bool" where
  "objects_done present k s obs upd t \<longleftrightarrow>
     (\<forall>u \<in> set obs. upd (dr_name (app s) u) \<noteq> None \<and> object_key u \<in> present (hist t) k)"

lemma objects_done_mono:
  "objects_done present k s obs upd t \<Longrightarrow> lands present k t t' \<Longrightarrow> dom upd \<subseteq> dom upd'
   \<Longrightarrow> objects_done present k s obs upd' t'"
  by (auto simp: objects_done_def lands_def)

definition sync_inv ::
    "(call list \<Rightarrow> kcli \<Rightarrow> object_key set) \<Rightarrow> plain_mgr \<Rightarrow> st \<Rightarrow> (string \<rightharpoonup> deploy_resource) \<Rightarrow> st \<Rightarrow> bool" where
  "sync_inv present m s upd t \<longleftrightarrow>
     synced_names s t upd \<and> lands present (pm_TargetCli m) s t \<and> plainManager t = Some m"

lemma sync_inv_frame:
  assumes "cluster_ok env present" and "sync_inv present m s upd t"
    and "made (quiet_on_records \<inter> aside) t t'" and "only_sync t t'" and "plainManager t' = plainManager t"
  shows "sync_inv present m s upd t'"
proof -
  have q: "made quiet_on_records t t'" "made aside t t'" using assms(3) by (auto simp: made_def)
  show ?thesis
    using assms(2,5) synced_names_quiet[OF _ q(1) assms(4)] lands_aside[OF assms(1) q(2)] lands.step_trans
    unfolding sync_inv_def by metis
qed

lemma sync_object_inv:
  assumes api: "dr_api_ok env" and cl: "cluster_ok env present" and may: "may_deploy forced s"
    and inv: "sync_inv present m s upd t"
    and run: "sync_object env forced u upd t = (Ok upd', t')"
  shows "sync_inv present m s upd' t'" and "lands present (pm_TargetCli m) t t'"
    and "objects_done present (pm_TargetCli m) s [u] upd' t'" and "dom upd \<subseteq> dom upd'"
proof -
  have i: "synced_names s t upd" "lands present (pm_TargetCli m) s t" "plainManager t = Some m"
    using inv by (simp_all add: sync_inv_def)
  have may': "may_deploy forced t" using may i(1) may_deploy_only_sync by (auto simp: synced_names_def)
  note r = sync_object_lands[OF cl may' i(3) refl run] and n = sync_object_names[OF api i(1) run]
  show "sync_inv present m s upd' t'"
    using n(1) lands.step_trans[OF i(2) r(1)] r(3) i(3) by (simp add: sync_inv_def)
  show "lands present (pm_TargetCli m) t t'" by (rule r(1))
  show "objects_done present (pm_TargetCli m) s [u] upd' t'" using n(2) r(2) by (simp add: objects_done_def)
  show "dom upd \<subseteq> dom upd'" using n(3) by blast
qed

text \<open>A file: its objects are delivered, and all of them are done.\<close>

lemma sync_file_inv:
  assumes api: "dr_api_ok env" and cl: "cluster_ok env present" and may: "may_deploy forced s"
    and inv: "sync_inv present m s upd t"
    and run: "sync_file env forced g ns info upd t = (Ok upd', t')"
  shows "sync_inv present m s upd' t'" and "lands present (pm_TargetCli m) t t'"
    and "dom upd \<subseteq> dom upd'"
    and "\<exists>obs. called (cli_ObjectFromManifest env g info ns) s t' obs
            \<and> objects_done present (pm_TargetCli m) s obs upd' t'"
proof -
  let ?k = "pm_TargetCli m"
  obtain obs t1 where o: "cli_ObjectFromManifest env g info ns t = (Ok obs, t1)"
    and f: "fold_each obs (sync_object env forced) upd t1 = (Ok upd', t')"
    using run unfolding sync_file_def by (elim bnd_eq_OkE)
  have h: "http_calls \<subseteq> quiet_on_records \<inter> aside" using http_quiet_records http_aside by blast
  note md = made.keepsD[OF made_weaken[OF h cli_ObjectFromManifest_made] o]
  have inv1: "sync_inv present m s upd t1"
    by (rule sync_inv_frame[OF cl inv md only_sync.keepsD[OF cli_ObjectFromManifest_only_sync o]])
       (use same_mgr.keepsD[OF cli_same_mgr(2) o] in \<open>simp add: same_mgr_def\<close>)
  have l1: "lands present ?k t t1"
    by (rule lands_aside[OF cl made.keepsD[OF made_weaken[OF http_aside cli_ObjectFromManifest_made] o]])
  let ?J = "\<lambda>us b u. sync_inv present m s b u \<and> lands present ?k t1 u \<and> objects_done present ?k s us b u \<and> dom upd \<subseteq> dom b"
  have J: "?J obs upd' t'"
  proof (rule fold_each_invariant[OF f, of ?J], goal_cases)
    case 1
    show ?case using inv1 by (simp add: lands.step_refl objects_done_def)
  next
    case (2 ys x b u b' u')
    then have i: "sync_inv present m s b u" and rest: "lands present ?k t1 u" "objects_done present ?k s ys b u"
      "dom upd \<subseteq> dom b" by simp_all
    note r = sync_object_inv[OF api cl may i 2(3)]
    have "objects_done present ?k s (ys @ [x]) b' u'"
      using objects_done_mono[OF rest(2) r(2,4)] r(3) by (auto simp: objects_done_def)
    then show ?case using r rest(3) lands.step_trans[OF rest(1) r(2)] by blast
  qed
  have g: "grows s t" "grows t1 t'" using inv J by (simp_all add: sync_inv_def lands_def)
  show "sync_inv present m s upd' t'" and "dom upd \<subseteq> dom upd'" using J by blast+
  show "lands present ?k t t'" using J l1 lands.step_trans by blast
  show "\<exists>obs. called (cli_ObjectFromManifest env g info ns) s t' obs \<and> objects_done present ?k s obs upd' t'"
    using calledI[of s t "cli_ObjectFromManifest env g info ns" obs t1 t'] g o J by blast
qed

lemma sync_files_inv:
  assumes api: "dr_api_ok env" and cl: "cluster_ok env present" and may: "may_deploy forced s"
    and inv: "sync_inv present m s Map.empty t"
    and run: "fold_each infos (sync_file env forced g ns) Map.empty t = (Ok upd, t')"
  shows "sync_inv present m s upd t'"
    and "\<forall>info \<in> set infos. \<exists>obs. called (cli_ObjectFromManifest env g info ns) s t' obs
            \<and> objects_done present (pm_TargetCli m) s obs upd t'"
proof -
  let ?k = "pm_TargetCli m"
  define fin where "fin = (\<lambda>info b u. \<exists>obs. called (cli_ObjectFromManifest env g info ns) s u obs
      \<and> objects_done present ?k s obs b u)"
  let ?J = "\<lambda>is b u. sync_inv present m s b u \<and> (\<forall>info \<in> set is. fin info b u)"
  have J: "?J infos upd t'"
  proof (rule fold_each_invariant[OF run, of ?J], goal_cases)
    case 1
    show ?case using inv by simp
  next
    case (2 ys x b u b' u')
    then have i: "sync_inv present m s b u" by simp
    note r = sync_file_inv[OF api cl may i 2(3)]
    have "fin info b' u'" if info: "info \<in> set ys" for info
    proof -
      obtain obs where o: "called (cli_ObjectFromManifest env g info ns) s u obs" "objects_done present ?k s obs b u"
        using 2(1) info unfolding fin_def by blast
      have "grows u u'" using r(2) by (simp add: lands_def)
      then show ?thesis
        unfolding fin_def using called_mono[OF o(1)] objects_done_mono[OF o(2) r(2,3)] by blast
    qed
    moreover have "fin x b' u'" using r(4) by (simp add: fin_def)
    ultimately show ?case using r(1) by simp
  qed
  from J[THEN conjunct1] J[THEN conjunct2, unfolded fin_def] show "sync_inv present m s upd t'"
    and "\<forall>info \<in> set infos. \<exists>obs. called (cli_ObjectFromManifest env g info ns) s t' obs
            \<and> objects_done present ?k s obs upd t'" by this
qed

lemma getDeployResourceList_same_mgr: "same_mgr.keeps (getDeployResourceList env a)"
  unfolding getDeployResourceList_def by (intro same_mgr_intros)

lemma getDeployResourceList_aside: "made.keeps aside (getDeployResourceList env a)"
  unfolding getDeployResourceList_def by (intro made_intros) simp

lemma plain_setTargetClient_aside: "made.keeps aside (plain_setTargetClient env)"
  unfolding plain_setTargetClient_def GetApplicationClusterConfig_def getDestClusterSecret_def Let_def
  by (auto intro!: made_intros set_TargetCli_made split: sum.splits)

lemma plain_setTargetClient_mgr:
  assumes "plain_setTargetClient env s = (r, s')"
  shows "plainManager s' = None \<longleftrightarrow> plainManager s = None"
proof -
  have "same_mgr.keeps (GetApplicationClusterConfig env a)" for a
    unfolding GetApplicationClusterConfig_def getDestClusterSecret_def Let_def
    by (auto intro!: same_mgr_intros split: sum.splits)
  then have "plainManager t = plainManager s" if "GetApplicationClusterConfig env a s = (v, t)" for a v t
    using that same_mgr.keepsD same_mgr_def by metis
  with assms show ?thesis
    by (auto simp: plain_setTargetClient_def set_TargetCli_def bnd_def prog_simps
        split: if_splits prod.splits res.splits)
qed

section \<open>Properties\<close>

text \<open>
  C22: In a successful sync that is forced or automatic, started from an Unknown
  status, the sync status ends as Synced exactly when nothing was deployed, and as
  OutOfSync when something was, although the cluster has then been repaired.
\<close>

theorem plain_Sync_status:
  assumes "plain_Sync env forced s = (Ok (), s')" and "may_deploy forced s"
    and "app_sync (app s) = SyncStatusCodeUnknown"
  shows "app_sync (app s') =
    (if set (new_calls s s') \<inter> deploys = {} then SyncStatusCodeSynced else SyncStatusCodeOutOfSync)"
proof -
  obtain t where t: "tracks forced s t" "hist s' = hist t"
    "app s' = (if app_sync (app t) = SyncStatusCodeUnknown
                   then set_sync SyncStatusCodeSynced (app t) else app t)"
    using plain_Sync_tracks[OF assms(1)] by blast
  have "new_calls s s' = new_calls s t" by (simp add: new_calls_def t(2))
  with t assms(2,3) show ?thesis
    by (auto simp: tracks_def SyncStatusCodeUnknown_def SyncStatusCodeOutOfSync_def)
qed

lemma sample_git_Ok:
  "plain_Sync sample_git_env True sample_git_st = (Ok (), snd (plain_Sync sample_git_env True sample_git_st))"
  using sample_git_run by (simp add: prod_eq_iff)

definition sample_unknown_st :: st where
  "sample_unknown_st = sample_git_st\<lparr>app := set_sync SyncStatusCodeUnknown (app sample_git_st)\<rparr>"

lemma sample_unknown_run:
  "fst (plain_Sync sample_git_env True sample_unknown_st) = Ok ()
   \<and> list_ex (\<lambda>c. case c of CCreateObj k u \<Rightarrow> True | _ \<Rightarrow> False)
       (new_calls sample_unknown_st (snd (plain_Sync sample_git_env True sample_unknown_st)))"
proof -
  have "case plain_Sync sample_git_env True sample_unknown_st of (r, s) \<Rightarrow>
      r = Ok () \<and> list_ex (\<lambda>c. case c of CCreateObj k u \<Rightarrow> True | _ \<Rightarrow> False) (new_calls sample_unknown_st s)"
    by code_simp
  then show ?thesis by (simp add: case_prod_beta)
qed

theorem plain_Sync_status_witness:
  "app_sync (app (snd (plain_Sync sample_git_env True sample_unknown_st))) = SyncStatusCodeOutOfSync"
proof -
  let ?s' = "snd (plain_Sync sample_git_env True sample_unknown_st)"
  have run: "plain_Sync sample_git_env True sample_unknown_st = (Ok (), ?s')"
    using sample_unknown_run by (simp add: prod_eq_iff)
  have "app_sync (app sample_unknown_st) = SyncStatusCodeUnknown"
    by (simp add: sample_unknown_st_def set_sync_def)
  moreover have "set (new_calls sample_unknown_st ?s') \<inter> deploys \<noteq> {}"
  proof -
    obtain c where "c \<in> set (new_calls sample_unknown_st ?s')"
      and "case c of CCreateObj k u \<Rightarrow> True | _ \<Rightarrow> False"
      using sample_unknown_run by (auto simp: list_ex_iff)
    moreover from this(2) have "c \<in> deploys" by (cases c) simp_all
    ultimately show ?thesis by blast
  qed
  moreover have "may_deploy True sample_unknown_st" by (simp add: may_deploy_def)
  ultimately show ?thesis using plain_Sync_status[OF run] by simp
qed

text \<open>
  What the pruning leaves of a delivered object: it is on the cluster, unless a
  pruned record stands for the very same object under another record name.
\<close>

definition survives ::
    "(call list \<Rightarrow> kcli \<Rightarrow> object_key set) \<Rightarrow> kcli \<Rightarrow> st \<Rightarrow> st \<Rightarrow> unst \<Rightarrow> bool" where
  "survives present k s s' u \<longleftrightarrow> object_key u \<in> present (hist s') k
     \<or> (\<exists>d. CDeleteDR d \<in> set (new_calls s s') \<and> object_key (dr_object d) = object_key u
             \<and> dr_Name d \<noteq> dr_name (app s) u)"

lemma survives_pruning:
  assumes cl: "cluster_ok env present" and inv: "sync_inv present m s upd t"
    and obs: "objects_done present (pm_TargetCli m) s obs upd t"
    and run: "prune (clearApplicationResources env) old upd t = (Ok (), s')" and u: "u \<in> set obs"
  shows "survives present (pm_TargetCli m) s s' u"
proof (cases "object_key u \<in> object_key ` pruned_objects old upd")
  case False
  have "plainManager t = Some m" using inv by (simp add: sync_inv_def)
  from prune_keeps[OF cl this refl run] False obs u
  show ?thesis by (auto simp: survives_def objects_done_def)
next
  case True
  then obtain d where d: "d \<in> set old" "upd (dr_Name d) = None" "object_key (dr_object d) = object_key u"
    by (auto simp: pruned_objects_def)
  note pr = prune_run[OF run]
  have "CDeleteDR d \<in> set (deleted_records t s')" using pr d(1,2) by simp
  moreover have "grows s t" "grows t s'" using inv pr by (simp_all add: sync_inv_def lands_def)
  ultimately have "CDeleteDR d \<in> set (new_calls s s')" by (simp add: new_calls_trans(2) deleted_records_def)
  moreover have "dr_Name d \<noteq> dr_name (app s) u" using obs u d(2) by (auto simp: objects_done_def)
  ultimately show ?thesis using d(3) by (auto simp: survives_def)
qed

text \<open>
  C3: A successful sync that may deploy brings every object of the repository to
  the Application's destination: of the manifest files that the Git client listed
  for its source, every one is read, and every object read from it is on the
  destination cluster at the end, also after the pruning. The cluster is one that
  keeps the objects it reports or accepts until the operator deletes them. The one
  exception is stated: an object goes again when the pruning deletes a record of
  another name that stands for the same object, as a second Application with the
  same label files one.
\<close>

theorem plain_Sync_converges:
  assumes "dr_api_ok env" and "cluster_ok env present"
    and "plain_Sync env forced s = (Ok (), s')" and "may_deploy forced s"
  shows "\<exists>m infos k. plainManager s = Some m \<and> dest_client env (app s) k
    \<and> called (cli_GetManifestInfos env (pm_GitCli m) (src_Path (app_source (app s)))
          (src_TargetRevision (app_source (app s))) []) s s' infos
    \<and> (\<forall>info \<in> set infos. \<exists>obs.
          called (cli_ObjectFromManifest env (pm_GitCli m) info (dst_Namespace (app_dest (app s)))) s s' obs
        \<and> (\<forall>u \<in> set obs. survives present k s s' u))"
  using assms(3)
proof (rule plain_Sync_phases, goal_cases)
  case (1 m infos old upd s1 s2 s3 s4 s5)
  note api = assms(1) and cl = assms(2) and first = plain_Sync_first[OF 1(2,4)]
  obtain m1 where m1: "plainManager s1 = Some m1"
    using 1(1) plain_setTargetClient_mgr[OF 1(2)] by fastforce
  have dest: "dest_client env (app s) (pm_TargetCli m1)" using plain_setTargetClient_Ok(2)[OF 1(2)] m1 by simp
  have m3: "plainManager s3 = Some m1"
    using m1 same_mgr.keepsD[OF cli_same_mgr(1) 1(4)] same_mgr.keepsD[OF getDeployResourceList_same_mgr 1(6)]
    by (simp add: same_mgr_def)
  have made3: "made aside s s3"
    by (rule made.step_trans[OF made.keepsD[OF plain_setTargetClient_aside 1(2)]
          made.step_trans[OF made.keepsD[OF made_weaken[OF http_aside cli_GetManifestInfos_made] 1(4)]
            made.keepsD[OF getDeployResourceList_aside 1(6)]]])
  have names: "synced_names s s3 Map.empty"
    by (rule synced_names_quiet[OF synced_names_quiet[OF synced_names_start first]])
       (rule made.keepsD[OF getDeployResourceList_records 1(6)] only_sync.keepsD[OF getDeployResourceList_only_sync 1(6)])+
  have inv3: "sync_inv present m1 s Map.empty s3"
    using names lands_aside[OF cl made3] m3 by (simp add: sync_inv_def)
  note files = sync_files_inv[OF api cl assms(4) inv3 1(7)]
  have g: "grows s4 s5" "grows s s4" using prune_run[OF 1(8)] files(1) by (simp_all add: sync_inv_def lands_def)
  have h: "hist s' = hist s5" by (simp add: 1(9))
  then have g': "grows s4 s'" and sv: "survives present k s s' u = survives present k s s5 u" for k u
    using g(1) by (simp_all add: grows_def survives_def new_calls_def)
  have "grows s2 s'"
    using made_grows[OF made.keepsD[OF getDeployResourceList_aside 1(6)]]
      made_grows[OF made.keepsD[OF made.keeps_fold_each 1(7)]] sync_file_made g' new_calls_trans(1) by meson
  then have "called (cli_GetManifestInfos env (pm_GitCli m) (src_Path (app_source (app s)))
          (src_TargetRevision (app_source (app s))) []) s s' infos"
    using made_grows[OF made.keepsD[OF plain_setTargetClient_aside 1(2)]] 1(4) by (intro calledI)
  moreover have "\<exists>obs. called (cli_ObjectFromManifest env (pm_GitCli m) info (dst_Namespace (app_dest (app s)))) s s' obs
      \<and> (\<forall>u \<in> set obs. survives present (pm_TargetCli m1) s s' u)" if info: "info \<in> set infos" for info
  proof -
    obtain obs where o: "called (cli_ObjectFromManifest env (pm_GitCli m) info (dst_Namespace (app_dest (app s)))) s s4 obs"
      "objects_done present (pm_TargetCli m1) s obs upd s4"
      using files(2) info by blast
    have "survives present (pm_TargetCli m1) s s' u" if "u \<in> set obs" for u
      unfolding sv by (rule survives_pruning[OF cl files(1) o(2) 1(8) that])
    with called_mono[OF o(1) g'] show ?thesis by blast
  qed
  ultimately show ?case using 1(1) dest by blast
qed

fun sample_present :: "call list \<Rightarrow> kcli \<Rightarrow> object_key set" where
  "sample_present [] k = {}"
| "sample_present (CCreateObj k' u # h) k =
     (if k' = k then insert (object_key u) (sample_present h k) else sample_present h k)"
| "sample_present (CDeleteObj k' u # h) k =
     (if k' = k then sample_present h k - {object_key u} else sample_present h k)"
| "sample_present (c # h) k = sample_present h k"

lemma sample_cluster_ok: "cluster_ok sample_git_env sample_present"
proof -
  have "x \<in> sample_present (c # h) k"
    if "x \<in> sample_present h k" "\<forall>u. c = CDeleteObj k u \<longrightarrow> object_key u \<noteq> x" for x c h k
    using that by (cases c) auto
  then show ?thesis
    by (auto simp: cluster_ok_def sample_git_env_def sample_env_def)
qed

definition sample_cm :: unst where
  "sample_cm = \<lparr>u_APIVersion = ''v1'', u_Kind = ''ConfigMap'', u_Name = ''cm'', u_Namespace = ''web'',
     u_Content = ''kind: ConfigMap''\<rparr>"

lemma sample_cm_present:
  "object_key sample_cm \<in>
     sample_present (hist (snd (plain_Sync sample_git_env True sample_git_st))) DefaultCli"
  by code_simp

theorem plain_Sync_converges_witness:
  "object_key sample_cm \<in> sample_present (hist (snd (plain_Sync sample_git_env True sample_git_st))) DefaultCli
   \<and> (\<exists>m infos. plainManager sample_git_st = Some m
        \<and> called (cli_GetManifestInfos sample_git_env (pm_GitCli m) (src_Path (app_source (app sample_git_st)))
            (src_TargetRevision (app_source (app sample_git_st))) [])
            sample_git_st (snd (plain_Sync sample_git_env True sample_git_st)) infos
        \<and> (\<forall>info \<in> set infos. \<exists>obs.
            called (cli_ObjectFromManifest sample_git_env (pm_GitCli m) info
              (dst_Namespace (app_dest (app sample_git_st))))
              sample_git_st (snd (plain_Sync sample_git_env True sample_git_st)) obs
            \<and> (\<forall>u \<in> set obs. survives sample_present DefaultCli sample_git_st
                  (snd (plain_Sync sample_git_env True sample_git_st)) u)))"
proof -
  have may: "may_deploy True sample_git_st" by (simp add: may_deploy_def)
  have dest: "dest_client sample_git_env (app sample_git_st) k \<Longrightarrow> k = DefaultCli" for k
    by (simp add: dest_client_def sample_git_st_def sample_st_def sample_user_app_def)
  show ?thesis
    using plain_Sync_converges[OF sample_git_api sample_cluster_ok sample_git_Ok may] dest sample_cm_present
    by metis
qed

text \<open>
  C5: A run of the plain manager, whether it succeeds or not, forced or not,
  looks up, creates, updates and deletes objects only on the destination of its own
  Application, even when its client was set for another destination before.
\<close>

theorem plain_Sync_destination:
  assumes "plain_Sync env forced s = (r, s')" and "c \<in> set (new_calls s s')" and "obj_client c = Some k"
  shows "dest_client env (app s) k"
  using new_calls_made[OF plain_Sync_made_dest[OF assms(1)]] assms(2,3) by (auto simp: aimed_at_def)

definition sample_stale_st :: st where
  "sample_stale_st = sample_git_st\<lparr>plainManager :=
     map_option (\<lambda>m. m\<lparr>pm_TargetCli := ClusterCli ''other''\<rparr>) (plainManager sample_git_st)\<rparr>"

lemma sample_stale_calls:
  "CGetObj DefaultCli sample_cm \<in>
     set (new_calls sample_stale_st (snd (plain_Sync sample_git_env True sample_stale_st)))"
  by code_simp

theorem plain_Sync_destination_witness: "dest_client sample_git_env (app sample_stale_st) DefaultCli"
  by (rule plain_Sync_destination[OF _ sample_stale_calls]) (simp_all add: prod_eq_iff)

end
