(* ===== verification/HelmSpec.thy ===== *)
theory HelmSpec
  imports Helm PlainStatus
begin

text \<open>
  What the Helm manager does: the chart it installs is the one it rendered, its
  pruning works on the operator's own cluster, and the errors of Helm end the
  process.
\<close>

section \<open>Installations\<close>

fun is_install :: "call \<Rightarrow> bool" where
  "is_install (CHelmInstall o' ch) = True"
| "is_install _ = False"

definition installs :: "st \<Rightarrow> st \<Rightarrow> call list" where
  "installs s t = filter is_install (new_calls s t)"

text \<open>Statements that install nothing.\<close>

definition no_install :: "call set" where
  "no_install = {c. \<not> is_install c}"

lemma no_install_simps [simp]:
  "CGetSecret ns n \<in> no_install" "CListDR l \<in> no_install" "CGetDR ns n \<in> no_install" "CCreateDR d \<in> no_install"
  "CDeleteDR d \<in> no_install" "CGetObj k u \<in> no_install" "CDeleteObj k u \<in> no_install" "CStat p \<in> no_install"
  "CClone a b c \<in> no_install" "COpen p \<in> no_install" "CWorktree p \<in> no_install" "CPull p \<in> no_install"
  "CHelmNew o' \<in> no_install" "CHelmUninstall o' r \<in> no_install" "CHelmInstall o' ch \<notin> no_install"
  by (simp_all add: no_install_def)

lemma installs_none: "made no_install s t \<Longrightarrow> grows s t \<and> installs s t = []"
  using new_calls_made[of no_install s t]
  by (auto simp: made_grows installs_def no_install_def filter_empty_conv)

lemma installs_trans: "grows s t \<Longrightarrow> grows t u \<Longrightarrow> installs s u = installs s t @ installs t u"
  by (simp add: installs_def new_calls_trans)

lemma installHelmChart_run:
  assumes "installHelmChart env ch dry s = (Ok manifest, s')"
  shows "grows s s'" and "app s' = app s" and "\<exists>o'. installs s s' = [CHelmInstall o' (ch\<lparr>ch_DryRun := dry\<rparr>)]"
  using assms
  by (auto simp: installHelmChart_def InstallChart_def helm_mgr_def bnd_def attempt_def prog_simps
      grows_def installs_def new_calls_def split: option.splits res.splits)

lemma helm_setTargetClient_installs: "made.keeps no_install (helm_setTargetClient env)"
  unfolding helm_setTargetClient_def GetApplicationClusterConfig_def getDestClusterSecret_def Let_def
  by (auto intro!: made_intros set_helm_Client_made split: sum.splits)

lemma fetch_repo_installs: "made.keeps no_install (fetch_repo env)"
  unfolding fetch_repo_def gitRepoClone_def gitPull_def Clone_def Open_def Pull_def
  by (auto intro!: made_intros split: stat_result.splits sum.splits)

lemma helm_documents_installs: "made.keeps no_install (fold_each docs (helm_document env) obs)"
  unfolding helm_document_def by (auto intro!: made_intros helm_setTargetClient_installs)

lemma record_objects_installs: "made.keeps no_install (fold_each obs (record_object env) upd)"
  unfolding record_object_def updateDeployResource_def Let_def by (auto intro!: made_intros split: sum.splits)

lemma helm_prune_installs: "made.keeps no_install (prune (deleteDeployResource env) old upd)"
  unfolding prune_def deleteDeployResource_def delete_resource_def by (auto intro!: made_intros split: sum.splits)

text \<open>Up to the installation the Application object stays as it is.\<close>

lemma same_app_helm_mgr: "same_app.keeps helm_mgr"
  by (rule same_app.keepsI) (auto simp: helm_mgr_def same_app_def split: option.splits)

lemma helm_setTargetClient_same_app: "same_app.keeps (helm_setTargetClient env)"
proof -
  have "same_app.keeps (set_helm_Client o')" for o'
    unfolding set_helm_Client_def by (rule same_app.keeps_modify) (simp add: same_app_def)
  then show ?thesis
    unfolding helm_setTargetClient_def GetApplicationClusterConfig_def getDestClusterSecret_def Let_def
    by (auto intro!: same_app_intros split: sum.splits)
qed

lemma helm_steps_same_app:
  "same_app.keeps (fetch_repo env)" "same_app.keeps (fold_each docs (helm_document env) obs)"
  "same_app.keeps (fold_each us (record_object env) upd)" "same_app.keeps (prune (deleteDeployResource env) old upd')"
  unfolding fetch_repo_def gitRepoClone_def gitPull_def Clone_def Open_def Pull_def helm_document_def
    record_object_def prune_def deleteDeployResource_def delete_resource_def
  by (auto intro!: same_app_intros helm_setTargetClient_same_app updateDeployResource_same_app
      split: stat_result.splits sum.splits)

text \<open>A statement that installs nothing and leaves the Application alone.\<close>

definition installs_nothing :: "st \<Rightarrow> st \<Rightarrow> bool" where
  "installs_nothing s t \<longleftrightarrow> grows s t \<and> installs s t = [] \<and> app t = app s"

lemma installs_nothingI:
  "made.keeps no_install m \<Longrightarrow> same_app.keeps m \<Longrightarrow> m s = (r, t) \<Longrightarrow> installs_nothing s t"
  using installs_none made.keepsD[of no_install m s r t] same_app.keepsD[of m s r t]
  by (simp add: installs_nothing_def same_app_def)

lemma installs_nothing_trans: "installs_nothing s t \<Longrightarrow> installs_nothing t u \<Longrightarrow> installs_nothing s u"
  by (auto simp: installs_nothing_def installs_trans intro: new_calls_trans(1))

lemma helm_Sync_run:
  assumes "helm_Sync env forced s = (Ok (), s')"
  shows "\<exists>o1 o2. installs s s' = CHelmInstall o1 ((setChartSpec (app s))\<lparr>ch_DryRun := True\<rparr>) #
        (if may_deploy forced s then [CHelmInstall o2 (setChartSpec (app s))] else [])
      \<and> app s' = (if may_deploy forced s then set_sync SyncStatusCodeSynced (app s) else app s)"
  using assms unfolding helm_Sync_def Let_def
proof (elim bnd_eq_OkE, goal_cases)
  case (1 m s0 u1 s1 a s1' u2 s2 old s3 obs s5 upd s6 u3 s7)
  have eq: "s0 = s" "s1' = s1" "a = app s1" using 1(1,3) by (auto simp: helm_mgr_def prog_simps split: option.splits)
  have n1: "installs_nothing s s1"
    using installs_nothingI[OF fetch_repo_installs helm_steps_same_app(1) 1(2)] eq by simp
  have a: "a = app s" using n1 eq by (simp add: installs_nothing_def)
  let ?ch = "setChartSpec (app s)"
  obtain manifest s4 where i: "installHelmChart env ?ch True s3 = (Ok manifest, s4)"
    and d: "fold_each (SplitMultipleObjectsYAML manifest) (helm_document env) [] s4 = (Ok obs, s5)"
    by (rule bnd_eq_OkE[OF 1(6)[unfolded objectFromManifest_def a]])
  have "made.keeps no_install (getDeployResourceList env a)" for a
    unfolding getDeployResourceList_def by (intro made_intros) simp
  note n2 = installs_nothingI[OF helm_setTargetClient_installs helm_setTargetClient_same_app 1(4)]
    and n3 = installs_nothingI[OF this getDeployResourceList_same_app 1(5)]
    and n5 = installs_nothingI[OF helm_documents_installs helm_steps_same_app(2) d]
    and n6 = installs_nothingI[OF record_objects_installs helm_steps_same_app(3) 1(7)]
    and n7 = installs_nothingI[OF helm_prune_installs helm_steps_same_app(4) 1(8)]
  have b: "installs_nothing s s3" using n1 n2 n3 eq installs_nothing_trans by metis
  have e: "installs_nothing s4 s7" using n5 n6 n7 installs_nothing_trans by metis
  note ir = installHelmChart_run[OF i]
  have g: "grows s s3" "grows s3 s4" "grows s4 s7" "app s7 = app s" using b e ir by (simp_all add: installs_nothing_def)
  note g34 = new_calls_trans(1)[OF g(1,2)] and g7 = new_calls_trans(1)[OF new_calls_trans(1)[OF g(1,2)] g(3)]
  obtain o1 where "installs s s7 = [CHelmInstall o1 (?ch\<lparr>ch_DryRun := True\<rparr>)]"
    using ir(3) b e installs_trans[OF g34 g(3)] installs_trans[OF g(1,2)] by (auto simp: installs_nothing_def)
  moreover have "if may_deploy forced s then \<exists>o2. grows s7 s' \<and> installs s7 s' = [CHelmInstall o2 ?ch]
      \<and> app s' = set_sync SyncStatusCodeSynced (app s) else s' = s7"
  proof (cases "may_deploy forced s")
    case True
    then have "bnd (installHelmChart env ?ch False) (\<lambda>_. update_app (set_sync SyncStatusCodeSynced)) s7 = (Ok (), s')"
      using 1(9) a by (auto simp: may_deploy_def)
    then obtain x s8 where j: "installHelmChart env ?ch False s7 = (Ok x, s8)"
      and s': "s' = s8\<lparr>app := set_sync SyncStatusCodeSynced (app s8)\<rparr>"
      by (auto simp: update_app_apply elim!: bnd_eq_OkE)
    have ch: "?ch\<lparr>ch_DryRun := False\<rparr> = ?ch" by (simp add: setChartSpec_def)
    from installHelmChart_run[OF j] True g(4) show ?thesis
      by (auto simp: ch s' grows_def installs_def new_calls_def)
  next
    case False
    with 1(9) a show ?thesis by (simp add: may_deploy_def prog_simps)
  qed
  ultimately show ?case
    using installs_trans[OF g7] g(4) by (auto split: if_splits)
qed

text \<open>The clients of the objects that Helm's own pruning touches.\<close>

lemma helm_Sync_made_home:
  "made.keeps (aimed_at (\<lambda>k. k = DefaultCli)) (helm_Sync env forced)"
proof -
  have [simp]: "CStat p \<in> aimed_at Q" "CClone x y z \<in> aimed_at Q" "COpen p \<in> aimed_at Q" "CWorktree p \<in> aimed_at Q"
    "CPull p \<in> aimed_at Q" "CHelmNew o' \<in> aimed_at Q" "CHelmInstall o' ch \<in> aimed_at Q" for p x y z o' ch Q
    by (auto simp: aimed_at_def)
  have t: "made.keeps (aimed_at Q) (helm_setTargetClient env)" for Q
    unfolding helm_setTargetClient_def GetApplicationClusterConfig_def getDestClusterSecret_def Let_def
    by (auto intro!: made_intros set_helm_Client_made split: sum.splits)
  have i: "made.keeps (aimed_at Q) (installHelmChart env ch dry)" for Q ch dry
    unfolding installHelmChart_def InstallChart_def by (auto intro!: made_intros helm_mgr_made split: sum.splits)
  have f: "made.keeps (aimed_at Q) (fetch_repo env)" for Q
    unfolding fetch_repo_def gitRepoClone_def gitPull_def Clone_def Open_def Pull_def
    by (auto intro!: made_intros split: stat_result.splits sum.splits)
  have d: "made.keeps (aimed_at (\<lambda>k. k = DefaultCli)) (deleteDeployResource env x)" for x
    unfolding deleteDeployResource_def delete_resource_def by (auto intro!: made_intros split: sum.splits)
  show ?thesis
    unfolding helm_Sync_def objectFromManifest_def helm_document_def record_object_def updateDeployResource_def
      prune_def getDeployResourceList_def Let_def
    by (auto intro!: made_intros helm_mgr_made t i f d split: sum.splits)
qed

section \<open>Properties\<close>

text \<open>
  C24: A successful sync of a Helm source renders the Application's chart once as a
  dry run and, when it is forced or automatic, then installs that very chart once
  and reports Synced; otherwise it installs nothing and leaves the status alone,
  so an unforced check of a Helm source never reports OutOfSync.
\<close>

theorem helm_Sync_installs:
  assumes "helm_Sync env forced s = (Ok (), s')"
  shows "\<exists>o1 o2. filter is_install (new_calls s s') =
        CHelmInstall o1 ((setChartSpec (app s))\<lparr>ch_DryRun := True\<rparr>) #
        (if may_deploy forced s then [CHelmInstall o2 (setChartSpec (app s))] else [])
      \<and> app_sync (app s') = (if may_deploy forced s then SyncStatusCodeSynced else app_sync (app s))"
  using helm_Sync_run[OF assms] by (auto simp: installs_def set_sync_def)

definition sample_helm_st :: st where
  "sample_helm_st = sample_st\<lparr>
     app := sample_user_app\<lparr>app_Spec := (app_Spec sample_user_app)\<lparr>spec_Source :=
       (spec_Source (app_Spec sample_user_app))\<lparr>src_Type := ApplicationSourceTypeHelm\<rparr>\<rparr>\<rparr>,
     helmManager := Some \<lparr>hm_Client = \<lparr>ho_Namespace = [], ho_RestConfig = None\<rparr>\<rparr>\<rparr>"

lemma sample_helm_run: "fst (helm_Sync sample_env True sample_helm_st) = Ok ()"
  by code_simp

theorem helm_Sync_installs_witness:
  "app_sync (app (snd (helm_Sync sample_env True sample_helm_st))) = SyncStatusCodeSynced"
proof -
  have "helm_Sync sample_env True sample_helm_st = (Ok (), snd (helm_Sync sample_env True sample_helm_st))"
    using sample_helm_run by (simp add: prod_eq_iff)
  from helm_Sync_installs[OF this] show ?thesis by (simp add: may_deploy_def)
qed

text \<open>
  C25: Helm's own pruning looks up and deletes objects with the client of the
  operator's cluster only, whatever destination the Application names: the pruning
  never reaches a remote destination, and an object of the same name on the
  operator's own cluster is deleted instead.
\<close>

theorem helm_Sync_prunes_at_home:
  assumes "helm_Sync env forced s = (r, s')" and "c \<in> set (new_calls s s')" and "obj_client c = Some k"
  shows "k = DefaultCli"
  using new_calls_made[OF made.keepsD[OF helm_Sync_made_home assms(1)]] assms(2,3) by (auto simp: aimed_at_def)

definition sample_remote_env :: env where
  "sample_remote_env = sample_env\<lparr>e_get_secret := (\<lambda>_ _ _. Ok [''value'' \<mapsto> ''config'']),
     e_list_dr := (\<lambda>_ _. Ok [sample_record ''old''])\<rparr>"

definition sample_remote_st :: st where
  "sample_remote_st = sample_helm_st\<lparr>app := (app sample_helm_st)\<lparr>app_Spec :=
     (app_Spec (app sample_helm_st))\<lparr>spec_Destination := \<lparr>dst_Namespace = ''web'', dst_Name = ''remote''\<rparr>\<rparr>\<rparr>\<rparr>"

lemma sample_remote_calls:
  "\<exists>c \<in> set (new_calls sample_remote_st (snd (helm_Sync sample_remote_env True sample_remote_st))).
     obj_client c \<noteq> None"
  by code_simp

theorem helm_Sync_prunes_at_home_witness:
  "\<exists>c \<in> set (new_calls sample_remote_st (snd (helm_Sync sample_remote_env True sample_remote_st))).
     obj_client c = Some DefaultCli"
proof -
  obtain c k where "c \<in> set (new_calls sample_remote_st (snd (helm_Sync sample_remote_env True sample_remote_st)))"
    and "obj_client c = Some k"
    using sample_remote_calls by auto
  with helm_Sync_prunes_at_home[OF surjective_pairing this] show ?thesis by auto
qed

text \<open>
  No error of Helm reaches the caller: an installation or an uninstallation
  either succeeds or panics with Helm's message, and clearing an Application
  whose source has no Helm section panics before anything is uninstalled.
\<close>

theorem helm_errors_panic:
  "fst (installHelmChart env chart dry s) \<noteq> Err e \<and> fst (UninstallReleaseByName env name s) \<noteq> Err e
   \<and> (e_helm_install env (hist s) opt (chart\<lparr>ch_DryRun := dry\<rparr>) = Err err \<and> helmManager s = Some \<lparr>hm_Client = opt\<rparr>
        \<longrightarrow> fst (installHelmChart env chart dry s) = Panic (err_msg err))
   \<and> (src_Helm (app_source (app s)) = None \<longrightarrow> uninstallRelease env s = (Panic nil_deref, s))"
  by (auto simp: installHelmChart_def InstallChart_def UninstallReleaseByName_def uninstallRelease_def helm_mgr_def
      bnd_def attempt_def prog_simps split: option.splits res.splits)

theorem helm_errors_panic_witness: "uninstallRelease sample_env sample_helm_st = (Panic nil_deref, sample_helm_st)"
proof -
  have "src_Helm (app_source (app sample_helm_st)) = None" by (simp add: sample_helm_st_def sample_user_app_def)
  then show ?thesis using helm_errors_panic[of sample_env _ _ sample_helm_st] by blast
qed

end
