(* ===== verification/HelmThreads.thy ===== *)
theory HelmThreads
  imports ManagerReuse HelmSpec
begin

text \<open>
  The sync of the Helm manager cut into its statements, so that several goroutines can
  alternate between them: each statement is a value of \<open>helm_pc\<close> with the local
  variables of the frame. What each keeps, and that one goroutine alone runs \<open>helm_Sync\<close>.
\<close>

section \<open>The statements\<close>

datatype helm_pc =
    HpFetch
  | HpClient chart_spec
  | HpRecords chart_spec
  | HpRender chart_spec "deploy_resource list"
  | HpDocument chart_spec "deploy_resource list" "string list" "unst list"
  | HpUpdate chart_spec "deploy_resource list" "unst list" "string \<rightharpoonup> deploy_resource"
  | HpPrune chart_spec "deploy_resource list" "string \<rightharpoonup> deploy_resource"
  | HpInstall chart_spec
  | is_HpEnd: HpEnd

fun helm_stmt :: "env \<Rightarrow> bool \<Rightarrow> helm_pc \<Rightarrow> helm_pc act" where
  "helm_stmt env forced HpFetch =
     bnd helm_mgr (\<lambda>_. bnd (fetch_repo env) (\<lambda>_. bnd get_app (\<lambda>a. ret (HpClient (setChartSpec a)))))"
| "helm_stmt env forced (HpClient chart) = bnd (helm_setTargetClient env) (\<lambda>_. ret (HpRecords chart))"
| "helm_stmt env forced (HpRecords chart) =
     bnd get_app (\<lambda>a. bnd (getDeployResourceList env a) (\<lambda>old. ret (HpRender chart old)))"
| "helm_stmt env forced (HpRender chart old) =
     bnd (installHelmChart env chart True) (\<lambda>manifest.
     ret (HpDocument chart old (SplitMultipleObjectsYAML manifest) []))"
| "helm_stmt env forced (HpDocument chart old [] obs) = ret (HpUpdate chart old obs Map.empty)"
| "helm_stmt env forced (HpDocument chart old (doc # docs) obs) =
     bnd (helm_document env doc obs) (\<lambda>obs. ret (HpDocument chart old docs obs))"
| "helm_stmt env forced (HpUpdate chart old [] upd) = ret (HpPrune chart old upd)"
| "helm_stmt env forced (HpUpdate chart old (u # us) upd) =
     bnd (record_object env u upd) (\<lambda>upd. ret (HpUpdate chart old us upd))"
| "helm_stmt env forced (HpPrune chart [] upd) =
     bnd get_app (\<lambda>a. ret (if forced \<or> pol_AutoSync (app_policy a) then HpInstall chart else HpEnd))"
| "helm_stmt env forced (HpPrune chart (d # old) upd) =
     bnd (if upd (dr_Name d) = None then deleteDeployResource env d else ret ())
       (\<lambda>_. ret (HpPrune chart old upd))"
| "helm_stmt env forced (HpInstall chart) =
     bnd (installHelmChart env chart False) (\<lambda>_. bnd (update_app (set_sync SyncStatusCodeSynced)) (\<lambda>_. ret HpEnd))"
| "helm_stmt env forced HpEnd = ret HpEnd"

fun hp_phase :: "helm_pc \<Rightarrow> nat" where
  "hp_phase HpFetch = 8" | "hp_phase (HpClient c) = 7" | "hp_phase (HpRecords c) = 6" | "hp_phase (HpRender c old) = 5"
| "hp_phase (HpDocument c old docs obs) = 4" | "hp_phase (HpUpdate c old us upd) = 3" | "hp_phase (HpPrune c old upd) = 2"
| "hp_phase (HpInstall c) = 1" | "hp_phase HpEnd = 0"

fun hp_left :: "helm_pc \<Rightarrow> nat" where
  "hp_left (HpDocument c old docs obs) = length docs" | "hp_left (HpUpdate c old us upd) = length us"
| "hp_left (HpPrune c old upd) = length old" | "hp_left _ = 0"

lemma helm_stmt_decreases:
  assumes "helm_stmt env forced h s = (Ok h', s')"
  shows "h = HpEnd \<and> h' = HpEnd \<or> (h', h) \<in> measures [hp_phase, hp_left]"
proof -
  have "helm_stmt env forced h s = (Ok h', s') \<longrightarrow> h = HpEnd \<and> h' = HpEnd \<or> (h', h) \<in> measures [hp_phase, hp_left]"
    by (cases "(env, forced, h)" rule: helm_stmt.cases)
      (auto elim!: bnd_eq_OkE simp: prog_simps split: if_splits)
  with assms show ?thesis by blast
qed

section \<open>What every statement keeps\<close>

lemma helm_document_only_sync: "only_sync.keeps (helm_document env doc obs)"
  unfolding helm_document_def by (auto intro!: only_sync_intros helm_setTargetClient_only_sync)

lemma helm_stmt_only_sync: "only_sync.keeps (helm_stmt env forced h)"
  by (cases "(env, forced, h)" rule: helm_stmt.cases)
    (auto intro!: only_sync_intros installHelmChart_only_sync helm_steps_quiet[THEN quiet_only_sync]
      helm_document_only_sync)

text \<open>None of them touches the plain manager, or an object of another cluster than the own one.\<close>

lemma helm_steps_same_mgr:
  "same_mgr.keeps (helm_setTargetClient env)" "same_mgr.keeps (installHelmChart env ch dry)"
  "same_mgr.keeps (fetch_repo env)" "same_mgr.keeps (deleteDeployResource env d)"
  "same_mgr.keeps (record_object env u upd)" "same_mgr.keeps (getDeployResourceList env a)"
  "same_mgr.keeps helm_mgr" "same_mgr.keeps get_app" "same_mgr.keeps (update_app f)"
proof -
  show g: "same_mgr.keeps get_app" "same_mgr.keeps (update_app f)" "same_mgr.keeps helm_mgr" for f
    by (rule same_mgr.keepsI, simp add: same_mgr_def prog_simps helm_mgr_def split: option.split)+
  have c: "same_mgr.keeps (set_helm_Client o')" for o'
    by (rule same_mgr.keepsI) (simp add: same_mgr_def prog_simps set_helm_Client_def)
  note i = same_mgr_intros g c
  show "same_mgr.keeps (helm_setTargetClient env)" "same_mgr.keeps (installHelmChart env ch dry)"
    "same_mgr.keeps (fetch_repo env)" "same_mgr.keeps (deleteDeployResource env d)"
    "same_mgr.keeps (record_object env u upd)" "same_mgr.keeps (getDeployResourceList env a)"
    unfolding helm_setTargetClient_def GetApplicationClusterConfig_def getDestClusterSecret_def
      installHelmChart_def InstallChart_def fetch_repo_def gitRepoClone_def gitPull_def Clone_def Open_def Pull_def
      deleteDeployResource_def delete_resource_def record_object_def updateDeployResource_def
      getDeployResourceList_def Let_def
    by (auto intro!: i split: sum.splits stat_result.splits)
qed

lemma helm_stmt_same_mgr: "same_mgr.keeps (helm_stmt env forced h)"
  by (cases "(env, forced, h)" rule: helm_stmt.cases)
    (auto intro!: same_mgr.keeps_intros helm_steps_same_mgr simp: helm_document_def)

lemma aimed_more [simp]:
  "CStat p \<in> aimed_at Q" "CClone x y z \<in> aimed_at Q" "COpen p \<in> aimed_at Q" "CWorktree p \<in> aimed_at Q"
  "CPull p \<in> aimed_at Q" "CHelmNew o' \<in> aimed_at Q" "CHelmInstall o' ch \<in> aimed_at Q"
  by (auto simp: aimed_at_def)

lemma helm_steps_home:
  assumes "Q DefaultCli"
  shows "made.keeps (aimed_at Q) (helm_setTargetClient env)" "made.keeps (aimed_at Q) (installHelmChart env ch dry)"
    "made.keeps (aimed_at Q) (fetch_repo env)" "made.keeps (aimed_at Q) (deleteDeployResource env d)"
    "made.keeps (aimed_at Q) (record_object env u upd)" "made.keeps (aimed_at Q) (getDeployResourceList env a)"
  unfolding helm_setTargetClient_def GetApplicationClusterConfig_def getDestClusterSecret_def
    installHelmChart_def InstallChart_def fetch_repo_def gitRepoClone_def gitPull_def Clone_def Open_def Pull_def
    deleteDeployResource_def delete_resource_def record_object_def updateDeployResource_def
    getDeployResourceList_def Let_def
  by (auto intro!: made_intros set_helm_Client_made helm_mgr_made assms split: sum.splits stat_result.splits)

lemma helm_stmt_home: "Q DefaultCli \<Longrightarrow> made.keeps (aimed_at Q) (helm_stmt env forced h)"
  by (cases "(env, forced, h)" rule: helm_stmt.cases)
    (auto intro!: made_intros helm_steps_home helm_mgr_made simp: helm_document_def)

section \<open>What is left of \<open>helm_Sync\<close>\<close>

definition from_install :: "env \<Rightarrow> bool \<Rightarrow> application \<Rightarrow> chart_spec \<Rightarrow> unit act" where
  "from_install env forced a chart =
     (if forced \<or> pol_AutoSync (app_policy a) then
        bnd (installHelmChart env chart False) (\<lambda>_. update_app (set_sync SyncStatusCodeSynced))
      else ret ())"

definition from_prune ::
  "env \<Rightarrow> bool \<Rightarrow> application \<Rightarrow> chart_spec \<Rightarrow> deploy_resource list \<Rightarrow> (string \<rightharpoonup> deploy_resource) \<Rightarrow> unit act" where
  "from_prune env forced a chart old =
     (\<lambda>upd. bnd (prune (deleteDeployResource env) old upd) (\<lambda>_. from_install env forced a chart))"

definition from_update ::
  "env \<Rightarrow> bool \<Rightarrow> application \<Rightarrow> chart_spec \<Rightarrow> deploy_resource list \<Rightarrow> (string \<rightharpoonup> deploy_resource) \<Rightarrow> unst list \<Rightarrow> unit act" where
  "from_update env forced a chart old upd =
     (\<lambda>us. bnd (fold_each us (record_object env) upd) (from_prune env forced a chart old))"

definition from_documents ::
  "env \<Rightarrow> bool \<Rightarrow> application \<Rightarrow> chart_spec \<Rightarrow> deploy_resource list \<Rightarrow> string list \<Rightarrow> unst list \<Rightarrow> unit act" where
  "from_documents env forced a chart old docs =
     (\<lambda>obs. bnd (fold_each docs (helm_document env) obs) (from_update env forced a chart old Map.empty))"

definition from_render :: "env \<Rightarrow> bool \<Rightarrow> application \<Rightarrow> chart_spec \<Rightarrow> deploy_resource list \<Rightarrow> unit act" where
  "from_render env forced a chart =
     (\<lambda>old. bnd (installHelmChart env chart True) (\<lambda>manifest.
        from_documents env forced a chart old (SplitMultipleObjectsYAML manifest) []))"

fun helm_rest :: "env \<Rightarrow> bool \<Rightarrow> application \<Rightarrow> helm_pc \<Rightarrow> unit act" where
  "helm_rest env forced a (HpClient chart) =
     bnd (helm_setTargetClient env) (\<lambda>_. bnd (getDeployResourceList env a) (from_render env forced a chart))"
| "helm_rest env forced a (HpRecords chart) = bnd (getDeployResourceList env a) (from_render env forced a chart)"
| "helm_rest env forced a (HpRender chart old) = from_render env forced a chart old"
| "helm_rest env forced a (HpDocument chart old docs obs) = from_documents env forced a chart old docs obs"
| "helm_rest env forced a (HpUpdate chart old us upd) = from_update env forced a chart old upd us"
| "helm_rest env forced a (HpPrune chart old upd) = from_prune env forced a chart old upd"
| "helm_rest env forced a (HpInstall chart) =
     bnd (installHelmChart env chart False) (\<lambda>_. update_app (set_sync SyncStatusCodeSynced))"
| "helm_rest env forced a _ = ret ()"

text \<open>The Application the frame was entered with; the sync changes its status only.\<close>

definition entered :: "application \<Rightarrow> st \<Rightarrow> bool" where
  "entered a s \<longleftrightarrow> app s = set_sync (app_sync (app s)) a"

lemma entered_self: "entered (app s) s"
  by (simp add: entered_def set_sync_def)

lemma entered_keeps:
  assumes "entered a s" and "only_sync s s'"
  shows "entered a s'"
proof -
  have "app s' = set_sync (app_sync (app s')) (set_sync (app_sync (app s)) a)"
    using assms by (simp add: entered_def only_sync_def)
  then show ?thesis by (simp add: entered_def set_sync_def)
qed

lemma entered_fields:
  assumes "entered a s"
  shows "app_source (app s) = app_source a" "app_dest (app s) = app_dest a" "app_policy (app s) = app_policy a"
    "getDeployResourceList env (app s) = getDeployResourceList env a" "setChartSpec (app s) = setChartSpec a"
proof -
  obtain c where "app s = set_sync c a" using assms by (auto simp: entered_def)
  then show "app_source (app s) = app_source a" "app_dest (app s) = app_dest a" "app_policy (app s) = app_policy a"
    "getDeployResourceList env (app s) = getDeployResourceList env a" "setChartSpec (app s) = setChartSpec a"
    by (simp_all add: set_sync_def app_label_def getDeployResourceList_def setChartSpec_def repo_path_def)
qed

lemma bnd_get_app: "bnd get_app f s = f (app s) s"
  by (simp add: bnd_def prog_simps)

lemma bnd_ret_right: "bnd m ret = m"
  by (rule ext) (auto simp: bnd_def ret_def split: prod.split res.split)

lemma bnd_unit: "bnd m (\<lambda>_. ret ()) = (m :: unit act)"
  by (rule ext) (auto simp: bnd_def ret_def split: prod.split res.split)

lemmas from_unfold =
  from_install_def from_prune_def from_update_def from_documents_def from_render_def prune_def

lemma helm_Sync_rest:
  "helm_Sync env forced = bnd helm_mgr (\<lambda>_. bnd (fetch_repo env) (\<lambda>_. bnd get_app (\<lambda>a.
     helm_rest env forced a (HpClient (setChartSpec a)))))"
  by (simp add: helm_Sync_def objectFromManifest_def from_unfold bnd_assoc Let_def)

lemma helm_rest_step:
  assumes "entered a s" and "h \<noteq> HpEnd" and "h \<noteq> HpFetch"
  shows "helm_rest env forced a h s = bnd (helm_stmt env forced h) (helm_rest env forced a) s"
  using assms(2,3) entered_fields[OF assms(1)]
  by (cases "(env, forced, h)" rule: helm_stmt.cases)
    (simp_all add: bnd_assoc bnd_get_app from_unfold bnd_unit bnd_ret_right)

end
