(* ===== verification/SyncThreads.thy ===== *)
theory SyncThreads
  imports HelmThreads
begin

text \<open>
  Syncs that run at the same time. The controller, every periodic routine, every
  webhook and every request of the API server call \<open>CheckSync\<close> in goroutines of
  their own, and nothing in \<open>pkg/sync\<close> or in the plain manager is locked. Here
  \<open>CheckSync\<close> is cut into its statements; a goroutine is the statement it stands
  before, with the local variables of its frame, and goroutines alternate after
  every statement. In Go they may also alternate within a statement, so that what is
  shown to go wrong here goes wrong there.
\<close>

section \<open>The statements of a check\<close>

datatype sync_pc =
    PcStart
  | PcClient
  | PcInfos
  | PcRecords "string list"
  | PcFile "deploy_resource list" "string list" "string \<rightharpoonup> deploy_resource"
  | PcObject "deploy_resource list" "string list" "string \<rightharpoonup> deploy_resource" "unst list"
  | PcCompare "deploy_resource list" "string list" "string \<rightharpoonup> deploy_resource" "unst list" unst
  | PcApply "deploy_resource list" "string list" "string \<rightharpoonup> deploy_resource" "unst list" bool unst
  | PcPrune "deploy_resource list" "string \<rightharpoonup> deploy_resource"
  | PcStatus
  | PcHelm helm_pc
  | is_PcEnd: PcEnd

text \<open>
  One statement, and where the goroutine stands after it. A check of a Helm source
  goes on with the statements of that manager.
\<close>

fun sync_stmt :: "env \<Rightarrow> bool \<Rightarrow> sync_pc \<Rightarrow> sync_pc act" where
  "sync_stmt env forced PcStart =
     bnd (ensure_plain env) (\<lambda>_.
     bnd (ensure_helm env) (\<lambda>_.
     bnd get_app (\<lambda>a.
     if src_Type (app_source a) = ApplicationSourceTypePlainYAML then
       bnd (update_app (set_sync SyncStatusCodeUnknown)) (\<lambda>_. ret PcClient)
     else if src_Type (app_source a) = ApplicationSourceTypeHelm then
       bnd (update_app (set_sync SyncStatusCodeUnknown)) (\<lambda>_. ret (PcHelm HpFetch))
     else throw (Fail ''get sync manager failed''))))"
| "sync_stmt env forced PcClient =
     bnd plain_mgr (\<lambda>_. bnd (plain_setTargetClient env) (\<lambda>_. ret PcInfos))"
| "sync_stmt env forced PcInfos =
     bnd plain_mgr (\<lambda>m.
     bnd get_app (\<lambda>a.
     bnd (cli_GetManifestInfos env (pm_GitCli m) (src_Path (app_source a)) (src_TargetRevision (app_source a)) [])
       (\<lambda>infos. ret (PcRecords infos))))"
| "sync_stmt env forced (PcRecords infos) =
     bnd get_app (\<lambda>a. bnd (getDeployResourceList env a) (\<lambda>old. ret (PcFile old infos Map.empty)))"
| "sync_stmt env forced (PcFile old [] upd) = ret (PcPrune old upd)"
| "sync_stmt env forced (PcFile old (info # infos) upd) =
     bnd plain_mgr (\<lambda>m.
     bnd get_app (\<lambda>a.
     bnd (cli_ObjectFromManifest env (pm_GitCli m) info (dst_Namespace (app_dest a)))
       (\<lambda>obs. ret (PcObject old infos upd obs))))"
| "sync_stmt env forced (PcObject old infos upd []) = ret (PcFile old infos upd)"
| "sync_stmt env forced (PcObject old infos upd (u # obs)) =
     bnd get_app (\<lambda>a.
     bnd (updateDeployResource env u a) (\<lambda>d. ret (PcCompare old infos (upd(dr_Name d \<mapsto> d)) obs u)))"
| "sync_stmt env forced (PcCompare old infos upd obs u) =
     bnd (compareDeployWithManifest env u) (\<lambda>r.
     bnd get_app (\<lambda>a.
     case r of
       (None, Some e) \<Rightarrow> throw e
     | (None, None) \<Rightarrow> ret (PcObject old infos upd obs)
     | (Some ob, err) \<Rightarrow>
         ret (if pol_AutoSync (app_policy a) \<or> forced
              then PcApply old infos upd obs (err = None) ob else PcObject old infos upd obs)))"
| "sync_stmt env forced (PcApply old infos upd obs exist ob) =
     bnd (applyManifest env exist ob) (\<lambda>_. ret (PcObject old infos upd obs))"
| "sync_stmt env forced (PcPrune [] upd) = ret PcStatus"
| "sync_stmt env forced (PcPrune (d # old) upd) =
     bnd (if upd (dr_Name d) = None then clearApplicationResources env d else ret ())
       (\<lambda>_. ret (PcPrune old upd))"
| "sync_stmt env forced PcStatus =
     bnd (update_app (\<lambda>a. if app_sync a = SyncStatusCodeUnknown then set_sync SyncStatusCodeSynced a else a))
       (\<lambda>_. ret PcEnd)"
| "sync_stmt env forced (PcHelm h) =
     bnd (helm_stmt env forced h) (\<lambda>h. ret (if is_HpEnd h then PcEnd else PcHelm h))"
| "sync_stmt env forced PcEnd = ret PcEnd"

text \<open>Every statement comes closer to the end of the frame.\<close>

fun pc_phase :: "sync_pc \<Rightarrow> nat" where
  "pc_phase PcStart = 10" | "pc_phase PcClient = 6" | "pc_phase PcInfos = 5" | "pc_phase (PcRecords is) = 4"
| "pc_phase (PcFile old is upd) = 3" | "pc_phase (PcObject old is upd obs) = 3"
| "pc_phase (PcCompare old is upd obs u) = 3" | "pc_phase (PcApply old is upd obs e ob) = 3"
| "pc_phase (PcPrune old upd) = 2" | "pc_phase PcStatus = 1" | "pc_phase PcEnd = 0"
| "pc_phase (PcHelm h) = Suc (hp_phase h)"

fun pc_files :: "sync_pc \<Rightarrow> nat" where
  "pc_files (PcFile old is upd) = 2 * length is" | "pc_files (PcObject old is upd obs) = 2 * length is + 1"
| "pc_files (PcCompare old is upd obs u) = 2 * length is + 1"
| "pc_files (PcApply old is upd obs e ob) = 2 * length is + 1"
| "pc_files (PcPrune old upd) = length old" | "pc_files (PcHelm h) = hp_left h" | "pc_files pc = 0"

fun pc_objects :: "sync_pc \<Rightarrow> nat" where
  "pc_objects (PcObject old is upd obs) = 3 * length obs" | "pc_objects (PcCompare old is upd obs u) = 3 * length obs + 2"
| "pc_objects (PcApply old is upd obs e ob) = 3 * length obs + 1" | "pc_objects pc = 0"

definition pc_order :: "(sync_pc \<times> sync_pc) set" where
  "pc_order = measures [pc_phase, pc_files, pc_objects]"

lemma sync_stmt_decreases:
  assumes "sync_stmt env forced pc s = (Ok pc', s')" and "pc \<noteq> PcEnd"
  shows "(pc', pc) \<in> pc_order"
proof -
  have "sync_stmt env forced pc s = (Ok pc', s') \<longrightarrow> pc \<noteq> PcEnd \<longrightarrow> (pc', pc) \<in> pc_order"
    by (cases "(env, forced, pc)" rule: sync_stmt.cases)
      (auto elim!: bnd_eq_OkE simp: pc_order_def prog_simps is_HpEnd_def split: if_splits prod.splits option.splits
        dest!: helm_stmt_decreases)
  with assms show ?thesis by blast
qed

text \<open>A goroutine that nobody interrupts.\<close>

function sync_alone :: "env \<Rightarrow> bool \<Rightarrow> sync_pc \<Rightarrow> st \<Rightarrow> unit res \<times> st" where
  "sync_alone env forced pc s =
     (if is_PcEnd pc then (Ok (), s)
      else case sync_stmt env forced pc s of
             (Ok pc', s') \<Rightarrow> sync_alone env forced pc' s'
           | (Err e, s') \<Rightarrow> (Err e, s')
           | (Panic p, s') \<Rightarrow> (Panic p, s')
           | (Loops, s') \<Rightarrow> (Loops, s'))"
  by pat_completeness auto
termination
proof (relation "inv_image pc_order (\<lambda>(env, forced, pc, s). pc)", goal_cases)
  case 1
  then show ?case by (simp add: pc_order_def)
next
  case (2 env forced pc s r s' pc')
  then show ?case by (auto simp: is_PcEnd_def dest!: sync_stmt_decreases[OF sym])
qed

declare sync_alone.simps [simp del]

lemma sync_alone_bnd: "pc \<noteq> PcEnd \<Longrightarrow> sync_alone env forced pc = bnd (sync_stmt env forced pc) (sync_alone env forced)"
  by (rule ext) (simp add: sync_alone.simps[of env forced pc] bnd_def is_PcEnd_def split: prod.split res.split)

lemma sync_alone_end: "sync_alone env forced PcEnd = ret ()"
  by (rule ext) (simp add: sync_alone.simps ret_def)

section \<open>What every statement keeps\<close>

lemma sync_stmt_only_sync: "only_sync.keeps (sync_stmt env forced pc)"
proof (cases "(env, forced, pc)" rule: sync_stmt.cases)
qed (auto intro!: only_sync_intros ensure_plain_only_sync ensure_helm_only_sync helm_stmt_only_sync
      plain_mgr_only_sync plain_setTargetClient_only_sync getDeployResourceList_only_sync
      updateDeployResource_only_sync compareDeployWithManifest_only_sync applyManifest_only_sync
      clearApplicationResources_only_sync cli_GetManifestInfos_only_sync cli_ObjectFromManifest_only_sync
      only_sync_finish split: prod.splits option.splits)

lemma compareDeployWithManifest_same_git: "same_git.keeps (compareDeployWithManifest env u)"
  unfolding compareDeployWithManifest_def Let_def by (auto intro!: same_git_intros split: sum.splits)

lemma plain_setTargetClient_same_git: "same_git.keeps (plain_setTargetClient env)"
  unfolding plain_setTargetClient_def by (auto intro!: same_git_intros cluster_same_git)

lemma sync_stmt_same_git: "same_git.keeps (sync_stmt env forced pc)"
proof -
  have c: "same_git.keeps (applyManifest env e u)"
    "same_git.keeps (clearApplicationResources env d)" for u e d
    unfolding applyManifest_def clearApplicationResources_def
      Let_def
    by (auto intro!: same_git_intros delete_resource_same_git)
  show ?thesis
    by (cases "(env, forced, pc)" rule: sync_stmt.cases)
      (auto intro!: same_git_intros c compareDeployWithManifest_same_git plain_setTargetClient_same_git ensure_same_git helm_stmt_same_mgr[THEN same_git_mgr] getDeployResourceList_same_git
        updateDeployResource_same_git cli_same_mgr[THEN same_git_mgr] split: prod.splits option.splits)
qed

section \<open>A goroutine alone\<close>

text \<open>
  What is left to do before a statement of the plain manager, in the terms of \<open>plain_Sync\<close>;
  \<open>a\<close> is the Application and \<open>g\<close> the Git client of the manager.
\<close>

definition finish :: "unit act" where
  "finish = update_app (\<lambda>a. if app_sync a = SyncStatusCodeUnknown then set_sync SyncStatusCodeSynced a else a)"

definition after_files ::
  "env \<Rightarrow> deploy_resource list \<Rightarrow> (string \<rightharpoonup> deploy_resource) \<Rightarrow> unit act" where
  "after_files env old upd = bnd (prune (clearApplicationResources env) old upd) (\<lambda>_. finish)"

definition from_files ::
  "env \<Rightarrow> bool \<Rightarrow> application \<Rightarrow> git_client \<Rightarrow> deploy_resource list \<Rightarrow> string list
    \<Rightarrow> (string \<rightharpoonup> deploy_resource) \<Rightarrow> unit act" where
  "from_files env forced a g old infos upd =
     bnd (fold_each infos (sync_file env forced g (dst_Namespace (app_dest a))) upd) (after_files env old)"

definition from_objects ::
  "env \<Rightarrow> bool \<Rightarrow> application \<Rightarrow> git_client \<Rightarrow> deploy_resource list \<Rightarrow> string list \<Rightarrow> unst list
    \<Rightarrow> (string \<rightharpoonup> deploy_resource) \<Rightarrow> unit act" where
  "from_objects env forced a g old infos obs upd =
     bnd (fold_each obs (sync_object env forced) upd) (from_files env forced a g old infos)"

fun rest :: "env \<Rightarrow> bool \<Rightarrow> application \<Rightarrow> git_client \<Rightarrow> sync_pc \<Rightarrow> unit act" where
  "rest env forced a g PcInfos =
     bnd (cli_GetManifestInfos env g (src_Path (app_source a)) (src_TargetRevision (app_source a)) []) (\<lambda>infos.
     bnd (getDeployResourceList env a) (\<lambda>old. from_files env forced a g old infos Map.empty))"
| "rest env forced a g (PcRecords infos) =
     bnd (getDeployResourceList env a) (\<lambda>old. from_files env forced a g old infos Map.empty)"
| "rest env forced a g (PcFile old infos upd) = from_files env forced a g old infos upd"
| "rest env forced a g (PcObject old infos upd obs) = from_objects env forced a g old infos obs upd"
| "rest env forced a g (PcCompare old infos upd obs u) =
     bnd (compareDeployWithManifest env u) (\<lambda>r. case r of
       (None, Some e) \<Rightarrow> throw e
     | (None, None) \<Rightarrow> from_objects env forced a g old infos obs upd
     | (Some ob, err) \<Rightarrow>
         bnd (if pol_AutoSync (app_policy a) \<or> forced then applyManifest env (err = None) ob else ret ())
           (\<lambda>_. from_objects env forced a g old infos obs upd))"
| "rest env forced a g (PcApply old infos upd obs exist ob) =
     bnd (applyManifest env exist ob) (\<lambda>_. from_objects env forced a g old infos obs upd)"
| "rest env forced a g (PcPrune old upd) = after_files env old upd"
| "rest env forced a g PcStatus = finish"
| "rest env forced a g _ = ret ()"

text \<open>The Application and the manager the locals were read from.\<close>

definition held :: "application \<Rightarrow> git_client \<Rightarrow> st \<Rightarrow> bool" where
  "held a g s \<longleftrightarrow> entered a s \<and> (\<exists>m. plainManager s = Some m \<and> pm_GitCli m = g)"

lemma held_keeps: "held a g s \<Longrightarrow> only_sync s s' \<Longrightarrow> same_git s s' \<Longrightarrow> held a g s'"
  by (auto simp: held_def same_git_def entered_keeps)

lemma held_mgr: "held a g s \<Longrightarrow> bnd plain_mgr f s = f (the (plainManager s)) s \<and> pm_GitCli (the (plainManager s)) = g"
  by (auto simp: held_def plain_mgr_def bnd_def)

text \<open>Past \<open>setTargetClient\<close> of the plain manager.\<close>

fun past_client :: "sync_pc \<Rightarrow> bool" where
  "past_client PcStart = False" | "past_client PcClient = False" | "past_client (PcHelm h) = False"
| "past_client _ = True"

lemma past_client_step:
  assumes "sync_stmt env forced pc s = (Ok pc', s')" and "past_client pc"
  shows "past_client pc'"
proof -
  have "sync_stmt env forced pc s = (Ok pc', s') \<longrightarrow> past_client pc \<longrightarrow> past_client pc'"
    by (cases "(env, forced, pc)" rule: sync_stmt.cases)
      (auto elim!: bnd_eq_OkE simp: prog_simps split: if_splits prod.splits option.splits)
  with assms show ?thesis by blast
qed

lemma bnd_throw: "bnd (throw e) f = throw e"
  by (rule ext) (simp add: bnd_def throw_def)

lemma bnd_compared:
  "bnd (case r of (None, Some e) \<Rightarrow> throw e | (None, None) \<Rightarrow> p
         | (Some ob, err) \<Rightarrow> bnd (m ob err) (\<lambda>_. p)) k =
   (case r of (None, Some e) \<Rightarrow> throw e | (None, None) \<Rightarrow> bnd p k
      | (Some ob, err) \<Rightarrow> bnd (m ob err) (\<lambda>_. bnd p k))"
  by (auto simp: bnd_throw bnd_assoc split: prod.split option.split)

lemma after_files_fun: "after_files env old = (\<lambda>upd. bnd (prune (clearApplicationResources env) old upd) (\<lambda>_. finish))"
  by (rule ext) (simp add: after_files_def)

lemma from_files_fun:
  "from_files env forced a g old infos =
     (\<lambda>upd. bnd (fold_each infos (sync_file env forced g (dst_Namespace (app_dest a))) upd) (after_files env old))"
  by (rule ext) (simp add: from_files_def)

lemmas rest_unfold =
  from_files_fun from_objects_def after_files_fun finish_def sync_file_def sync_object_def prune_def

lemma rest_step:
  assumes "held a g s" and "past_client pc" and "pc \<noteq> PcEnd"
  shows "rest env forced a g pc s = bnd (sync_stmt env forced pc) (rest env forced a g) s"
proof -
  have "entered a s" using assms(1) by (simp add: held_def)
  note f = entered_fields[OF this] and m = held_mgr[OF assms(1)]
  show ?thesis
  proof (cases "(env, forced, pc)" rule: sync_stmt.cases)
    case (9 env' forced' old infos upd obs u)
    obtain r t where run: "compareDeployWithManifest env u s = (r, t)" by (cases "compareDeployWithManifest env u s")
    then have "entered a t"
      using entered_keeps[OF \<open>entered a s\<close> only_sync.keepsD[OF compareDeployWithManifest_only_sync]] by blast
    from entered_fields(3)[OF this] 9 run show ?thesis
      by (cases r) (auto simp: bnd_def prog_simps split: prod.split option.split)
  qed (use assms(2,3) in \<open>simp_all add: bnd_assoc bnd_get_app m f rest_unfold bnd_compared
      bnd_unit bnd_ret_right cong: prod.case_cong option.case_cong\<close>)
qed

text \<open>A goroutine that is not interrupted does what \<open>plain_Sync\<close> does.\<close>

lemma alone_rest:
  assumes "held a g s" and "past_client pc"
  shows "sync_alone env forced pc s = rest env forced a g pc s"
  using assms
proof (induction env forced pc s rule: sync_alone.induct)
  case (1 env forced pc s)
  show ?case
  proof (cases "pc = PcEnd")
    case True
    then show ?thesis by (simp add: sync_alone_end)
  next
    case False
    obtain r t where run: "sync_stmt env forced pc s = (r, t)" by (cases "sync_stmt env forced pc s")
    have "held a g t"
      by (rule held_keeps[OF 1(2) only_sync.keepsD[OF sync_stmt_only_sync run]
            same_git.keepsD[OF sync_stmt_same_git run]])
    then have "sync_alone env forced pc' t = rest env forced a g pc' t" if "r = Ok pc'" for pc'
      using 1(1)[OF _ run[symmetric]] that False past_client_step[of env forced pc s pc' t] run 1(3)
      by (simp add: is_PcEnd_def)
    then show ?thesis
      unfolding rest_step[OF 1(2,3) False] sync_alone_bnd[OF False]
      by (cases r) (simp_all add: bnd_def run)
  qed
qed

lemma plain_Sync_rest:
  "plain_Sync env forced = bnd plain_mgr (\<lambda>m. bnd (plain_setTargetClient env) (\<lambda>_.
     bnd get_app (\<lambda>a. rest env forced a (pm_GitCli m) PcInfos)))"
  by (simp add: plain_Sync_def rest_unfold)

lemma alone_client: "sync_alone env forced PcClient = plain_Sync env forced"
proof
  fix s
  have alone: "sync_alone env forced PcClient =
      bnd plain_mgr (\<lambda>_. bnd (plain_setTargetClient env) (\<lambda>_. sync_alone env forced PcInfos))"
    by (simp add: sync_alone_bnd[of PcClient] bnd_assoc)
  show "sync_alone env forced PcClient s = plain_Sync env forced s"
  proof (cases "plainManager s")
    case None
    then show ?thesis by (simp add: alone plain_Sync_rest plain_mgr_def bnd_def)
  next
    case (Some m)
    then have mgr: "plain_mgr s = (Ok m, s)" by (simp add: plain_mgr_def)
    obtain r t where run: "plain_setTargetClient env s = (r, t)" by (cases "plain_setTargetClient env s")
    have "held (app t) (pm_GitCli m) t"
      using same_git.keepsD[OF plain_setTargetClient_same_git run] Some
      by (simp add: held_def entered_self same_git_def)
    from alone_rest[OF this] have "sync_alone env forced PcInfos t = rest env forced (app t) (pm_GitCli m) PcInfos t"
      by (simp del: rest.simps)
    then show ?thesis
      using run unfolding alone plain_Sync_rest bnd_Ok[of plain_mgr, OF mgr]
      by (cases r) (simp_all add: bnd_Ok bnd_Err bnd_Panic bnd_Loops bnd_get_app del: rest.simps)
  qed
qed

text \<open>And what \<open>helm_Sync\<close> does, for a Helm source.\<close>

lemma alone_helm_rest:
  assumes "entered a s" and "h \<noteq> HpFetch" and "h \<noteq> HpEnd"
  shows "sync_alone env forced (PcHelm h) s = helm_rest env forced a h s"
  using assms
proof (induction env forced "PcHelm h" s arbitrary: h rule: sync_alone.induct)
  case (1 env forced s h)
  obtain r t where run: "helm_stmt env forced h s = (r, t)" by (cases "helm_stmt env forced h s")
  then have e: "entered a t" by (rule entered_keeps[OF 1(2) only_sync.keepsD[OF helm_stmt_only_sync]])
  have "sync_alone env forced (if h' = HpEnd then PcEnd else PcHelm h') t = helm_rest env forced a h' t" if "r = Ok h'" for h'
  proof (cases "h' = HpEnd")
    case False
    have "h' \<noteq> HpFetch" using helm_stmt_decreases[of env forced h s h' t] run that 1(4) by (cases h) auto
    with False e run that 1(1)[of "Ok (PcHelm h')" t h'] show ?thesis
      by (simp add: is_PcEnd_def is_HpEnd_def bnd_def prog_simps)
  qed (simp add: sync_alone_end)
  then show ?case
    unfolding helm_rest_step[OF 1(2,4,3)] sync_alone_bnd[of "PcHelm h", simplified] sync_stmt.simps bnd_assoc bnd_ret_left
    by (cases r) (simp_all add: bnd_def run is_HpEnd_def)
qed

lemma alone_helm: "sync_alone env forced (PcHelm HpFetch) = helm_Sync env forced"
proof
  fix s
  have alone: "sync_alone env forced (PcHelm HpFetch) = bnd helm_mgr (\<lambda>_. bnd (fetch_repo env) (\<lambda>_.
      bnd get_app (\<lambda>a. sync_alone env forced (PcHelm (HpClient (setChartSpec a))))))"
    by (simp add: sync_alone_bnd[of "PcHelm HpFetch"] bnd_assoc is_HpEnd_def)
  have "bnd get_app (\<lambda>a. sync_alone env forced (PcHelm (HpClient (setChartSpec a)))) t
      = bnd get_app (\<lambda>a. helm_rest env forced a (HpClient (setChartSpec a))) t" for t
    by (simp add: bnd_get_app alone_helm_rest[OF entered_self] del: helm_rest.simps)
  then show "sync_alone env forced (PcHelm HpFetch) s = helm_Sync env forced s"
    unfolding alone helm_Sync_rest by presburger
qed

lemma alone_start: "sync_alone env forced PcStart = CheckSync env forced"
  by (simp add: sync_alone_bnd[of PcStart] CheckSync_def bnd_assoc alone_client alone_helm bnd_throw
      if_distrib[of "\<lambda>m. bnd m f" for f] cong: if_cong)

end
