(* ===== verification/SyncRace.thy ===== *)
theory SyncRace
  imports SyncThreads
begin

text \<open>
  Goroutines that alternate. The plain manager, with the client of the destination it
  was last set to, is shared; each goroutine has its own Application object.
\<close>

section \<open>Turns\<close>

record thread =
  th_forced :: bool
  th_app :: application
  th_pc :: "sync_pc res"

definition start_check :: "bool \<Rightarrow> application \<Rightarrow> thread" where
  "start_check forced a = \<lparr>th_forced = forced, th_app = a, th_pc = Ok PcStart\<rparr>"

text \<open>
  One statement of a goroutine; one that has returned an error does nothing any more.
  A panic ends the process, and the turns after it are no behaviour of it.
\<close>

definition thread_turn :: "env \<Rightarrow> thread \<Rightarrow> st \<Rightarrow> thread \<times> st" where
  "thread_turn env t s =
     (case th_pc t of
        Ok pc \<Rightarrow> (case sync_stmt env (th_forced t) pc (s\<lparr>app := th_app t\<rparr>) of
                    (r, s') \<Rightarrow> (t\<lparr>th_app := app s', th_pc := r\<rparr>, s'\<lparr>app := app s\<rparr>))
      | _ \<Rightarrow> (t, s))"

text \<open>The order of the turns is a list of indices of goroutines: any order can happen.\<close>

fun run_turns :: "env \<Rightarrow> nat list \<Rightarrow> thread list \<times> st \<Rightarrow> thread list \<times> st" where
  "run_turns env [] (ts, s) = (ts, s)"
| "run_turns env (i # is) (ts, s) =
     (if i < length ts
      then (case thread_turn env (ts ! i) s of (t, s') \<Rightarrow> run_turns env is (ts[i := t], s'))
      else run_turns env is (ts, s))"

lemma run_turns_append: "run_turns env (xs @ ys) c = run_turns env ys (run_turns env xs c)"
  by (induction env xs c rule: run_turns.induct) (auto split: prod.split)

text \<open>An invariant of one turn holds in every order.\<close>

lemma run_turns_invariant:
  assumes "run_turns env sched (ts, s) = (ts', s')" and "I ts s"
    and "\<And>ts s i t u. I ts s \<Longrightarrow> i < length ts \<Longrightarrow> thread_turn env (ts ! i) s = (t, u) \<Longrightarrow> I (ts[i := t]) u"
  shows "I ts' s'"
  using assms(1,2)
proof (induction sched arbitrary: ts s)
  case Nil
  then show ?case by simp
next
  case (Cons i sched)
  show ?case
  proof (cases "i < length ts")
    case True
    obtain t u where turn: "thread_turn env (ts ! i) s = (t, u)" by (cases "thread_turn env (ts ! i) s")
    with Cons.prems True have "run_turns env sched (ts[i := t], u) = (ts', s')" by simp
    then show ?thesis by (rule Cons.IH) (rule assms(3)[OF Cons.prems(2) True turn])
  qed (use Cons in simp)
qed

section \<open>A goroutine that is let run\<close>

lemma turns_alone:
  assumes "sync_alone env (th_forced t) pc (s\<lparr>app := th_app t\<rparr>) = (r, s')"
    and "i < length ts" and "ts ! i = t" and "th_pc t = Ok pc"
  shows "\<exists>n. run_turns env (replicate n i) (ts, s) =
    (ts[i := t\<lparr>th_app := app s', th_pc := res_bind r (\<lambda>_. Ok PcEnd)\<rparr>], s'\<lparr>app := app s\<rparr>)"
  using assms
proof (induction env "th_forced t" pc "s\<lparr>app := th_app t\<rparr>" arbitrary: t s ts rule: sync_alone.induct)
  case (1 env pc t s ts)
  show ?case
  proof (cases "pc = PcEnd")
    case True
    with 1(2-) have "r = Ok ()" "s' = s\<lparr>app := th_app t\<rparr>" by (simp_all add: sync_alone_end ret_def)
    moreover have "ts[i := t\<lparr>th_app := th_app t, th_pc := Ok PcEnd\<rparr>] = ts"
      using 1(4,5) True by (metis list_update_id thread.surjective thread.update_convs(2,3))
    ultimately show ?thesis by (intro exI[of _ 0]) simp
  next
    case False
    obtain q u where run: "sync_stmt env (th_forced t) pc (s\<lparr>app := th_app t\<rparr>) = (q, u)"
      by (cases "sync_stmt env (th_forced t) pc (s\<lparr>app := th_app t\<rparr>)")
    let ?t = "t\<lparr>th_app := app u, th_pc := q\<rparr>" and ?u = "u\<lparr>app := app s\<rparr>"
    have turn: "run_turns env (i # is) (ts, s) = run_turns env is (ts[i := ?t], ?u)" for "is"
      using 1(3-5) run by (simp add: thread_turn_def)
    have alone: "sync_alone env (th_forced t) pc (s\<lparr>app := th_app t\<rparr>) =
        (case q of Ok pc' \<Rightarrow> sync_alone env (th_forced t) pc' u | Err e \<Rightarrow> (Err e, u)
          | Panic p \<Rightarrow> (Panic p, u) | Loops \<Rightarrow> (Loops, u))"
      using False run by (simp add: sync_alone_bnd bnd_def split: res.split)
    show ?thesis
    proof (cases "\<exists>pc'. q = Ok pc'")
      case True
      then obtain pc' where q: "q = Ok pc'" by blast
      have u: "?u\<lparr>app := th_app ?t\<rparr> = u" by simp
      have e: "\<not> is_PcEnd pc" using False by (simp add: is_PcEnd_def)
      have s: "(q, ?u\<lparr>app := th_app ?t\<rparr>) = sync_stmt env (th_forced t) pc (s\<lparr>app := th_app t\<rparr>)"
        unfolding u run ..
      have a: "sync_alone env (th_forced ?t) pc' (?u\<lparr>app := th_app ?t\<rparr>) = (r, s')"
        unfolding u using alone 1(2) q by simp
      obtain n where "run_turns env (replicate n i) (ts[i := ?t], ?u) =
          ((ts[i := ?t])[i := ?t\<lparr>th_app := app s', th_pc := res_bind r (\<lambda>_. Ok PcEnd)\<rparr>], s'\<lparr>app := app ?u\<rparr>)"
        using 1(1)[where x = q and s = ?u and t = ?t and ?x1.0 = pc' and ts = "ts[i := ?t]", OF e s q _ a]
          1(3) q by auto
      then show ?thesis by (intro exI[of _ "Suc n"]) (simp add: turn del: run_turns.simps)
    next
      case no: False
      with alone 1(2) have "s' = u" "q = res_bind r (\<lambda>_. Ok PcEnd)" by (cases q; auto)+
      then show ?thesis by (intro exI[of _ 1]) (simp add: turn[of "[]", simplified])
    qed
  qed
qed

section \<open>Where the objects go\<close>

definition target_in :: "(kcli \<Rightarrow> bool) \<Rightarrow> st \<Rightarrow> bool" where
  "target_in Q s \<longleftrightarrow> (\<forall>m. plainManager s = Some m \<longrightarrow> Q (pm_TargetCli m))"

lemma aimed_iff: "aimed Q s t \<longleftrightarrow> (target_in Q s \<longrightarrow> target_in Q t \<and> made (aimed_at Q) s t)"
  by (simp add: aimed_def target_in_def)

lemma past_client_aimed:
  assumes "past_client pc" shows "aimed.keeps Q (sync_stmt env forced pc)"
proof -
  note http = aimed_http[OF cli_GetManifestInfos_made cli_same_mgr(1)]
    aimed_http[OF cli_ObjectFromManifest_made cli_same_mgr(2)]
  show ?thesis
    using assms
    by (cases "(env, forced, pc)" rule: sync_stmt.cases)
      (auto intro!: aimed_plain_mgr aimed_intros http getDeployResourceList_aimed
        updateDeployResource_aimed compareDeployWithManifest_aimed applyManifest_aimed
        clearApplicationResources_aimed split: prod.splits option.splits)
qed

lemma turn_aimed:
  assumes "thread_turn env t s = (t', s')" and "\<And>pc. th_pc t = Ok pc \<Longrightarrow> past_client pc" and "target_in Q s"
  shows "made (aimed_at Q) s s'" and "target_in Q s'" and "\<And>pc. th_pc t' = Ok pc \<Longrightarrow> past_client pc"
proof -
  have "made (aimed_at Q) s s' \<and> target_in Q s' \<and> (\<forall>pc. th_pc t' = Ok pc \<longrightarrow> past_client pc)"
  proof (cases "th_pc t")
    case (Ok pc)
    obtain r u where run: "sync_stmt env (th_forced t) pc (s\<lparr>app := th_app t\<rparr>) = (r, u)"
      by (cases "sync_stmt env (th_forced t) pc (s\<lparr>app := th_app t\<rparr>)")
    note past = assms(2)[OF Ok]
    have "aimed Q (s\<lparr>app := th_app t\<rparr>) u" by (rule aimed.keepsD[OF past_client_aimed[OF past] run])
    moreover have "target_in Q (s\<lparr>app := th_app t\<rparr>)" using assms(3) by (simp add: target_in_def)
    ultimately have "made (aimed_at Q) (s\<lparr>app := th_app t\<rparr>) u" "target_in Q u" by (simp_all add: aimed_iff)
    moreover have "\<forall>pc'. r = Ok pc' \<longrightarrow> past_client pc'" using past_client_step[OF _ past] run by blast
    ultimately show ?thesis
      using assms(1) Ok run by (auto simp: thread_turn_def made_def target_in_def)
  qed (use assms in \<open>auto simp: thread_turn_def made.step_refl\<close>)
  then show "made (aimed_at Q) s s'" "target_in Q s'" "\<And>pc. th_pc t' = Ok pc \<Longrightarrow> past_client pc" by auto
qed

text \<open>While no goroutine sets the client, all of them work on the destination it was last set to.\<close>

lemma turns_aimed:
  assumes "run_turns env sched (ts, s) = (ts', s')" and "target_in Q s"
    and "\<And>t pc. t \<in> set ts \<Longrightarrow> th_pc t = Ok pc \<Longrightarrow> past_client pc"
  shows "made (aimed_at Q) s s'"
proof -
  define I where "I = (\<lambda>(us :: thread list) u. made (aimed_at Q) s u \<and> target_in Q u
    \<and> (\<forall>t \<in> set us. \<forall>pc. th_pc t = Ok pc \<longrightarrow> past_client pc))"
  have "I ts' s'"
  proof (rule run_turns_invariant[OF assms(1)])
    show "I ts s" using assms(2,3) by (simp add: I_def made.step_refl)
  next
    fix us u i t v
    assume inv: "I us u" and i: "i < length us" and turn: "thread_turn env (us ! i) u = (t, v)"
    have "\<And>pc. th_pc (us ! i) = Ok pc \<Longrightarrow> past_client pc" and tgt: "target_in Q u"
      using inv nth_mem[OF i] by (auto simp: I_def)
    note a = turn_aimed[OF turn this]
    have m: "made (aimed_at Q) s u" using inv by (simp add: I_def)
    show "I (us[i := t]) v"
      using made.step_trans[OF m a(1)] a(2,3) inv set_update_subset_insert[of us i t] by (auto simp: I_def)
  qed
  then show ?thesis by (simp add: I_def)
qed

text \<open>The other statements: none of them touches an object of another destination.\<close>

lemma start_made: "made.keeps (aimed_at Q) (sync_stmt env forced PcStart)"
proof -
  have p: "made.keeps (aimed_at Q) (ensure_plain env)"
    unfolding ensure_plain_def by (auto intro!: made_intros GetGitCli_made made_modify split: option.splits)
  have n: "made.keeps (aimed_at Q) (ensure_helm env)"
    unfolding ensure_helm_def NewHelmManager_def Let_def
    by (auto intro!: made_intros made_modify split: option.splits sum.splits)
  show ?thesis by (auto intro!: made_intros p n)
qed

lemma start_target:
  assumes "Q DefaultCli" and "sync_stmt env forced PcStart s = (r, s')" and "target_in Q s"
  shows "target_in Q s'"
proof -
  have mod: "aimed.keeps Q (modify f)" if "\<And>s. hist (f s) = hist s" "\<And>s. target_in Q s \<Longrightarrow> target_in Q (f s)" for f
    by (rule aimed.keeps_modify) (use that in \<open>auto simp: aimed_iff made_def\<close>)
  have "aimed.keeps Q (GetGitCli env)"
    unfolding GetGitCli_def GetToken_def Let_def by (auto intro!: aimed_intros split: option.splits)
  then have "aimed.keeps Q (ensure_plain env)"
    unfolding ensure_plain_def
    by (auto intro!: aimed_intros mod simp: target_in_def NewPlainYamlManager_def assms(1) split: option.splits)
  moreover have "aimed.keeps Q (ensure_helm env)"
    unfolding ensure_helm_def NewHelmManager_def Let_def
    by (auto intro!: aimed_intros mod simp: target_in_def split: option.splits sum.splits)
  ultimately have "aimed.keeps Q (sync_stmt env forced PcStart)" by (auto intro!: aimed_intros)
  from aimed.keepsD[OF this assms(2)] assms(3) show ?thesis by (simp add: aimed_iff)
qed

lemma helm_target:
  assumes "Q DefaultCli" and "sync_stmt env forced (PcHelm h) s = (r, s')"
  shows "made (aimed_at Q) s s'" and "target_in Q s' = target_in Q s"
proof -
  have "made.keeps (aimed_at Q) (sync_stmt env forced (PcHelm h))" "same_mgr.keeps (sync_stmt env forced (PcHelm h))"
    by (auto intro!: made_intros helm_stmt_home[of Q, OF assms(1)] same_mgr.keeps_intros helm_stmt_same_mgr)
  from made.keepsD[OF this(1) assms(2)] same_mgr.keepsD[OF this(2) assms(2)]
  show "made (aimed_at Q) s s'" "target_in Q s' = target_in Q s" by (simp_all add: same_mgr_def target_in_def)
qed

end
