(* ===== verification/HelmRace.thy ===== *)
theory HelmRace
  imports SyncRace
begin

text \<open>
  The client of the Helm manager is shared as well: where the charts go that goroutines
  install while they alternate.
\<close>

section \<open>The destination of a Helm client\<close>

text \<open>The options \<open>setTargetClient\<close> of the Helm manager builds its client from.\<close>

definition helm_dest :: "env \<Rightarrow> application \<Rightarrow> helm_options \<Rightarrow> bool" where
  "helm_dest env a o' \<longleftrightarrow> ho_Namespace o' = dst_Namespace (app_dest a)
     \<and> (if dst_Name (app_dest a) = [] then ho_RestConfig o' = None
        else \<exists>h dat config. ho_RestConfig o' = Some config
          \<and> e_get_secret env h (app_Namespace a) (dst_Name (app_dest a) @ ''-kubeconfig'') = Ok dat
          \<and> secretToClusterConfig env dat = Ok config)"

lemma helm_dest_only_sync: "only_sync s t \<Longrightarrow> helm_dest env (app t) = helm_dest env (app s)"
proof -
  assume "only_sync s t"
  then obtain c where "app t = set_sync c (app s)" by (auto simp: only_sync_def)
  then show ?thesis by (auto simp: helm_dest_def set_sync_def fun_eq_iff)
qed

definition helm_in :: "(helm_options \<Rightarrow> bool) \<Rightarrow> st \<Rightarrow> bool" where
  "helm_in H s \<longleftrightarrow> (\<forall>m. helmManager s = Some m \<longrightarrow> H (hm_Client m))"

definition installs_in :: "(helm_options \<Rightarrow> bool) \<Rightarrow> call set" where
  "installs_in H = {c. \<forall>o' ch. c = CHelmInstall o' ch \<longrightarrow> H o'}"

lemma installs_in_simps [simp]:
  "CHelmInstall o' ch \<in> installs_in H \<longleftrightarrow> H o'" "CGetObj k u \<in> installs_in H" "CDeleteObj k u \<in> installs_in H"
  "CListDR l \<in> installs_in H" "CGetDR ns n \<in> installs_in H" "CCreateDR d \<in> installs_in H" "CDeleteDR d \<in> installs_in H"
  "CGetSecret ns n \<in> installs_in H" "CStat p \<in> installs_in H" "CClone x y z \<in> installs_in H" "COpen p \<in> installs_in H"
  "CWorktree p \<in> installs_in H" "CPull p \<in> installs_in H" "CHelmNew o' \<in> installs_in H"
  by (auto simp: installs_in_def)

lemma helm_setTargetClient_made: "made.keeps (installs_in H) (helm_setTargetClient env)"
  unfolding helm_setTargetClient_def GetApplicationClusterConfig_def getDestClusterSecret_def Let_def
  by (auto intro!: made_intros set_helm_Client_made split: sum.splits)

lemma helm_setTargetClient_run:
  assumes "helm_setTargetClient env s = (r, s')" and "\<And>o'. helm_dest env (app s) o' \<Longrightarrow> H o'"
  shows "r = Ok () \<Longrightarrow> helm_in H s'" and "helm_in H s \<Longrightarrow> helm_in H s'"
proof -
  have "(r = Ok () \<longrightarrow> (\<forall>m. helmManager s' = Some m \<longrightarrow> helm_dest env (app s) (hm_Client m)))
      \<and> (r \<noteq> Ok () \<longrightarrow> helmManager s' = helmManager s)"
    using assms(1)
    by (auto simp: helm_setTargetClient_def GetApplicationClusterConfig_def getDestClusterSecret_def
        set_helm_Client_def helm_dest_def bnd_def attempt_def Let_def prog_simps
        split: if_splits prod.splits res.splits sum.splits) blast+
  then show "r = Ok () \<Longrightarrow> helm_in H s'" "helm_in H s \<Longrightarrow> helm_in H s'"
    using assms(2) by (auto simp: helm_in_def)
qed

section \<open>Statements\<close>

definition haimed :: "(helm_options \<Rightarrow> bool) \<Rightarrow> st \<Rightarrow> st \<Rightarrow> bool" where
  "haimed H s t \<longleftrightarrow> (helm_in H s \<longrightarrow> helm_in H t \<and> made (installs_in H) s t)"

interpretation haimed: step_rel "haimed H" for H
proof unfold_locales
  fix s show "haimed H s s" by (simp add: haimed_def made.step_refl)
next
  fix s t u assume "haimed H s t" and "haimed H t u"
  then show "haimed H s u" unfolding haimed_def using made.step_trans by blast
qed

lemma haimed_ext: "c \<in> installs_in H \<Longrightarrow> haimed.keeps H (ext c f)"
  by (rule haimed.keepsI) (auto simp: ext_def haimed_def made_def helm_in_def)

lemma haimed_get_app: "haimed.keeps H get_app"
  by (rule haimed.keepsI) (simp add: prog_simps haimed.step_refl)

lemma haimed_update_app: "haimed.keeps H (update_app f)"
  by (rule haimed.keepsI) (simp add: prog_simps haimed_def helm_in_def made_def)

lemma haimed_helm_mgr:
  assumes "\<And>m. H (hm_Client m) \<Longrightarrow> haimed.keeps H (f m)"
  shows "haimed.keeps H (bnd helm_mgr f)"
proof (rule haimed.keepsI)
  fix s
  show "haimed H s (snd (bnd helm_mgr f s))"
  proof (cases "helmManager s")
    case None
    then show ?thesis by (simp add: helm_mgr_def bnd_def haimed.step_refl)
  next
    case (Some m)
    then have run: "bnd helm_mgr f s = f m s" by (simp add: helm_mgr_def bnd_def)
    show ?thesis
    proof (cases "H (hm_Client m)")
      case True
      then show ?thesis using assms by (simp add: run haimed.keeps_def)
    next
      case False
      with Some show ?thesis by (simp add: haimed_def helm_in_def)
    qed
  qed
qed

lemmas haimed_intros = haimed.keeps_intros haimed_ext haimed_get_app haimed_update_app

lemma haimed_steps:
  "haimed.keeps H (fetch_repo env)" "haimed.keeps H (installHelmChart env ch dry)"
  "haimed.keeps H (deleteDeployResource env d)" "haimed.keeps H (record_object env u upd)"
  "haimed.keeps H (getDeployResourceList env a)"
  unfolding fetch_repo_def gitRepoClone_def gitPull_def Clone_def Open_def Pull_def installHelmChart_def
    InstallChart_def deleteDeployResource_def delete_resource_def record_object_def updateDeployResource_def
    getDeployResourceList_def Let_def
  by (auto intro!: haimed_intros haimed_helm_mgr split: sum.splits stat_result.splits)

lemma helm_document_run:
  assumes "helm_document env doc obs s = (r, s')" and "\<And>o'. helm_dest env (app s) o' \<Longrightarrow> H o'" and "helm_in H s"
  shows "made (installs_in H) s s' \<and> helm_in H s'"
proof -
  obtain q t where run: "helm_setTargetClient env s = (q, t)" by (cases "helm_setTargetClient env s")
  have "s' = s \<or> s' = t"
    using assms(1) run
    by (cases q) (auto simp: helm_document_def bnd_def prog_simps split: res.splits if_splits)
  moreover have "helm_in H t" by (rule helm_setTargetClient_run(2)[where H = H, OF run assms(2,3)])
  ultimately show ?thesis
    using made.keepsD[OF helm_setTargetClient_made run] assms(3) by (auto intro: made.step_refl)
qed

text \<open>The statements after the last one that sets the client.\<close>

fun hp_final :: "helm_pc \<Rightarrow> bool" where
  "hp_final (HpUpdate c old us upd) = True" | "hp_final (HpPrune c old upd) = True"
| "hp_final (HpInstall c) = True" | "hp_final HpEnd = True" | "hp_final _ = False"

lemma hp_final_step:
  assumes "helm_stmt env forced h s = (Ok h', s')" and "hp_final h"
  shows "hp_final h'"
proof -
  have "helm_stmt env forced h s = (Ok h', s') \<longrightarrow> hp_final h \<longrightarrow> hp_final h'"
    by (cases "(env, forced, h)" rule: helm_stmt.cases) (auto elim!: bnd_eq_OkE simp: prog_simps)
  with assms show ?thesis by blast
qed

lemma helm_stmt_run:
  assumes "helm_stmt env forced h s = (r, s')" and "helm_in H s"
    and "hp_final h \<or> (\<forall>o'. helm_dest env (app s) o' \<longrightarrow> H o')"
  shows "made (installs_in H) s s' \<and> helm_in H s'"
proof -
  consider (client) chart where "h = HpClient chart" | (doc) chart old doc docs obs where "h = HpDocument chart old (doc # docs) obs"
    | (other) "\<forall>chart. h \<noteq> HpClient chart" "\<forall>chart old doc docs obs. h \<noteq> HpDocument chart old (doc # docs) obs"
    by metis
  then show ?thesis
  proof cases
    case client
    obtain q t where run: "helm_setTargetClient env s = (q, t)" by (cases "helm_setTargetClient env s")
    then have "s' = t" using assms(1) client by (cases q) (auto simp: bnd_def prog_simps)
    then show ?thesis
      using made.keepsD[OF helm_setTargetClient_made run] helm_setTargetClient_run(2)[OF run, of H] assms(2,3) client
      by simp
  next
    case doc
    obtain q t where run: "helm_document env doc obs s = (q, t)" by (cases "helm_document env doc obs s")
    then have "s' = t" using assms(1) doc by (cases q) (auto simp: bnd_def prog_simps)
    then show ?thesis using helm_document_run[OF run, of H] assms(2,3) doc by simp
  next
    case other
    then have "haimed.keeps H (helm_stmt env forced h)"
      by (cases "(env, forced, h)" rule: helm_stmt.cases) (auto intro!: haimed_intros haimed_helm_mgr haimed_steps)
    from haimed.keepsD[OF this assms(1)] assms(2) show ?thesis by (simp add: haimed_def)
  qed
qed

section \<open>Turns\<close>

text \<open>A goroutine that does not set the client any more.\<close>

definition installing :: "thread \<Rightarrow> bool" where
  "installing t \<longleftrightarrow>
     (case th_pc t of Ok pc \<Rightarrow> (case pc of PcHelm h \<Rightarrow> hp_final h | PcEnd \<Rightarrow> True | _ \<Rightarrow> False) | _ \<Rightarrow> True)"

definition helm_ok :: "env \<Rightarrow> (helm_options \<Rightarrow> bool) \<Rightarrow> thread \<Rightarrow> bool" where
  "helm_ok env H t \<longleftrightarrow>
     installing t \<or> (\<exists>h. th_pc t = Ok (PcHelm h)) \<and> (\<forall>o'. helm_dest env (th_app t) o' \<longrightarrow> H o')"

lemma helm_turn:
  assumes "thread_turn env t s = (t', s')" and "helm_ok env H t" and "helm_in H s"
  shows "made (installs_in H) s s' \<and> helm_in H s' \<and> helm_ok env H t'"
proof (cases "\<exists>h. th_pc t = Ok (PcHelm h)")
  case True
  then obtain h where pc: "th_pc t = Ok (PcHelm h)" ..
  let ?s = "s\<lparr>app := th_app t\<rparr>"
  obtain r u where run: "helm_stmt env (th_forced t) h ?s = (r, u)" by (cases "helm_stmt env (th_forced t) h ?s")
  have turn: "s' = u\<lparr>app := app s\<rparr>"
      "t' = t\<lparr>th_app := app u, th_pc := res_bind r (\<lambda>h. Ok (if is_HpEnd h then PcEnd else PcHelm h))\<rparr>"
    using assms(1) pc run by (cases r; simp add: thread_turn_def bnd_def prog_simps)+
  have free: "hp_final h \<or> (\<forall>o'. helm_dest env (app ?s) o' \<longrightarrow> H o')"
    using assms(2) pc by (auto simp: helm_ok_def installing_def)
  have "made (installs_in H) ?s u \<and> helm_in H u"
    by (rule helm_stmt_run[OF run _ free]) (use assms(3) in \<open>simp add: helm_in_def\<close>)
  then have "made (installs_in H) s s' \<and> helm_in H s'" by (simp add: turn made_def helm_in_def)
  moreover have "helm_dest env (app u) = helm_dest env (th_app t)"
    using helm_dest_only_sync[OF only_sync.keepsD[OF helm_stmt_only_sync run]] by simp
  then have "helm_ok env H t'"
    using free hp_final_step[of env "th_forced t" h ?s] run
    by (cases r) (auto simp: helm_ok_def installing_def turn(2))
  ultimately show ?thesis by blast
next
  case False
  then have inst: "installing t" using assms(2) by (auto simp: helm_ok_def)
  have "s' = s \<and> t' = t"
  proof (cases "th_pc t")
    case (Ok pc)
    with False inst have "pc = PcEnd" by (auto simp: installing_def split: sync_pc.splits)
    with Ok assms(1) show ?thesis by (cases t) (auto simp: thread_turn_def prog_simps)
  qed (use assms(1) in \<open>simp_all add: thread_turn_def\<close>)
  then show ?thesis using assms(2,3) by (simp add: made.step_refl)
qed

lemma helm_turns:
  assumes "run_turns env sched (ts, s) = (ts', s')" and "\<forall>t \<in> set ts. helm_ok env H t" and "helm_in H s"
  shows "made (installs_in H) s s'"
proof -
  have "made (installs_in H) s s' \<and> helm_in H s' \<and> (\<forall>t \<in> set ts'. helm_ok env H t)"
  proof (rule run_turns_invariant[OF assms(1),
        where I = "\<lambda>us u. made (installs_in H) s u \<and> helm_in H u \<and> (\<forall>t \<in> set us. helm_ok env H t)"])
    show "made (installs_in H) s s \<and> helm_in H s \<and> (\<forall>t \<in> set ts. helm_ok env H t)"
      using assms(2,3) by (simp add: made.step_refl)
  next
    fix us u i t v
    assume inv: "made (installs_in H) s u \<and> helm_in H u \<and> (\<forall>t \<in> set us. helm_ok env H t)"
      and i: "i < length us" and turn: "thread_turn env (us ! i) u = (t, v)"
    have "made (installs_in H) u v \<and> helm_in H v \<and> helm_ok env H t"
      by (rule helm_turn[OF turn]) (use inv nth_mem[OF i] in auto)
    with inv show "made (installs_in H) s v \<and> helm_in H v \<and> (\<forall>t \<in> set (us[i := t]). helm_ok env H t)"
      using made.step_trans[of "installs_in H" s u v] set_update_subset_insert[of us i t] by auto
  qed
  then show ?thesis by blast
qed

section \<open>Whose client installs\<close>

text \<open>C9: The Helm client is shared as well: after one goroutine has set it while every other one
  is past the last statement of its own check that sets it - its installation is still to
  come, or is done -, every chart that is installed from then on, by whichever goroutine and
  in whatever order they go on, goes where the Application of the first is to be deployed.\<close>

theorem last_helm_client_wins:
  assumes "i < length ts" and "ts ! i = t" and "th_pc t = Ok (PcHelm (HpClient chart))"
    and "run_turns env [i] (ts, s) = (ts1, s1)" and "th_pc (ts1 ! i) = Ok pc"
    and "\<forall>j < length ts1. j \<noteq> i \<longrightarrow> installing (ts1 ! j)"
    and "run_turns env sched (ts1, s1) = (ts', s')"
    and "CHelmInstall o' ch \<in> set (new_calls s1 s')"
  shows "helm_dest env (th_app t) o'"
proof -
  let ?H = "helm_dest env (th_app t)" and ?s = "s\<lparr>app := th_app t\<rparr>"
  obtain r u where run: "helm_setTargetClient env ?s = (r, u)" by (cases "helm_setTargetClient env ?s")
  let ?t = "t\<lparr>th_app := app u, th_pc := res_bind r (\<lambda>_. Ok (PcHelm (HpRecords chart)))\<rparr>"
  have one: "ts1 = ts[i := ?t]" "s1 = u\<lparr>app := app s\<rparr>"
    using assms(1-4) run by (cases r; simp add: thread_turn_def bnd_def prog_simps)+
  then have r: "r = Ok ()" using assms(1,5) by (cases r) auto
  have "helm_in ?H u" by (rule helm_setTargetClient_run(1)[OF run _ r]) simp
  then have set1: "helm_in ?H s1" by (simp add: one helm_in_def)
  have "only_sync ?s u" by (rule only_sync.keepsD[OF helm_setTargetClient_only_sync run])
  then have "helm_ok env ?H (ts1 ! i)"
    using helm_dest_only_sync[of ?s u env] r assms(1) by (simp add: helm_ok_def one(1))
  then have "\<forall>t \<in> set ts1. helm_ok env ?H t"
    using assms(6) by (metis (no_types) helm_ok_def in_set_conv_nth)
  from new_calls_made[OF helm_turns[OF assms(7) this set1]] assms(8) show ?thesis by auto
qed

text \<open>
  An Application for the cluster \<open>remote\<close> and one for the operator's own: the chart of the
  first is installed with the client of the second.
\<close>

definition chart_env :: env where
  "chart_env = sample_remote_env\<lparr>e_list_dr := (\<lambda>_ _. Ok []), e_yaml_to_json := (\<lambda>_. Ok ''null'')\<rparr>"

definition chart_threads :: "thread list" where
  "chart_threads = [start_check True (app sample_remote_st), start_check True (app sample_helm_st)]"

lemma chart_race:
  "case run_turns chart_env (replicate 7 0 @ [1, 1]) (chart_threads, sample_helm_st) of (ts, s) \<Rightarrow>
     length ts = 2 \<and> th_app (ts ! 1) = set_sync SyncStatusCodeUnknown (app sample_helm_st)
     \<and> (case th_pc (ts ! 1) of Ok (PcHelm (HpClient chart)) \<Rightarrow> True | _ \<Rightarrow> False)
     \<and> (case run_turns chart_env [1] (ts, s) of (ts1, s1) \<Rightarrow>
          length ts1 = 2 \<and> installing (ts1 ! 0) \<and> (case th_pc (ts1 ! 1) of Ok pc \<Rightarrow> True | _ \<Rightarrow> False)
          \<and> list_ex (\<lambda>c. case c of
                CHelmInstall o' ch \<Rightarrow> o' = \<lparr>ho_Namespace = ''web'', ho_RestConfig = None\<rparr>
                  \<and> ch = setChartSpec (app sample_remote_st)
              | _ \<Rightarrow> False)
              (new_calls s1 (snd (run_turns chart_env (replicate 3 0) (ts1, s1)))))"
  by code_simp

theorem last_helm_client_wins_witness:
  "helm_dest chart_env (app sample_helm_st) \<lparr>ho_Namespace = ''web'', ho_RestConfig = None\<rparr>
   \<and> \<not> helm_dest chart_env (app sample_remote_st) \<lparr>ho_Namespace = ''web'', ho_RestConfig = None\<rparr>
   \<and> CHelmInstall \<lparr>ho_Namespace = ''web'', ho_RestConfig = None\<rparr> (setChartSpec (app sample_remote_st)) \<in>
       set (hist (snd (run_turns chart_env ((replicate 7 0 @ [1, 1]) @ [1] @ replicate 3 0) (chart_threads, sample_helm_st))))"
proof -
  let ?o = "\<lparr>ho_Namespace = ''web'', ho_RestConfig = None :: string option\<rparr>"
  obtain ts s where a: "run_turns chart_env (replicate 7 0 @ [1, 1]) (chart_threads, sample_helm_st) = (ts, s)"
    by fastforce
  obtain ts1 s1 where b: "run_turns chart_env [1] (ts, s) = (ts1, s1)" by fastforce
  obtain ts2 s2 where d: "run_turns chart_env (replicate 3 0) (ts1, s1) = (ts2, s2)" by fastforce
  note race = chart_race[unfolded a prod.case b d snd_conv]
  obtain chart where pc: "th_pc (ts ! 1) = Ok (PcHelm (HpClient chart))"
    using race by (auto split: res.splits sync_pc.splits helm_pc.splits)
  obtain pc1 where pc1: "th_pc (ts1 ! 1) = Ok pc1" using race by (auto split: res.splits)
  have inst: "\<forall>j < length ts1. j \<noteq> 1 \<longrightarrow> installing (ts1 ! j)"
    using race by (simp add: less_2_cases_iff)
  have len: "1 < length ts" and th: "th_app (ts ! 1) = set_sync SyncStatusCodeUnknown (app sample_helm_st)"
    using race by simp_all
  obtain c where "c \<in> set (new_calls s1 s2)"
      and "case c of CHelmInstall o' ch \<Rightarrow> o' = ?o \<and> ch = setChartSpec (app sample_remote_st) | _ \<Rightarrow> False"
    using race unfolding list_ex_iff by blast
  then have call: "CHelmInstall ?o (setChartSpec (app sample_remote_st)) \<in> set (new_calls s1 s2)"
    by (cases c rule: call.exhaust) auto
  have "helm_dest chart_env (th_app (ts ! 1)) ?o"
    by (rule last_helm_client_wins[OF len refl pc b pc1 inst d call])
  moreover have "CHelmInstall ?o (setChartSpec (app sample_remote_st)) \<in> set (hist s2)"
    using call by (auto simp: new_calls_def dest: in_set_takeD)
  ultimately show ?thesis
    unfolding th run_turns_append[of chart_env "replicate 7 0 @ [1, 1]"] run_turns_append[of chart_env "[1]"] a b d
    by (simp add: helm_dest_def set_sync_def sample_remote_st_def sample_helm_st_def split: if_splits)
qed

end
