(* ===== verification/Clearing.thy ===== *)
theory Clearing
  imports HelmRace HelmSpec
begin

text \<open>
  What \<open>Clear\<close> of either manager leaves of a deleted Application: the records the
  API server lists are deleted, the plain manager deletes the objects they stand
  for on the Application's destination, and the Helm manager uninstalls the release
  where it was installed.
\<close>

section \<open>Moments of a run\<close>

lemma grows_suffix: "grows s t \<longleftrightarrow> suffix (hist s) (hist t)"
  by (auto simp: grows_def suffix_def)

text \<open>The records that the API server listed for the Application during a run.\<close>

definition listed :: "env \<Rightarrow> st \<Rightarrow> st \<Rightarrow> deploy_resource list \<Rightarrow> bool" where
  "listed env s s' ds \<longleftrightarrow>
     (\<exists>h. suffix (hist s) h \<and> suffix (CListDR (app_label (app s)) # h) (hist s')
        \<and> e_list_dr env h (app_label (app s)) = Ok ds)"

text \<open>The object of a record was looked up during the run and, when it was there, deleted.\<close>

definition object_gone :: "env \<Rightarrow> st \<Rightarrow> st \<Rightarrow> kcli \<Rightarrow> deploy_resource \<Rightarrow> bool" where
  "object_gone env s s' k d \<longleftrightarrow>
     (\<exists>h. suffix (hist s) h \<and>
        (case e_get_obj env h k (dr_object d) of
           Ok v \<Rightarrow> e_delete_obj env (CGetObj k (dr_object d) # h) k v = Ok ()
             \<and> suffix (CDeleteObj k v # CGetObj k (dr_object d) # h) (hist s')
         | Err e \<Rightarrow> is_not_found e \<and> suffix (CGetObj k (dr_object d) # h) (hist s')
         | _ \<Rightarrow> False))"

text \<open>The release was uninstalled with a client for the Application's destination.\<close>

definition uninstalled :: "env \<Rightarrow> st \<Rightarrow> st \<Rightarrow> bool" where
  "uninstalled env s s' \<longleftrightarrow>
     (\<exists>o' h. helm_dest env (app s) o' \<and> suffix (hist s) h
        \<and> suffix (CHelmUninstall o' (ch_ReleaseName (setChartSpec (app s))) # h) (hist s')
        \<and> e_helm_uninstall env h o' (ch_ReleaseName (setChartSpec (app s))) = Ok ())"

lemma listed_extend:
  "grows r s \<Longrightarrow> grows t u \<Longrightarrow> app s = app r \<Longrightarrow> listed env s t ds \<Longrightarrow> listed env r u ds"
  unfolding listed_def grows_suffix by (metis suffix_order.trans)

lemma uninstalled_extend:
  "grows r s \<Longrightarrow> grows t u \<Longrightarrow> app s = app r \<Longrightarrow> uninstalled env s t \<Longrightarrow> uninstalled env r u"
  unfolding uninstalled_def grows_suffix by (metis suffix_order.trans)

lemma object_gone_extend:
  assumes "grows r s" and "grows t u" and "object_gone env s t k d"
  shows "object_gone env r u k d"
proof -
  obtain h where h: "suffix (hist s) h" and c: "case e_get_obj env h k (dr_object d) of
       Ok v \<Rightarrow> e_delete_obj env (CGetObj k (dr_object d) # h) k v = Ok ()
         \<and> suffix (CDeleteObj k v # CGetObj k (dr_object d) # h) (hist t)
     | Err e \<Rightarrow> is_not_found e \<and> suffix (CGetObj k (dr_object d) # h) (hist t)
     | _ \<Rightarrow> False"
    using assms(3) unfolding object_gone_def by blast
  from h assms(1) have "suffix (hist r) h" unfolding grows_suffix by (rule suffix_order.trans[rotated])
  moreover have "suffix x (hist u)" if "suffix x (hist t)" for x
    using that assms(2) unfolding grows_suffix by (rule suffix_order.trans)
  ultimately show ?thesis
    using c unfolding object_gone_def by (intro exI[of _ h]) (auto split: res.splits)
qed

section \<open>The plain manager\<close>

lemma clear_gone:
  assumes "clearApplicationResources env d s = (Ok (), s')" and "plainManager s = Some m"
  shows "plainManager s' = Some m" and "object_gone env s s' (pm_TargetCli m) d"
proof -
  let ?k = "pm_TargetCli m" and ?h = "CDeleteDR d # hist s"
  have run: "delete_resource env ?k d s = (Ok (), s')"
    using assms by (simp add: clearApplicationResources_def plain_mgr_def bnd_def)
  consider (gone) e where "e_get_obj env ?h ?k (dr_object d) = Err e" "is_not_found e"
        "s' = s\<lparr>hist := CGetObj ?k (dr_object d) # ?h\<rparr>"
    | (found) v where "e_get_obj env ?h ?k (dr_object d) = Ok v"
        "e_delete_obj env (CGetObj ?k (dr_object d) # ?h) ?k v = Ok ()"
        "s' = s\<lparr>hist := CDeleteObj ?k v # CGetObj ?k (dr_object d) # ?h\<rparr>"
    using run by (auto simp: delete_resource_def bnd_def attempt_def prog_simps split: res.splits if_splits)
  then have "plainManager s' = Some m \<and> object_gone env s s' ?k d"
  proof cases
    case gone
    then show ?thesis
      using assms(2) unfolding object_gone_def by (intro conjI exI[of _ ?h]) (simp_all add: suffix_Cons)
  next
    case found
    then show ?thesis
      using assms(2) unfolding object_gone_def by (intro conjI exI[of _ ?h]) (simp_all add: suffix_Cons)
  qed
  then show "plainManager s' = Some m" and "object_gone env s s' ?k d" by simp_all
qed

lemma clear_all_gone:
  assumes "for_each ds (clearApplicationResources env) s = (Ok (), s')" and "plainManager s = Some m"
  shows "grows s s'" and "deleted_records s s' = map CDeleteDR ds"
    and "\<forall>d \<in> set ds. object_gone env s s' (pm_TargetCli m) d"
proof -
  let ?I = "\<lambda>ys t. grows s t \<and> deleted_records s t = map CDeleteDR ys \<and> plainManager t = Some m
    \<and> (\<forall>d \<in> set ys. object_gone env s t (pm_TargetCli m) d)"
  have "?I ds s'"
  proof (rule for_each_invariant[OF assms(1), of ?I], goal_cases)
    case 1
    show ?case using assms(2) by (simp add: grows_refl deleted_records_def)
  next
    case (2 ys x t t')
    then have g: "grows s t" and m: "plainManager t = Some m" by simp_all
    note r = clearApplicationResources_run[OF 2(3)] and q = clear_gone[OF 2(3) m]
    have "object_gone env s t' (pm_TargetCli m) d" if "d \<in> set ys" for d
      using object_gone_extend[OF grows_refl r(1)] 2(1) that by blast
    moreover have "object_gone env s t' (pm_TargetCli m) x" by (rule object_gone_extend[OF g grows_refl q(2)])
    ultimately show ?case
      using 2(1) q(1) r(3) deleted_trans[OF g r(1)] new_calls_trans(1)[OF g r(1)] by auto
  qed
  then show "grows s s'" and "deleted_records s s' = map CDeleteDR ds"
    and "\<forall>d \<in> set ds. object_gone env s s' (pm_TargetCli m) d" by simp_all
qed

lemma getDeployResourceList_listed:
  assumes "getDeployResourceList env a s = (Ok ds, s')" and "a = app s"
  shows "grows s s'" and "listed env s s' ds" and "app s' = app s" and "plainManager s' = plainManager s"
    and "deleted_records s s' = []"
  using assms
  by (auto simp: getDeployResourceList_def ext_apply listed_def grows_def deleted_records_def new_calls_def)

lemma plain_Clear_run:
  assumes "plain_Clear env s = (Ok (), s')"
  shows "grows s s' \<and> (\<exists>ds. listed env s s' ds \<and> deleted_records s s' = map CDeleteDR ds
    \<and> (\<exists>k. dest_client env (app s) k \<and> (\<forall>d \<in> set ds. object_gone env s s' k d)))"
  using assms unfolding plain_Clear_def
proof (elim bnd_eq_OkE, goal_cases)
  case (1 m s0 u s1 a s1' ds s2)
  have eq: "s0 = s" "s1' = s1" "a = app s1" and m: "plainManager s = Some m"
    using 1(1,3) by (auto simp: plain_mgr_def prog_simps split: option.splits)
  have t: "plain_setTargetClient env s = (Ok (), s1)" using 1(2) eq by simp
  obtain m1 where m1: "plainManager s1 = Some m1" using plain_setTargetClient_mgr[OF t] m by auto
  have k: "dest_client env (app s) (pm_TargetCli m1)" using plain_setTargetClient_Ok(2)[OF t] m1 by simp
  note a1 = plain_setTargetClient_Ok(1)[OF t] and q1 = quiet_records[OF made.keepsD[OF plain_setTargetClient_records t]]
  have "getDeployResourceList env (app s1) s1 = (Ok ds, s2)" using 1(4) eq by simp
  note l = getDeployResourceList_listed[OF this refl]
  note c = clear_all_gone[OF 1(5) trans[OF l(4) m1]]
  note g2 = new_calls_trans(1)[OF q1(1) l(1)]
  have "deleted_records s s' = map CDeleteDR ds"
    using deleted_trans[OF g2 c(1)] deleted_trans[OF q1(1) l(1)] q1(3) l(5) c(2) by simp
  moreover have "listed env s s' ds" by (rule listed_extend[OF q1(1) c(1) a1 l(2)])
  moreover have "\<forall>d \<in> set ds. object_gone env s s' (pm_TargetCli m1) d"
    using c(3) object_gone_extend[OF g2 grows_refl] by blast
  ultimately show ?case using new_calls_trans(1)[OF g2 c(1)] k by blast
qed

section \<open>The Helm manager\<close>

lemma helm_calls_quiet [simp]:
  "CHelmNew o' \<in> quiet_on_records" "CHelmUninstall o' r \<in> quiet_on_records"
  by (simp_all add: quiet_on_records_def)

lemma helm_setTargetClient_records: "made.keeps quiet_on_records (helm_setTargetClient env)"
  unfolding helm_setTargetClient_def GetApplicationClusterConfig_def getDestClusterSecret_def Let_def
  by (auto intro!: made_intros set_helm_Client_made split: sum.splits)

lemma uninstallRelease_run:
  assumes "uninstallRelease env s = (Ok (), s')" and "helm_in (helm_dest env (app s)) s"
  shows "uninstalled env s s'" and "app s' = app s" and "grows s s'" and "deleted_records s s' = []"
proof -
  let ?r = "ch_ReleaseName (setChartSpec (app s))"
  obtain m where m: "helmManager s = Some m" and ok: "e_helm_uninstall env (hist s) (hm_Client m) ?r = Ok ()"
    and s': "s' = s\<lparr>hist := CHelmUninstall (hm_Client m) ?r # hist s\<rparr>"
    using assms(1)
    by (auto simp: uninstallRelease_def UninstallReleaseByName_def helm_mgr_def setChartSpec_def bnd_def
        attempt_def prog_simps split: option.splits res.splits)
  have "helm_dest env (app s) (hm_Client m)" using assms(2) m by (simp add: helm_in_def)
  with ok show "uninstalled env s s'"
    unfolding uninstalled_def s' by (intro exI[of _ "hm_Client m"] exI[of _ "hist s"]) simp
  show "app s' = app s" "grows s s'" "deleted_records s s' = []"
    by (simp_all add: s' grows_def deleted_records_def new_calls_def)
qed

lemma clear_records_run:
  assumes "for_each ds (clearDeployResource env) s = (Ok (), s')"
  shows "grows s s'" and "deleted_records s s' = map CDeleteDR ds"
proof -
  let ?I = "\<lambda>ys t. grows s t \<and> deleted_records s t = map CDeleteDR ys"
  have "?I ds s'"
  proof (rule for_each_invariant[OF assms, of ?I], goal_cases)
    case 1
    show ?case by (simp add: grows_refl deleted_records_def)
  next
    case (2 ys x t t')
    then have g: "grows s t" by simp
    have r: "grows t t'" "deleted_records t t' = [CDeleteDR x]"
      using 2(3) by (auto simp: clearDeployResource_def ext_apply grows_def deleted_records_def new_calls_def)
    show ?case using 2(1) r(2) deleted_trans[OF g r(1)] new_calls_trans(1)[OF g r(1)] by simp
  qed
  then show "grows s s'" and "deleted_records s s' = map CDeleteDR ds" by simp_all
qed

lemma helm_Clear_run:
  assumes "helm_Clear env s = (Ok (), s')"
  shows "grows s s' \<and> uninstalled env s s' \<and> (\<exists>ds. listed env s s' ds \<and> deleted_records s s' = map CDeleteDR ds)"
  using assms unfolding helm_Clear_def
proof (elim bnd_eq_OkE, goal_cases)
  case (1 m s0 u1 s1 u2 s2 a s2' ds s3)
  have eq: "s0 = s" "s2' = s2" "a = app s2" using 1(1,4) by (auto simp: helm_mgr_def prog_simps split: option.splits)
  have t: "helm_setTargetClient env s = (Ok (), s1)" using 1(2) eq by simp
  have a1: "app s1 = app s" using same_app.keepsD[OF helm_setTargetClient_same_app t] by (simp add: same_app_def)
  have "helm_in (helm_dest env (app s)) s1" by (rule helm_setTargetClient_run(1)[OF t]) simp_all
  then have set1: "helm_in (helm_dest env (app s1)) s1" by (simp add: a1)
  note q1 = quiet_records[OF made.keepsD[OF helm_setTargetClient_records t]]
  have "uninstallRelease env s1 = (Ok (), s2)" using 1(3) by simp
  note u = uninstallRelease_run[OF this set1]
  have "getDeployResourceList env (app s2) s2 = (Ok ds, s3)" using 1(5) eq by simp
  note l = getDeployResourceList_listed[OF this refl] and c = clear_records_run[OF 1(6)]
  note g2 = new_calls_trans(1)[OF q1(1) u(3)]
  note g3 = new_calls_trans(1)[OF g2 l(1)] and g4 = new_calls_trans(1)[OF l(1) c(1)]
  have "deleted_records s s' = map CDeleteDR ds"
    using deleted_trans[OF g3 c(1)] deleted_trans[OF g2 l(1)] deleted_trans[OF q1(1) u(3)] q1(3) u(4) l(5) c(2) by simp
  moreover have "listed env s s' ds" by (rule listed_extend[OF g2 c(1) _ l(2)]) (simp add: u(2) a1)
  moreover have "uninstalled env s s'" by (rule uninstalled_extend[OF q1(1) g4 a1 u(1)])
  ultimately show ?case using new_calls_trans(1)[OF g3 c(1)] by blast
qed

end
