(* ===== verification/ReconcileSpec.thy ===== *)
theory ReconcileSpec
  imports Operator Clearing
begin

text \<open>
  What a reconcile promises: the status is written back last on every way out, a
  new Application is not synced before it is ready, a deleted Application is
  released only after everything it deployed is cleared, and the secret of the
  webhook is a random string of the charset.
\<close>

section \<open>The body and the patch\<close>

text \<open>\<open>Reconcile\<close> on an Application the API server has, as one deferred statement.\<close>

definition reconcile_found :: "env \<Rightarrow> application \<Rightarrow> unit act" where
  "reconcile_found env a =
     (let i = e_find_cond env (conds a) ApplicationConditionReady in
      bnd (case i of
             None \<Rightarrow> update_app (\<lambda>a. set_conds (e_set_cond env (conds a) not_ready) a)
           | Some _ \<Rightarrow> ret ()) (\<lambda>_.
      deferred (Patch_status env a) (reconcile_body env (conds a) i)))"

lemma Reconcile_found:
  assumes "e_get_app env (hist s) ns n = Ok a"
  shows "Reconcile env ns n s = reconcile_found env a (s\<lparr>hist := CGetApp ns n # hist s, app := a\<rparr>)"
  using assms by (simp add: Reconcile_def reconcile_found_def bnd_def attempt_def prog_simps Let_def)

lemma reconcile_found_deferred:
  obtains t where "reconcile_found env a s = deferred (Patch_status env a)
      (reconcile_body env (conds a) (e_find_cond env (conds a) ApplicationConditionReady)) t"
    and "made {} s t"
proof (cases "e_find_cond env (conds a) ApplicationConditionReady")
  case None
  show ?thesis
    by (rule that[of "s\<lparr>app := set_conds (e_set_cond env (conds (app s)) not_ready) (app s)\<rparr>"])
       (simp_all add: reconcile_found_def None bnd_def prog_simps made_def set_conds_def)
next
  case (Some i)
  show ?thesis by (rule that[of s]) (simp_all add: reconcile_found_def Some made_def)
qed

lemma deferred_Patch:
  assumes "deferred (Patch_status env a) m s = (r, s')" and "r \<noteq> Loops"
  shows "\<exists>b t. hist s' = CPatchStatus a b # hist t \<and> m s = (fst (m s), t) \<and> app t = b"
proof -
  obtain q t where m: "m s = (q, t)" by (cases "m s")
  have p: "hist (snd (Patch_status env a t)) = CPatchStatus a (app t) # hist t" for t
    by (auto simp: Patch_status_def bnd_def attempt_def prog_simps split: res.splits)
  obtain r' t' where d: "Patch_status env a t = (r', t')" by fastforce
  have "s' = t'" using assms m d by (auto simp: deferred_def split: res.splits)
  with p[of t] d m show ?thesis by (intro exI[of _ "app t"] exI[of _ t]) simp
qed

section \<open>Before an Application is ready\<close>

lemma with_repo_made: "made.keeps A (with_repo n body)"
  by (rule made.keepsI) (auto simp: with_repo_def made_def split: option.splits prod.splits)

lemma http_ops_not_deploys:
  "made.keeps (- deploys) (cli_ListWebhook env g)" "made.keeps (- deploys) (cli_RegisterWebhook env g u)"
  "made.keeps (- deploys) (cli_DeleteWebhook env g i)"
proof -
  have r: "made.keeps (- deploys) (RequestHTTP env m u hs d)" for m u hs d
    by (rule made_weaken[OF http_not_deploys RequestHTTP_made])
  have p: "made.keeps (- deploys) (GetPaginatedRequest env u hs d)" for u hs and d :: "string \<Rightarrow> webhook_entry list res"
    by (rule made_weaken[OF http_not_deploys GetPaginatedRequest_made])
  show "made.keeps (- deploys) (cli_ListWebhook env g)"
    by (cases g) (auto simp: gh_ListWebhook_def gl_ListWebhook_def fk_ListWebhook_def
        intro!: p with_repo_made made_intros)
  show "made.keeps (- deploys) (cli_RegisterWebhook env g u)"
    by (cases g) (auto simp: gh_RegisterWebhook_def gl_RegisterWebhook_def fk_RegisterWebhook_def
        gh_request_def gl_request_def Let_def intro!: r with_repo_made made_intros)
  show "made.keeps (- deploys) (cli_DeleteWebhook env g i)"
    by (cases g) (auto simp: gh_DeleteWebhook_def gl_DeleteWebhook_def fk_DeleteWebhook_def
        gh_request_def gl_request_def intro!: r with_repo_made made_intros)
qed

lemma service_calls_not_deploys [simp]:
  "CGetApp ns n \<notin> deploys" "CUpdateApp a \<notin> deploys" "CPatchStatus a b \<notin> deploys" "CGetNamespace ns \<notin> deploys"
  "CCreateNamespace ns \<notin> deploys" "CRemoveAll p \<notin> deploys" "CRandom k \<notin> deploys"
  by (simp_all add: deploys_def)

lemma GetGitCli_not_deploys: "made.keeps (- deploys) (GetGitCli env)"
  by (rule GetGitCli_made) simp

lemma put_cond_made: "made.keeps A (put_cond env i c)"
  unfolding put_cond_def by (rule made_update_app)

lemma setWebhookRegisteredCond_not_deploys: "made.keeps (- deploys) (setWebhookRegisteredCond env)"
  unfolding setWebhookRegisteredCond_def register_webhook_def Let_def
  by (auto intro!: made_intros GetGitCli_not_deploys http_ops_not_deploys put_cond_made split: sum.splits)

lemma setReadyCond_made: "made.keeps A (setReadyCond env)"
  unfolding setReadyCond_def by (auto intro!: made_intros split: option.splits)

lemma RandomString_not_deploys: "made.keeps (- deploys) (RandomString env n)"
  by (induction n) (auto intro!: made_intros simp: random_char_def)

lemma setDefaultValues_not_deploys: "made.keeps (- deploys) (setDefaultValues env)"
  unfolding setDefaultValues_def checkAppDestNamespace_def setSecretString_def Let_def
  by (auto intro!: made_intros RandomString_not_deploys split: sum.splits)

lemma deleteSyncFlag_made: "made.keeps A deleteSyncFlag"
  by (rule made.keepsI) (auto simp: deleteSyncFlag_def get_tables_def update_tables_def send_stop_def
      bnd_def prog_simps made_def Let_def split: option.splits if_splits)

lemma finalizeApp_not_deploys: "made.keeps (- deploys) (finalizeApp env)"
  unfolding finalizeApp_def clearDeployedResources_def clearWebhook_def clearGitRepo_def
  by (auto intro!: made_intros deleteSyncFlag_made plain_Clear_made helm.Clear_deploys GetGitCli_not_deploys
        http_ops_not_deploys split: option.splits)

lemma handleFinalizer_not_deploys: "made.keeps (- deploys) (handleFinalizer env)"
  unfolding handleFinalizer_def set_finalizers_def Update_app_def
  by (auto intro!: made_intros finalizeApp_not_deploys)

lemma reconcile_body_not_deploys: "made.keeps (- deploys) (reconcile_body env before None)"
  unfolding reconcile_body_def
  by (auto simp: cond_status_def ConditionFalse_def ConditionTrue_def
      intro!: made_intros setWebhookRegisteredCond_not_deploys setReadyCond_made setDefaultValues_not_deploys
        handleFinalizer_not_deploys)

section \<open>Clearing a deleted Application\<close>

lemma deleteSyncFlag_run:
  assumes "deleteSyncFlag s = (Ok (), s')"
  shows "hist s' = hist s" and "app s' = app s" and "plainManager s' = plainManager s"
    and "syncStopFlags (tables s') (appKeyName (app s)) = None"
  using assms
  by (auto simp: deleteSyncFlag_def get_tables_def update_tables_def send_stop_def bnd_def prog_simps Let_def
      split: option.splits if_splits)

lemma CRemoveAll_records [simp]: "CRemoveAll p \<in> quiet_on_records"
  by (simp add: quiet_on_records_def)

lemma clearWebhook_records: "made.keeps quiet_on_records (clearWebhook env)"
proof -
  have r: "made.keeps quiet_on_records (RequestHTTP env m u hs d)" for m u hs d
    by (rule made_weaken[OF http_quiet_records RequestHTTP_made])
  have p: "made.keeps quiet_on_records (GetPaginatedRequest env u hs d)" for u hs and d :: "string \<Rightarrow> webhook_entry list res"
    by (rule made_weaken[OF http_quiet_records GetPaginatedRequest_made])
  have "made.keeps quiet_on_records (cli_ListWebhook env g)" for g
    by (cases g) (auto simp: gh_ListWebhook_def gl_ListWebhook_def fk_ListWebhook_def
        intro!: p with_repo_made made_intros)
  moreover have "made.keeps quiet_on_records (cli_DeleteWebhook env g i)" for g i
    by (cases g) (auto simp: gh_DeleteWebhook_def gl_DeleteWebhook_def fk_DeleteWebhook_def
        gh_request_def gl_request_def intro!: r with_repo_made made_intros)
  moreover have "made.keeps quiet_on_records (GetGitCli env)" by (rule GetGitCli_made) simp
  ultimately show ?thesis
    unfolding clearWebhook_def by (auto intro!: made_intros split: option.splits)
qed

lemma RandomString_run:
  assumes "RandomString env n s = (Ok str, s')"
  shows "length str = n" and "set str \<subseteq> set random_charset"
    and "hist s' = replicate n (CRandom 36) @ hist s" and "app s' = app s"
proof -
  have "length str = n \<and> set str \<subseteq> set random_charset \<and> hist s' = replicate n (CRandom 36) @ hist s \<and> app s' = app s"
    using assms
  proof (induction n arbitrary: s str)
    case 0
    then show ?case by (simp add: ret_def)
  next
    case (Suc n)
    then obtain c s1 rest where c: "random_char env s = (Ok c, s1)" and r: "RandomString env n s1 = (Ok rest, s')"
      and str: "str = c # rest"
      by (auto simp: prog_simps elim!: bnd_eq_OkE)
    have len: "length random_charset = 36" by (simp add: random_charset_def)
    have "c \<in> set random_charset" "hist s1 = CRandom 36 # hist s" "app s1 = app s"
      using c by (auto simp: random_char_def ext_apply Let_def len split: if_splits)
    with Suc.IH[OF r] show ?case by (simp add: str replicate_app_Cons_same)
  qed
  then show "length str = n" and "set str \<subseteq> set random_charset"
    and "hist s' = replicate n (CRandom 36) @ hist s" and "app s' = app s" by simp_all
qed

section \<open>Properties\<close>

text \<open>
  C16: When the API server knows the Application, a reconcile ends with one status
  patch of it, from the object it read to the object as it then is: this is its
  last call whether the body returns, fails or panics.
\<close>

theorem Reconcile_patches_last:
  assumes "e_get_app env (hist s) ns n = Ok a" and "Reconcile env ns n s = (r, s')" and "r \<noteq> Loops"
  shows "\<exists>b h. hist s' = CPatchStatus a b # h"
proof -
  obtain t where "reconcile_found env a (s\<lparr>hist := CGetApp ns n # hist s, app := a\<rparr>) = deferred (Patch_status env a)
      (reconcile_body env (conds a) (e_find_cond env (conds a) ApplicationConditionReady)) t"
    by (rule reconcile_found_deferred)
  then show ?thesis using deferred_Patch assms Reconcile_found[OF assms(1)] by metis
qed

theorem Reconcile_patches_last_witness:
  "\<exists>a b h. hist (snd (Reconcile sample_ready_env ''demo'' ''guestbook'' sample_managed)) = CPatchStatus a b # h"
  by (intro exI[of _ "sample_ready\<lparr>app_Name := ''guestbook'', app_Namespace := ''demo''\<rparr>"]
        Reconcile_patches_last[OF _ surjective_pairing])
     (simp_all add: sample_ready_env_def sample_run[unfolded sample_ready_env_def])

text \<open>
  C17: An Application without a ready condition, as the user creates it, is not
  deployed by its reconcile, whatever its sync policy says: nothing is created,
  updated or installed on any cluster.
\<close>

theorem Reconcile_first_deploys_nothing:
  assumes "e_get_app env (hist s) ns n = Ok a" and "e_find_cond env (conds a) ApplicationConditionReady = None"
    and "Reconcile env ns n s = (r, s')"
  shows "set (new_calls s s') \<inter> deploys = {}"
proof -
  have "made.keeps (- deploys) (Patch_status env a)"
    unfolding Patch_status_def by (auto intro!: made_intros split: sum.splits)
  then have "made.keeps (- deploys) (reconcile_found env a)"
    unfolding reconcile_found_def Let_def assms(2)
    by (auto intro!: made_intros reconcile_body_not_deploys)
  from made.keepsD[OF this] have "made (- deploys) (s\<lparr>hist := CGetApp ns n # hist s, app := a\<rparr>) s'"
    using Reconcile_found[OF assms(1)] assms(3) by metis
  moreover have "made (- deploys) s (s\<lparr>hist := CGetApp ns n # hist s, app := a\<rparr>)" by (simp add: made_def)
  ultimately have "made (- deploys) s s'" using made.step_trans by blast
  from new_calls_made[OF this] show ?thesis by blast
qed

theorem Reconcile_first_deploys_nothing_witness:
  "set (new_calls sample_st (snd (Reconcile sample_env ''demo'' ''guestbook'' sample_st))) \<inter> deploys = {}"
  by (rule Reconcile_first_deploys_nothing[OF _ _ surjective_pairing,
        where a = "sample_user_app\<lparr>app_Name := ''guestbook'', app_Namespace := ''demo''\<rparr>"])
     (simp_all add: sample_env_def sample_user_app_def conds_def)

text \<open>The clean-up after the deployed resources: the webhook and the clone of a chart.\<close>

definition cleanup :: "env \<Rightarrow> unit act" where
  "cleanup env = bnd (clearWebhook env) (\<lambda>_. bnd get_app (\<lambda>a.
     if src_Type (app_source a) = ApplicationSourceTypeHelm then clearGitRepo env else ret ()))"

lemma cleanup_run:
  assumes "cleanup env s = (Ok (), s')"
  shows "grows s s'" and "deleted_records s s' = []" and "tables s' = tables s"
    and "src_Type (app_source (app s)) = ApplicationSourceTypeHelm \<Longrightarrow>
      CRemoveAll (repo_path (app s)) \<in> set (new_calls s s')"
proof -
  have "made.keeps quiet_on_records (cleanup env)"
    unfolding cleanup_def clearGitRepo_def by (auto intro!: made_intros clearWebhook_records)
  note q = quiet_records[OF made.keepsD[OF this assms]]
  show "grows s s'" "deleted_records s s' = []" by (rule q)+
  have "same_key.keeps (cleanup env)"
    unfolding cleanup_def clearGitRepo_def by (auto intro!: same_key_intros clearWebhook_same_key)
  from same_key.keepsD[OF this assms] show "tables s' = tables s" by (simp add: same_key_def)
  assume helm: "src_Type (app_source (app s)) = ApplicationSourceTypeHelm"
  obtain s1 where w: "clearWebhook env s = (Ok (), s1)" and c: "bnd get_app (\<lambda>a.
     if src_Type (app_source a) = ApplicationSourceTypeHelm then clearGitRepo env else ret ()) s1 = (Ok (), s')"
    by (rule bnd_eq_OkE[OF assms[unfolded cleanup_def]]) simp
  have "same_app.keeps (clearWebhook env)"
    unfolding clearWebhook_def by (auto intro!: same_app_intros webhook_ops_same_app split: option.splits)
  from same_app.keepsD[OF this w] have a: "app s1 = app s" by (simp add: same_app_def)
  note g = quiet_records(1)[OF made.keepsD[OF clearWebhook_records w]]
  have "hist s' = CRemoveAll (repo_path (app s)) # hist s1"
    using c helm by (auto simp: a clearGitRepo_def bnd_def prog_simps)
  then have "grows s1 s'" "CRemoveAll (repo_path (app s)) \<in> set (new_calls s1 s')"
    by (simp_all add: grows_def new_calls_def)
  then show "CRemoveAll (repo_path (app s)) \<in> set (new_calls s s')" by (simp add: new_calls_trans(2)[OF g])
qed

text \<open>
  What became of a deleted Application: the listed records are deleted, the objects
  of an Application of plain manifests are gone from its destination, the release
  of a chart is uninstalled there and its clone removed, and its routine is not
  registered any more.
\<close>

definition cleared :: "env \<Rightarrow> st \<Rightarrow> st \<Rightarrow> bool" where
  "cleared env s s' \<longleftrightarrow>
     (\<exists>ds. listed env s s' ds \<and> filter is_delete_dr (new_calls s s') = map CDeleteDR ds
        \<and> (src_Type (app_source (app s)) = ApplicationSourceTypePlainYAML
             \<and> (\<exists>k. dest_client env (app s) k \<and> (\<forall>d \<in> set ds. object_gone env s s' k d))
           \<or> src_Type (app_source (app s)) = ApplicationSourceTypeHelm
             \<and> uninstalled env s s' \<and> CRemoveAll (repo_path (app s)) \<in> set (new_calls s s')))
     \<and> syncStopFlags (tables s') (appKeyName (app s)) = None"

lemma clearDeployedResources_cleared:
  assumes "clearDeployedResources env s = (Ok (), t)"
  shows "grows s t \<and> (\<exists>ds. listed env s t ds \<and> deleted_records s t = map CDeleteDR ds
        \<and> (src_Type (app_source (app s)) = ApplicationSourceTypePlainYAML
             \<and> (\<exists>k. dest_client env (app s) k \<and> (\<forall>d \<in> set ds. object_gone env s t k d))
           \<or> src_Type (app_source (app s)) = ApplicationSourceTypeHelm \<and> uninstalled env s t))"
    and "only_sync s t"
proof -
  consider (plain) "src_Type (app_source (app s)) = ApplicationSourceTypePlainYAML" "plain_Clear env s = (Ok (), t)"
    | (helm) "src_Type (app_source (app s)) = ApplicationSourceTypeHelm" "helm_Clear env s = (Ok (), t)"
    using assms by (auto simp: clearDeployedResources_def bnd_def prog_simps split: if_splits)
  then have "(grows s t \<and> (\<exists>ds. listed env s t ds \<and> deleted_records s t = map CDeleteDR ds
        \<and> (src_Type (app_source (app s)) = ApplicationSourceTypePlainYAML
             \<and> (\<exists>k. dest_client env (app s) k \<and> (\<forall>d \<in> set ds. object_gone env s t k d))
           \<or> src_Type (app_source (app s)) = ApplicationSourceTypeHelm \<and> uninstalled env s t)))
      \<and> only_sync s t"
  proof cases
    case plain
    show ?thesis
      using plain(1) plain_Clear_run[OF plain(2)] only_sync.keepsD[OF plain_Clear_only_sync plain(2)] by blast
  next
    case helm
    show ?thesis
      using helm(1) helm_Clear_run[OF helm(2)] only_sync.keepsD[OF helm_Clear_only_sync helm(2)] by blast
  qed
  then show "grows s t \<and> (\<exists>ds. listed env s t ds \<and> deleted_records s t = map CDeleteDR ds
        \<and> (src_Type (app_source (app s)) = ApplicationSourceTypePlainYAML
             \<and> (\<exists>k. dest_client env (app s) k \<and> (\<forall>d \<in> set ds. object_gone env s t k d))
           \<or> src_Type (app_source (app s)) = ApplicationSourceTypeHelm \<and> uninstalled env s t))"
    and "only_sync s t" by simp_all
qed

lemma finalizeApp_cleared:
  assumes "finalizeApp env s = (Ok (), s')"
  shows "grows s s' \<and> cleared env s s'"
proof -
  obtain s1 where d: "deleteSyncFlag s = (Ok (), s1)"
    and f1: "bnd (clearDeployedResources env) (\<lambda>_. cleanup env) s1 = (Ok (), s')"
    by (rule bnd_eq_OkE[OF assms[unfolded finalizeApp_def]]) (simp add: cleanup_def)
  obtain s2 where c: "clearDeployedResources env s1 = (Ok (), s2)" and f2: "cleanup env s2 = (Ok (), s')"
    by (rule bnd_eq_OkE[OF f1]) simp
  note dr = deleteSyncFlag_run[OF d] and cl = clearDeployedResources_cleared[OF c] and cu = cleanup_run[OF f2]
  have g0: "grows s s1" "deleted_records s s1 = []" by (simp_all add: grows_def deleted_records_def new_calls_def dr(1))
  have g1: "grows s1 s2" using cl(1) by blast
  note g02 = new_calls_trans(1)[OF g0(1) g1] and g = new_calls_trans(1)[OF new_calls_trans(1)[OF g0(1) g1] cu(1)]
  obtain x where "app s2 = set_sync x (app s)" and t2: "tables s2 = tables s1"
    using cl(2) dr(2) by (auto simp: only_sync_def)
  then have a2: "src_Type (app_source (app s2)) = src_Type (app_source (app s))" "repo_path (app s2) = repo_path (app s)"
    by (simp_all add: set_sync_def repo_path_def)
  have del: "filter is_delete_dr (new_calls s s') = map CDeleteDR ds" if "deleted_records s1 s2 = map CDeleteDR ds" for ds
    using that deleted_trans[OF g02 cu(1)] deleted_trans[OF g0(1) g1] g0(2) cu(2) by (simp add: deleted_records_def)
  have rm: "CRemoveAll (repo_path (app s)) \<in> set (new_calls s s')"
    if "src_Type (app_source (app s)) = ApplicationSourceTypeHelm"
    using cu(4) that a2 by (simp add: new_calls_trans(2)[OF g02 cu(1)])
  note ext = listed_extend[OF g0(1) cu(1) dr(2)] uninstalled_extend[OF g0(1) cu(1) dr(2)]
    object_gone_extend[OF g0(1) cu(1)]
  have "syncStopFlags (tables s') (appKeyName (app s)) = None" using dr(4) cu(3) t2 by simp
  with cl(1) ext del rm g show ?thesis unfolding cleared_def dr(2) by blast
qed

text \<open>The release: the update of the object without the finalizer.\<close>

lemma release_run:
  assumes "finalizer_laws env"
    and "bnd (set_finalizers (\<lambda>fs. e_remove_finalizer env fs finalizer)) (\<lambda>_. Update_app env) s = (Ok (), s')"
  shows "\<exists>b. finalizer \<notin> set (app_Finalizers b) \<and> hist s' = CUpdateApp b # hist s \<and> tables s' = tables s"
proof -
  let ?b = "(app s)\<lparr>app_Finalizers := e_remove_finalizer env (app_Finalizers (app s)) finalizer\<rparr>"
  have "hist s' = CUpdateApp ?b # hist s" "tables s' = tables s"
    using assms(2) by (auto simp: set_finalizers_def Update_app_def bnd_def prog_simps split: res.splits)
  moreover have "finalizer \<notin> set (app_Finalizers ?b)" using assms(1) by (simp add: finalizer_laws_def)
  ultimately show ?thesis by blast
qed

text \<open>
  C15: When the handler of a deleted Application succeeds, the object it writes last
  lacks the operator's finalizer. If the Application still had the finalizer, all
  of it was cleared before that write: every record the API server listed for it
  was deleted, once each and in order; the objects of plain manifests were looked
  up on its destination and deleted there; a chart was uninstalled from its
  destination and its clone removed; and its periodic routine was unregistered. If
  it no longer had the finalizer, that write is all that the handler does.
\<close>

theorem deletion_clears_records:
  assumes "finalizer_laws env" and "app_DeletionTimestamp (app s) \<noteq> None"
    and "handleFinalizer env s = (Ok (), s')"
  shows "\<exists>b t. finalizer \<notin> set (app_Finalizers b) \<and> hist s' = CUpdateApp b # hist t \<and> tables s' = tables t
    \<and> (if finalizer \<in> set (app_Finalizers (app s)) then cleared env s t else hist t = hist s \<and> tables t = tables s)"
proof -
  have c: "e_contains_finalizer env (app_Finalizers (app s)) finalizer \<longleftrightarrow> finalizer \<in> set (app_Finalizers (app s))"
    using assms(1) by (simp add: finalizer_laws_def)
  have "bnd (if finalizer \<in> set (app_Finalizers (app s)) then finalizeApp env else ret ())
      (\<lambda>_. bnd (set_finalizers (\<lambda>fs. e_remove_finalizer env fs finalizer)) (\<lambda>_. Update_app env)) s = (Ok (), s')"
    using assms(2,3) by (simp add: handleFinalizer_def prog_simps c)
  then obtain t where f: "(if finalizer \<in> set (app_Finalizers (app s)) then finalizeApp env else ret ()) s = (Ok (), t)"
    and u: "bnd (set_finalizers (\<lambda>fs. e_remove_finalizer env fs finalizer)) (\<lambda>_. Update_app env) t = (Ok (), s')"
    by (rule bnd_eq_OkE) simp
  have "if finalizer \<in> set (app_Finalizers (app s)) then cleared env s t else hist t = hist s \<and> tables t = tables s"
    using f finalizeApp_cleared by (auto simp: ret_def)
  with release_run[OF assms(1) u] show ?thesis by blast
qed

definition sample_doomed_st :: st where
  "sample_doomed_st = sample_git_st\<lparr>app := sample_user_app
     \<lparr>app_DeletionTimestamp := Some ''now'', app_Finalizers := [finalizer, ''other'']\<rparr>\<rparr>"

definition sample_doomed_chart_st :: st where
  "sample_doomed_chart_st = sample_helm_st\<lparr>app := (app sample_helm_st)
     \<lparr>app_DeletionTimestamp := Some ''now'', app_Finalizers := [finalizer],
      app_Spec := (app_Spec (app sample_helm_st))\<lparr>spec_Source := (app_source (app sample_helm_st))
        \<lparr>src_Helm := Some \<lparr>helm_ClonedRepoPath = [], helm_ReleaseName = []\<rparr>\<rparr>\<rparr>\<rparr>\<rparr>"

lemma sample_doomed_run:
  "fst (handleFinalizer sample_git_env sample_doomed_st) = Ok ()"
  "fst (handleFinalizer sample_git_env sample_doomed_chart_st) = Ok ()"
  by code_simp+

lemma sample_finalizer_laws: "finalizer_laws sample_git_env"
  by (simp add: finalizer_laws_def sample_git_env_def sample_env_def)

text \<open>An Application of plain manifests and one of a chart, deleted.\<close>

theorem deletion_clears_records_witness:
  "(\<exists>b t. hist (snd (handleFinalizer sample_git_env sample_doomed_st)) = CUpdateApp b # hist t
      \<and> filter is_delete_dr (new_calls sample_doomed_st t) = [CDeleteDR (sample_record ''cm''), CDeleteDR (sample_record ''old'')])
   \<and> (\<exists>b t. hist (snd (handleFinalizer sample_git_env sample_doomed_chart_st)) = CUpdateApp b # hist t
      \<and> uninstalled sample_git_env sample_doomed_chart_st t)"
proof -
  have run: "handleFinalizer sample_git_env sample_doomed_st = (Ok (), snd (handleFinalizer sample_git_env sample_doomed_st))"
    "handleFinalizer sample_git_env sample_doomed_chart_st
      = (Ok (), snd (handleFinalizer sample_git_env sample_doomed_chart_st))"
    using sample_doomed_run by (simp_all add: prod_eq_iff)
  have st: "app_DeletionTimestamp (app sample_doomed_st) \<noteq> None" "finalizer \<in> set (app_Finalizers (app sample_doomed_st))"
    "app_DeletionTimestamp (app sample_doomed_chart_st) \<noteq> None"
    "finalizer \<in> set (app_Finalizers (app sample_doomed_chart_st))"
    "src_Type (app_source (app sample_doomed_chart_st)) = ApplicationSourceTypeHelm"
    by (simp_all add: sample_doomed_st_def sample_doomed_chart_st_def sample_helm_st_def sample_user_app_def)
  from deletion_clears_records[OF sample_finalizer_laws st(1) run(1)] st(2) obtain b t where
    b: "hist (snd (handleFinalizer sample_git_env sample_doomed_st)) = CUpdateApp b # hist t"
    and c: "cleared sample_git_env sample_doomed_st t" by auto
  from c have "filter is_delete_dr (new_calls sample_doomed_st t)
      = [CDeleteDR (sample_record ''cm''), CDeleteDR (sample_record ''old'')]"
    by (auto simp: cleared_def listed_def sample_git_env_def)
  moreover from deletion_clears_records[OF sample_finalizer_laws st(3) run(2)] st(4) obtain b' t' where
    b': "hist (snd (handleFinalizer sample_git_env sample_doomed_chart_st)) = CUpdateApp b' # hist t'"
    and "cleared sample_git_env sample_doomed_chart_st t'" by auto
  then have "uninstalled sample_git_env sample_doomed_chart_st t'"
    using st(5) by (auto simp: cleared_def ApplicationSourceTypeHelm_def ApplicationSourceTypePlainYAML_def)
  ultimately show ?thesis using b b' by blast
qed

text \<open>
  C21: On an operator that has not checked any Application yet, the handler of a
  deleted Application of plain manifests with the operator's finalizer panics on
  the nil manager before it calls any service; nothing is cleared or released.
\<close>

theorem deletion_panics_on_fresh_operator:
  assumes "tables_ok (app s) (tables s)" and "plainManager s = None"
    and "e_contains_finalizer env (app_Finalizers (app s)) finalizer" and "app_DeletionTimestamp (app s) \<noteq> None"
    and "src_Type (app_source (app s)) = ApplicationSourceTypePlainYAML"
  shows "\<exists>s'. handleFinalizer env s = (Panic nil_deref, s') \<and> hist s' = hist s"
proof -
  let ?s = "s\<lparr>tables := without_key (appKeyName (app s)) (tables s)\<rparr>"
  have "deleteSyncFlag s = (Ok (), ?s)" using deleteSyncFlag_ok[OF assms(1)] .
  moreover have "clearDeployedResources env ?s = (Panic nil_deref, ?s)"
    using assms(2,5) by (simp add: clearDeployedResources_def plain_Clear_def plain_mgr_def bnd_def prog_simps)
  ultimately have "finalizeApp env s = (Panic nil_deref, ?s)"
    by (simp add: finalizeApp_def bnd_def)
  then show ?thesis using assms(3,4) by (auto simp: handleFinalizer_def bnd_def prog_simps)
qed

theorem deletion_panics_on_fresh_operator_witness:
  "\<exists>s'. handleFinalizer sample_env (sample_doomed_st\<lparr>plainManager := None\<rparr>) = (Panic nil_deref, s')"
proof -
  let ?s = "sample_doomed_st\<lparr>plainManager := None\<rparr>"
  have "tables_ok (app ?s) (tables ?s)"
    by (simp add: tables_ok_def sample_doomed_st_def sample_git_st_def sample_st_def)
  moreover have "e_contains_finalizer sample_env (app_Finalizers (app ?s)) finalizer" "app_DeletionTimestamp (app ?s) \<noteq> None"
    "src_Type (app_source (app ?s)) = ApplicationSourceTypePlainYAML"
    by (simp_all add: sample_doomed_st_def sample_user_app_def sample_env_def)
  ultimately show ?thesis
    using deletion_panics_on_fresh_operator[of ?s sample_env] by auto
qed

text \<open>
  The webhook secret is drawn once: a set secret is kept and costs nothing; an
  empty one becomes twenty characters of the charset, one draw for each, and
  nothing else of the Application changes.
\<close>

theorem setSecretString_spec:
  assumes "setSecretString env s = (Ok (), s')"
  shows "if stat_Secrets (app_Status (app s)) \<noteq> [] then s' = s
    else \<exists>str. length str = 20 \<and> set str \<subseteq> set random_charset
      \<and> app s' = (app s)\<lparr>app_Status := (app_Status (app s))\<lparr>stat_Secrets := str\<rparr>\<rparr>
      \<and> hist s' = replicate 20 (CRandom 36) @ hist s"
proof (cases "stat_Secrets (app_Status (app s)) = []")
  case True
  with assms obtain str t where r: "RandomString env 20 s = (Ok str, t)"
    and s': "s' = t\<lparr>app := (app t)\<lparr>app_Status := (app_Status (app t))\<lparr>stat_Secrets := str\<rparr>\<rparr>\<rparr>"
    by (auto simp: setSecretString_def bnd_def prog_simps split: prod.splits res.splits)
  from RandomString_run[OF r] True show ?thesis by (auto simp: s')
next
  case False
  with assms show ?thesis by (auto simp: setSecretString_def bnd_def prog_simps)
qed

lemma RandomString_ok: "(\<And>h. e_intn env h 36 < 36) \<Longrightarrow> fst (RandomString env n s) \<in> range Ok"
proof (induction n arbitrary: s)
  case 0
  show ?case by (simp add: ret_def)
next
  case (Suc n)
  have "length random_charset = 36" by (simp add: random_charset_def)
  then have "random_char env s = (Ok (random_charset ! e_intn env (hist s) 36), s\<lparr>hist := CRandom 36 # hist s\<rparr>)"
    using Suc.prems by (simp add: random_char_def ext_apply)
  moreover obtain str t where "RandomString env n (s\<lparr>hist := CRandom 36 # hist s\<rparr>) = (Ok str, t)"
    using Suc by (metis (no_types, lifting) imageE prod.collapse)
  ultimately show ?case by (simp add: bnd_def ret_def)
qed

lemma sample_secret_run: "fst (setSecretString sample_env sample_st) = Ok ()"
proof -
  have "fst (RandomString sample_env 20 sample_st) \<in> range Ok"
    by (rule RandomString_ok) (simp add: sample_env_def)
  then show ?thesis
    by (auto simp: setSecretString_def bnd_def prog_simps sample_st_def sample_user_app_def split: prod.splits)
qed

theorem setSecretString_spec_witness:
  "length (stat_Secrets (app_Status (app (snd (setSecretString sample_env sample_st))))) = 20"
proof -
  have "setSecretString sample_env sample_st = (Ok (), snd (setSecretString sample_env sample_st))"
    using sample_secret_run by (simp add: prod_eq_iff)
  from setSecretString_spec[OF this] show ?thesis
    by (auto simp: sample_st_def sample_user_app_def)
qed

end
