(* ===== verification/WebhookAuth.thy ===== *)
theory WebhookAuth
  imports Server
begin

text \<open>
  The webhook endpoint from the outside: who can make the operator act through it,
  and what an accepted event does.
\<close>

section \<open>Accepted requests\<close>

text \<open>
  A request is signed for an Application when it carries what the Git server of the
  Application's repository sends: GitHub the keyed hash of the body, GitLab the
  secret itself. The key is the secret in the Application's status.
\<close>

definition signed :: "application \<Rightarrow> header \<Rightarrow> string \<Rightarrow> bool" where
  "signed a h body \<longleftrightarrow>
     (GetGitType (app_source a) = Ok GitTypeGitHub
        \<and> Replace1 (header_Get h ''x-hub-signature'') ''sha1='' [] = HashPayload (stat_Secrets (app_Status a)) body)
     \<or> (GetGitType (app_source a) = Ok GitTypeGitLab
        \<and> header_Get h ''x-gitlab-token'' = stat_Secrets (app_Status a))"

definition admission_calls :: "call set" where
  "admission_calls = range CRandom \<union> {CGetApp ns n | ns n. True} \<union> {CGetSecret ns n | ns n. True}"

text \<open>Everything but the Application object and the log stays.\<close>

definition idle :: "st \<Rightarrow> st \<Rightarrow> bool" where
  "idle s t \<longleftrightarrow> plainManager t = plainManager s \<and> helmManager t = helmManager s \<and> cfg t = cfg s
     \<and> fake t = fake s \<and> tables t = tables s \<and> made admission_calls s t"

interpretation idle: step_rel idle
  by unfold_locales (auto simp: idle_def made.step_refl intro: made.step_trans)

lemma idle_ext: "c \<in> admission_calls \<Longrightarrow> idle.keeps (ext c f)"
  by (rule idle.keepsI) (auto simp: ext_def idle_def made_def)

lemma idle_update_app: "idle.keeps (update_app f)"
  by (rule idle.keepsI) (simp add: update_app_apply idle_def made_def)

lemma idle_get_app: "idle.keeps get_app"
  unfolding get_app_def by (rule idle.keeps_gets)

lemmas idle_intros = idle.keeps_intros idle_ext idle_update_app idle_get_app

lemma admission_simps [simp]:
  "CRandom n \<in> admission_calls" "CGetApp ns m \<in> admission_calls" "CGetSecret ns m \<in> admission_calls"
  by (auto simp: admission_calls_def)

lemma RandomString_idle: "idle.keeps (RandomString env n)"
  by (induction n) (auto intro!: idle_intros simp: random_char_def)

lemma GetToken_idle: "idle.keeps (GetToken env)"
  unfolding GetToken_def by (auto intro!: idle_intros split: option.splits)

lemma GetGitCli_idle: "idle.keeps (GetGitCli env)"
  unfolding GetGitCli_def Let_def by (auto intro!: idle_intros GetToken_idle)

lemma GetToken_app: "GetToken env s = (r, s') \<Longrightarrow> app s' = app s"
  by (auto simp: GetToken_def bnd_def prog_simps split: option.splits if_splits res.splits)

text \<open>The client of an Application checks requests with the Application's secret.\<close>

lemma GetGitCli_secret:
  assumes "GetGitCli env s = (Ok g, s')"
  shows "case g of
      GithubClient c \<Rightarrow> GetGitType (app_source (app s)) = Ok GitTypeGitHub \<and> GitWebhookSecret c = stat_Secrets (app_Status (app s))
    | GitlabClient c \<Rightarrow> GetGitType (app_source (app s)) = Ok GitTypeGitLab \<and> GitWebhookSecret c = stat_Secrets (app_Status (app s))
    | FakeClient r \<Rightarrow> True"
  using assms
  by (auto simp: GetGitCli_def bnd_def prog_simps Let_def gh_Init_def gl_Init_def
      split: res.splits prod.splits if_splits)

lemma unsigned_rejected:
  assumes "GetGitCli env s = (Ok g, s1)" and "\<not> signed (app s) h body"
  shows "(\<exists>e. cli_ParseWebhook env g h body t = (Err e, t)) \<or> cli_ParseWebhook env g h body t = (Ok None, t)"
  using GetGitCli_secret[OF assms(1)] assms(2)
  by (cases g) (auto simp: signed_def gh_ParseWebhook_rejects gl_ParseWebhook_rejects ret_def)

text \<open>The part of the handler behind the checks of the path and the body.\<close>

definition admitted :: "env \<Rightarrow> registry \<Rightarrow> string \<Rightarrow> header \<Rightarrow> string \<Rightarrow> writer act" where
  "admitted env reg reqID h body =
     bnd (attempt (GetGitCli env)) (\<lambda>r.
         case r of
           Inl e \<Rightarrow> ret (RespondError 500 (''req: '' @ reqID @ '', err: '' @ err_msg e) new_writer)
         | Inr gitCli \<Rightarrow>
         bnd (attempt (cli_ParseWebhook env gitCli h body)) (\<lambda>r.
         case r of
           Inl _ \<Rightarrow> ret (RespondError 500 (''req: '' @ reqID @ '', cannot parse webhook body'') new_writer)
         | Inr None \<Rightarrow> ret new_writer
         | Inr (Some wh) \<Rightarrow> bnd (attempt (HandleEvent reg wh)) (\<lambda>_. ret new_writer)))"

lemma unsigned_idle:
  assumes "\<not> signed (app s) h body"
  shows "idle s (snd (admitted env reg reqID h body s))"
proof -
  obtain r s1 where g: "GetGitCli env s = (r, s1)" by fastforce
  have i: "idle s s1" using idle.keepsD[OF GetGitCli_idle g] .
  show ?thesis
  proof (cases r)
    case (Ok gitCli)
    with unsigned_rejected[OF _ assms, of env gitCli s1 s1] g i show ?thesis
      by (auto simp: admitted_def bnd_def attempt_def prog_simps)
  qed (use g i in \<open>auto simp: admitted_def bnd_def attempt_def prog_simps\<close>)
qed

section \<open>Accepted events\<close>

text \<open>A parsed webhook carries a push exactly when it is a push event.\<close>

lemma gh_parsed_push:
  "gh_ParseWebhook env c h body s = (Ok (Some wh), s') \<Longrightarrow> wh_Push wh = None \<longleftrightarrow> wh_EventType wh \<noteq> EventTypePush"
  by (auto simp: gh_ParseWebhook_def gh_parsePullRequestWebhook_def gh_parsePushWebhook_def
      gh_parseIssueCommentWebhook_def gh_parsePullRequestReviewWebhook_def
      gh_parsePullRequestReviewCommentWebhook_def Let_def prog_simps empty_webhook_def
      EventTypePush_def EventTypePullRequest_def EventTypeIssueComment_def EventTypePullRequestReview_def
      EventTypePullRequestReviewComment_def
      elim!: bnd_eq_OkE split: if_splits prod.splits)

lemma gl_parsed_push:
  "gl_ParseWebhook env c h body s = (Ok (Some wh), s') \<Longrightarrow> wh_Push wh = None \<longleftrightarrow> wh_EventType wh \<noteq> EventTypePush"
  by (auto simp: gl_parsers Let_def prog_simps empty_webhook_def
      EventTypePush_def EventTypePullRequest_def EventTypeIssueComment_def EventTypePullRequestReview_def
      EventTypePullRequestReviewComment_def
      elim!: bnd_eq_OkE split: if_splits prod.splits)

lemma cli_parsed_push:
  "cli_ParseWebhook env g h body s = (Ok (Some wh), s') \<Longrightarrow> wh_Push wh = None \<longleftrightarrow> wh_EventType wh \<noteq> EventTypePush"
  by (cases g) (auto simp: ret_def gh_parsed_push gl_parsed_push)

lemma HandleEvent_single:
  assumes "getPlugins reg (wh_EventType wh) = [p]"
  shows "HandleEvent reg wh s = p wh s"
proof (cases "p wh s")
  case (Pair r t)
  then show ?thesis
    by (cases r) (simp_all add: HandleEvent_def assms bnd_def attempt_def prog_simps)
qed

lemma operator_plugins_get:
  "getPlugins (operator_plugins env) ev =
     (if ev = EventTypePush \<or> ev = EventTypePullRequest then [Handle env] else [])"
  unfolding operator_plugins_def getPlugins_AddPlugin
  by (auto simp: getPlugins_def EventTypePush_def EventTypePullRequest_def)

section \<open>Properties\<close>

text \<open>
  C10: A webhook request that is not signed for the Application it names makes the
  operator do nothing: whatever plugins are registered, the handler only draws its
  request ID, reads the Application and perhaps its token secret, and leaves the
  managers, the routines and everything else as they were.
\<close>

theorem webhook_unsigned_idle:
  assumes "webhook_ServeHTTP env reg vars h (Ok body) s = (r, s')"
    and "\<And>hs ns n a. vars ''namespace'' = Some ns \<Longrightarrow> vars ''appName'' = Some n \<Longrightarrow>
           e_get_app env hs ns n = Ok a \<Longrightarrow> \<not> signed a h body"
  shows "plainManager s' = plainManager s \<and> helmManager s' = helmManager s \<and> cfg s' = cfg s
    \<and> fake s' = fake s \<and> tables s' = tables s \<and> set (new_calls s s') \<subseteq> admission_calls"
proof -
  obtain q s1 where q: "RandomString env 10 s = (q, s1)" by fastforce
  have i1: "idle s s1" using idle.keepsD[OF RandomString_idle q] .
  have "idle s s'"
  proof (cases "\<exists>reqID ns n a. q = Ok reqID \<and> vars ''namespace'' = Some ns \<and> vars ''appName'' = Some n
      \<and> e_get_app env (hist s1) ns n = Ok a")
    case True
    then obtain reqID ns n a where q': "q = Ok reqID" and v: "vars ''namespace'' = Some ns" "vars ''appName'' = Some n"
      and a: "e_get_app env (hist s1) ns n = Ok a" by blast
    let ?s2 = "s1\<lparr>hist := CGetApp ns n # hist s1, app := a\<rparr>"
    have "webhook_ServeHTTP env reg vars h (Ok body) s = admitted env reg reqID h body ?s2"
      unfolding webhook_ServeHTTP_def admitted_def using q q' v a
      by (simp add: bnd_def attempt_def prog_simps)
    moreover have "idle ?s2 (snd (admitted env reg reqID h body ?s2))"
      using assms(2)[OF v a] by (intro unsigned_idle) simp
    moreover have "idle s1 ?s2" by (auto simp: idle_def made_def)
    ultimately show ?thesis using i1 idle.step_trans by (metis assms(1) snd_conv)
  next
    case False
    have "s' = s1 \<or> (\<exists>ns n. s' = s1\<lparr>hist := CGetApp ns n # hist s1\<rparr>)"
      using assms(1) q False
      by (cases q) (auto simp: webhook_ServeHTTP_def bnd_def attempt_def prog_simps split: option.splits res.splits)
    then have "idle s1 s'" by (auto simp: idle_def made_def)
    with i1 show ?thesis by (rule idle.step_trans)
  qed
  then show ?thesis using new_calls_made by (auto simp: idle_def)
qed

theorem webhook_unsigned_idle_witness:
  "set (new_calls sample_st (snd (webhook_ServeHTTP sample_env (operator_plugins sample_env)
     [''namespace'' \<mapsto> ''demo'', ''appName'' \<mapsto> ''guestbook''] [] (Ok ''body'') sample_st))) \<subseteq> admission_calls"
proof -
  have "\<not> signed (sample_user_app\<lparr>app_Name := n, app_Namespace := ns\<rparr>) [] ''body''" for n ns
  proof -
    have "GetGitType (app_source (sample_user_app\<lparr>app_Name := n, app_Namespace := ns\<rparr>)) = Ok GitTypeGitHub"
      unfolding sample_user_app_def by code_simp
    moreover have "Replace1 (header_Get [] ''x-hub-signature'') ''sha1='' [] = []" by code_simp
    then have "Replace1 (header_Get [] ''x-hub-signature'') ''sha1='' [] \<noteq> HashPayload k p" for k p
      using HashPayload_length[of k p] by (metis list.size(3) zero_neq_numeral)
    ultimately show ?thesis by (simp add: signed_def GitTypeGitHub_def GitTypeGitLab_def)
  qed
  then have *: "\<not> signed a [] ''body''" if "e_get_app sample_env hs ns n = Ok a" for hs ns n a
    using that by (auto simp: sample_env_def)
  show ?thesis
    using webhook_unsigned_idle[where h = "[]" and body = "''body''", OF surjective_pairing] * by blast
qed

text \<open>
  C11: An event that the client of a repository has accepted is dispatched as
  follows: a push marks the Application out of sync and runs a forced sync, whose
  error is the answer; a pull request is always answered with an error and does
  nothing, although the dispatcher is registered for it; other events do nothing.
\<close>

theorem webhook_dispatch:
  assumes "cli_ParseWebhook env g h body t = (Ok (Some wh), t')"
  shows "HandleEvent (operator_plugins env) wh s =
    (if wh_EventType wh = EventTypePush then
       CheckSync env True (s\<lparr>app := set_sync SyncStatusCodeOutOfSync (app s)\<rparr>)
     else if wh_EventType wh = EventTypePullRequest then (Err (Fail ''push struct is nil''), s)
     else (Ok (), s))"
proof (cases "wh_EventType wh = EventTypePush \<or> wh_EventType wh = EventTypePullRequest")
  case True
  then show ?thesis
    using cli_parsed_push[OF assms]
    by (auto simp: HandleEvent_single[of _ _ "Handle env"] operator_plugins_get Handle_def bnd_def prog_simps)
next
  case False
  then show ?thesis by (simp add: HandleEvent_def operator_plugins_get bnd_def prog_simps)
qed

definition sample_push_body :: string where
  "sample_push_body = ''{'' @ print_string ''after'' @ '':'' @ print_string ''abc1'' @ '',''
     @ print_string ''checkout_sha'' @ '':'' @ print_string ''abc1'' @ ''}''"

definition sample_gitlab :: git_client where
  "sample_gitlab = GitlabClient \<lparr>GitAPIURL = ''http://git'', GitRepository = ''o/r'', GitToken = [],
     GitWebhookSecret = ''s'', hdr = []\<rparr>"

definition sample_push_header :: header where
  "sample_push_header = [(''X-Gitlab-Token'', [''s'']), (''X-Gitlab-Event'', [''Push Hook''])]"

lemma sample_push_parsed:
  "case cli_ParseWebhook sample_env sample_gitlab sample_push_header sample_push_body sample_st of
     (Ok (Some wh), t) \<Rightarrow> wh_EventType wh = EventTypePush | _ \<Rightarrow> False"
  by code_simp

theorem webhook_dispatch_witness:
  "\<exists>wh. HandleEvent (operator_plugins sample_env) wh sample_st =
     CheckSync sample_env True (sample_st\<lparr>app := set_sync SyncStatusCodeOutOfSync (app sample_st)\<rparr>)"
proof -
  obtain wh t where p: "cli_ParseWebhook sample_env sample_gitlab sample_push_header sample_push_body sample_st = (Ok (Some wh), t)"
    and "wh_EventType wh = EventTypePush"
    using sample_push_parsed by (auto split: prod.splits res.splits option.splits)
  from webhook_dispatch[OF p] this(2) show ?thesis by auto
qed

end
