(* ===== verification/WebhookRegistration.thy ===== *)
theory WebhookRegistration
  imports WebhookAuth PlainStatus
begin

text \<open>
  The life of the operator's own webhook. On GitHub and GitLab: the one request
  that registers it, when it is sent, and that it is not sent again. On a Git
  server that keeps the contract \<open>webhook_registry\<close>, shown for the fake server of the
  tests: it is registered at most once, and clearing a deleted Application removes
  every entry with its address.
\<close>

section \<open>Conditions\<close>

lemma find_index_of_update:
  "find_index_of P xs = Some i \<Longrightarrow> P x \<Longrightarrow> find_index_of P (xs[i := x]) = Some i"
  by (induction xs arbitrary: i) (auto split: if_splits)

lemma find_index_of_snoc: "find_index_of P xs = None \<Longrightarrow> P x \<Longrightarrow> find_index_of P (xs @ [x]) = Some (length xs)"
  by (simp add: find_index_of_append)

text \<open>The list of conditions with the one of a type set.\<close>

definition with_cond :: "condition list \<Rightarrow> condition \<Rightarrow> condition list" where
  "with_cond cs c = (case cond_index cs (cond_Type c) of None \<Rightarrow> cs @ [c] | Some i \<Rightarrow> cs[i := c])"

lemma with_cond_index:
  obtains j where "cond_index (with_cond cs c) (cond_Type c) = Some j" and "with_cond cs c ! j = c"
proof (cases "cond_index cs (cond_Type c)")
  case None
  then have "cond_index (with_cond cs c) (cond_Type c) = Some (length cs)"
    unfolding with_cond_def cond_index_def by (simp add: find_index_of_snoc)
  moreover have "with_cond cs c ! length cs = c" by (simp add: with_cond_def None)
  ultimately show ?thesis by (rule that)
next
  case (Some i)
  then have "i < length cs" unfolding cond_index_def using find_index_of_Some by blast
  moreover have "cond_index (with_cond cs c) (cond_Type c) = Some i"
    using Some unfolding with_cond_def cond_index_def by (simp add: find_index_of_update)
  ultimately show ?thesis using Some by (intro that[of i]) (simp_all add: with_cond_def)
qed

lemma with_cond_idem: "with_cond (with_cond cs c) c = with_cond cs c"
proof -
  obtain j where "cond_index (with_cond cs c) (cond_Type c) = Some j" "with_cond cs c ! j = c"
    by (rule with_cond_index)
  then show ?thesis by (metis list_update_id option.simps(5) with_cond_def)
qed

lemma conds_set_conds [simp]: "conds (set_conds cs a) = cs"
  by (simp add: conds_def set_conds_def)

lemma set_conds_twice [simp]: "set_conds cs (set_conds ds a) = set_conds cs a"
  by (simp add: set_conds_def)

lemma put_cond_run:
  assumes "cond_laws env" and "i = cond_index (conds (app s)) (cond_Type c)"
  shows "put_cond env i c s = (Ok (), s\<lparr>app := set_conds (with_cond (conds (app s)) c) (app s)\<rparr>)"
proof -
  have e: "e_set_cond env cs c = with_cond cs c" for cs
    using assms(1) by (simp add: cond_laws_def with_cond_def)
  have "with_cond (case i of None \<Rightarrow> conds (app s) | Some i \<Rightarrow> (conds (app s))[i := c]) c = with_cond (conds (app s)) c"
  proof (cases i)
    case (Some k)
    then have eq: "(conds (app s))[k := c] = with_cond (conds (app s)) c"
      by (simp add: with_cond_def assms(2)[symmetric])
    show ?thesis by (simp add: Some eq with_cond_idem)
  qed simp
  then show ?thesis by (simp add: put_cond_def prog_simps e Let_def)
qed

lemma put_cond_again:
  assumes "cond_laws env" and "i = cond_index (conds (app s)) (cond_Type c)"
  shows "bnd (put_cond env i c) (\<lambda>_. put_cond env i c) s =
    (Ok (), s\<lparr>app := set_conds (with_cond (conds (app s)) c) (app s)\<rparr>)"
proof -
  let ?cs = "with_cond (conds (app s)) c"
  let ?s = "s\<lparr>app := set_conds ?cs (app s)\<rparr>"
  have e: "e_set_cond env cs c = with_cond cs c" for cs
    using assms(1) by (simp add: cond_laws_def with_cond_def)
  have "with_cond (case i of None \<Rightarrow> ?cs | Some i \<Rightarrow> ?cs[i := c]) c = ?cs"
  proof (cases i)
    case (Some k)
    then have "?cs = (conds (app s))[k := c]" by (simp add: with_cond_def assms(2)[symmetric])
    then have "?cs[k := c] = ?cs" by simp
    with Some with_cond_idem show ?thesis by simp
  qed (simp add: with_cond_idem)
  then have "put_cond env i c ?s = (Ok (), ?s)"
    by (cases i) (simp_all add: put_cond_def prog_simps e Let_def)
  then show ?thesis using put_cond_run[OF assms] by (simp add: bnd_def)
qed

section \<open>Registering\<close>

lemma GetGitCli_frame:
  assumes "GetGitCli env s = (r, s1)"
  shows "app s1 = app s" and "cfg s1 = cfg s" and "fake s1 = fake s"
proof -
  from same_app.keepsD[OF webhook_ops_same_app(4) assms] show "app s1 = app s" by (simp add: same_app_def)
  from only_sync.keepsD[OF GetGitCli_only_sync assms] show "cfg s1 = cfg s" "fake s1 = fake s"
    by (simp_all add: only_sync_def)
qed

text \<open>The address under which the operator's server is registered for the Application.\<close>

definition own_address :: "st \<Rightarrow> string" where
  "own_address s = GetWebhookServerAddress (CurrentExternalHostName (cfg s)) (app s)"

lemma fk_hooks_cong: "fake s = fake t \<Longrightarrow> fk_hooks name s = fk_hooks name t"
  by (simp add: fk_hooks_def)

lemma fk_inv_cong: "fake s = fake t \<Longrightarrow> fk_inv env name s = fk_inv env name t"
  by (simp add: fk_inv_def)

lemma fake_register_run:
  assumes g: "GetGitCli env s = (Ok (FakeClient name), s1)" and inv: "fk_inv env name s"
  shows "\<exists>c s'. register_webhook env c0 s = (Ok c, s') \<and> app s' = app s \<and> cond_Type c = cond_Type c0
    \<and> (if \<exists>e \<in> fk_hooks name s. whe_URL e = own_address s
       then cond_Status c = cond_Status c0 \<and> fk_hooks name s' = fk_hooks name s
       else cond_Status c = ConditionTrue
         \<and> (\<exists>i. fk_hooks name s' = insert \<lparr>whe_ID = i, whe_URL = own_address s\<rparr> {e \<in> fk_hooks name s. whe_ID e \<noteq> i}))"
proof -
  note f = GetGitCli_frame[OF g]
  have inv1: "fk_inv env name s1" and h1: "fk_hooks name s1 = fk_hooks name s"
    using inv f(3) fk_inv_cong fk_hooks_cong by metis+
  from fake_hooks.list_law[OF inv1] obtain es s2 where l: "fk_ListWebhook env name s1 = (Ok es, s2)"
    and es: "set es = fk_hooks name s" and h2: "fk_hooks name s2 = fk_hooks name s" and inv2: "fk_inv env name s2"
    and a2: "app s2 = app s" by (auto simp: h1 fk_view_def f)
  from fake_hooks.register_law[OF inv2, of "own_address s"] obtain i s3 where r: "fk_RegisterWebhook env name (own_address s) s2 = (Ok (), s3)"
    and h3: "fk_hooks name s3 = insert \<lparr>whe_ID = i, whe_URL = own_address s\<rparr> {e \<in> fk_hooks name s. whe_ID e \<noteq> i}"
    and a3: "app s3 = app s" by (auto simp: h2 fk_view_def a2)
  have addr: "GetWebhookServerAddress (CurrentExternalHostName (cfg s1)) (app s1) = own_address s"
    by (simp add: own_address_def f)
  show ?thesis
  proof (cases "\<exists>e \<in> fk_hooks name s. whe_URL e = own_address s")
    case True
    then have "\<exists>e \<in> set es. own_address s = whe_URL e" using es by metis
    with True g l addr show ?thesis
      by (auto simp: register_webhook_def bnd_def attempt_def prog_simps Let_def a2 h2)
  next
    case False
    then have "\<not> (\<exists>e \<in> set es. own_address s = whe_URL e)" using es by auto
    with False g l r addr h3 a3 show ?thesis
      by (auto simp: register_webhook_def bnd_def attempt_def prog_simps Let_def)
  qed
qed

text \<open>
  The handler around the registration: the condition is written twice, and the
  Application is otherwise left as it is.
\<close>

definition may_register :: "application \<Rightarrow> bool" where
  "may_register a \<longleftrightarrow> src_Token (app_source a) \<noteq> None \<and> stat_Secrets (app_Status a) \<noteq> []
     \<and> (\<forall>i. cond_index (conds a) ApplicationConditionWebhookRegistered = Some i \<longrightarrow>
            cond_Status (conds a ! i) = ConditionFalse)"

lemma registering:
  assumes laws: "cond_laws env" and may: "may_register (app s)"
    and reg: "\<And>c0. cond_Type c0 = ApplicationConditionWebhookRegistered \<Longrightarrow> cond_Status c0 = ConditionFalse \<Longrightarrow>
      \<exists>c s2. register_webhook env c0 s = (Ok c, s2) \<and> app s2 = app s
        \<and> cond_Type c = ApplicationConditionWebhookRegistered \<and> Q c s2"
  shows "\<exists>c s2 j. Q c s2
    \<and> setWebhookRegisteredCond env s = (Ok (), s2\<lparr>app := set_conds (with_cond (conds (app s)) c) (app s)\<rparr>)
    \<and> cond_index (with_cond (conds (app s)) c) ApplicationConditionWebhookRegistered = Some j
    \<and> with_cond (conds (app s)) c ! j = c"
proof -
  let ?T = ApplicationConditionWebhookRegistered
  define i where "i = cond_index (conds (app s)) ?T"
  define c where "c = (case i of None \<Rightarrow> webhook_not_registered | Some i \<Rightarrow> conds (app s) ! i)"
  have ct: "cond_Type c = ?T"
    unfolding c_def i_def cond_index_def
    by (auto simp: webhook_not_registered_def dest: find_index_of_Some split: option.split)
  have cf: "cond_Status c = ConditionFalse"
    using may by (auto simp: may_register_def c_def i_def webhook_not_registered_def split: option.split)
  have find: "e_find_cond env (conds (app s)) ?T = i" using laws by (simp add: cond_laws_def i_def)
  let ?c0 = "c\<lparr>cond_Status := ConditionFalse, cond_Reason := [], cond_Message := []\<rparr>"
  from reg[of ?c0] ct obtain c' s2 where r: "register_webhook env ?c0 s = (Ok c', s2)" and a2: "app s2 = app s"
    and c': "cond_Type c' = ?T" and Q: "Q c' s2" by auto
  have "bnd (put_cond env i c') (\<lambda>_. put_cond env i c') s2
      = (Ok (), s2\<lparr>app := set_conds (with_cond (conds (app s)) c') (app s)\<rparr>)"
    using put_cond_again[OF laws, of i s2 c'] by (simp add: i_def c' a2)
  then have "setWebhookRegisteredCond env s = (Ok (), s2\<lparr>app := set_conds (with_cond (conds (app s)) c') (app s)\<rparr>)"
    using may cf
    by (auto simp: may_register_def setWebhookRegisteredCond_def prog_simps Let_def find c_def[symmetric] r)
  moreover obtain j where "cond_index (with_cond (conds (app s)) c') ?T = Some j" "with_cond (conds (app s)) c' ! j = c'"
    using with_cond_index c' by metis
  ultimately show ?thesis using Q by blast
qed

text \<open>A registered webhook costs nothing: the condition is written, no service is called.\<close>

lemma registered_idle:
  assumes "cond_laws env" and "src_Token (app_source (app s)) \<noteq> None"
    and j: "cond_index (conds (app s)) ApplicationConditionWebhookRegistered = Some j"
    and "cond_Status (conds (app s) ! j) = ConditionTrue"
  shows "\<exists>s'. setWebhookRegisteredCond env s = (Ok (), s') \<and> hist s' = hist s"
proof -
  have f: "e_find_cond env (conds (app s)) ApplicationConditionWebhookRegistered = Some j"
    using assms(1) j by (simp add: cond_laws_def)
  have "put_cond env (Some j) (conds (app s) ! j) s = (Ok (), snd (put_cond env (Some j) (conds (app s) ! j) s))"
    "hist (snd (put_cond env (Some j) (conds (app s) ! j) s)) = hist s"
    by (simp_all add: put_cond_def prog_simps)
  then show ?thesis
    using assms(2,4)
    by (auto simp: setWebhookRegisteredCond_def prog_simps Let_def f ConditionTrue_def ConditionFalse_def)
qed

section \<open>The request of GitHub and GitLab\<close>

text \<open>Go functions that return, with a value or an error.\<close>

definition answers :: "'a res \<Rightarrow> bool" where
  "answers r \<longleftrightarrow> (\<exists>v. r = Ok v) \<or> (\<exists>e. r = Err e)"

lemma answers_simps [simp]: "answers (Ok v)" "answers (Err e)" "\<not> answers (Panic p)" "\<not> answers Loops"
  by (simp_all add: answers_def)

lemma answers_res_bind: "answers r \<Longrightarrow> (\<And>v. answers (f v)) \<Longrightarrow> answers (res_bind r f)"
  by (cases r) auto

lemma answers_if: "(P \<Longrightarrow> answers a) \<Longrightarrow> (\<not> P \<Longrightarrow> answers b) \<Longrightarrow> answers (if P then a else b)"
  by simp

lemmas answers_intros = answers_if answers_res_bind answers_simps(1,2)

lemma answers_two:
  "answers e \<Longrightarrow> (\<And>h l r. t = h # l # r \<Longrightarrow> answers (f h l r))
   \<Longrightarrow> answers (case t of [] \<Rightarrow> e | [h] \<Rightarrow> e | h # l # r \<Rightarrow> f h l r)"
  by (simp split: list.split)

lemma answers_unescape: "answers (unescape s mode)"
proof (induction "length s" arbitrary: s rule: less_induct)
  case less
  show ?case
  proof (cases s)
    case Nil
    then show ?thesis by simp
  next
    case (Cons c t)
    then have t: "answers (unescape t mode)" using less by simp
    have "answers (unescape r mode)" if "t = h # l # r" for h l r using less Cons that by simp
    with t have "answers (unescape (c # t) mode)"
      by (subst unescape.simps(2), intro answers_intros answers_two) assumption+
    then show ?thesis by (simp only: Cons)
  qed
qed

lemma answers_getscheme: "answers (getscheme_from raw seen s)"
  by (induction raw seen s rule: getscheme_from.induct) (auto intro: answers_intros)

lemma answers_option: "answers a \<Longrightarrow> (\<And>x. answers (f x)) \<Longrightarrow> answers (case z of None \<Rightarrow> a | Some x \<Rightarrow> f x)"
  by (simp split: option.split)

lemma answers_pair: "(\<And>x y. answers (f x y)) \<Longrightarrow> answers (case z of (x, y) \<Rightarrow> f x y)"
  by (simp split: prod.split)

lemma answers_url_Parse: "answers (url_Parse raw)"
proof -
  note rules = answers_intros answers_option answers_pair answers_unescape
  have h: "answers (parseHost a)" for a unfolding parseHost_def by (intro rules)
  have u: "answers (parseUserinfo a)" for a unfolding parseUserinfo_def by (intro rules)
  have a: "answers (parseAuthority a)" for a unfolding parseAuthority_def by (intro rules h u)
  have p: "answers (setPath q v)" for q v unfolding setPath_def by (intro rules)
  have r: "answers (parse_rest v q)" for v q unfolding parse_rest_def Let_def by (intro rules a p)
  have "answers (parse_raw q)" for q
    unfolding parse_raw_def Let_def getscheme_def by (intro rules r answers_getscheme)
  then show ?thesis unfolding url_Parse_def setFragment_def Let_def by (intro rules)
qed

text \<open>
  The one request that registers the operator's server on a real Git host: a post
  to the repository's hooks with the address and the webhook secret.
\<close>

fun registration :: "git_client \<Rightarrow> string \<Rightarrow> string \<Rightarrow> http_request option" where
  "registration (GithubClient c) addr secret =
     Some (make_request ''POST'' (gh_repo_url c @ ''/hooks'') (hdr c) (Some (gh_registration_body addr secret)))"
| "registration (GitlabClient c) addr secret =
     Some (make_request ''POST'' (gl_project_url c @ ''/hooks'') (hdr c)
       (Some (gl_registration_body (QueryEscape (GitRepository c)) addr secret)))"
| "registration (FakeClient name) addr secret = None"

text \<open>The client sends it with the secret of the Application.\<close>

definition accepted :: "http_response res \<Rightarrow> bool" where
  "accepted r \<longleftrightarrow> (\<exists>a. r = Ok a \<and> 200 \<le> rs_StatusCode a \<and> rs_StatusCode a \<le> 299)"

lemma GetGitCli_registers:
  assumes "GetGitCli env s = (Ok g, s1)" and "registration g addr (stat_Secrets (app_Status (app s))) = Some rq"
    and "answers (e_http env (hist t) rq)"
  shows "\<exists>r t'. cli_RegisterWebhook env g addr t = (r, t') \<and> app t' = app t
    \<and> (if is_ok (url_Parse (rq_URI rq))
       then hist t' = CHttp rq # hist t
         \<and> (if accepted (e_http env (hist t) rq) then r = Ok () else \<exists>e. r = Err e)
       else hist t' = hist t \<and> (\<exists>e. r = Err e))"
proof -
  let ?secret = "stat_Secrets (app_Status (app s))"
  have secret: "case g of GithubClient c \<Rightarrow> GitWebhookSecret c = ?secret | GitlabClient c \<Rightarrow> GitWebhookSecret c = ?secret
      | FakeClient n \<Rightarrow> True"
    using assms(1)
    by (auto simp: GetGitCli_def gh_Init_def gl_Init_def Let_def prog_simps elim!: bnd_eq_OkE split: if_splits)
  obtain uri hs body where rq: "rq = make_request ''POST'' uri hs (Some body)"
    and reg: "cli_RegisterWebhook env g addr = bnd (RequestHTTP env ''POST'' uri hs (Some body)) (\<lambda>_. ret ())"
    using assms(2) secret
    by (cases g) (auto simp: gh_RegisterWebhook_def gl_RegisterWebhook_def gh_request_def gl_request_def)
  have uri: "rq_URI rq = uri" by (simp add: rq make_request_def)
  have "answers (url_Parse uri)" by (rule answers_url_Parse)
  then show ?thesis
    using assms(3)
    by (cases "cli_RegisterWebhook env g addr t"; cases "url_Parse uri"; cases "e_http env (hist t) rq")
       (auto simp: uri reg RequestHTTP_def accepted_def bnd_def ext_apply Let_def prog_simps rq[symmetric]
        split: if_splits)
qed

section \<open>Properties\<close>

text \<open>
  C26: An Application with a token and a secret, whose webhook is not registered yet,
  on GitHub or GitLab, when the Git client answers: after the listing of the hooks,
  the handler posts one registration with the operator's address and the secret of
  the Application when no listed hook has that address, and nothing otherwise - a
  failed listing counts as an empty one, and a URL that does not parse cannot be
  posted to. The condition becomes true exactly when the post was accepted, and
  then the next run of the handler calls no service at all.
\<close>

theorem webhook_registered_once:
  assumes "cond_laws env" and "may_register (app s)" and "GetGitCli env s = (Ok g, s1)"
    and "cli_ListWebhook env g s1 = (r, s2)" and "r = Ok es \<or> r = Err e \<and> es = []"
    and "registration g (own_address s) (stat_Secrets (app_Status (app s))) = Some rq"
    and "answers (e_http env (hist s2) rq)"
    and "posted = (own_address s \<notin> whe_URL ` set es \<and> is_ok (url_Parse (rq_URI rq)))"
  shows "\<exists>s' j. setWebhookRegisteredCond env s = (Ok (), s')
    \<and> hist s' = (if posted then [CHttp rq] else []) @ hist s2
    \<and> cond_index (conds (app s')) ApplicationConditionWebhookRegistered = Some j
    \<and> (if posted \<and> accepted (e_http env (hist s2) rq)
       then cond_Status (conds (app s') ! j) = ConditionTrue
         \<and> (\<exists>s''. setWebhookRegisteredCond env s' = (Ok (), s'') \<and> hist s'' = hist s')
       else cond_Status (conds (app s') ! j) = ConditionFalse)"
proof -
  let ?T = ApplicationConditionWebhookRegistered and ?ok = "posted \<and> accepted (e_http env (hist s2) rq)"
  note f = GetGitCli_frame[OF assms(3)]
  have a2: "app s2 = app s"
    using same_app.keepsD[OF webhook_ops_same_app(1) assms(4)] f(1) by (simp add: same_app_def)
  have addr: "GetWebhookServerAddress (CurrentExternalHostName (cfg s1)) (app s1) = own_address s"
    by (simp add: own_address_def f)
  obtain q t where post: "cli_RegisterWebhook env g (own_address s) s2 = (q, t)" and at: "app t = app s"
    and out: "if is_ok (url_Parse (rq_URI rq))
       then hist t = CHttp rq # hist s2 \<and> (if accepted (e_http env (hist s2) rq) then q = Ok () else \<exists>e. q = Err e)
       else hist t = hist s2 \<and> (\<exists>e. q = Err e)"
    using GetGitCli_registers[OF assms(3,6,7)] a2 by auto
  have listed: "(\<exists>e \<in> set es. own_address s = whe_URL e) \<longleftrightarrow> own_address s \<in> whe_URL ` set es" by auto
  have "\<exists>c s3. register_webhook env c0 s = (Ok c, s3) \<and> app s3 = app s \<and> cond_Type c = ?T
      \<and> cond_Status c = (if ?ok then ConditionTrue else ConditionFalse)
      \<and> hist s3 = (if posted then [CHttp rq] else []) @ hist s2"
    if "cond_Type c0 = ?T" "cond_Status c0 = ConditionFalse" for c0
  proof (cases "own_address s \<in> whe_URL ` set es")
    case True
    then have "r = Ok es" using assms(5) by auto
    with True that show ?thesis
      by (simp add: register_webhook_def bnd_def attempt_def prog_simps Let_def assms(3,4,8) addr a2 listed
          del: bex_simps ball_simps)
  next
    case False
    with that post at out assms(5) show ?thesis
      by (auto simp: register_webhook_def bnd_def attempt_def prog_simps Let_def assms(3,4,8) addr listed split: if_splits)
  qed
  from registering[OF assms(1,2) this] obtain c s3 j where
    run: "setWebhookRegisteredCond env s = (Ok (), s3\<lparr>app := set_conds (with_cond (conds (app s)) c) (app s)\<rparr>)"
    and c: "cond_Status c = (if ?ok then ConditionTrue else ConditionFalse)"
    and h: "hist s3 = (if posted then [CHttp rq] else []) @ hist s2"
    and j: "cond_index (with_cond (conds (app s)) c) ?T = Some j" "with_cond (conds (app s)) c ! j = c"
    by blast
  let ?s' = "s3\<lparr>app := set_conds (with_cond (conds (app s)) c) (app s)\<rparr>"
  have tok: "src_Token (app_source (app ?s')) \<noteq> None" using assms(2) by (simp add: may_register_def set_conds_def)
  show ?thesis
  proof (cases ?ok)
    case True
    with registered_idle[OF assms(1) tok, of j] j c
    have "\<exists>s''. setWebhookRegisteredCond env ?s' = (Ok (), s'') \<and> hist s'' = hist ?s'" by simp
    with True run h j c show ?thesis by (intro exI[of _ ?s'] exI[of _ j]) simp
  next
    case False
    with run h j c show ?thesis by (intro exI[of _ ?s'] exI[of _ j]) simp
  qed
qed

text \<open>
  The same on the fake server, which keeps the contract \<open>webhook_registry\<close>: if no entry
  has the operator's address for the Application, one is registered and the
  condition becomes true; if there is one already, the server is left alone.
\<close>

lemma fake_registered_once:
  assumes "cond_laws env" and "may_register (app s)"
    and "GetGitCli env s = (Ok (FakeClient name), s1)" and "fk_inv env name s"
  shows "\<exists>s' j. setWebhookRegisteredCond env s = (Ok (), s')
    \<and> cond_index (conds (app s')) ApplicationConditionWebhookRegistered = Some j
    \<and> (if \<exists>e \<in> fk_hooks name s. whe_URL e = own_address s
       then cond_Status (conds (app s') ! j) = ConditionFalse \<and> fk_hooks name s' = fk_hooks name s
       else cond_Status (conds (app s') ! j) = ConditionTrue
         \<and> (\<exists>i. fk_hooks name s' = insert \<lparr>whe_ID = i, whe_URL = own_address s\<rparr> {e \<in> fk_hooks name s. whe_ID e \<noteq> i}))"
proof -
  let ?Q = "\<lambda>c t. if \<exists>e \<in> fk_hooks name s. whe_URL e = own_address s
       then cond_Status c = ConditionFalse \<and> fk_hooks name t = fk_hooks name s
       else cond_Status c = ConditionTrue
         \<and> (\<exists>i. fk_hooks name t = insert \<lparr>whe_ID = i, whe_URL = own_address s\<rparr> {e \<in> fk_hooks name s. whe_ID e \<noteq> i})"
  have "\<exists>c s2. register_webhook env c0 s = (Ok c, s2) \<and> app s2 = app s
      \<and> cond_Type c = ApplicationConditionWebhookRegistered \<and> ?Q c s2"
    if "cond_Type c0 = ApplicationConditionWebhookRegistered" "cond_Status c0 = ConditionFalse" for c0
    using fake_register_run[OF assms(3,4), of c0] unfolding that .
  from registering[OF assms(1,2), of ?Q, OF this] obtain c s2 j where Q: "?Q c s2"
    and run: "setWebhookRegisteredCond env s = (Ok (), s2\<lparr>app := set_conds (with_cond (conds (app s)) c) (app s)\<rparr>)"
    and j: "cond_index (with_cond (conds (app s)) c) ApplicationConditionWebhookRegistered = Some j"
      "with_cond (conds (app s)) c ! j = c" by blast
  let ?s' = "s2\<lparr>app := set_conds (with_cond (conds (app s)) c) (app s)\<rparr>"
  have "fk_hooks name ?s' = fk_hooks name s2" by (rule fk_hooks_cong) simp
  with Q run j show ?thesis by (intro exI[of _ ?s'] exI[of _ j]) simp
qed

text \<open>
  Clearing the webhooks of a deleted Application with a token succeeds on the
  fake server and removes exactly the entries with the operator's address for the
  Application; those of other Applications and other users stay.
\<close>

theorem clearWebhook_removes_own:
  assumes "src_Token (app_source (app s)) \<noteq> None"
    and "GetGitCli env s = (Ok (FakeClient name), s1)" and "fk_inv env name s"
  shows "\<exists>s'. clearWebhook env s = (Ok (), s') \<and> fk_hooks name s' = {e \<in> fk_hooks name s. whe_URL e \<noteq> own_address s}"
proof -
  note f = GetGitCli_frame[OF assms(2)]
  have inv1: "fk_inv env name s1" and h1: "fk_hooks name s1 = fk_hooks name s"
    using assms(3) f(3) fk_inv_cong fk_hooks_cong by metis+
  have addr: "GetWebhookServerAddress (CurrentExternalHostName (cfg s1)) (app s) = own_address s"
    by (simp add: own_address_def f)
  obtain t where t: "src_Token (app_source (app s)) = Some t" using assms(1) by blast
  from fake_hooks.delete_all[OF inv1, of "own_address s"] obtain s' where
    d: "bnd (fk_ListWebhook env name) (\<lambda>es. for_each es
          (\<lambda>h. if whe_URL h = own_address s then fk_DeleteWebhook name (whe_ID h) else ret ())) s1 = (Ok (), s')"
    and h': "fk_hooks name s' = {e \<in> fk_hooks name s. whe_URL e \<noteq> own_address s}"
    by (auto simp: h1)
  have "clearWebhook env s = (Ok (), s')"
    using d by (simp add: clearWebhook_def prog_simps assms(2) t addr cong: if_cong)
  with h' show ?thesis by blast
qed

text \<open>A fake server with one entry, and an Application with a token on it.\<close>

definition sample_hook_st :: st where
  "sample_hook_st = sample_st\<lparr>
     app := sample_user_app\<lparr>
       app_Spec := (app_Spec sample_user_app)\<lparr>spec_Source := (app_source sample_user_app)
         \<lparr>src_RepoURL := ''https://git.local/o/r'', src_Token := Some \<lparr>tok_Value = ''t'', tok_ValueFrom = None\<rparr>\<rparr>\<rparr>,
       app_Status := (app_Status sample_user_app)\<lparr>stat_Secrets := ''s''\<rparr>\<rparr>,
     fake := \<lparr>fk_Users = None, fk_Repos = Some [''o/r'' \<mapsto>
       \<lparr>fk_Webhooks = Some [(7, \<lparr>whe_ID = 7, whe_URL = ''http://other''\<rparr>)], fk_UserCanWrite = None,
        fk_PullRequests = None, fk_PullRequestDiffs = None, fk_PullRequestCommits = None, fk_Commits = None,
        fk_CommitStatuses = None, fk_Comments = None\<rparr>], fk_Branches = None\<rparr>\<rparr>"

lemma sample_hook_cli: "fst (GetGitCli sample_env sample_hook_st) = Ok (FakeClient ''o/r'')"
  by code_simp

lemma sample_order: "order_ok sample_env"
  by (simp add: order_ok_def sample_env_def)

lemma sample_hook_inv: "fk_inv sample_env ''o/r'' sample_hook_st"
  using sample_order by (simp add: fk_inv_def sample_hook_st_def)

lemma sample_hook_facts:
  "GetGitCli sample_env sample_hook_st = (Ok (FakeClient ''o/r''), snd (GetGitCli sample_env sample_hook_st))"
  "src_Token (app_source (app sample_hook_st)) \<noteq> None" "stat_Secrets (app_Status (app sample_hook_st)) \<noteq> []"
  "conds (app sample_hook_st) = []"
  "fk_hooks ''o/r'' sample_hook_st = {\<lparr>whe_ID = 7, whe_URL = ''http://other''\<rparr>}"
  "own_address sample_hook_st = ''http://cd.example.com/webhook/demo/guestbook''"
  using sample_hook_cli
  by (simp_all add: prod_eq_iff sample_hook_st_def conds_def sample_user_app_def fk_hooks_def
      own_address_def GetWebhookServerAddress_def sample_st_def)

lemma sample_cond_laws: "cond_laws sample_env"
  by (simp add: cond_laws_def sample_env_def cond_index_def)

text \<open>The same Application on GitHub, whose server lists no hook and accepts the post.\<close>

definition sample_github_st :: st where
  "sample_github_st = sample_hook_st\<lparr>app := (app sample_hook_st)\<lparr>app_Spec := (app_Spec (app sample_hook_st))
     \<lparr>spec_Source := (app_source (app sample_hook_st))\<lparr>src_RepoURL := ''https://github.com/o/r''\<rparr>\<rparr>\<rparr>\<rparr>"

lemma sample_github_run:
  "case GetGitCli sample_env sample_github_st of
     (Ok g, s1) \<Rightarrow>
       (case cli_ListWebhook sample_env g s1 of
          (Ok [], s2) \<Rightarrow>
            (case registration g (own_address sample_github_st) (stat_Secrets (app_Status (app sample_github_st))) of
               Some rq \<Rightarrow> is_ok (url_Parse (rq_URI rq)) \<and> rq_Method rq = ''POST''
                 \<and> rq_URI rq = ''https://api.github.com/repos/o/r/hooks''
             | None \<Rightarrow> False)
        | _ \<Rightarrow> False)
   | _ \<Rightarrow> False"
  by code_simp

theorem webhook_registered_once_witness:
  "\<exists>s' rq h j. setWebhookRegisteredCond sample_env sample_github_st = (Ok (), s') \<and> hist s' = CHttp rq # h
     \<and> rq_Method rq = ''POST'' \<and> rq_URI rq = ''https://api.github.com/repos/o/r/hooks''
     \<and> cond_Status (conds (app s') ! j) = ConditionTrue"
proof -
  note run = sample_github_run
  obtain x s1 where x: "GetGitCli sample_env sample_github_st = (x, s1)" by fastforce
  with run obtain g where g: "GetGitCli sample_env sample_github_st = (Ok g, s1)" by (cases x) auto
  obtain y s2 where y: "cli_ListWebhook sample_env g s1 = (y, s2)" by fastforce
  obtain es where es: "y = Ok es" using run by (cases y) (simp_all add: g y)
  have l: "cli_ListWebhook sample_env g s1 = (Ok [], s2)" using run by (cases es) (simp_all add: g y es)
  obtain rq where r: "registration g (own_address sample_github_st) (stat_Secrets (app_Status (app sample_github_st))) = Some rq"
    and rq: "is_ok (url_Parse (rq_URI rq))" "rq_Method rq = ''POST''" "rq_URI rq = ''https://api.github.com/repos/o/r/hooks''"
    using run by (auto simp: g l split: option.splits)
  have may: "may_register (app sample_github_st)"
    by (simp add: may_register_def sample_github_st_def sample_hook_st_def conds_def sample_user_app_def cond_index_def)
  have http: "answers (e_http sample_env (hist s2) rq)" "accepted (e_http sample_env (hist s2) rq)"
    by (simp_all add: sample_env_def accepted_def)
  from webhook_registered_once[OF sample_cond_laws may g l _ r http(1) refl] rq http(2)
  obtain s' j where "setWebhookRegisteredCond sample_env sample_github_st = (Ok (), s')"
    "hist s' = CHttp rq # hist s2" "cond_Status (conds (app s') ! j) = ConditionTrue" by auto
  with rq show ?thesis by blast
qed

theorem clearWebhook_removes_own_witness:
  "\<exists>s'. clearWebhook sample_env sample_hook_st = (Ok (), s')
    \<and> fk_hooks ''o/r'' s' = {\<lparr>whe_ID = 7, whe_URL = ''http://other''\<rparr>}"
  using clearWebhook_removes_own[OF sample_hook_facts(2,1) sample_hook_inv] by (auto simp: sample_hook_facts(5,6))

end
