(* ===== verification/ParserSpec.thy ===== *)
theory ParserSpec
  imports WebhookAuth PlainStatus
begin

text \<open>
  Smaller contracts: the label changes of a GitLab event, the error replies of the
  servers, and what happens to an Application whose
  repository is on a host the operator does not know.
\<close>

section \<open>Properties\<close>

text \<open>
  The labels reported for an update of a merge request are exactly those that
  were added or removed; an update that only adds labels is reported with the
  action Unlabeled and one that only removes labels with the action Labeled.
\<close>

theorem gl_action_labels:
  assumes "gle_Action dat = ''update''" and "gle_OldRev dat = []" and "gle_Changes dat = Some (prev, cur)"
  shows "set (snd (gl_action dat)) = (set prev - set cur) \<union> (set cur - set prev)
    \<and> (set prev \<subset> set cur \<longrightarrow> fst (gl_action dat) = PullRequestActionUnlabeled)
    \<and> (set cur \<subset> set prev \<longrightarrow> fst (gl_action dat) = PullRequestActionLabeled)"
proof -
  have f: "fst (diffLabels prev cur) = filter (\<lambda>l. l \<notin> set cur) prev @ filter (\<lambda>l. l \<notin> set prev) cur"
    and s: "snd (diffLabels prev cur) \<longleftrightarrow> \<not> set cur \<subseteq> set prev"
    by (auto simp: diffLabels_def Let_def filter_empty_conv)
  have "gl_action dat = (if snd (diffLabels prev cur) then PullRequestActionUnlabeled else PullRequestActionLabeled,
      fst (diffLabels prev cur))"
    using assms by (simp add: gl_action_def Let_def split: prod.split)
  then show ?thesis by (auto simp: f s)
qed

definition sample_label_event :: gl_merge_event where
  "sample_label_event = gl_merge_event_zero\<lparr>gle_Action := ''update'', gle_Changes := Some ([''bug''], [''bug'', ''urgent''])\<rparr>"

theorem gl_action_labels_witness: "fst (gl_action sample_label_event) = PullRequestActionUnlabeled"
  using gl_action_labels[of sample_label_event "[''bug'']" "[''bug'', ''urgent'']"]
  by (auto simp: sample_label_event_def gl_merge_event_zero_def)

text \<open>
  An error reply is sent with the given status and a JSON body with the
  message, but its Content-Type never reaches the client: it is set after the
  headers were sent. A successful JSON reply carries it.
\<close>

theorem RespondError_loses_type:
  "rw_Sent (RespondError code msg new_writer) = Some (code, Map.empty)
   \<and> rw_Body (RespondError code msg new_writer) = json_print (JObj [(''message'', JStr msg)])
   \<and> (\<exists>h. rw_Sent (RespondJSON dat new_writer) = Some (200, h) \<and> h ''Content-Type'' = Some ''application/json'')"
  by (simp add: RespondError_def RespondJSON_def write_body_def set_header_def WriteHeader_def new_writer_def)

lemma undeployed:
  "made.keeps (- deploys) (plain_setTargetClient env)"
  "made.keeps (- deploys) (getDeployResourceList env a)"
  "made.keeps (- deploys) (prune (clearApplicationResources env) old upd)"
  unfolding plain_setTargetClient_def GetApplicationClusterConfig_def getDestClusterSecret_def Let_def
    getDeployResourceList_def prune_def clearApplicationResources_def delete_resource_def
  by (auto intro!: made_intros set_TargetCli_made plain_mgr_made split: sum.splits)

text \<open>
  C23: With the fake client, which every Application on an unknown host gets, a
  successful sync deploys nothing and deletes every record of the Application,
  and a forced or automatic one reports Synced.
\<close>

theorem unknown_host_prunes_all:
  assumes "dr_api_ok env" and "plainManager s = Some m" and "pm_GitCli m = FakeClient r"
    and "plain_Sync env forced s = (Ok (), s')" and "app_sync (app s) = SyncStatusCodeUnknown"
  shows "set (new_calls s s') \<inter> deploys = {} \<and> app_sync (app s') = SyncStatusCodeSynced
    \<and> (\<exists>h old. e_list_dr env h (app_label (app s)) = Ok old
         \<and> filter is_delete_dr (new_calls s s') = map CDeleteDR old)"
proof -
  obtain infos old upd s1 s2 s3 s4 s5 where
    t: "plain_setTargetClient env s = (Ok (), s1)" and a1: "app s1 = app s"
    and i: "cli_GetManifestInfos env (pm_GitCli m) (src_Path (app_source (app s)))
           (src_TargetRevision (app_source (app s))) [] s1 = (Ok infos, s2)"
    and o: "e_list_dr env (hist s2) (app_label (app s)) = Ok old"
    and l: "getDeployResourceList env (app s) s2 = (Ok old, s3)"
    and f: "fold_each infos (sync_file env forced (pm_GitCli m) (dst_Namespace (app_dest (app s)))) Map.empty s3 = (Ok upd, s4)"
    and p: "prune (clearApplicationResources env) old upd s4 = (Ok (), s5)"
    and s': "s' = s5\<lparr>app := (if app_sync (app s5) = SyncStatusCodeUnknown
                         then set_sync SyncStatusCodeSynced (app s5) else app s5)\<rparr>"
    by (rule plain_Sync_phases[OF assms(4)]) (use assms(2) in auto)
  have infos: "infos = []" "s2 = s1" using i assms(3) by (simp_all add: prog_simps)
  then have upd: "upd = Map.empty" "s4 = s3" using f by (simp_all add: prog_simps)
  have "made (- deploys) s s5"
    using made.keepsD[OF undeployed(1) t] made.keepsD[OF undeployed(2) l] made.keepsD[OF undeployed(3) p] infos(2) upd(2) made.step_trans by metis
  then have none: "set (new_calls s s') \<inter> deploys = {}"
    using new_calls_made[of "- deploys" s s5] by (auto simp: s' new_calls_def)
  have "app s5 = app s"
    using same_app.keepsD[OF getDeployResourceList_same_app l] same_app.keepsD[OF prune_same_app p] a1 infos(2) upd(2)
    by (simp add: same_app_def)
  then have "app_sync (app s') = SyncStatusCodeSynced" using assms(5) by (simp add: s')
  moreover have "filter is_delete_dr (new_calls s s') = map CDeleteDR old"
  proof -
    note q = plain_Sync_first(1)[OF t i] and g = quiet_records[OF plain_Sync_first(1)[OF t i]]
    note g3 = quiet_records[OF made.keepsD[OF getDeployResourceList_records l]]
    have "deleted_records s s3 = []" using deleted_trans[OF g(1) g3(1)] g(3) g3(3) by simp
    moreover have "deleted_records s3 s5 = map CDeleteDR old"
      using prune_run[OF p] by (simp add: upd)
    ultimately have "deleted_records s s5 = map CDeleteDR old"
      using deleted_trans[OF new_calls_trans(1)[OF g(1) g3(1)]] prune_run[OF p] upd(2) by simp
    then show ?thesis by (simp add: deleted_records_def new_calls_def s')
  qed
  ultimately show ?thesis using none o by blast
qed

definition sample_lost_st :: st where
  "sample_lost_st = sample_unknown_st\<lparr>plainManager := Some \<lparr>pm_TargetCli = DefaultCli, pm_GitCli = FakeClient ''o/r''\<rparr>\<rparr>"

lemma sample_lost_run: "fst (plain_Sync sample_git_env False sample_lost_st) = Ok ()"
  by code_simp

theorem unknown_host_prunes_all_witness:
  "filter is_delete_dr (new_calls sample_lost_st (snd (plain_Sync sample_git_env False sample_lost_st)))
   = [CDeleteDR (sample_record ''cm''), CDeleteDR (sample_record ''old'')]"
proof -
  have "plain_Sync sample_git_env False sample_lost_st = (Ok (), snd (plain_Sync sample_git_env False sample_lost_st))"
    using sample_lost_run by (simp add: prod_eq_iff)
  moreover have "app_sync (app sample_lost_st) = SyncStatusCodeUnknown"
    by (simp add: sample_lost_st_def sample_unknown_st_def)
  ultimately show ?thesis
    using unknown_host_prunes_all[OF sample_git_api, of sample_lost_st _ "''o/r''" False]
    by (auto simp: sample_lost_st_def sample_git_env_def)
qed

end
