(* ===== verification/SourceSpec.thy ===== *)
theory SourceSpec
  imports GitCli
begin

text \<open>
  The functional contract of the Git layer: link headers and pages, the client an
  Application's repository URL selects, and the objects of a manifest file.
\<close>

section \<open>Link headers\<close>

lemma link_chars:
  assumes "link_ok l"
  shows "CHR '','' \<notin> set (render_link l)" and "CHR '';'' \<notin> set (''<'' @ link_URL l @ ''>'')"
    and "set (link_URL l) \<inter> set ''<>'' = {}" and "\<forall>c \<in> set (link_URL l). \<not> ascii_space c"
    and "CHR 0x22 \<notin> set (link_Rel l)" and "CHR '';'' \<notin> set (link_Rel l)"
  using assms by (auto simp: link_ok_def render_link_def)

lemma ends_disjoint: "set s \<inter> A = {} \<Longrightarrow> s = [] \<or> (hd s \<notin> A \<and> last s \<notin> A)"
  by (metis disjoint_iff hd_in_set last_in_set)

lemma Split_render:
  assumes "link_ok l"
  shows "Split (TrimSpace (render_link l)) '';'' =
    [''<'' @ link_URL l @ ''>'', '' rel='' @ [CHR 0x22] @ link_Rel l @ [CHR 0x22]]"
proof -
  have "TrimSpace (render_link l) = render_link l"
    by (rule TrimSpace_id) (simp add: render_link_def ascii_space_def)
  moreover have "render_link l = (''<'' @ link_URL l @ ''>'') @ CHR '';'' # '' rel='' @ [CHR 0x22] @ link_Rel l @ [CHR 0x22]"
    by (simp add: render_link_def)
  moreover have "CHR '';'' \<notin> set ('' rel='' @ [CHR 0x22] @ link_Rel l @ [CHR 0x22])"
    using link_chars(6)[OF assms] by simp
  ultimately show ?thesis
    using Split_char_append[OF link_chars(2)[OF assms], of "'' rel='' @ [CHR 0x22] @ link_Rel l @ [CHR 0x22]"]
      Split_char_single by (metis (no_types, lifting))
qed

lemma url_token:
  assumes "link_ok l"
  shows "link_token (TrimSpace (''<'' @ link_URL l @ ''>'')) e = e\<lparr>link_URL := link_URL l\<rparr>"
proof -
  let ?t = "CHR ''<'' # link_URL l @ ''>''"
  have t: "TrimSpace ?t = ?t" by (rule TrimSpace_id) (simp add: ascii_space_def)
  have "link_URL l = [] \<or> (hd (link_URL l) \<notin> set ''<>'' \<and> last (link_URL l) \<notin> set ''<>'')"
    by (rule ends_disjoint[OF link_chars(3)[OF assms]])
  then have w: "Trim ?t ''<>'' = link_URL l" by (intro Trim_wrap) simp_all
  have "link_URL l = [] \<or> (\<not> ascii_space (hd (link_URL l)) \<and> \<not> ascii_space (last (link_URL l)))"
    using link_chars(4)[OF assms] by (cases "link_URL l") auto
  then have u: "TrimSpace (link_URL l) = link_URL l" by (rule TrimSpace_id)
  have "\<exists>k. hd (SplitN2 ?t ''='') = CHR ''<'' # k"
    by (auto simp: SplitN2_def cut_char split: option.split)
  then have "ToLower (hd (SplitN2 ?t ''='')) \<noteq> ''rel''"
    by (auto simp: ToLower_def lower_char_def ascii_upper_def split: if_splits)
  then show ?thesis using t w u by (simp add: link_token_def Let_def)
qed

lemma rel_token:
  assumes "link_ok l"
  shows "link_token (TrimSpace ('' rel='' @ [CHR 0x22] @ link_Rel l @ [CHR 0x22])) e = e\<lparr>link_Rel := link_Rel l\<rparr>"
proof -
  let ?q = "CHR 0x22 # link_Rel l @ [CHR 0x22]"
  have t: "TrimSpace ('' rel='' @ ?q) = ''rel='' @ ?q"
  proof -
    have "TrimSpace (''rel='' @ ?q) = ''rel='' @ ?q" by (rule TrimSpace_id) (simp add: ascii_space_def)
    then show ?thesis by (simp add: ascii_space_def)
  qed
  have s: "SplitN2 (''rel='' @ ?q) ''='' = [''rel'', ?q]"
    by (simp add: SplitN2_def cut_char)
  have "link_Rel l = [] \<or> (hd (link_Rel l) \<notin> set [CHR 0x22] \<and> last (link_Rel l) \<notin> set [CHR 0x22])"
    by (rule ends_disjoint) (simp add: link_chars(5)[OF assms])
  then have w: "Trim ?q [CHR 0x22] = link_Rel l" by (intro Trim_wrap) simp_all
  have "ToLower ''rel'' = ''rel''" by (simp add: ToLower_def lower_char_def ascii_upper_def)
  then show ?thesis using t s w by (simp add: link_token_def Let_def)
qed

lemma link_entry_render: "link_ok l \<Longrightarrow> link_entry_of (render_link l) = l"
  by (simp only: link_entry_of_def Split_render foldl.simps url_token rel_token) simp

lemma link_entry_space: "link_entry_of (CHR '' '' # e) = link_entry_of e"
  by (simp add: link_entry_of_def ascii_space_def)

lemma Join_comma_space: "Join (s # ss) '', '' = Join (s # map ((#) (CHR '' '')) ss) '',''"
proof (induction ss arbitrary: s)
  case (Cons a ss)
  then show ?case by (cases ss) simp_all
qed simp

section \<open>Properties\<close>

text \<open>
  C27: Parsing a Link header that a server prints in the standard form gives back
  exactly its links, in order, provided that no URL or relation has a comma, a
  semicolon, a space, an angle bracket or a quote inside.
\<close>

theorem ParseLinkHeader_roundtrip:
  assumes "\<And>l. l \<in> set ls \<Longrightarrow> link_ok l"
  shows "ParseLinkHeader (render_links ls) = ls"
proof (cases ls)
  case Nil
  then show ?thesis by (simp add: render_links_def ParseLinkHeader_def)
next
  case (Cons l ls')
  let ?parts = "render_link l # map ((#) (CHR '' '')) (map render_link ls')"
  have r: "render_links ls = Join ?parts '',''"
    by (simp only: render_links_def Cons list.map Join_comma_space)
  have "CHR '','' \<notin> set p" if "p \<in> set ?parts" for p
    using that assms link_chars(1) Cons by auto
  then have "Split (render_links ls) '','' = ?parts" unfolding r by (intro Split_Join_char) auto
  moreover have "render_links ls \<noteq> []"
    unfolding r by (cases ls') (simp_all add: render_link_def)
  moreover have "map link_entry_of ?parts = l # ls'"
    using assms Cons by (simp add: link_entry_render link_entry_space map_idI)
  ultimately show ?thesis by (simp only: ParseLinkHeader_def if_False Cons)
qed

definition sample_links :: "link_entry list" where
  "sample_links = [\<lparr>link_URL = ''https://api.github.com/x?page=2'', link_Rel = ''next''\<rparr>,
     \<lparr>link_URL = ''https://api.github.com/x?page=9'', link_Rel = ''last''\<rparr>]"

theorem ParseLinkHeader_roundtrip_witness: "ParseLinkHeader (render_links sample_links) = sample_links"
  by (rule ParseLinkHeader_roundtrip) (auto simp: sample_links_def link_ok_def ascii_space_def)

text \<open>
  C28: When the server answers every page of a listing with a success and the chain
  of its next links ends within the bound, the paginated request terminates: it
  returns the entries of all pages, in order, and requests each page once.
\<close>

theorem GetPaginatedRequest_collects:
  assumes "first_page apiURL = Ok uri" and "served env hs decode uri ps" and "length ps \<le> e_fuel env"
  shows "GetPaginatedRequest env apiURL hs decode s =
    (Ok (concat (map snd ps)),
     s\<lparr>hist := rev (map (\<lambda>(u, _). CHttp (make_request ''GET'' u hs None)) ps) @ hist s\<rparr>)"
  using paginate_served[OF assms(2,3), of "[]" s] assms(1)
  by (simp add: GetPaginatedRequest_def bnd_def prog_simps)

text \<open>A server with two pages.\<close>

definition page_one :: string where
  "page_one = ''https://git/x?per_page=100''"

definition page_two :: string where
  "page_two = ''https://git/x?page=2''"

definition sample_pages_env :: env where
  "sample_pages_env = sample_env\<lparr>e_http := (\<lambda>_ rq. Ok \<lparr>rs_StatusCode = 200,
     rs_Header = (if rq_URI rq = page_one
                  then [(''Link'', [render_link \<lparr>link_URL = page_two, link_Rel = ''next''\<rparr>])] else []),
     rs_Body = rq_URI rq\<rparr>)\<rparr>"

lemma sample_pages:
  "first_page ''https://git/x'' = Ok page_one" "is_ok (url_Parse page_one)" "is_ok (url_Parse page_two)"
  "next_link [(''Link'', [render_link \<lparr>link_URL = page_two, link_Rel = ''next''\<rparr>])] = Some page_two"
  "next_link [] = None" "page_two \<noteq> page_one"
  by code_simp+

lemma sample_served: "served sample_pages_env [] (\<lambda>b. Ok [b]) page_one [(page_one, [page_one]), (page_two, [page_two])]"
proof -
  obtain u v where u: "url_Parse page_one = Ok u" and v: "url_Parse page_two = Ok v"
    using sample_pages(2,3) by (auto simp: is_ok_iff)
  have "served sample_pages_env [] (\<lambda>b. Ok [b]) page_two [(page_two, [page_two])]"
    by (rule served.last_page[OF v, where r = "\<lparr>rs_StatusCode = 200, rs_Header = [], rs_Body = page_two\<rparr>"])
       (simp_all add: sample_pages_env_def make_request_def sample_pages)
  then show ?thesis
    by (intro served.more_pages[OF u, where uri' = page_two and r = "\<lparr>rs_StatusCode = 200,
          rs_Header = [(''Link'', [render_link \<lparr>link_URL = page_two, link_Rel = ''next''\<rparr>])], rs_Body = page_one\<rparr>"])
       (simp_all add: sample_pages_env_def make_request_def sample_pages)
qed

theorem GetPaginatedRequest_collects_witness:
  "fst (GetPaginatedRequest sample_pages_env ''https://git/x'' [] (\<lambda>b. Ok [b]) sample_st) = Ok [page_one, page_two]"
proof -
  have "e_fuel sample_pages_env = 5" by (simp add: sample_pages_env_def sample_env_def)
  then show ?thesis
    by (subst GetPaginatedRequest_collects[OF sample_pages(1) sample_served]) simp_all
qed

text \<open>
  The client of an Application follows its repository URL: on github.com and
  gitlab.com the client talks to the public API of that service about the path of
  the URL, with the token and the webhook secret of the Application; on every other
  host, self-hosted servers included, the in-memory fake client is used.
\<close>

theorem GetGitCli_follows_url:
  assumes "list_all url_plain h" and "list_all url_plain_path p"
    and "src_RepoURL (app_source (app s)) = ''https://'' @ h @ ''/'' @ p"
    and "GetGitCli env s = (Ok g, s')"
  shows "if h = ''github.com'' then \<exists>c. g = GithubClient c \<and> GitAPIURL c = GithubDefaultAPIUrl
           \<and> GitRepository c = p \<and> GitWebhookSecret c = stat_Secrets (app_Status (app s))
           \<and> fst (GetToken env s) = Ok (GitToken c)
         else if h = ''gitlab.com'' then \<exists>c. g = GitlabClient c \<and> GitAPIURL c = GitlabDefaultAPIUrl
           \<and> GitRepository c = p \<and> GitWebhookSecret c = stat_Secrets (app_Status (app s))
           \<and> fst (GetToken env s) = Ok (GitToken c)
         else g = FakeClient p"
proof -
  let ?u = "https_url h (''/'' @ p)"
  have "list_all url_plain_path (''/'' @ p)" using assms(2) by (simp add: url_plain_path_def)
  then have "url_Parse (src_RepoURL (app_source (app s))) = Ok ?u"
    using url_Parse_https[OF assms(1), of "''/'' @ p"] assms(3) by simp
  moreover have "u_Host ?u = h" "u_Path ?u = CHR ''/'' # p" by (simp_all add: https_url_def empty_url_def)
  moreover have "GitTypeGitLab \<noteq> GitTypeGitHub" "GitTypeFake \<noteq> GitTypeGitHub" "GitTypeFake \<noteq> GitTypeGitLab"
    by (simp_all add: GitTypeGitHub_def GitTypeGitLab_def GitTypeFake_def)
  moreover obtain r t where "GetToken env s = (r, t)" by fastforce
  ultimately show ?thesis
    using assms(4)
    by (cases r)
       (auto simp: GetGitCli_def GetGitType_def GetAPIUrl_def GetRepository_def bnd_def prog_simps Let_def
          gh_Init_def gl_Init_def split: if_splits)
qed

theorem GetGitCli_follows_url_witness:
  "\<exists>c. fst (GetGitCli sample_env sample_st) = Ok (GithubClient c) \<and> GitRepository c = ''tmax-cloud/cd-example-apps''"
proof -
  have src: "src_RepoURL (app_source (app sample_st)) = ''https://'' @ ''github.com'' @ ''/'' @ ''tmax-cloud/cd-example-apps''"
    by (simp add: sample_st_def sample_user_app_def)
  have ok: "is_ok (fst (GetGitCli sample_env sample_st))" by code_simp
  then obtain g where "GetGitCli sample_env sample_st = (Ok g, snd (GetGitCli sample_env sample_st))"
    by (metis is_ok_iff prod.collapse)
  moreover have "list_all url_plain ''github.com''" "list_all url_plain_path ''tmax-cloud/cd-example-apps''"
    by code_simp+
  ultimately show ?thesis using GetGitCli_follows_url[OF _ _ src] by (metis fst_conv)
qed

text \<open>
  A manifest file becomes its documents, cut at the separator lines and none
  lost; every object it yields has a namespace when the destination has one, its
  own or the destination's; an error in any document rejects the whole file.
\<close>

theorem manifest_objects_spec:
  "Join (SplitMultipleObjectsYAML raw) [CHR 0x0A, CHR ''-'', CHR ''-'', CHR ''-'', CHR 0x0A] = raw
   \<and> (\<forall>obs. manifest_objects env ns docs = Ok obs \<longrightarrow>
        length obs \<le> length docs
        \<and> (\<forall>ob \<in> set obs. \<exists>doc \<in> set docs. \<exists>b u. e_yaml_to_json env doc = Ok b \<and> b \<noteq> ''null''
              \<and> e_to_unstructured env b = Ok u
              \<and> ob = u\<lparr>u_Namespace := (if u_Namespace u = [] then ns else u_Namespace u)\<rparr>)
        \<and> (\<forall>doc \<in> set docs. \<exists>b. e_yaml_to_json env doc = Ok b))"
proof -
  have "length obs \<le> length docs
        \<and> (\<forall>ob \<in> set obs. \<exists>doc \<in> set docs. \<exists>b u. e_yaml_to_json env doc = Ok b \<and> b \<noteq> ''null''
              \<and> e_to_unstructured env b = Ok u
              \<and> ob = u\<lparr>u_Namespace := (if u_Namespace u = [] then ns else u_Namespace u)\<rparr>)
        \<and> (\<forall>doc \<in> set docs. \<exists>b. e_yaml_to_json env doc = Ok b)"
    if "manifest_objects env ns docs = Ok obs" for obs
    using that
  proof (induction docs arbitrary: obs)
    case Nil
    then show ?case by simp
  next
    case (Cons doc docs)
    obtain b where b: "e_yaml_to_json env doc = Ok b" using Cons.prems by (auto simp: res_bind_eq_Ok)
    show ?case
    proof (cases "b = ''null''")
      case True
      with Cons b show ?thesis by fastforce
    next
      case False
      with Cons.prems b obtain u obs' where u: "e_to_unstructured env b = Ok u"
        and obs': "manifest_objects env ns docs = Ok obs'" and obs: "obs = default_namespace ns u # obs'"
        by (auto simp: res_bind_eq_Ok BytesToUnstructuredObject_def)
      have "default_namespace ns u = u\<lparr>u_Namespace := (if u_Namespace u = [] then ns else u_Namespace u)\<rparr>"
        by (simp add: default_namespace_def)
      with Cons.IH[OF obs'] b False u show ?thesis by (simp add: obs)
    qed
  qed
  then show ?thesis by (simp add: SplitMultipleObjectsYAML_def Join_Split)
qed

theorem manifest_objects_spec_witness:
  "\<exists>b c. e_yaml_to_json sample_env ''kind: A'' = Ok b \<and> e_yaml_to_json sample_env ''kind: B'' = Ok c"
proof -
  have "is_ok (manifest_objects sample_env ''web'' [''kind: A'', ''kind: B''])" by code_simp
  then obtain obs where "manifest_objects sample_env ''web'' [''kind: A'', ''kind: B''] = Ok obs" by (auto simp: is_ok_iff)
  then show ?thesis using manifest_objects_spec[of _ sample_env "''web''" "[''kind: A'', ''kind: B'']"] by simp
qed

end
