(* ===== verification/Configs.thy ===== *)
theory Configs
  imports World
begin

text \<open>
  \<open>internal/configs\<close> and \<open>controllers/configmap_controller.go\<close>: how a ConfigMap
  becomes the global variables of the operator, and how the components that use
  them are told. The state is its own, since the goroutine of the ConfigMap
  controller shares nothing else with the handlers; \<open>cfg_view\<close> is what the rest of
  the model sees of it.
\<close>

section \<open>Variables behind pointers\<close>

text \<open>A pointer is the name of the global variable it points to; \<open>None\<close> is nil.\<close>

record var_mem =
  str_mem :: "string \<Rightarrow> string"
  int_mem :: "string \<Rightarrow> int"
  bool_mem :: "string \<Rightarrow> bool"

datatype cfgType = cfgTypeString | cfgTypeInt | cfgTypeBool

record operatorConfig =
  oc_Type :: cfgType
  StringVal :: "string option"
  StringDefault :: string
  IntVal :: "string option"
  IntDefault :: int
  BoolVal :: "string option"
  BoolDefault :: bool

definition string_config :: "string \<Rightarrow> string \<Rightarrow> operatorConfig" where
  "string_config p d = \<lparr>oc_Type = cfgTypeString, StringVal = Some p, StringDefault = d,
     IntVal = None, IntDefault = 0, BoolVal = None, BoolDefault = False\<rparr>"

text \<open>The body of the loop of \<open>getVars\<close>, on one variable.\<close>

definition get_var :: "(string \<rightharpoonup> string) \<Rightarrow> string \<Rightarrow> operatorConfig \<Rightarrow> var_mem \<Rightarrow> var_mem" where
  "get_var dat key c m =
     (case oc_Type c of
        cfgTypeString \<Rightarrow>
          (case StringVal c of
             None \<Rightarrow> m
           | Some p \<Rightarrow> m\<lparr>str_mem := (str_mem m)(p := (case dat key of Some v \<Rightarrow> v | None \<Rightarrow> StringDefault c))\<rparr>)
      | cfgTypeInt \<Rightarrow>
          (case IntVal c of
             None \<Rightarrow> m
           | Some p \<Rightarrow>
               (case dat key of
                  Some v \<Rightarrow> (case Atoi v of Ok i \<Rightarrow> m\<lparr>int_mem := (int_mem m)(p := i)\<rparr> | _ \<Rightarrow> m)
                | None \<Rightarrow> m\<lparr>int_mem := (int_mem m)(p := IntDefault c)\<rparr>))
      | cfgTypeBool \<Rightarrow>
          (case BoolVal c of
             None \<Rightarrow> m
           | Some p \<Rightarrow>
               (case dat key of
                  Some v \<Rightarrow> (case ParseBool v of Ok b \<Rightarrow> m\<lparr>bool_mem := (bool_mem m)(p := b)\<rparr> | _ \<Rightarrow> m)
                | None \<Rightarrow> m\<lparr>bool_mem := (bool_mem m)(p := BoolDefault c)\<rparr>)))"

text \<open>\<open>vars\<close> lists the entries of the map in the order the range visits them.\<close>

definition getVars :: "(string \<rightharpoonup> string) \<Rightarrow> (string \<times> operatorConfig) list \<Rightarrow> var_mem \<Rightarrow> var_mem" where
  "getVars dat vars m = fold (\<lambda>(key, c). get_var dat key c) vars m"

definition controller_vars :: "(string \<times> operatorConfig) list" where
  "controller_vars =
     [(''externalHostName'', string_config ''ExternalHostName'' []),
      (''exposeMode'', string_config ''ExposeMode'' ''Ingress''),
      (''ingressClass'', string_config ''IngressClass'' []),
      (''ingressHost'', string_config ''IngressHost'' [])]"

section \<open>Channels\<close>

text \<open>
  Channels are numbered; \<open>ControllerInitCh\<close> is number 0. Their elements carry
  nothing, so a channel is the number of its tokens and its capacity.
\<close>

record cfg_state =
  mem :: var_mem
  ControllerInitiated :: bool
  controllerConfigUpdateChan :: "nat list"
  chan_len :: "nat \<Rightarrow> nat"
  chan_cap :: "nat \<Rightarrow> nat"

definition ControllerInitCh :: nat where
  "ControllerInitCh = 0"

text \<open>A send to a full channel blocks.\<close>

definition send_ch :: "nat \<Rightarrow> (cfg_state, unit) prog" where
  "send_ch c = (\<lambda>s. if chan_len s c < chan_cap s c
     then (Ok (), s\<lparr>chan_len := (chan_len s)(c := Suc (chan_len s c))\<rparr>) else (Loops, s))"

definition notify_ch :: "nat \<Rightarrow> (cfg_state, unit) prog" where
  "notify_ch c = bnd (gets (\<lambda>s. chan_len s c < chan_cap s c)) (\<lambda>free. if free then send_ch c else ret ())"

definition RegisterControllerConfigUpdateChan :: "nat \<Rightarrow> (cfg_state, unit) prog" where
  "RegisterControllerConfigUpdateChan c =
     modify (\<lambda>s. s\<lparr>controllerConfigUpdateChan := controllerConfigUpdateChan s @ [c]\<rparr>)"

text \<open>\<open>ord\<close> is the order in which the range over the four entries goes.\<close>

record config_map =
  cm_Name :: string
  cm_ResourceVersion :: string
  cm_Data :: "string \<rightharpoonup> string"

definition ApplyControllerConfigChange :: "nat list \<Rightarrow> config_map \<Rightarrow> (cfg_state, unit) prog" where
  "ApplyControllerConfigChange ord cm =
     bnd (modify (\<lambda>s. s\<lparr>mem := getVars (cm_Data cm) (map (nth controller_vars) ord) (mem s)\<rparr>)) (\<lambda>_.
     bnd (gets ControllerInitiated) (\<lambda>initiated.
     bnd (if \<not> initiated then
            bnd (modify (\<lambda>s. s\<lparr>ControllerInitiated := True\<rparr>)) (\<lambda>_. notify_ch ControllerInitCh)
          else ret ()) (\<lambda>_.
     bnd (gets controllerConfigUpdateChan) (\<lambda>chans. for_each chans notify_ch))))"

section \<open>The ConfigMap controller\<close>

text \<open>
  \<open>lastResourceVersions\<close> is read with the zero value for a missing key. A handler
  works on the state \<open>'s\<close>; a nil ConfigMap is \<open>None\<close>.
\<close>

record 's config_ctl =
  lastResourceVersions :: "string \<Rightarrow> string"
  rest_state :: 's

definition on_rest :: "('s, 'a) prog \<Rightarrow> ('s config_ctl, 'a) prog" where
  "on_rest m = (\<lambda>s. case m (rest_state s) of (r, t) \<Rightarrow> (r, s\<lparr>rest_state := t\<rparr>))"

definition Config_Add ::
  "string \<Rightarrow> (config_map \<Rightarrow> ('s, unit) prog) \<Rightarrow> (string \<rightharpoonup> config_map \<Rightarrow> ('s, unit) prog)
   \<Rightarrow> (string \<rightharpoonup> config_map \<Rightarrow> ('s, unit) prog)" where
  "Config_Add name handler hs = hs(name \<mapsto> handler)"

definition Config_Reconcile ::
  "(string \<rightharpoonup> config_map \<Rightarrow> ('s, unit) prog) \<Rightarrow> config_map option \<Rightarrow> ('s config_ctl, unit) prog" where
  "Config_Reconcile hs cm_ptr =
     (case cm_ptr of
        None \<Rightarrow> ret ()
      | Some cm \<Rightarrow>
          bnd (gets lastResourceVersions) (\<lambda>lasts.
          if cm_ResourceVersion cm = lasts (cm_Name cm) then ret ()
          else
            bnd (modify (\<lambda>s. s\<lparr>lastResourceVersions := (lastResourceVersions s)(cm_Name cm := cm_ResourceVersion cm)\<rparr>)) (\<lambda>_.
            case hs (cm_Name cm) of
              None \<Rightarrow> ret ()
            | Some handler \<Rightarrow> on_rest (handler cm))))"

text \<open>
  \<open>watch\<close> on the events one watch delivers: each is an object, a ConfigMap (the
  type assertion holds) or something else; errors are logged.
\<close>

definition Config_watch ::
  "(string \<rightharpoonup> config_map \<Rightarrow> ('s, unit) prog) \<Rightarrow> config_map option list \<Rightarrow> ('s config_ctl, unit) prog" where
  "Config_watch hs evs = for_each evs (\<lambda>ob.
     case ob of
       None \<Rightarrow> ret ()
     | Some cm \<Rightarrow> bnd (attempt (Config_Reconcile hs (Some cm))) (\<lambda>_. ret ()))"

text \<open>The handlers of \<open>cmd/controller/main.go\<close>.\<close>

definition ConfigMapNameCDConfig :: string where
  "ConfigMapNameCDConfig = ''cd-config''"

definition operator_handlers :: "nat list \<Rightarrow> (string \<rightharpoonup> config_map \<Rightarrow> (cfg_state, unit) prog)" where
  "operator_handlers ord = Config_Add ConfigMapNameCDConfig (ApplyControllerConfigChange ord) Map.empty"

section \<open>What the variables become\<close>

definition cfg_view :: "var_mem \<Rightarrow> config_vars" where
  "cfg_view m = \<lparr>ExternalHostName = str_mem m ''ExternalHostName'',
     CurrentExternalHostName = str_mem m ''CurrentExternalHostName'',
     ExposeMode = str_mem m ''ExposeMode'', IngressClass = str_mem m ''IngressClass'',
     IngressHost = str_mem m ''IngressHost''\<rparr>"

text \<open>
  The contract: every configurable variable takes its value or its default, and
  \<open>CurrentExternalHostName\<close> is not configurable.
\<close>

definition configured :: "(string \<rightharpoonup> string) \<Rightarrow> config_vars \<Rightarrow> config_vars" where
  "configured dat c =
     (let val = (\<lambda>k d. case dat k of Some v \<Rightarrow> v | None \<Rightarrow> d) in
      c\<lparr>ExternalHostName := val ''externalHostName'' [], ExposeMode := val ''exposeMode'' ''Ingress'',
        IngressClass := val ''ingressClass'' [], IngressHost := val ''ingressHost'' []\<rparr>)"

lemma configured_twice: "configured d (configured d' c) = configured d c"
  by (simp add: configured_def Let_def)

text \<open>Entries that write different variables may be visited in any order.\<close>

definition target :: "operatorConfig \<Rightarrow> cfgType \<times> string option" where
  "target c = (oc_Type c, case oc_Type c of
     cfgTypeString \<Rightarrow> StringVal c | cfgTypeInt \<Rightarrow> IntVal c | cfgTypeBool \<Rightarrow> BoolVal c)"

lemma get_var_commute:
  assumes "target c \<noteq> target d"
  shows "get_var dat k c (get_var dat l d m) = get_var dat l d (get_var dat k c m)"
  using assms
  by (cases "oc_Type c"; cases "oc_Type d")
     (auto simp: get_var_def target_def fun_upd_twist split: option.split res.split)

lemma getVars_order:
  assumes "distinct (map (target \<circ> snd) vars)" and "mset vars' = mset vars"
  shows "getVars dat vars' m = getVars dat vars m"
proof -
  have d: "distinct vars" using assms(1) by (metis distinct_map)
  have "fold (\<lambda>(key, c). get_var dat key c) vars' = fold (\<lambda>(key, c). get_var dat key c) vars"
  proof (rule fold_multiset_equiv[OF _ assms(2)])
    fix x y assume "x \<in> set vars'" and "y \<in> set vars'"
    then have xy: "x \<in> set vars" "y \<in> set vars" using assms(2) by (metis set_mset_mset)+
    have "x = y \<or> target (snd x) \<noteq> target (snd y)"
      using xy assms(1) by (auto simp: distinct_map inj_on_def)
    then show "(case x of (key, c) \<Rightarrow> get_var dat key c) \<circ> (case y of (key, c) \<Rightarrow> get_var dat key c)
        = (case y of (key, c) \<Rightarrow> get_var dat key c) \<circ> (case x of (key, c) \<Rightarrow> get_var dat key c)"
      using get_var_commute by (auto simp: fun_eq_iff split: prod.splits)
  qed
  then show ?thesis by (simp add: getVars_def)
qed

lemma controller_vars_order:
  assumes "mset ord = mset [0..<4]"
  shows "getVars dat (map (nth controller_vars) ord) m = getVars dat controller_vars m"
proof (rule getVars_order)
  have "length controller_vars = 4" by (simp add: controller_vars_def)
  then have "mset (map (nth controller_vars) ord) = mset (map (nth controller_vars) [0..<length controller_vars])"
    using assms by (simp only: mset_map)
  then show "mset (map (nth controller_vars) ord) = mset controller_vars" by (simp only: map_nth)
qed (simp add: controller_vars_def target_def string_config_def)

lemma controller_vars_view: "cfg_view (getVars dat controller_vars m) = configured dat (cfg_view m)"
  by (simp add: getVars_def controller_vars_def get_var_def string_config_def cfg_view_def configured_def Let_def
      cong: option.case_cong)

section \<open>Nobody is blocked\<close>

definition told :: "nat list \<Rightarrow> cfg_state \<Rightarrow> nat \<Rightarrow> nat" where
  "told chans s c = (if chan_len s c \<le> chan_cap s c
     then min (chan_cap s c) (chan_len s c + count_list chans c) else chan_len s c)"

lemma notify_all: "for_each chans notify_ch s = (Ok (), s\<lparr>chan_len := told chans s\<rparr>)"
proof (induction chans arbitrary: s)
  case Nil
  have "told [] s = chan_len s" by (auto simp: told_def fun_eq_iff)
  then show ?case by (simp add: prog_simps)
next
  case (Cons c chans)
  let ?t = "s\<lparr>chan_len := (if chan_len s c < chan_cap s c then (chan_len s)(c := Suc (chan_len s c)) else chan_len s)\<rparr>"
  have "notify_ch c s = (Ok (), ?t)" by (simp add: notify_ch_def send_ch_def bnd_def prog_simps)
  moreover have "told chans ?t = told (c # chans) s" by (auto simp: told_def fun_eq_iff)
  ultimately show ?case using Cons.IH[of ?t] by (simp add: prog_simps)
qed

lemma notify_one: "notify_ch c s = (Ok (), s\<lparr>chan_len := told [c] s\<rparr>)"
  using notify_all[of "[c]" s] by (auto simp: bnd_def prog_simps split: prod.splits res.splits)

lemma Apply_run:
  assumes "mset ord = mset [0..<4]"
  shows "ApplyControllerConfigChange ord cm s =
    (Ok (), s\<lparr>mem := getVars (cm_Data cm) controller_vars (mem s), ControllerInitiated := True,
       chan_len := told (controllerConfigUpdateChan s)
         (if ControllerInitiated s then s else s\<lparr>chan_len := told [ControllerInitCh] s\<rparr>)\<rparr>)"
  by (simp add: ApplyControllerConfigChange_def controller_vars_order[OF assms] bnd_def prog_simps
      notify_all notify_one told_def fun_eq_iff)

end
