(* ===== verification/ConfigSpec.thy ===== *)
theory ConfigSpec
  imports Configs
begin

text \<open>
  What the configuration promises: the variables are those of the latest ConfigMap,
  whatever the order of the map iteration; no goroutine is ever blocked by a change
  of the configuration, and every component that registered a channel is told.
\<close>

section \<open>The channels over time\<close>

text \<open>
  The steps of the process: a change is applied, a watcher of the expose controller
  makes its channel (of capacity one) and registers it, somebody takes a token.
\<close>

definition cfg_start :: "cfg_state \<Rightarrow> bool" where
  "cfg_start s \<longleftrightarrow> \<not> ControllerInitiated s \<and> controllerConfigUpdateChan s = []
     \<and> (\<forall>c. chan_len s c = 0) \<and> chan_cap s ControllerInitCh = 1"

definition make_update_ch :: "nat \<Rightarrow> (cfg_state, unit) prog" where
  "make_update_ch c =
     bnd (modify (\<lambda>s. s\<lparr>chan_len := (chan_len s)(c := 0), chan_cap := (chan_cap s)(c := 1)\<rparr>)) (\<lambda>_.
     RegisterControllerConfigUpdateChan c)"

inductive cfg_step :: "cfg_state \<Rightarrow> cfg_state \<Rightarrow> bool" where
  applies: "mset ord = mset [0..<4] \<Longrightarrow> ApplyControllerConfigChange ord cm s = (r, s') \<Longrightarrow> cfg_step s s'"
| registers: "c \<noteq> ControllerInitCh \<Longrightarrow> c \<notin> set (controllerConfigUpdateChan s) \<Longrightarrow>
    make_update_ch c s = (r, s') \<Longrightarrow> cfg_step s s'"
| receives: "0 < chan_len s c \<Longrightarrow> cfg_step s (s\<lparr>chan_len := (chan_len s)(c := chan_len s c - 1)\<rparr>)"

inductive cfg_reachable :: "cfg_state \<Rightarrow> bool" where
  start: "cfg_start s \<Longrightarrow> cfg_reachable s"
| step: "cfg_reachable s \<Longrightarrow> cfg_step s s' \<Longrightarrow> cfg_reachable s'"

definition cfg_inv :: "cfg_state \<Rightarrow> bool" where
  "cfg_inv s \<longleftrightarrow> ControllerInitCh \<notin> set (controllerConfigUpdateChan s)
     \<and> distinct (controllerConfigUpdateChan s)
     \<and> (\<forall>c \<in> insert ControllerInitCh (set (controllerConfigUpdateChan s)). chan_cap s c = 1 \<and> chan_len s c \<le> 1)
     \<and> (\<not> ControllerInitiated s \<longrightarrow> chan_len s ControllerInitCh = 0)"

lemma cfg_invD:
  assumes "cfg_inv s"
  shows "ControllerInitCh \<notin> set (controllerConfigUpdateChan s)" and "distinct (controllerConfigUpdateChan s)"
    and "chan_cap s ControllerInitCh = 1" and "chan_len s ControllerInitCh \<le> 1"
    and "c \<in> set (controllerConfigUpdateChan s) \<Longrightarrow> chan_cap s c = 1 \<and> chan_len s c \<le> 1"
    and "\<not> ControllerInitiated s \<Longrightarrow> chan_len s ControllerInitCh = 0"
  using assms by (auto simp: cfg_inv_def)

lemma told_out: "c \<notin> set chans \<Longrightarrow> told chans s c = chan_len s c"
  by (simp add: told_def)

lemma told_in: "c \<in> set chans \<Longrightarrow> chan_cap s c = 1 \<Longrightarrow> chan_len s c \<le> 1 \<Longrightarrow> told chans s c = 1"
  using count_list_0_iff[of chans c] by (cases "count_list chans c") (auto simp: told_def)

text \<open>After a change every registered channel holds its token.\<close>

lemma Apply_tokens:
  assumes "cfg_inv s" and "mset ord = mset [0..<4]" and "ApplyControllerConfigChange ord cm s = (r, s')"
  shows "r = Ok ()" and "ControllerInitiated s'"
    and "controllerConfigUpdateChan s' = controllerConfigUpdateChan s" and "chan_cap s' = chan_cap s"
    and "c \<in> set (controllerConfigUpdateChan s) \<Longrightarrow> chan_len s' c = 1"
    and "chan_len s' ControllerInitCh = (if ControllerInitiated s then chan_len s ControllerInitCh else 1)"
proof -
  note run = Apply_run[OF assms(2), of cm s] and inv = cfg_invD[OF assms(1)]
  let ?t = "if ControllerInitiated s then s else s\<lparr>chan_len := told [ControllerInitCh] s\<rparr>"
  have s': "s' = s\<lparr>mem := getVars (cm_Data cm) controller_vars (mem s), ControllerInitiated := True,
      chan_len := told (controllerConfigUpdateChan s) ?t\<rparr>"
    using assms(3) by (simp add: run)
  show "r = Ok ()" "ControllerInitiated s'" "controllerConfigUpdateChan s' = controllerConfigUpdateChan s"
    "chan_cap s' = chan_cap s"
    using assms(3) by (auto simp: run)
  show "chan_len s' c = 1" if c: "c \<in> set (controllerConfigUpdateChan s)"
  proof -
    have "c \<noteq> ControllerInitCh" using inv(1) c by auto
    then have "chan_len ?t c = chan_len s c" by (simp add: told_out)
    then show ?thesis using told_in[OF c, of ?t] inv(5)[OF c] by (simp add: s')
  qed
  have "told [ControllerInitCh] s ControllerInitCh = 1" using told_in[of ControllerInitCh "[ControllerInitCh]" s] inv(3,4) by simp
  then show "chan_len s' ControllerInitCh = (if ControllerInitiated s then chan_len s ControllerInitCh else 1)"
    by (simp add: s' told_out[OF inv(1)])
qed

lemma cfg_step_inv:
  assumes "cfg_step s s'" and "cfg_inv s"
  shows "cfg_inv s'"
  using assms(1)
proof cases
  case (applies ord cm r)
  note t = Apply_tokens[OF assms(2) applies] and inv = cfg_invD[OF assms(2)]
  show ?thesis unfolding cfg_inv_def using t(2-6) inv by auto
next
  case (registers c r)
  then show ?thesis
    using assms(2) by (auto simp: make_update_ch_def RegisterControllerConfigUpdateChan_def bnd_def prog_simps cfg_inv_def)
next
  case (receives c)
  then show ?thesis using assms(2) by (auto simp: cfg_inv_def)
qed

lemma cfg_reachable_inv: "cfg_reachable s \<Longrightarrow> cfg_inv s"
proof (induction rule: cfg_reachable.induct)
  case (start s)
  then show ?case by (simp add: cfg_start_def cfg_inv_def)
next
  case (step s s')
  then show ?case using cfg_step_inv by blast
qed

section \<open>Events of a watch\<close>

text \<open>
  The version an event is compared with: that of the last event before it with the
  same name, or what the controller remembered.
\<close>

definition last_version :: "(string \<Rightarrow> string) \<Rightarrow> config_map list \<Rightarrow> string \<Rightarrow> string" where
  "last_version lasts before n =
     (case find (\<lambda>cm. cm_Name cm = n) (rev before) of None \<Rightarrow> lasts n | Some cm \<Rightarrow> cm_ResourceVersion cm)"

fun config_maps :: "config_map option list \<Rightarrow> config_map list" where
  "config_maps [] = []"
| "config_maps (Some cm # evs) = cm # config_maps evs"
| "config_maps (None # evs) = config_maps evs"

lemma config_maps_append [simp]: "config_maps (evs @ evs') = config_maps evs @ config_maps evs'"
  by (induction evs rule: config_maps.induct) auto

definition news :: "(string \<Rightarrow> string) \<Rightarrow> config_map list \<Rightarrow> config_map list" where
  "news lasts cms = map (nth cms) (filter (\<lambda>i. cm_ResourceVersion (cms ! i) \<noteq> last_version lasts (take i cms) (cm_Name (cms ! i)))
     [0..<length cms])"

definition handle_all ::
  "(string \<rightharpoonup> config_map \<Rightarrow> ('s, unit) prog) \<Rightarrow> config_map list \<Rightarrow> 's \<Rightarrow> 's" where
  "handle_all hs cms t = fold (\<lambda>cm t. case hs (cm_Name cm) of None \<Rightarrow> t | Some h \<Rightarrow> snd (h cm t)) cms t"

lemma last_version_snoc:
  "last_version lasts (cms @ [cm]) n = (if cm_Name cm = n then cm_ResourceVersion cm else last_version lasts cms n)"
  by (simp add: last_version_def)

lemma news_snoc:
  "news lasts (cms @ [cm]) = news lasts cms
     @ (if cm_ResourceVersion cm \<noteq> last_version lasts cms (cm_Name cm) then [cm] else [])"
proof -
  have "filter (\<lambda>i. cm_ResourceVersion ((cms @ [cm]) ! i) \<noteq> last_version lasts (take i (cms @ [cm])) (cm_Name ((cms @ [cm]) ! i)))
      [0..<length cms]
    = filter (\<lambda>i. cm_ResourceVersion (cms ! i) \<noteq> last_version lasts (take i cms) (cm_Name (cms ! i))) [0..<length cms]"
    by (rule filter_cong) (auto simp: nth_append)
  moreover have "map (nth (cms @ [cm])) (filter P [0..<length cms]) = map (nth cms) (filter P [0..<length cms])" for P
    by (rule map_cong) (auto simp: nth_append)
  ultimately show ?thesis by (simp add: news_def)
qed

lemma handle_all_append: "handle_all hs (cms @ cms') t = handle_all hs cms' (handle_all hs cms t)"
  by (simp add: handle_all_def)

definition no_crash :: "(string \<rightharpoonup> config_map \<Rightarrow> ('s, unit) prog) \<Rightarrow> bool" where
  "no_crash hs \<longleftrightarrow> (\<forall>n h cm t. hs n = Some h \<longrightarrow> fst (h cm t) \<in> range Ok \<union> range Err)"

lemma Config_Reconcile_run:
  assumes "no_crash hs"
  shows "\<exists>r. r \<in> range Ok \<union> range Err \<and> Config_Reconcile hs (Some cm) \<lparr>lastResourceVersions = v, rest_state = t\<rparr> =
     (r, \<lparr>lastResourceVersions = v(cm_Name cm := cm_ResourceVersion cm),
          rest_state = handle_all hs (if cm_ResourceVersion cm \<noteq> v (cm_Name cm) then [cm] else []) t\<rparr>)"
proof (cases "hs (cm_Name cm)")
  case None
  then show ?thesis
    by (auto simp: Config_Reconcile_def bnd_def prog_simps handle_all_def)
next
  case (Some h)
  then have "fst (h cm t) \<in> range Ok \<union> range Err" using assms by (auto simp: no_crash_def)
  with Some show ?thesis
    by (cases "h cm t") (auto simp: Config_Reconcile_def bnd_def prog_simps handle_all_def on_rest_def)
qed

lemma Config_watch_append:
  "Config_watch hs evs s = (Ok (), s') \<Longrightarrow> Config_watch hs (evs @ evs') s = Config_watch hs evs' s'"
  by (simp add: Config_watch_def for_each_append bnd_Ok)

lemma Config_watch_one:
  "Config_watch hs [None] s = (Ok (), s)"
  "Config_Reconcile hs (Some cm) s = (r, s') \<Longrightarrow> r \<in> range Ok \<union> range Err \<Longrightarrow> Config_watch hs [Some cm] s = (Ok (), s')"
  by (auto simp: Config_watch_def prog_simps bnd_def attempt_def)

lemma Config_watch_run:
  assumes "no_crash hs"
  shows "Config_watch hs evs \<lparr>lastResourceVersions = v, rest_state = t\<rparr> =
    (Ok (), \<lparr>lastResourceVersions = last_version v (config_maps evs),
             rest_state = handle_all hs (news v (config_maps evs)) t\<rparr>)"
proof (induction evs rule: rev_induct)
  case Nil
  show ?case
    by (simp add: Config_watch_def prog_simps last_version_def news_def handle_all_def)
next
  case (snoc ev evs)
  let ?cms = "config_maps evs"
  note run = Config_watch_append[OF snoc, of "[ev]"]
  show ?case
  proof (cases ev)
    case None
    then show ?thesis using run Config_watch_one(1)[of hs] by simp
  next
    case (Some cm)
    obtain r where r: "r \<in> range Ok \<union> range Err" and
      c: "Config_Reconcile hs (Some cm) \<lparr>lastResourceVersions = last_version v ?cms, rest_state = handle_all hs (news v ?cms) t\<rparr>
        = (r, \<lparr>lastResourceVersions = (last_version v ?cms)(cm_Name cm := cm_ResourceVersion cm),
          rest_state = handle_all hs (if cm_ResourceVersion cm \<noteq> last_version v ?cms (cm_Name cm) then [cm] else [])
            (handle_all hs (news v ?cms) t)\<rparr>)"
      using Config_Reconcile_run[OF assms] by blast
    have "last_version v (?cms @ [cm]) = (last_version v ?cms)(cm_Name cm := cm_ResourceVersion cm)"
      by (simp add: last_version_snoc fun_eq_iff)
    then show ?thesis
      using run Config_watch_one(2)[OF c r] Some by (simp add: news_snoc handle_all_append fun_upd_def)
  qed
qed

section \<open>The operator's handler\<close>

lemma operator_handlers_no_crash: "mset ord = mset [0..<4] \<Longrightarrow> no_crash (operator_handlers ord)"
  by (auto simp: no_crash_def operator_handlers_def Config_Add_def Apply_run split: if_splits)

definition versions_ok :: "config_map list \<Rightarrow> bool" where
  "versions_ok cms \<longleftrightarrow> (\<forall>cm \<in> set cms. cm_ResourceVersion cm \<noteq> [])
     \<and> (\<forall>cm \<in> set cms. \<forall>cm' \<in> set cms. cm_Name cm = cm_Name cm' \<and> cm_ResourceVersion cm = cm_ResourceVersion cm'
           \<longrightarrow> cm_Data cm = cm_Data cm')"

definition latest :: "config_map list \<Rightarrow> config_map option" where
  "latest cms = find (\<lambda>cm. cm_Name cm = ConfigMapNameCDConfig) (rev cms)"

lemma latest_snoc:
  "latest (cms @ [cm]) = (if cm_Name cm = ConfigMapNameCDConfig then Some cm else latest cms)"
  by (simp add: latest_def)

lemma latest_in: "latest cms = Some cm \<Longrightarrow> cm \<in> set cms \<and> cm_Name cm = ConfigMapNameCDConfig"
  by (metis (mono_tags, lifting) latest_def find_Some_iff nth_mem set_rev)

lemma versions_ok_subset: "versions_ok cms \<Longrightarrow> set cms' \<subseteq> set cms \<Longrightarrow> versions_ok cms'"
  unfolding versions_ok_def by blast

lemma versions_okD:
  assumes "versions_ok cms" and "cm \<in> set cms"
  shows "cm_ResourceVersion cm \<noteq> []"
    and "cm' \<in> set cms \<Longrightarrow> cm_Name cm' = cm_Name cm \<Longrightarrow> cm_ResourceVersion cm' = cm_ResourceVersion cm
         \<Longrightarrow> cm_Data cm' = cm_Data cm"
  using assms unfolding versions_ok_def by blast+

lemma last_version_latest:
  "last_version v cms ConfigMapNameCDConfig = (case latest cms of None \<Rightarrow> v ConfigMapNameCDConfig | Some cm \<Rightarrow> cm_ResourceVersion cm)"
  by (simp add: last_version_def latest_def)

lemma handled_view:
  assumes "mset ord = mset [0..<4]" and "versions_ok cms"
  shows "cfg_view (mem (handle_all (operator_handlers ord) (news (\<lambda>_. []) cms) t)) =
    (case latest cms of None \<Rightarrow> cfg_view (mem t) | Some cm \<Rightarrow> configured (cm_Data cm) (cfg_view (mem t)))"
  using assms(2)
proof (induction cms rule: rev_induct)
  case Nil
  show ?case by (simp add: news_def handle_all_def latest_def)
next
  case (snoc cm cms)
  let ?hs = "operator_handlers ord" and ?t = "handle_all (operator_handlers ord) (news (\<lambda>_. []) cms) t"
  have IH: "cfg_view (mem ?t) =
      (case latest cms of None \<Rightarrow> cfg_view (mem t) | Some cm \<Rightarrow> configured (cm_Data cm) (cfg_view (mem t)))"
    by (rule snoc.IH[OF versions_ok_subset[OF snoc.prems]]) auto
  show ?case
  proof (cases "cm_Name cm = ConfigMapNameCDConfig")
    case False
    then have "handle_all ?hs (news (\<lambda>_. []) (cms @ [cm])) t = ?t"
      by (simp add: news_snoc handle_all_append handle_all_def operator_handlers_def Config_Add_def)
    with False IH show ?thesis by (simp add: latest_snoc)
  next
    case name: True
    show ?thesis
    proof (cases "cm_ResourceVersion cm = last_version (\<lambda>_. []) cms ConfigMapNameCDConfig")
      case True
      then obtain cm' where cm': "latest cms = Some cm'" "cm_ResourceVersion cm' = cm_ResourceVersion cm"
        using versions_okD(1)[OF snoc.prems, of cm] by (auto simp: last_version_latest split: option.splits)
      have "cm_Data cm' = cm_Data cm"
        by (rule versions_okD(2)[OF snoc.prems]) (use latest_in[OF cm'(1)] cm'(2) name in auto)
      with True name IH cm'(1) show ?thesis by (simp add: news_snoc handle_all_append handle_all_def latest_snoc)
    next
      case False
      then have "handle_all ?hs (news (\<lambda>_. []) (cms @ [cm])) t = snd (ApplyControllerConfigChange ord cm ?t)"
        using name by (simp add: news_snoc handle_all_append handle_all_def operator_handlers_def Config_Add_def)
      then have "cfg_view (mem (handle_all ?hs (news (\<lambda>_. []) (cms @ [cm])) t)) = configured (cm_Data cm) (cfg_view (mem ?t))"
        by (simp add: Apply_run[OF assms(1)] controller_vars_view)
      with name IH show ?thesis by (auto simp: latest_snoc configured_twice split: option.splits)
    qed
  qed
qed

section \<open>Properties\<close>

text \<open>
  C29: After the ConfigMap controller has worked through any events, the variables
  of the operator are those of the latest event for its ConfigMap, with the default
  for every missing key, and \<open>CurrentExternalHostName\<close> as it was: in whatever order
  the variables are visited, whatever other ConfigMaps appear, and although events
  with a known version are skipped.
\<close>

theorem config_follows:
  assumes "mset ord = mset [0..<4]" and "versions_ok (config_maps evs)" and "latest (config_maps evs) = Some cm"
    and "Config_watch (operator_handlers ord) evs \<lparr>lastResourceVersions = (\<lambda>_. []), rest_state = t\<rparr> = (r, s')"
  shows "r = Ok () \<and> cfg_view (mem (rest_state s')) = configured (cm_Data cm) (cfg_view (mem t))"
  using Config_watch_run[OF operator_handlers_no_crash[OF assms(1)], of evs "\<lambda>_. []" t]
    handled_view[OF assms(1,2), of t] assms(3,4) by auto

definition sample_change :: config_map where
  "sample_change = \<lparr>cm_Name = ''cd-config'', cm_ResourceVersion = ''7'', cm_Data = [''exposeMode'' \<mapsto> ''ClusterIP'']\<rparr>"

lemma four_indices: "[0..<4] = [0, 1, 2, 3]"
  by code_simp

definition sample_cfg :: cfg_state where
  "sample_cfg = \<lparr>mem = \<lparr>str_mem = (\<lambda>_. []), int_mem = (\<lambda>_. 0), bool_mem = (\<lambda>_. False)\<rparr>,
     ControllerInitiated = False, controllerConfigUpdateChan = [], chan_len = (\<lambda>_. 0), chan_cap = (\<lambda>_. 1)\<rparr>"

theorem config_follows_witness:
  "ExposeMode (cfg_view (mem (rest_state (snd (Config_watch (operator_handlers [2, 0, 3, 1]) [Some sample_change, None]
     \<lparr>lastResourceVersions = (\<lambda>_. []), rest_state = sample_cfg\<rparr>))))) = ''ClusterIP''"
proof -
  have "mset [2, 0, 3, 1] = mset [0..<4]" by (simp add: four_indices)
  moreover have "versions_ok (config_maps [Some sample_change, None])"
    and "latest (config_maps [Some sample_change, None]) = Some sample_change"
    by (simp_all add: versions_ok_def sample_change_def latest_def ConfigMapNameCDConfig_def)
  ultimately show ?thesis
    using config_follows[of "[2, 0, 3, 1]" "[Some sample_change, None]" sample_change sample_cfg, OF _ _ _ surjective_pairing]
    by (simp add: configured_def sample_change_def Let_def)
qed

text \<open>
  The ConfigMap controller runs the handler of an event exactly when the
  version differs from that of the last event of the same name, errors or not.
\<close>

theorem config_handles_news:
  assumes "no_crash hs"
  shows "Config_watch hs evs \<lparr>lastResourceVersions = v, rest_state = t\<rparr> =
    (Ok (), \<lparr>lastResourceVersions = last_version v (config_maps evs),
             rest_state = handle_all hs (news v (config_maps evs)) t\<rparr>)"
  by (rule Config_watch_run[OF assms])

definition sample_counter :: "string \<rightharpoonup> config_map \<Rightarrow> (nat, unit) prog" where
  "sample_counter = [''cd-config'' \<mapsto> (\<lambda>cm s. (Err (Fail ''refused''), Suc s))]"

theorem config_handles_news_witness:
  "rest_state (snd (Config_watch sample_counter [Some sample_change, Some sample_change]
     \<lparr>lastResourceVersions = (\<lambda>_. []), rest_state = 0\<rparr>)) = 1"
proof -
  have "no_crash sample_counter" by (auto simp: no_crash_def sample_counter_def split: if_splits)
  then show ?thesis
    by (simp add: config_handles_news news_def last_version_def handle_all_def sample_change_def sample_counter_def)
qed

text \<open>
  C30: A change of the configuration never blocks, at any moment of the process:
  the handler returns, every registered channel holds exactly one token, and the
  channel \<open>main\<close> waits on gets its token at the first change and never again.
\<close>

theorem config_never_blocks:
  assumes "cfg_reachable s" and "mset ord = mset [0..<4]"
  shows "\<exists>s'. ApplyControllerConfigChange ord cm s = (Ok (), s')
    \<and> (\<forall>c \<in> set (controllerConfigUpdateChan s). chan_len s' c = 1)
    \<and> chan_len s' ControllerInitCh = (if ControllerInitiated s then chan_len s ControllerInitCh else 1)"
proof -
  obtain r s' where run: "ApplyControllerConfigChange ord cm s = (r, s')" by fastforce
  note t = Apply_tokens[OF cfg_reachable_inv[OF assms(1)] assms(2) run]
  from run t(1) t(5)[rotated 1] t(6) show ?thesis by auto
qed

lemma sample_cfg_step: "\<exists>s. cfg_reachable s \<and> ControllerInitCh \<notin> set (controllerConfigUpdateChan s) \<and> 3 \<in> set (controllerConfigUpdateChan s)"
proof -
  obtain r s where s: "make_update_ch 3 sample_cfg = (r, s)" by fastforce
  have "cfg_reachable sample_cfg" by (rule cfg_reachable.start) (simp add: cfg_start_def sample_cfg_def)
  then have "cfg_reachable s"
    by (rule cfg_reachable.step) (rule registers[OF _ _ s]; simp add: ControllerInitCh_def sample_cfg_def)
  moreover have "controllerConfigUpdateChan s = [3]"
    using s by (auto simp: make_update_ch_def RegisterControllerConfigUpdateChan_def bnd_def prog_simps sample_cfg_def)
  ultimately show ?thesis by (auto simp: ControllerInitCh_def)
qed

theorem config_never_blocks_witness:
  "\<exists>s s'. ApplyControllerConfigChange [0, 1, 2, 3] sample_change s = (Ok (), s') \<and> chan_len s' 3 = 1"
proof -
  obtain s where "cfg_reachable s" "3 \<in> set (controllerConfigUpdateChan s)" using sample_cfg_step by blast
  then show ?thesis using config_never_blocks[of s "[0, 1, 2, 3]" sample_change] by (auto simp: four_indices)
qed

text \<open>
  An event that arrives before the handler of its ConfigMap was added is lost:
  its version is remembered, so the handler never sees it however often the
  ConfigMap is delivered again, and \<open>main\<close>, which starts the watch before it adds the
  handler, waits for the first change in vain.
\<close>

theorem config_event_lost:
  assumes "cm_ResourceVersion cm \<noteq> []"
  shows "\<exists>v. Config_watch Map.empty [Some cm] \<lparr>lastResourceVersions = (\<lambda>_. []), rest_state = t\<rparr>
      = (Ok (), \<lparr>lastResourceVersions = v, rest_state = t\<rparr>)
    \<and> Config_watch (operator_handlers ord) (replicate n (Some cm)) \<lparr>lastResourceVersions = v, rest_state = t\<rparr>
      = (Ok (), \<lparr>lastResourceVersions = v, rest_state = t\<rparr>)"
proof -
  let ?v = "(\<lambda>_. [])(cm_Name cm := cm_ResourceVersion cm)"
  have "Config_watch Map.empty [Some cm] \<lparr>lastResourceVersions = (\<lambda>_. []), rest_state = t\<rparr>
      = (Ok (), \<lparr>lastResourceVersions = ?v, rest_state = t\<rparr>)"
    using assms by (simp add: Config_watch_def Config_Reconcile_def bnd_def prog_simps attempt_def)
  moreover have "Config_watch hs (replicate n (Some cm)) \<lparr>lastResourceVersions = ?v, rest_state = t\<rparr>
      = (Ok (), \<lparr>lastResourceVersions = ?v, rest_state = t\<rparr>)" for hs
  proof (induction n)
    case 0
    show ?case by (simp add: Config_watch_def prog_simps)
  next
    case (Suc n)
    have "Config_watch hs [Some cm] \<lparr>lastResourceVersions = ?v, rest_state = t\<rparr>
        = (Ok (), \<lparr>lastResourceVersions = ?v, rest_state = t\<rparr>)"
      by (rule Config_watch_one(2)[of _ _ _ "Ok ()"]) (simp_all add: Config_Reconcile_def bnd_def prog_simps)
    from Config_watch_append[OF this, of "replicate n (Some cm)"] Suc show ?case by (simp add: fun_upd_def)
  qed
  ultimately show ?thesis by blast
qed

theorem config_event_lost_witness:
  "\<exists>v. Config_watch (operator_handlers [0, 1, 2, 3]) (replicate 3 (Some sample_change))
      \<lparr>lastResourceVersions = v, rest_state = sample_cfg\<rparr> = (Ok (), \<lparr>lastResourceVersions = v, rest_state = sample_cfg\<rparr>)"
proof -
  have "cm_ResourceVersion sample_change \<noteq> []" by (simp add: sample_change_def)
  from config_event_lost[OF this, of sample_cfg "[0, 1, 2, 3]" 3] show ?thesis by blast
qed

end
