(* ===== verification/Expose.thy ===== *)
theory Expose
  imports Configs
begin

text \<open>
  \<open>controllers/expose_controller.go\<close>: the controller that gives the webhook server
  its external host name, from an ingress or from a service. Two goroutines watch
  the two resources, a third takes the host names they send; they share the global
  variables of \<open>internal/configs\<close>.
\<close>

section \<open>Resources\<close>

text \<open>The fields the controller reads or writes; a nil map of annotations is \<open>None\<close>.\<close>

record ingress_rule =
  rule_Host :: string
  rule_Paths :: string

record ingress =
  ing_Name :: string
  ing_ResourceVersion :: string
  ing_Annotations :: "(string \<rightharpoonup> string) option"
  ing_Rules :: "ingress_rule list"
  ing_IPs :: "string list"

record service_port =
  port_Name :: string
  port_Port :: "32 word"
  port_NodePort :: "32 word"

record service =
  svc_Name :: string
  svc_ResourceVersion :: string
  svc_Type :: string
  svc_ClusterIP :: string
  svc_Ports :: "service_port list"
  svc_IPs :: "string list"

text \<open>A \<open>runtime.Object\<close>: one of the two, another object with metadata, or one without.\<close>

datatype kobject = KIngress ingress | KService service | KOther string | KNoMeta

fun resource_version :: "kobject \<Rightarrow> string res" where
  "resource_version (KIngress i) = Ok (ing_ResourceVersion i)"
| "resource_version (KService s) = Ok (svc_ResourceVersion s)"
| "resource_version (KOther v) = Ok v"
| "resource_version KNoMeta = Err (Fail ''object does not implement the Object interfaces'')"

definition exposeTypeIngress :: string where "exposeTypeIngress = ''Ingress''"
definition exposeTypeLoadBalancer :: string where "exposeTypeLoadBalancer = ''LoadBalancer''"
definition exposeTypeClusterIP :: string where "exposeTypeClusterIP = ''ClusterIP''"

section \<open>State\<close>

text \<open>
  The interface \<open>exposeReconciler\<close> has two implementations, and each has a goroutine
  with its own \<open>lastResourceVersion\<close> and \<open>lastResource\<close>; the object is a pointer, so
  what a reconcile changes in it is there at the next one. \<open>inbox\<close> is the host the
  listener has received and not yet worked on. \<open>hosts\<close> and \<open>updates\<close> log what was
  sent and which objects were given to the API server, newest first; the answer of
  the API server is only logged by the code, and \<open>Update\<close> does not write it back.
\<close>

datatype exposeReconciler = exposeServiceReconciler | exposeIngressReconciler

record expose_st =
  xcfg :: config_vars
  inbox :: "string option"
  lastResourceVersion :: "exposeReconciler \<Rightarrow> string"
  lastResource :: "exposeReconciler \<Rightarrow> kobject option"
  hosts :: "string list"
  updates :: "kobject list"

type_synonym 'a expose = "(expose_st, 'a) prog"

definition updateExternalURL :: "string \<Rightarrow> config_vars \<Rightarrow> config_vars" where
  "updateExternalURL hostname c =
     (if hostname = [] then c
      else if ExternalHostName c \<noteq> [] then c\<lparr>CurrentExternalHostName := ExternalHostName c\<rparr>
      else c\<lparr>CurrentExternalHostName := hostname\<rparr>)"

text \<open>One turn of the listener; on an empty channel it waits.\<close>

definition listen :: "expose_st \<Rightarrow> expose_st" where
  "listen s = (case inbox s of
     None \<Rightarrow> s
   | Some h \<Rightarrow> s\<lparr>xcfg := updateExternalURL h (xcfg s), inbox := None\<rparr>)"

text \<open>
  The channel has no buffer: a send waits until the listener has finished its
  earlier host and receives again.
\<close>

definition send_host :: "string \<Rightarrow> unit expose" where
  "send_host h = modify (\<lambda>s. (listen s)\<lparr>inbox := Some h, hosts := h # hosts s\<rparr>)"

definition set_resource :: "exposeReconciler \<Rightarrow> kobject \<Rightarrow> unit expose" where
  "set_resource rc ob = modify (\<lambda>s. s\<lparr>lastResource := (lastResource s)(rc := Some ob)\<rparr>)"

definition client_Update :: "exposeReconciler \<Rightarrow> unit expose" where
  "client_Update rc = modify (\<lambda>s. case lastResource s rc of None \<Rightarrow> s | Some ob \<Rightarrow> s\<lparr>updates := ob # updates s\<rparr>)"

section \<open>The ingress\<close>

definition set_rule_host :: "string \<Rightarrow> ingress \<Rightarrow> ingress" where
  "set_rule_host h i = i\<lparr>ing_Rules := (hd (ing_Rules i))\<lparr>rule_Host := h\<rparr> # tl (ing_Rules i)\<rparr>"

definition nip_host :: "string \<Rightarrow> string" where
  "nip_host ip = ''cd-webhook.'' @ ip @ ''.nip.io''"

text \<open>The deferred function.\<close>

definition publish_ingress :: "string \<Rightarrow> unit expose" where
  "publish_ingress exposeMode =
     bnd (gets (\<lambda>s. lastResource s exposeIngressReconciler)) (\<lambda>ob.
     case ob of
       Some (KIngress i) \<Rightarrow>
         bnd (if exposeMode = exposeTypeIngress then send_host (rule_Host (hd (ing_Rules i))) else ret ()) (\<lambda>_.
         client_Update exposeIngressReconciler)
     | _ \<Rightarrow> ret ())"

text \<open>Writing to a nil map panics, and the deferred function still runs.\<close>

definition ingress_body :: "ingress \<Rightarrow> unit expose" where
  "ingress_body i =
     (case ing_Annotations i of
        None \<Rightarrow> crash ''assignment to entry in nil map''
      | Some ann \<Rightarrow>
          bnd (gets xcfg) (\<lambda>c.
          let i = i\<lparr>ing_Annotations := Some (ann(''kubernetes.io/ingress.class'' \<mapsto> IngressClass c))\<rparr> in
          if IngressHost c \<noteq> [] then set_resource exposeIngressReconciler (KIngress (set_rule_host (IngressHost c) i))
          else if ing_IPs i \<noteq> [] \<and> hd (ing_IPs i) \<noteq> [] then
            set_resource exposeIngressReconciler (KIngress (set_rule_host (nip_host (hd (ing_IPs i))) i))
          else set_resource exposeIngressReconciler (KIngress i)))"

definition ingress_reconcile :: "kobject \<Rightarrow> string \<Rightarrow> unit expose" where
  "ingress_reconcile ob exposeMode =
     (case ob of
        KIngress i \<Rightarrow>
          (if ing_Rules i = [] then throw (Fail ''rules for ingress are not set'')
           else deferred (publish_ingress exposeMode) (ingress_body i))
      | _ \<Rightarrow> throw (Fail ''obj is not an Ingress''))"

section \<open>The service\<close>

definition configureService :: "string \<Rightarrow> service \<Rightarrow> service" where
  "configureService mode svc =
     (let desiredType = (if mode = exposeTypeIngress then exposeTypeClusterIP else mode);
          svc = svc\<lparr>svc_Type := desiredType\<rparr>
      in if desiredType = exposeTypeClusterIP
         then svc\<lparr>svc_Ports := map (\<lambda>p. p\<lparr>port_NodePort := 0\<rparr>) (svc_Ports svc)\<rparr> else svc)"

fun find_port :: "service_port list \<Rightarrow> 32 word" where
  "find_port [] = 24335"
| "find_port (p # ps) = (if port_Name p = ''webhook'' then port_Port p else find_port ps)"

definition findWebhookPort :: "service \<Rightarrow> 32 word" where
  "findWebhookPort svc = find_port (svc_Ports svc)"

definition host_port :: "string \<Rightarrow> 32 word \<Rightarrow> string" where
  "host_port ip p = ip @ '':'' @ Itoa (sint p)"

definition generateExternalHost :: "string \<Rightarrow> service \<Rightarrow> string res" where
  "generateExternalHost mode svc =
     (if mode = exposeTypeClusterIP then Ok (host_port (svc_ClusterIP svc) (findWebhookPort svc))
      else if mode = exposeTypeLoadBalancer then
        (if svc_IPs svc = [] then Err (Fail ''ExposeMode is set as LoadBalancer but IP is not set to the service'')
         else Ok (host_port (hd (svc_IPs svc)) (findWebhookPort svc)))
      else Ok [])"

definition service_body :: "service \<Rightarrow> string \<Rightarrow> unit expose" where
  "service_body svc exposeMode =
     (let svc = configureService exposeMode svc in
      bnd (set_resource exposeServiceReconciler (KService svc)) (\<lambda>_.
      if exposeMode = exposeTypeIngress then ret ()
      else bnd (lift (generateExternalHost exposeMode svc)) send_host))"

definition service_reconcile :: "kobject \<Rightarrow> string \<Rightarrow> unit expose" where
  "service_reconcile ob exposeMode =
     (case ob of
        KService svc \<Rightarrow> deferred (client_Update exposeServiceReconciler) (service_body svc exposeMode)
      | _ \<Rightarrow> throw (Fail ''svc is not a Service''))"

section \<open>The watch\<close>

definition expose_reconcile :: "exposeReconciler \<Rightarrow> kobject \<Rightarrow> string \<Rightarrow> unit expose" where
  "expose_reconcile rc ob mode = (case rc of
     exposeServiceReconciler \<Rightarrow> service_reconcile ob mode
   | exposeIngressReconciler \<Rightarrow> ingress_reconcile ob mode)"

definition validateExposeMode :: "string \<Rightarrow> unit res" where
  "validateExposeMode mode =
     (if mode = exposeTypeClusterIP \<or> mode = exposeTypeLoadBalancer \<or> mode = exposeTypeIngress then Ok ()
      else Err (Fail (''exposeMode '' @ mode @ '' is not valid'')))"

text \<open>
  A turn of the loop of \<open>watchResource\<close>: an update of the resource (\<open>Some\<close>) or a
  token of the configuration channel (\<open>None\<close>), then the part behind the \<open>select\<close>.
\<close>

definition effective_mode :: "config_vars \<Rightarrow> string" where
  "effective_mode c = (if ExposeMode c = [] then exposeTypeIngress else ExposeMode c)"

definition reconcile_last :: "exposeReconciler \<Rightarrow> unit expose" where
  "reconcile_last rc =
     bnd (gets (\<lambda>s. lastResource s rc)) (\<lambda>ob_ptr.
     case ob_ptr of
       None \<Rightarrow> ret ()
     | Some ob \<Rightarrow>
         bnd (gets (\<lambda>s. effective_mode (xcfg s))) (\<lambda>exposeMode.
         bnd (attempt (lift (validateExposeMode exposeMode))) (\<lambda>r.
         case r of
           Inl _ \<Rightarrow> ret ()
         | Inr _ \<Rightarrow> bnd (attempt (expose_reconcile rc ob exposeMode)) (\<lambda>_. ret ()))))"

definition watchResource_turn :: "exposeReconciler \<Rightarrow> kobject option \<Rightarrow> unit expose" where
  "watchResource_turn rc upd =
     (case upd of
        Some ob \<Rightarrow>
          bnd (attempt (lift (resource_version ob))) (\<lambda>r.
          case r of
            Inl _ \<Rightarrow> ret ()
          | Inr v \<Rightarrow>
              bnd (gets (\<lambda>s. lastResourceVersion s rc)) (\<lambda>known.
              if known = v then ret ()
              else bnd (modify (\<lambda>s. s\<lparr>lastResourceVersion := (lastResourceVersion s)(rc := v)\<rparr>)) (\<lambda>_.
                   bnd (set_resource rc ob) (\<lambda>_. reconcile_last rc))))
      | None \<Rightarrow> reconcile_last rc)"

text \<open>
  \<open>loopWatch\<close> forwards the objects of one watch until the watch or the process ends:
  it answers what it sent to \<open>rscUpdateCh\<close> and whether to exit. The list holds what
  its \<open>select\<close> chose, up to the closed watch (an event without object).
\<close>

datatype watch_result = WObject kobject | WClosed | WExit

fun forward :: "watch_result list \<Rightarrow> kobject list \<times> bool" where
  "forward (WObject ob # evs) = (case forward evs of (obs, b) \<Rightarrow> (ob # obs, b))"
| "forward (WExit # evs) = ([], True)"
| "forward (WClosed # evs) = ([], False)"
| "forward [] = ([], False)"

definition loopWatch :: "watch_result list res \<Rightarrow> kobject list \<times> bool" where
  "loopWatch watch = (case watch of Ok evs \<Rightarrow> forward evs | _ \<Rightarrow> ([], False))"

end
