(* ===== verification/ExposeSpec.thy ===== *)
theory ExposeSpec
  imports Expose
begin

text \<open>
  What the expose controller promises: which of its two watchers publishes the
  host name of the webhook server, what it makes of the resources, that its own
  updates settle, and where the current host name comes from.
\<close>

section \<open>Runs of the reconcilers\<close>

lemma listen_frame [simp]:
  "lastResource (listen s) = lastResource s" "lastResourceVersion (listen s) = lastResourceVersion s"
  "hosts (listen s) = hosts s" "updates (listen s) = updates s"
  by (simp_all add: listen_def split: option.splits)

lemma listen_cfg:
  "ExternalHostName (xcfg (listen s)) = ExternalHostName (xcfg s)" "ExposeMode (xcfg (listen s)) = ExposeMode (xcfg s)"
  "IngressClass (xcfg (listen s)) = IngressClass (xcfg s)" "IngressHost (xcfg (listen s)) = IngressHost (xcfg s)"
  by (simp_all add: listen_def updateExternalURL_def split: option.splits)

text \<open>The state after a resource became \<open>ob\<close>, was given to the API server, and \<open>h\<close> was sent.\<close>

definition done_with :: "exposeReconciler \<Rightarrow> kobject \<Rightarrow> string option \<Rightarrow> expose_st \<Rightarrow> expose_st" where
  "done_with rc ob h s =
     (let s = s\<lparr>lastResource := (lastResource s)(rc := Some ob), updates := ob # updates s\<rparr> in
      case h of None \<Rightarrow> s | Some h \<Rightarrow> (listen s)\<lparr>inbox := Some h, hosts := h # hosts s\<rparr>)"

lemma done_with_simps [simp]:
  "lastResource (done_with rc ob h s) = (lastResource s)(rc := Some ob)"
  "lastResourceVersion (done_with rc ob h s) = lastResourceVersion s"
  "updates (done_with rc ob h s) = ob # updates s"
  "hosts (done_with rc ob h s) = (case h of None \<Rightarrow> [] | Some h \<Rightarrow> [h]) @ hosts s"
  "inbox (done_with rc ob h s) = (case h of None \<Rightarrow> inbox s | Some h \<Rightarrow> Some h)"
  by (auto simp: done_with_def Let_def split: option.splits)

lemma generateExternalHost_returns [simp]:
  "generateExternalHost mode svc \<noteq> Panic p" "generateExternalHost mode svc \<noteq> Loops"
  by (auto simp: generateExternalHost_def)

lemma service_run:
  "service_reconcile (KService svc) mode s =
     (let svc = configureService mode svc in
      if mode = exposeTypeIngress then (Ok (), done_with exposeServiceReconciler (KService svc) None s)
      else case generateExternalHost mode svc of
             Ok h \<Rightarrow> (Ok (), done_with exposeServiceReconciler (KService svc) (Some h) s)
           | r \<Rightarrow> (map_res (\<lambda>_. ()) r, done_with exposeServiceReconciler (KService svc) None s))"
  by (auto simp: service_reconcile_def service_body_def deferred_def bnd_def prog_simps Let_def set_resource_def
      send_host_def client_Update_def done_with_def listen_def split: res.splits option.splits)

definition desired_ingress :: "config_vars \<Rightarrow> ingress \<Rightarrow> ingress" where
  "desired_ingress c i =
     (let i = i\<lparr>ing_Annotations := map_option (\<lambda>a. a(''kubernetes.io/ingress.class'' \<mapsto> IngressClass c)) (ing_Annotations i)\<rparr> in
      if IngressHost c \<noteq> [] then set_rule_host (IngressHost c) i
      else if ing_IPs i \<noteq> [] \<and> hd (ing_IPs i) \<noteq> [] then set_rule_host (nip_host (hd (ing_IPs i))) i
      else i)"

definition ingress_host :: "ingress \<Rightarrow> string" where
  "ingress_host i = rule_Host (hd (ing_Rules i))"

lemma ingress_run:
  assumes "ing_Rules i \<noteq> []" and "ing_Annotations i = Some ann"
  shows "ingress_reconcile (KIngress i) mode s =
     (let i = desired_ingress (xcfg s) i in
      (Ok (), done_with exposeIngressReconciler (KIngress i)
                (if mode = exposeTypeIngress then Some (ingress_host i) else None) s))"
  using assms
  by (simp add: ingress_reconcile_def ingress_body_def deferred_def bnd_def prog_simps Let_def set_resource_def
      publish_ingress_def send_host_def client_Update_def done_with_def listen_def desired_ingress_def
      ingress_host_def split: option.splits)

lemma ingress_nil_run:
  assumes "ing_Rules i \<noteq> []" and "ing_Annotations i = None" and "lastResource s exposeIngressReconciler = Some (KIngress i)"
  shows "ingress_reconcile (KIngress i) mode s =
     (Panic ''assignment to entry in nil map'', done_with exposeIngressReconciler (KIngress i)
        (if mode = exposeTypeIngress then Some (ingress_host i) else None) s)"
  using assms
  by (auto simp: ingress_reconcile_def ingress_body_def deferred_def bnd_def prog_simps Let_def
      publish_ingress_def send_host_def client_Update_def done_with_def listen_def
      ingress_host_def fun_upd_idem split: option.splits)

definition valid_mode :: "string \<Rightarrow> bool" where
  "valid_mode mode \<longleftrightarrow> mode = exposeTypeClusterIP \<or> mode = exposeTypeLoadBalancer \<or> mode = exposeTypeIngress"

lemma reconcile_last_run:
  "reconcile_last rc s = (case lastResource s rc of
     None \<Rightarrow> (Ok (), s)
   | Some ob \<Rightarrow>
       if valid_mode (effective_mode (xcfg s)) then
         (case expose_reconcile rc ob (effective_mode (xcfg s)) s of
            (Panic p, t) \<Rightarrow> (Panic p, t) | (Loops, t) \<Rightarrow> (Loops, t) | (_, t) \<Rightarrow> (Ok (), t))
       else (Ok (), s))"
  by (auto simp: reconcile_last_def validateExposeMode_def valid_mode_def bnd_def prog_simps attempt_def
      split: option.splits res.splits prod.splits)

text \<open>Which watcher publishes the host in a mode.\<close>

fun publishes :: "exposeReconciler \<Rightarrow> string \<Rightarrow> bool" where
  "publishes exposeIngressReconciler mode \<longleftrightarrow> mode = exposeTypeIngress"
| "publishes exposeServiceReconciler mode \<longleftrightarrow> mode = exposeTypeClusterIP \<or> mode = exposeTypeLoadBalancer"

text \<open>
  One pass of a reconciler on the object it keeps: it changes nothing, or the object
  was brought to \<open>ob'\<close>, given to the API server, and at most one host was sent.
\<close>

definition same_kind :: "exposeReconciler \<Rightarrow> kobject \<Rightarrow> bool" where
  "same_kind rc ob = (case rc of
     exposeServiceReconciler \<Rightarrow> (\<exists>svc. ob = KService svc) | exposeIngressReconciler \<Rightarrow> (\<exists>i. ob = KIngress i))"

lemma service_reconcile_cases:
  assumes "expose_reconcile exposeServiceReconciler (KService svc) mode s = (r, s')" and "valid_mode mode"
  shows "\<exists>ob' h. s' = done_with exposeServiceReconciler ob' h s \<and> resource_version ob' = resource_version (KService svc)
    \<and> same_kind exposeServiceReconciler ob' \<and> (h \<noteq> None \<longrightarrow> publishes exposeServiceReconciler mode)"
proof -
  have "resource_version (KService (configureService mode svc)) = resource_version (KService svc)"
    by (simp add: configureService_def Let_def)
  moreover obtain h where "s' = done_with exposeServiceReconciler (KService (configureService mode svc)) h s"
    and "h \<noteq> None \<longrightarrow> mode \<noteq> exposeTypeIngress"
    using assms(1) by (auto simp: expose_reconcile_def service_run Let_def split: if_splits res.splits)
  ultimately show ?thesis using assms(2)
    by (auto simp: same_kind_def valid_mode_def intro!: exI[of _ "KService (configureService mode svc)"])
qed

lemma ingress_reconcile_cases:
  assumes "lastResource s exposeIngressReconciler = Some (KIngress i)"
    and "expose_reconcile exposeIngressReconciler (KIngress i) mode s = (r, s')"
  shows "s' = s \<or> (\<exists>ob' h. s' = done_with exposeIngressReconciler ob' h s
    \<and> resource_version ob' = resource_version (KIngress i)
    \<and> same_kind exposeIngressReconciler ob' \<and> (h \<noteq> None \<longrightarrow> publishes exposeIngressReconciler mode))"
proof (cases "ing_Rules i = []")
  case True
  with assms show ?thesis by (auto simp: expose_reconcile_def ingress_reconcile_def prog_simps)
next
  case rules: False
  show ?thesis
  proof (cases "ing_Annotations i")
    case None
    have "s' = done_with exposeIngressReconciler (KIngress i) (if mode = exposeTypeIngress then Some (ingress_host i) else None) s"
      using assms ingress_nil_run[OF rules None, of s mode] by (auto simp: expose_reconcile_def)
    then show ?thesis by (auto simp: same_kind_def intro!: exI[of _ "KIngress i"])
  next
    case (Some ann)
    have "resource_version (KIngress (desired_ingress c i)) = resource_version (KIngress i)" for c
      by (simp add: desired_ingress_def set_rule_host_def Let_def)
    moreover have "s' = done_with exposeIngressReconciler (KIngress (desired_ingress (xcfg s) i))
        (if mode = exposeTypeIngress then Some (ingress_host (desired_ingress (xcfg s) i)) else None) s"
      using assms ingress_run[OF rules Some, of mode s] by (auto simp: expose_reconcile_def Let_def)
    ultimately show ?thesis
      by (auto simp: same_kind_def intro!: exI[of _ "KIngress (desired_ingress (xcfg s) i)"])
  qed
qed

lemma expose_reconcile_cases:
  assumes "lastResource s rc = Some ob" and "expose_reconcile rc ob mode s = (r, s')" and "valid_mode mode"
  shows "s' = s \<or> (\<exists>ob' h. s' = done_with rc ob' h s \<and> resource_version ob' = resource_version ob
    \<and> same_kind rc ob' \<and> (h \<noteq> None \<longrightarrow> publishes rc mode))"
proof (cases rc; cases ob)
  fix svc assume k: "rc = exposeServiceReconciler" "ob = KService svc"
  show ?thesis unfolding k by (rule disjI2, rule service_reconcile_cases) (use assms(2,3) k in simp_all)
next
  fix i assume k: "rc = exposeIngressReconciler" "ob = KIngress i"
  show ?thesis unfolding k by (rule ingress_reconcile_cases) (use assms(1,2) k in simp_all)
qed (use assms in \<open>auto simp: expose_reconcile_def service_reconcile_def ingress_reconcile_def prog_simps\<close>)

lemma reconcile_last_cases:
  assumes "reconcile_last rc s = (r, s')"
  shows "s' = s \<or> (\<exists>ob ob' h. lastResource s rc = Some ob \<and> s' = done_with rc ob' h s
    \<and> resource_version ob' = resource_version ob \<and> same_kind rc ob'
    \<and> (h \<noteq> None \<longrightarrow> publishes rc (effective_mode (xcfg s))))"
proof (cases "lastResource s rc")
  case None
  then show ?thesis using assms by (simp add: reconcile_last_run)
next
  case (Some ob)
  show ?thesis
  proof (cases "valid_mode (effective_mode (xcfg s))")
    case False
    then show ?thesis using assms Some by (simp add: reconcile_last_run)
  next
    case True
    obtain r0 t where run: "expose_reconcile rc ob (effective_mode (xcfg s)) s = (r0, t)" by fastforce
    then have "s' = t" using assms Some True by (cases r0) (simp_all add: reconcile_last_run)
    then show ?thesis using expose_reconcile_cases[OF Some run True] Some by blast
  qed
qed

text \<open>A turn of the watch: known versions are skipped, anything else is a pass on the kept object.\<close>

lemma watchResource_turn_cases:
  assumes "watchResource_turn rc upd s = (r, s')"
  shows "s' = s \<or> reconcile_last rc s = (r, s') \<and> upd = None
    \<or> (\<exists>ob v. upd = Some ob \<and> resource_version ob = Ok v \<and> v \<noteq> lastResourceVersion s rc
         \<and> reconcile_last rc (s\<lparr>lastResourceVersion := (lastResourceVersion s)(rc := v),
                               lastResource := (lastResource s)(rc := Some ob)\<rparr>) = (r, s'))"
  using assms
  by (cases upd) (auto simp: watchResource_turn_def bnd_def prog_simps attempt_def set_resource_def
      split: res.splits if_splits)
section \<open>All runs\<close>

text \<open>
  The steps of the controller: a turn of a watch, to which the API server may deliver
  any object, the listener, and a change of the configuration. \<open>V\<close> collects the states
  visited so far.
\<close>

inductive expose_step :: "expose_st \<Rightarrow> expose_st \<Rightarrow> bool" where
  turns: "watchResource_turn rc upd s = (r, s') \<Longrightarrow> expose_step s s'"
| listens: "expose_step s (listen s)"
| reconfigures: "expose_step s (s\<lparr>xcfg := configured dat (xcfg s)\<rparr>)"

definition expose_start :: "expose_st \<Rightarrow> bool" where
  "expose_start s \<longleftrightarrow> CurrentExternalHostName (xcfg s) = [] \<and> inbox s = None
     \<and> (\<forall>rc. lastResourceVersion s rc = [] \<and> lastResource s rc = None) \<and> hosts s = [] \<and> updates s = []"

inductive expose_reachable :: "expose_st set \<Rightarrow> expose_st \<Rightarrow> bool" where
  starts: "expose_start s \<Longrightarrow> expose_reachable {s} s"
| steps: "expose_reachable V s \<Longrightarrow> expose_step s s' \<Longrightarrow> expose_reachable (insert s' V) s'"

text \<open>What is kept has a version, and what is given to the API server has the kind of a watcher.\<close>

definition typed :: "expose_st \<Rightarrow> bool" where
  "typed s \<longleftrightarrow> (\<forall>rc ob. lastResource s rc = Some ob \<longrightarrow> resource_version ob = Ok (lastResourceVersion s rc))
     \<and> (\<forall>ob \<in> set (updates s). \<exists>rc. same_kind rc ob)"

text \<open>The current name that the listener makes of the host it has received.\<close>

definition resolves :: "expose_st \<Rightarrow> string \<Rightarrow> string \<Rightarrow> bool" where
  "resolves t h name \<longleftrightarrow> inbox t = Some h \<and> h \<noteq> []
     \<and> name = (if ExternalHostName (xcfg t) = [] then h else ExternalHostName (xcfg t))"

definition traced :: "expose_st set \<Rightarrow> expose_st \<Rightarrow> bool" where
  "traced V s \<longleftrightarrow> s \<in> V \<and> set_option (inbox s) \<subseteq> set (hosts s)
     \<and> (CurrentExternalHostName (xcfg s) = [] \<or>
        (\<exists>t \<in> V. \<exists>h \<in> set (hosts s). resolves t h (CurrentExternalHostName (xcfg s))))"

text \<open>What a step does to the current name and to the hosts that were sent.\<close>

definition renames :: "expose_st \<Rightarrow> expose_st \<Rightarrow> bool" where
  "renames s s' \<longleftrightarrow> set (hosts s) \<subseteq> set (hosts s')
     \<and> (set_option (inbox s) \<subseteq> set (hosts s) \<longrightarrow> set_option (inbox s') \<subseteq> set (hosts s'))
     \<and> (CurrentExternalHostName (xcfg s') = CurrentExternalHostName (xcfg s)
        \<or> (\<exists>h. resolves s h (CurrentExternalHostName (xcfg s'))))"

lemma listen_renames: "renames s (listen s)"
  by (auto simp: renames_def resolves_def listen_def updateExternalURL_def split: option.splits)

lemma done_with_renames: "renames s (done_with rc ob h s)"
  using listen_renames[of s]
  by (cases h) (auto simp: renames_def resolves_def done_with_def Let_def listen_def updateExternalURL_def split: option.splits)

lemma renames_refl: "renames s s"
  by (simp add: renames_def)

lemma turn_renames:
  assumes "watchResource_turn rc upd s = (r, s')"
  shows "renames s s'"
proof -
  have last: "renames t t'" if "reconcile_last rc t = (r, t')" for t t'
    using reconcile_last_cases[OF that] renames_refl done_with_renames by metis
  have "renames s s'" if "renames (s\<lparr>lastResourceVersion := f, lastResource := g\<rparr>) s'" for f g
    using that unfolding renames_def resolves_def by (simp cong: if_cong)
  with last watchResource_turn_cases[OF assms] renames_refl show ?thesis by metis
qed

lemma expose_step_renames: "expose_step s s' \<Longrightarrow> renames s s'"
proof (induction rule: expose_step.induct)
  case (turns rc upd s r s')
  then show ?case by (rule turn_renames)
next
  case (listens s)
  show ?case by (rule listen_renames)
next
  case (reconfigures s dat)
  show ?case by (simp add: renames_def configured_def Let_def)
qed

lemma renames_traced:
  assumes "renames s s'" and "traced V s"
  shows "traced (insert s' V) s'"
proof -
  have hosts: "set (hosts s) \<subseteq> set (hosts s')" and inbox: "set_option (inbox s') \<subseteq> set (hosts s')"
    using assms by (simp_all add: renames_def traced_def)
  consider (kept) "CurrentExternalHostName (xcfg s') = CurrentExternalHostName (xcfg s)"
    | (taken) h where "resolves s h (CurrentExternalHostName (xcfg s'))"
    using assms(1) by (auto simp: renames_def)
  then show ?thesis
  proof cases
    case kept
    with hosts inbox assms(2) show ?thesis unfolding traced_def by auto
  next
    case taken
    moreover from taken have "h \<in> set (hosts s)" using assms(2) by (auto simp: traced_def resolves_def)
    ultimately show ?thesis using hosts inbox assms(2) by (auto simp: traced_def)
  qed
qed

text \<open>A pass gives the API server an object of its kind, and keeps that object.\<close>

lemma reconcile_last_updates:
  assumes "reconcile_last rc s = (r, s')"
  shows "s' = s \<or> (\<exists>ob ob'. lastResource s rc = Some ob \<and> lastResource s' = (lastResource s)(rc := Some ob')
    \<and> lastResourceVersion s' = lastResourceVersion s \<and> updates s' = ob' # updates s \<and> same_kind rc ob'
    \<and> resource_version ob' = resource_version ob)"
  using reconcile_last_cases[OF assms] by auto

lemma turn_updates:
  assumes "watchResource_turn rc upd s = (r, s')"
  shows "updates s' = updates s \<and> hosts s' = hosts s
    \<or> (\<exists>ob. lastResource s' rc = Some ob \<and> same_kind rc ob \<and> updates s' = ob # updates s)"
proof -
  have "t' = t \<or> (\<exists>ob. lastResource t' rc = Some ob \<and> same_kind rc ob \<and> updates t' = ob # updates t)"
    if "reconcile_last rc t = (r, t')" for t t'
    using reconcile_last_updates[OF that] by auto
  with watchResource_turn_cases[OF assms] show ?thesis by fastforce
qed

lemma turn_typed:
  assumes "watchResource_turn rc upd s = (r, s')" and "typed s"
  shows "typed s'"
proof -
  have last: "typed t'" if "reconcile_last rc t = (r, t')" and "typed t" for t t'
    using reconcile_last_updates[OF that(1)] that(2) by (auto simp: typed_def split: if_splits)
  have "typed (s\<lparr>lastResourceVersion := (lastResourceVersion s)(rc := v), lastResource := (lastResource s)(rc := Some ob)\<rparr>)"
    if "resource_version ob = Ok v" for ob v
    using assms(2) that by (auto simp: typed_def)
  with last watchResource_turn_cases[OF assms(1)] assms(2) show ?thesis by metis
qed

lemma expose_step_typed: "expose_step s s' \<Longrightarrow> typed s \<Longrightarrow> typed s'"
proof (induction rule: expose_step.induct)
  case (turns rc upd s r s')
  then show ?case using turn_typed by blast
qed (simp_all add: typed_def)

lemma expose_reachable_inv: "expose_reachable V s \<Longrightarrow> typed s \<and> traced V s"
proof (induction rule: expose_reachable.induct)
  case (starts s)
  then show ?case by (auto simp: expose_start_def typed_def traced_def)
next
  case (steps V s s')
  then show ?case using expose_step_typed renames_traced expose_step_renames by blast
qed

section \<open>Properties\<close>

lemma publishes_iff: "publishes rc m \<longleftrightarrow> (rc = exposeIngressReconciler \<longleftrightarrow> m = exposeTypeIngress)
      \<and> m \<in> {exposeTypeIngress, exposeTypeClusterIP, exposeTypeLoadBalancer}"
  by (cases rc) (auto simp: exposeTypeIngress_def exposeTypeClusterIP_def exposeTypeLoadBalancer_def)

text \<open>A resource from which its watcher can make a host in a mode.\<close>

fun hostable :: "string \<Rightarrow> kobject \<Rightarrow> bool" where
  "hostable mode (KService svc) \<longleftrightarrow> mode = exposeTypeLoadBalancer \<longrightarrow> svc_IPs svc \<noteq> []"
| "hostable mode (KIngress i) \<longleftrightarrow> ing_Rules i \<noteq> []"
| "hostable mode _ \<longleftrightarrow> False"

lemma pass_hosts:
  assumes "lastResource s rc = Some ob" and "same_kind rc ob" and "valid_mode (effective_mode (xcfg s))"
    and "hostable (effective_mode (xcfg s)) ob"
  shows "(\<exists>h. hosts (snd (watchResource_turn rc None s)) = h # hosts s) \<longleftrightarrow> publishes rc (effective_mode (xcfg s))"
proof -
  let ?m = "effective_mode (xcfg s)"
  have snd: "snd (watchResource_turn rc None s) = snd (expose_reconcile rc ob ?m s)"
    using assms(1,3) by (auto simp: watchResource_turn_def reconcile_last_run split: prod.splits res.splits)
  show ?thesis
  proof (cases rc)
    case exposeServiceReconciler
    with assms(2) obtain svc where ob: "ob = KService svc" by (auto simp: same_kind_def)
    have ips: "svc_IPs (configureService ?m svc) = svc_IPs svc" by (simp add: configureService_def Let_def)
    show ?thesis
      using assms(3,4) ips unfolding snd[unfolded exposeServiceReconciler ob] exposeServiceReconciler ob
      by (auto simp: expose_reconcile_def service_run Let_def generateExternalHost_def valid_mode_def
          exposeTypeIngress_def exposeTypeClusterIP_def exposeTypeLoadBalancer_def)
  next
    case ing: exposeIngressReconciler
    with assms(2) obtain i where ob: "ob = KIngress i" by (auto simp: same_kind_def)
    have rules: "ing_Rules i \<noteq> []" using assms(4) ob by simp
    show ?thesis
    proof (cases "ing_Annotations i")
      case None
      then show ?thesis
        using ingress_nil_run[OF rules None, of s ?m] assms(1) unfolding snd[unfolded ing ob] ing ob
        by (simp add: expose_reconcile_def)
    next
      case (Some ann)
      then show ?thesis
        using ingress_run[OF rules Some, of ?m s] unfolding snd[unfolded ing ob] ing ob
        by (simp add: expose_reconcile_def Let_def)
    qed
  qed
qed

text \<open>
  C32: A turn of a watch sends nothing, or one host, and then it is the watcher of the
  ingress in the mode Ingress and the watcher of the service in the modes ClusterIP
  and LoadBalancer. And in each of these modes exactly one of the two watchers does
  publish: when both resources are known, the ingress with rules and, in the mode
  LoadBalancer, the service with an address, a pass of one watcher sends a host and a
  pass of the other does not.
\<close>

theorem expose_single_publisher:
  "(watchResource_turn rc upd s = (r, s') \<longrightarrow>
      hosts s' = hosts s \<or> (\<exists>h. hosts s' = h # hosts s
        \<and> (rc = exposeIngressReconciler \<longleftrightarrow> effective_mode (xcfg s) = exposeTypeIngress)
        \<and> effective_mode (xcfg s) \<in> {exposeTypeIngress, exposeTypeClusterIP, exposeTypeLoadBalancer}))
   \<and> (valid_mode (effective_mode (xcfg s)) \<and>
        (\<forall>rc. \<exists>ob. lastResource s rc = Some ob \<and> same_kind rc ob \<and> hostable (effective_mode (xcfg s)) ob) \<longrightarrow>
      (\<exists>!rc. \<exists>h. hosts (snd (watchResource_turn rc None s)) = h # hosts s))"
proof (intro conjI impI)
  assume turn: "watchResource_turn rc upd s = (r, s')"
  have pass: "hosts t' = hosts t \<or> (\<exists>h. hosts t' = h # hosts t \<and> publishes rc (effective_mode (xcfg t)))"
    if "reconcile_last rc t = (r, t')" for t t'
    using reconcile_last_cases[OF that] by (auto split: option.splits)
  from watchResource_turn_cases[OF turn] show "hosts s' = hosts s \<or> (\<exists>h. hosts s' = h # hosts s
      \<and> (rc = exposeIngressReconciler \<longleftrightarrow> effective_mode (xcfg s) = exposeTypeIngress)
      \<and> effective_mode (xcfg s) \<in> {exposeTypeIngress, exposeTypeClusterIP, exposeTypeLoadBalancer})"
    unfolding publishes_iff[symmetric] using pass by fastforce
next
  assume ready: "valid_mode (effective_mode (xcfg s)) \<and>
    (\<forall>rc. \<exists>ob. lastResource s rc = Some ob \<and> same_kind rc ob \<and> hostable (effective_mode (xcfg s)) ob)"
  then have "(\<exists>h. hosts (snd (watchResource_turn rc None s)) = h # hosts s) \<longleftrightarrow> publishes rc (effective_mode (xcfg s))" for rc
    using pass_hosts by metis
  moreover have "\<exists>!rc. publishes rc (effective_mode (xcfg s))"
    using ready by (auto simp: publishes_iff valid_mode_def) (metis exposeReconciler.exhaust)+
  ultimately show "\<exists>!rc. \<exists>h. hosts (snd (watchResource_turn rc None s)) = h # hosts s" by simp
qed

definition sample_service :: service where
  "sample_service = \<lparr>svc_Name = ''cd-webhook'', svc_ResourceVersion = ''3'', svc_Type = ''NodePort'', svc_ClusterIP = ''10.96.0.7'',
     svc_Ports = [\<lparr>port_Name = ''webhook'', port_Port = 24335, port_NodePort = 31001\<rparr>], svc_IPs = []\<rparr>"

definition sample_ingress :: ingress where
  "sample_ingress = \<lparr>ing_Name = ''cd-webhook'', ing_ResourceVersion = ''5'', ing_Annotations = Some Map.empty,
     ing_Rules = [\<lparr>rule_Host = ''old.example.com'', rule_Paths = ''/webhook''\<rparr>], ing_IPs = [''192.0.2.4'']\<rparr>"

definition sample_expose :: "string \<Rightarrow> expose_st" where
  "sample_expose mode = \<lparr>xcfg = \<lparr>ExternalHostName = [], CurrentExternalHostName = [], ExposeMode = mode,
       IngressClass = ''nginx'', IngressHost = []\<rparr>, inbox = None,
     lastResourceVersion = (\<lambda>_. []), lastResource = (\<lambda>_. None), hosts = [], updates = []\<rparr>"

definition sample_both :: "string \<Rightarrow> expose_st" where
  "sample_both mode = (sample_expose mode)\<lparr>lastResource := (\<lambda>rc. case rc of
     exposeServiceReconciler \<Rightarrow> Some (KService sample_service) | exposeIngressReconciler \<Rightarrow> Some (KIngress sample_ingress))\<rparr>"

theorem expose_single_publisher_witness:
  "(\<exists>!rc. \<exists>h. hosts (snd (watchResource_turn rc None (sample_both ''ClusterIP''))) = [h])
   \<and> hosts (snd (watchResource_turn exposeIngressReconciler (Some (KIngress sample_ingress)) (sample_expose ''ClusterIP''))) = []"
proof
  have "valid_mode (effective_mode (xcfg (sample_both ''ClusterIP'')))"
    by (simp add: sample_both_def sample_expose_def effective_mode_def valid_mode_def exposeTypeClusterIP_def)
  moreover have "\<exists>ob. lastResource (sample_both ''ClusterIP'') rc = Some ob \<and> same_kind rc ob
      \<and> hostable (effective_mode (xcfg (sample_both ''ClusterIP''))) ob" for rc
    by (cases rc) (simp_all add: sample_both_def sample_expose_def effective_mode_def same_kind_def
        sample_ingress_def exposeTypeLoadBalancer_def)
  moreover have "hosts (sample_both ''ClusterIP'') = []" by (simp add: sample_both_def sample_expose_def)
  ultimately show "\<exists>!rc. \<exists>h. hosts (snd (watchResource_turn rc None (sample_both ''ClusterIP''))) = [h]"
    using expose_single_publisher[of exposeServiceReconciler None "sample_both ''ClusterIP''"] by simp
  show "hosts (snd (watchResource_turn exposeIngressReconciler (Some (KIngress sample_ingress)) (sample_expose ''ClusterIP''))) = []"
    using expose_single_publisher[of exposeIngressReconciler "Some (KIngress sample_ingress)" "sample_expose ''ClusterIP''"]
    by (auto simp: sample_expose_def effective_mode_def exposeTypeIngress_def prod_eq_iff)
qed

text \<open>
  C34: A watch may deliver objects of any kind. In every reachable state what a watcher
  keeps has the version it remembers, and whatever was given to the API server is an
  ingress or a service. A turn that gives it an object or sends a host has kept this
  very object, of the watcher's own kind; a turn with an object of another kind, or
  without metadata, returns and does neither.
\<close>

theorem expose_typed:
  assumes "expose_reachable V s"
  shows "(\<forall>rc ob. lastResource s rc = Some ob \<longrightarrow> resource_version ob = Ok (lastResourceVersion s rc))
    \<and> (\<forall>ob \<in> set (updates s). \<exists>rc. same_kind rc ob)
    \<and> (\<forall>rc upd. let s' = snd (watchResource_turn rc upd s) in
         updates s' = updates s \<and> hosts s' = hosts s
         \<or> (\<exists>ob. lastResource s' rc = Some ob \<and> same_kind rc ob \<and> updates s' = ob # updates s))
    \<and> (\<forall>rc ob. \<not> same_kind rc ob \<longrightarrow> (let (r, s') = watchResource_turn rc (Some ob) s in
         r = Ok () \<and> updates s' = updates s \<and> hosts s' = hosts s))"
proof -
  have foreign: "expose_reconcile rc ob mode t = (Err (Fail ''obj is not an Ingress''), t)
      \<or> expose_reconcile rc ob mode t = (Err (Fail ''svc is not a Service''), t)" if "\<not> same_kind rc ob" for rc ob mode t
    using that by (cases rc; cases ob)
      (auto simp: same_kind_def expose_reconcile_def service_reconcile_def ingress_reconcile_def prog_simps)
  have "let (r, s') = watchResource_turn rc (Some ob) s in r = Ok () \<and> updates s' = updates s \<and> hosts s' = hosts s"
    if "\<not> same_kind rc ob" for rc ob
  proof (cases "resource_version ob")
    case (Ok v)
    let ?t = "s\<lparr>lastResourceVersion := (lastResourceVersion s)(rc := v), lastResource := (lastResource s)(rc := Some ob)\<rparr>"
    have "reconcile_last rc ?t = (Ok (), ?t)"
      using foreign[OF that, of "effective_mode (xcfg ?t)" ?t] by (auto simp: reconcile_last_run)
    then show ?thesis
      using Ok by (simp add: watchResource_turn_def bnd_def prog_simps attempt_def set_resource_def)
  qed (cases ob; simp add: watchResource_turn_def bnd_def prog_simps attempt_def)+
  moreover have "let s' = snd (watchResource_turn rc upd s) in updates s' = updates s \<and> hosts s' = hosts s
      \<or> (\<exists>ob. lastResource s' rc = Some ob \<and> same_kind rc ob \<and> updates s' = ob # updates s)" for rc upd
    using turn_updates[OF surjective_pairing] by (simp add: Let_def)
  moreover have "typed s" using expose_reachable_inv[OF assms] by blast
  ultimately show ?thesis unfolding typed_def by blast
qed

definition sample_exposed :: expose_st where
  "sample_exposed = snd (watchResource_turn exposeServiceReconciler (Some (KService sample_service)) (sample_expose ''ClusterIP''))"

lemma sample_exposed_run:
  "sample_exposed = done_with exposeServiceReconciler (KService (configureService exposeTypeClusterIP sample_service))
     (Some (host_port ''10.96.0.7'' 24335))
     ((sample_expose ''ClusterIP'')\<lparr>
        lastResourceVersion := (lastResourceVersion (sample_expose ''ClusterIP''))(exposeServiceReconciler := ''3''),
        lastResource := (lastResource (sample_expose ''ClusterIP''))(exposeServiceReconciler := Some (KService sample_service))\<rparr>)"
  by (simp add: sample_exposed_def watchResource_turn_def bnd_def prog_simps attempt_def set_resource_def reconcile_last_run
      sample_expose_def sample_service_def effective_mode_def valid_mode_def exposeTypeClusterIP_def exposeTypeIngress_def
      expose_reconcile_def service_run Let_def generateExternalHost_def configureService_def findWebhookPort_def)

lemma sample_exposed_external: "ExternalHostName (xcfg sample_exposed) = []"
  by (simp add: sample_exposed_run done_with_def listen_def sample_expose_def)

lemma sample_exposed_reachable: "expose_reachable {sample_exposed, sample_expose ''ClusterIP''} sample_exposed"
proof (rule expose_reachable.steps)
  show "expose_reachable {sample_expose ''ClusterIP''} (sample_expose ''ClusterIP'')"
    by (rule expose_reachable.starts) (simp add: expose_start_def sample_expose_def)
  show "expose_step (sample_expose ''ClusterIP'') sample_exposed"
    unfolding sample_exposed_def by (rule turns[OF surjective_pairing])
qed

text \<open>An error event of the watch carries an object of another kind.\<close>

theorem expose_typed_witness:
  "lastResourceVersion sample_exposed exposeServiceReconciler = ''3''
   \<and> fst (watchResource_turn exposeServiceReconciler (Some (KOther ''9'')) sample_exposed) = Ok ()"
proof -
  obtain svc where svc: "lastResource sample_exposed exposeServiceReconciler = Some (KService svc)" "svc_ResourceVersion svc = ''3''"
    by (simp add: sample_exposed_run configureService_def sample_service_def Let_def)
  note all = expose_typed[OF sample_exposed_reachable]
  have "resource_version (KService svc) = Ok (lastResourceVersion sample_exposed exposeServiceReconciler)"
    using all svc(1) by blast
  moreover obtain r s' where run: "watchResource_turn exposeServiceReconciler (Some (KOther ''9'')) sample_exposed = (r, s')"
    by fastforce
  have "\<not> same_kind exposeServiceReconciler (KOther ''9'')" by (simp add: same_kind_def)
  with all have "let (r, s') = watchResource_turn exposeServiceReconciler (Some (KOther ''9'')) sample_exposed in
      r = Ok () \<and> updates s' = updates sample_exposed \<and> hosts s' = hosts sample_exposed" by blast
  with run have "r = Ok ()" by simp
  ultimately show ?thesis using svc(2) run by simp
qed

text \<open>
  C33: The current external host name is, in every reachable state, still unset, or what
  the listener made of a host a watcher had sent: in an earlier state the host was
  pending, and the name is the \<open>ExternalHostName\<close> configured in that state or, when
  none was, the host itself.
\<close>

theorem expose_host_origin:
  assumes "expose_reachable V s" and "CurrentExternalHostName (xcfg s) \<noteq> []"
  shows "\<exists>t \<in> V. \<exists>h \<in> set (hosts s). inbox t = Some h \<and> h \<noteq> []
    \<and> CurrentExternalHostName (xcfg s) = (if ExternalHostName (xcfg t) = [] then h else ExternalHostName (xcfg t))"
  using expose_reachable_inv[OF assms(1)] assms(2) by (auto simp: traced_def resolves_def)

theorem expose_host_origin_witness:
  "CurrentExternalHostName (xcfg (listen sample_exposed)) \<in> set (hosts (listen sample_exposed))"
proof -
  have r: "expose_reachable {listen sample_exposed, sample_exposed, sample_expose ''ClusterIP''} (listen sample_exposed)"
    by (rule expose_reachable.steps[OF sample_exposed_reachable listens])
  have "CurrentExternalHostName (xcfg (listen sample_exposed)) \<noteq> []"
    by (simp add: sample_exposed_run done_with_def listen_def sample_expose_def updateExternalURL_def host_port_def)
  from expose_host_origin[OF r this] show ?thesis
    by (auto simp: sample_exposed_external listen_cfg sample_expose_def)
qed

text \<open>
  C8: What a pass makes of the service: its type follows the mode, node ports are
  removed for ClusterIP and everything else is kept; the host is the cluster IP or
  the first load balancer IP with the port named webhook (24335 without one), and
  in the mode LoadBalancer without an IP nothing is published.
\<close>

theorem expose_service:
  assumes "lastResource s exposeServiceReconciler = Some (KService svc)"
    and "effective_mode (xcfg s) = mode" and "valid_mode mode"
    and "ty = (if mode = exposeTypeIngress then exposeTypeClusterIP else mode)"
  shows "\<exists>s'. watchResource_turn exposeServiceReconciler None s = (Ok (), s')
    \<and> updates s' = KService (svc\<lparr>svc_Type := ty,
         svc_Ports := (if ty = exposeTypeClusterIP then map (\<lambda>p. p\<lparr>port_NodePort := 0\<rparr>) (svc_Ports svc) else svc_Ports svc)\<rparr>)
         # updates s
    \<and> hosts s' = (if mode = exposeTypeClusterIP then [host_port (svc_ClusterIP svc) (find_port (svc_Ports svc))]
                  else if mode = exposeTypeLoadBalancer then map (\<lambda>ip. host_port ip (find_port (svc_Ports svc))) (take 1 (svc_IPs svc))
                  else []) @ hosts s"
proof -
  let ?t = "configureService mode svc"
  have port: "find_port (map (\<lambda>p. p\<lparr>port_NodePort := 0\<rparr>) ps) = find_port ps" for ps
    by (induction ps rule: find_port.induct) auto
  have run: "watchResource_turn exposeServiceReconciler None s =
      (Ok (), snd (service_reconcile (KService svc) mode s))"
    using assms by (auto simp: watchResource_turn_def reconcile_last_run expose_reconcile_def service_run Let_def
        split: prod.splits res.splits)
  have up: "updates (snd (service_reconcile (KService svc) mode s)) = KService ?t # updates s"
    by (auto simp: service_run Let_def split: res.splits)
  have ho: "hosts (snd (service_reconcile (KService svc) mode s)) =
      (if mode = exposeTypeClusterIP then [host_port (svc_ClusterIP svc) (find_port (svc_Ports svc))]
       else if mode = exposeTypeLoadBalancer then map (\<lambda>ip. host_port ip (find_port (svc_Ports svc))) (take 1 (svc_IPs svc))
       else []) @ hosts s"
    using assms(3) port
    by (cases "svc_IPs svc") (auto simp: service_run Let_def valid_mode_def generateExternalHost_def configureService_def findWebhookPort_def
        exposeTypeIngress_def exposeTypeClusterIP_def exposeTypeLoadBalancer_def)
  show ?thesis
    unfolding run using up ho assms(4) by (simp add: configureService_def Let_def)
qed

lemma sample_exposed_kept:
  "lastResource sample_exposed exposeServiceReconciler = Some (KService (configureService exposeTypeClusterIP sample_service))"
  by (simp add: sample_exposed_run)

theorem expose_service_witness:
  "\<exists>s'. watchResource_turn exposeServiceReconciler None sample_exposed = (Ok (), s')
     \<and> hosts s' = host_port ''10.96.0.7'' 24335 # hosts sample_exposed"
proof -
  have "effective_mode (xcfg sample_exposed) = exposeTypeClusterIP" "valid_mode exposeTypeClusterIP"
    by (simp_all add: sample_exposed_run done_with_def listen_def sample_expose_def effective_mode_def valid_mode_def
        exposeTypeClusterIP_def)
  from expose_service[OF sample_exposed_kept this refl] show ?thesis
    by (auto simp: configureService_def sample_service_def Let_def)
qed

text \<open>
  C35: What a pass makes of the ingress: the class annotation is set, the first rule
  gets the configured host, or else the nip.io host of the load balancer IP, or else
  keeps its own, and this host is published in the mode Ingress; the rest is kept.
  Without annotations the pass panics after publishing and updating the ingress as
  it was.
\<close>

theorem expose_ingress:
  assumes "lastResource s exposeIngressReconciler = Some (KIngress i)" and "ing_Rules i = rule # rules"
    and "effective_mode (xcfg s) = mode" and "valid_mode mode"
    and "host = (if IngressHost (xcfg s) \<noteq> [] then IngressHost (xcfg s)
                 else if ing_IPs i \<noteq> [] \<and> hd (ing_IPs i) \<noteq> [] then nip_host (hd (ing_IPs i)) else rule_Host rule)"
  shows "\<exists>s'. hosts s' = (if mode = exposeTypeIngress then [if ing_Annotations i = None then rule_Host rule else host] else []) @ hosts s
    \<and> (case ing_Annotations i of
        None \<Rightarrow> watchResource_turn exposeIngressReconciler None s = (Panic ''assignment to entry in nil map'', s')
          \<and> updates s' = KIngress i # updates s
      | Some ann \<Rightarrow> watchResource_turn exposeIngressReconciler None s = (Ok (), s')
          \<and> updates s' = KIngress (i\<lparr>ing_Annotations := Some (ann(''kubernetes.io/ingress.class'' \<mapsto> IngressClass (xcfg s))),
                                    ing_Rules := rule\<lparr>rule_Host := host\<rparr> # rules\<rparr>) # updates s)"
proof (cases "ing_Annotations i")
  case None
  from ingress_nil_run[OF _ None assms(1), of mode] assms(2) have
    "watchResource_turn exposeIngressReconciler None s = (Panic ''assignment to entry in nil map'',
       done_with exposeIngressReconciler (KIngress i) (if mode = exposeTypeIngress then Some (ingress_host i) else None) s)"
    using assms(1,3,4) by (simp add: watchResource_turn_def reconcile_last_run expose_reconcile_def)
  then show ?thesis using None assms(2) by (simp add: ingress_host_def)
next
  case (Some ann)
  have d: "desired_ingress (xcfg s) i = i\<lparr>ing_Annotations := Some (ann(''kubernetes.io/ingress.class'' \<mapsto> IngressClass (xcfg s))),
      ing_Rules := rule\<lparr>rule_Host := host\<rparr> # rules\<rparr>"
    using assms(2,5) Some by (auto simp: desired_ingress_def set_rule_host_def Let_def)
  from ingress_run[OF _ Some, of mode s] assms(2) have
    "watchResource_turn exposeIngressReconciler None s = (Ok (),
       done_with exposeIngressReconciler (KIngress (desired_ingress (xcfg s) i))
         (if mode = exposeTypeIngress then Some (ingress_host (desired_ingress (xcfg s) i)) else None) s)"
    using assms(1,3,4) by (simp add: watchResource_turn_def reconcile_last_run expose_reconcile_def Let_def)
  then show ?thesis using Some by (simp add: ingress_host_def d)
qed

theorem expose_ingress_witness:
  "\<exists>s'. watchResource_turn exposeIngressReconciler None
       ((sample_expose [])\<lparr>lastResource := (\<lambda>_. Some (KIngress sample_ingress))\<rparr>) = (Ok (), s')
     \<and> hosts s' = [''cd-webhook.192.0.2.4.nip.io'']"
proof -
  have "effective_mode (xcfg ((sample_expose [])\<lparr>lastResource := (\<lambda>_. Some (KIngress sample_ingress))\<rparr>)) = exposeTypeIngress"
    "valid_mode exposeTypeIngress" "ing_Rules sample_ingress = \<lparr>rule_Host = ''old.example.com'', rule_Paths = ''/webhook''\<rparr> # []"
    by (simp_all add: effective_mode_def sample_expose_def valid_mode_def sample_ingress_def)
  from expose_ingress[OF _ this(3,1,2) refl] show ?thesis
    by (auto simp: sample_expose_def sample_ingress_def nip_host_def)
qed

text \<open>What a pass without panic leaves in the object.\<close>

fun desired :: "exposeReconciler \<Rightarrow> string \<Rightarrow> config_vars \<Rightarrow> kobject \<Rightarrow> kobject" where
  "desired exposeServiceReconciler mode c (KService svc) = KService (configureService mode svc)"
| "desired exposeIngressReconciler mode c (KIngress i) = KIngress (if ing_Rules i = [] then i else desired_ingress c i)"
| "desired _ _ _ ob = ob"

lemma desired_idem:
  assumes "IngressClass d = IngressClass c" and "IngressHost d = IngressHost c"
  shows "desired rc mode d (desired rc mode c ob) = desired rc mode c ob"
proof -
  have "configureService mode (configureService mode svc) = configureService mode svc" for svc
    by (auto simp: configureService_def Let_def)
  moreover have "desired_ingress d (desired_ingress c i) = desired_ingress c i" if "ing_Rules i \<noteq> []" for i
    using assms that
    by (cases "ing_Annotations i") (auto simp: desired_ingress_def set_rule_host_def Let_def)
  moreover have "ing_Rules (desired_ingress c i) \<noteq> []" if "ing_Rules i \<noteq> []" for i
    using that by (auto simp: desired_ingress_def set_rule_host_def Let_def)
  ultimately show ?thesis by (cases "(rc, mode, c, ob)" rule: desired.cases) auto
qed

text \<open>The objects on which a pass runs to its end, and what it makes of the others.\<close>

fun passable :: "exposeReconciler \<Rightarrow> kobject \<Rightarrow> bool" where
  "passable exposeServiceReconciler (KService svc) \<longleftrightarrow> True"
| "passable exposeIngressReconciler (KIngress i) \<longleftrightarrow> ing_Rules i \<noteq> [] \<and> ing_Annotations i \<noteq> None"
| "passable _ _ \<longleftrightarrow> False"

lemma pass_gives:
  assumes "lastResource s rc = Some ob" and "reconcile_last rc s = (r, s')" and "valid_mode (effective_mode (xcfg s))"
  shows "passable rc ob \<Longrightarrow> updates s' = desired rc (effective_mode (xcfg s)) (xcfg s) ob # updates s"
    and "\<not> passable rc ob \<Longrightarrow> updates s' = updates s \<or> updates s' = ob # updates s"
proof -
  let ?m = "effective_mode (xcfg s)"
  have s': "s' = snd (expose_reconcile rc ob ?m s)"
    using assms by (auto simp: reconcile_last_run split: prod.splits res.splits)
  show "updates s' = desired rc ?m (xcfg s) ob # updates s" if "passable rc ob"
  proof (cases "(rc, ob)" rule: passable.cases)
    case (1 svc)
    then show ?thesis unfolding s' by (auto simp: expose_reconcile_def service_run Let_def split: res.splits)
  next
    case (2 i)
    with that obtain ann where "ing_Rules i \<noteq> []" "ing_Annotations i = Some ann" by auto
    with 2 ingress_run[OF this, of ?m s] show ?thesis unfolding s' by (simp add: expose_reconcile_def Let_def)
  qed (use that in simp_all)
  show "updates s' = updates s \<or> updates s' = ob # updates s" if "\<not> passable rc ob"
  proof (cases "(rc, ob)" rule: passable.cases)
    case (2 i)
    show ?thesis
    proof (cases "ing_Rules i = []")
      case True
      with 2 show ?thesis unfolding s' by (simp add: expose_reconcile_def ingress_reconcile_def prog_simps)
    next
      case False
      with 2 that have "ing_Annotations i = None" by simp
      with 2 False assms(1) show ?thesis
        unfolding s' using ingress_nil_run[of i s ?m] by (simp add: expose_reconcile_def)
    qed
  qed (cases rc; use that in \<open>auto simp: s' expose_reconcile_def service_reconcile_def ingress_reconcile_def prog_simps\<close>)+
qed

text \<open>The same object under another resource version.\<close>

fun with_version :: "string \<Rightarrow> kobject \<Rightarrow> kobject" where
  "with_version v (KIngress i) = KIngress (i\<lparr>ing_ResourceVersion := v\<rparr>)"
| "with_version v (KService svc) = KService (svc\<lparr>svc_ResourceVersion := v\<rparr>)"
| "with_version v (KOther w) = KOther v"
| "with_version v KNoMeta = KNoMeta"

lemma with_version_passable [simp]: "passable rc (with_version v ob) = passable rc ob"
  by (cases "(rc, ob)" rule: passable.cases) simp_all

lemma desired_with_version: "desired rc mode c (with_version v ob) = with_version v (desired rc mode c ob)"
  by (cases "(rc, mode, c, ob)" rule: desired.cases)
    (auto simp: configureService_def desired_ingress_def set_rule_host_def Let_def)

lemma passable_desired: "passable rc ob \<Longrightarrow> passable rc (desired rc mode c ob)"
  by (cases "(rc, ob)" rule: passable.cases) (auto simp: desired_ingress_def set_rule_host_def Let_def)

lemma passable_version: "passable rc ob \<Longrightarrow> resource_version (with_version v ob) = Ok v"
  by (cases "(rc, ob)" rule: passable.cases) simp_all

text \<open>
  \<open>echo\<close>: the watch delivers \<open>ob\<close>, as the API server has it, and the watcher passes over
  it. When the update that comes of it changes the object, the API server stores it
  under the new version \<open>v\<close> and the watch delivers it again, with the state after the
  turn; an update that changes nothing makes no event.
\<close>

definition echo :: "exposeReconciler \<Rightarrow> string \<Rightarrow> kobject \<Rightarrow> expose_st \<Rightarrow> (kobject \<times> expose_st) option" where
  "echo rc v ob s =
     (let s' = snd (watchResource_turn rc (Some ob) s) in
      if updates s' = updates s \<or> hd (updates s') = ob then None else Some (with_version v (hd (updates s')), s'))"

lemma turn_new_version:
  assumes "resource_version ob = Ok v" and "v \<noteq> lastResourceVersion s rc"
  shows "watchResource_turn rc (Some ob) s = reconcile_last rc
    (s\<lparr>lastResourceVersion := (lastResourceVersion s)(rc := v), lastResource := (lastResource s)(rc := Some ob)\<rparr>)"
  using assms by (simp add: watchResource_turn_def bnd_def prog_simps attempt_def set_resource_def)

lemma reconcile_last_config:
  assumes "reconcile_last rc s = (r, s')"
  shows "ExposeMode (xcfg s') = ExposeMode (xcfg s)" and "IngressClass (xcfg s') = IngressClass (xcfg s)"
    and "IngressHost (xcfg s') = IngressHost (xcfg s)" and "lastResourceVersion s' = lastResourceVersion s"
  using reconcile_last_cases[OF assms]
  by (auto simp: done_with_def listen_def updateExternalURL_def Let_def split: option.splits)

lemma echo_pass:
  assumes "echo rc v ob s = Some (ob', s')"
  shows "passable rc ob" and "valid_mode (effective_mode (xcfg s))"
    and "ob' = with_version v (desired rc (effective_mode (xcfg s)) (xcfg s) ob)"
    and "resource_version ob = Ok (lastResourceVersion s' rc)"
    and "ExposeMode (xcfg s') = ExposeMode (xcfg s)" and "IngressClass (xcfg s') = IngressClass (xcfg s)"
    and "IngressHost (xcfg s') = IngressHost (xcfg s)"
proof -
  obtain r where run: "watchResource_turn rc (Some ob) s = (r, s')" and up: "updates s' \<noteq> updates s" "hd (updates s') \<noteq> ob"
    and ob': "ob' = with_version v (hd (updates s'))"
    using assms by (cases "watchResource_turn rc (Some ob) s") (auto simp: echo_def Let_def split: if_splits)
  from watchResource_turn_cases[OF run] up(1) obtain w where w: "resource_version ob = Ok w"
    and last: "reconcile_last rc (s\<lparr>lastResourceVersion := (lastResourceVersion s)(rc := w),
      lastResource := (lastResource s)(rc := Some ob)\<rparr>) = (r, s')" (is "reconcile_last rc ?t = _")
    by auto
  show valid: "valid_mode (effective_mode (xcfg s))"
    using last up(1) by (auto simp: reconcile_last_run split: if_splits)
  have gives: "passable rc ob \<Longrightarrow> updates s' = desired rc (effective_mode (xcfg s)) (xcfg s) ob # updates s"
    "\<not> passable rc ob \<Longrightarrow> updates s' = updates s \<or> updates s' = ob # updates s"
    using pass_gives[OF _ last, of ob] valid by simp_all
  then show p: "passable rc ob" using up by (cases "passable rc ob") auto
  show "ob' = with_version v (desired rc (effective_mode (xcfg s)) (xcfg s) ob)" using ob' gives(1)[OF p] by simp
  show "resource_version ob = Ok (lastResourceVersion s' rc)" using w reconcile_last_config(4)[OF last] by simp
  show "ExposeMode (xcfg s') = ExposeMode (xcfg s)" "IngressClass (xcfg s') = IngressClass (xcfg s)"
    "IngressHost (xcfg s') = IngressHost (xcfg s)"
    using reconcile_last_config(1-3)[OF last] by simp_all
qed

text \<open>
  C36: The updates of the controller end. When its pass over a delivered object changes
  the object, the API server has it in the desired state under a new version and the
  watch delivers it again; the pass over that event hands over exactly the object that
  is stored, so that there is no further event, whatever the next version would be.
\<close>

theorem expose_settles:
  assumes "echo rc v ob s = Some (ob1, s1)" and "resource_version ob \<noteq> Ok v"
  shows "ob1 = with_version v (desired rc (effective_mode (xcfg s)) (xcfg s) ob)
    \<and> updates (snd (watchResource_turn rc (Some ob1) s1)) = ob1 # updates s1 \<and> echo rc v' ob1 s1 = None"
proof -
  note e = echo_pass[OF assms(1)]
  let ?m = "effective_mode (xcfg s)"
  have m: "effective_mode (xcfg s1) = ?m" by (simp add: effective_mode_def e(5))
  have p: "passable rc ob1" unfolding e(3) by (simp add: passable_desired[OF e(1)])
  have "resource_version ob1 = Ok v" unfolding e(3) by (rule passable_version[OF passable_desired[OF e(1)]])
  moreover have "v \<noteq> lastResourceVersion s1 rc" using assms(2) e(4) by auto
  ultimately have turn: "watchResource_turn rc (Some ob1) s1 = reconcile_last rc
      (s1\<lparr>lastResourceVersion := (lastResourceVersion s1)(rc := v), lastResource := (lastResource s1)(rc := Some ob1)\<rparr>)"
    (is "_ = reconcile_last rc ?t") by (rule turn_new_version)
  have "desired rc ?m (xcfg s1) ob1 = ob1"
    unfolding e(3) by (simp add: desired_with_version desired_idem[OF e(6,7)])
  moreover have "updates (snd (reconcile_last rc ?t)) = desired rc ?m (xcfg s1) ob1 # updates s1"
    using pass_gives(1)[of ?t rc ob1, OF _ surjective_pairing _ p] e(2) by (simp add: m)
  ultimately have "updates (snd (watchResource_turn rc (Some ob1) s1)) = ob1 # updates s1" by (simp add: turn)
  then show ?thesis by (simp add: e(3) echo_def Let_def)
qed

definition sample_watching :: "string \<Rightarrow> expose_st" where
  "sample_watching host = (sample_expose [])\<lparr>lastResource := (\<lambda>_. Some (KIngress sample_ingress)),
     xcfg := (xcfg (sample_expose []))\<lparr>IngressHost := host\<rparr>\<rparr>"

lemma sample_echo: "echo exposeIngressReconciler ''6'' (KIngress sample_ingress) (sample_watching []) \<noteq> None"
proof -
  let ?s = "sample_watching []" and ?rc = exposeIngressReconciler
  let ?t = "?s\<lparr>lastResourceVersion := (lastResourceVersion ?s)(?rc := ''5''), lastResource := (lastResource ?s)(?rc := Some (KIngress sample_ingress))\<rparr>"
  have c: "xcfg ?t = xcfg ?s" "updates ?t = []" "effective_mode (xcfg ?s) = exposeTypeIngress" "IngressHost (xcfg ?s) = []"
    by (simp_all add: sample_watching_def sample_expose_def effective_mode_def)
  have "watchResource_turn ?rc (Some (KIngress sample_ingress)) ?s = reconcile_last ?rc ?t"
    by (rule turn_new_version) (simp_all add: sample_ingress_def sample_watching_def sample_expose_def)
  moreover have "updates (snd (reconcile_last ?rc ?t)) = [desired ?rc exposeTypeIngress (xcfg ?s) (KIngress sample_ingress)]"
    using pass_gives(1)[of ?t ?rc "KIngress sample_ingress", OF _ surjective_pairing] c
    by (simp add: valid_mode_def sample_ingress_def)
  moreover have "desired_ingress (xcfg ?s) sample_ingress \<noteq> sample_ingress"
    by (simp add: c desired_ingress_def set_rule_host_def sample_ingress_def nip_host_def Let_def)
  ultimately show ?thesis by (simp add: echo_def Let_def c(2)[simplified] sample_ingress_def)
qed

theorem expose_settles_witness:
  "\<exists>ob1 s1. echo exposeIngressReconciler ''6'' (KIngress sample_ingress) (sample_watching []) = Some (ob1, s1)
     \<and> echo exposeIngressReconciler ''7'' ob1 s1 = None"
proof -
  obtain ob1 s1 where e: "echo exposeIngressReconciler ''6'' (KIngress sample_ingress) (sample_watching []) = Some (ob1, s1)"
    using sample_echo by fast
  have "resource_version (KIngress sample_ingress) \<noteq> Ok ''6''" by (simp add: sample_ingress_def)
  from expose_settles[OF e this] e show ?thesis by blast
qed

text \<open>
  C37: From the configuration to the address of the webhooks: when the mode is
  Ingress and \<open>IngressHost\<close> is set, one pass over an annotated ingress and one turn
  of the listener make the webhook address of every Application that of the host,
  or of \<open>ExternalHostName\<close> when this is configured.
\<close>

theorem expose_webhook_address:
  assumes "lastResource s exposeIngressReconciler = Some (KIngress i)" and "ing_Rules i \<noteq> []" and "ing_Annotations i \<noteq> None"
    and "effective_mode (xcfg s) = exposeTypeIngress" and "IngressHost (xcfg s) \<noteq> []"
    and "watchResource_turn exposeIngressReconciler None s = (r, s')"
  shows "GetWebhookServerAddress (CurrentExternalHostName (xcfg (listen s'))) a =
    ''http://'' @ (if ExternalHostName (xcfg s) = [] then IngressHost (xcfg s) else ExternalHostName (xcfg s))
      @ ''/webhook/'' @ app_Namespace a @ ''/'' @ app_Name a"
proof -
  obtain ann where ann: "ing_Annotations i = Some ann" using assms(3) by blast
  have "ingress_host (desired_ingress (xcfg s) i) = IngressHost (xcfg s)"
    using assms(2,5) by (simp add: desired_ingress_def ingress_host_def set_rule_host_def Let_def)
  then have "s' = done_with exposeIngressReconciler (KIngress (desired_ingress (xcfg s) i)) (Some (IngressHost (xcfg s))) s"
    using assms(1,4,6) ingress_run[OF assms(2) ann, of exposeTypeIngress s]
    by (simp add: watchResource_turn_def reconcile_last_run expose_reconcile_def valid_mode_def Let_def)
  then have "xcfg (listen s') = updateExternalURL (IngressHost (xcfg s)) (xcfg (listen s))"
    by (simp add: done_with_def listen_def split: option.splits)
  then show ?thesis
    using assms(5) by (simp add: GetWebhookServerAddress_def updateExternalURL_def listen_cfg)
qed

theorem expose_webhook_address_witness:
  "GetWebhookServerAddress (CurrentExternalHostName (xcfg (listen (snd (watchResource_turn exposeIngressReconciler None
     (sample_watching ''cd.example.com'')))))) sample_user_app = ''http://cd.example.com/webhook/demo/guestbook''"
  by (subst expose_webhook_address[OF _ _ _ _ _ surjective_pairing, of _ sample_ingress])
     (simp_all add: sample_watching_def sample_expose_def sample_ingress_def effective_mode_def sample_user_app_def)

end
