(* ===== verification/ApiTree.thy ===== *)
theory ApiTree
  imports Server
begin

text \<open>
  \<open>internal/wrapper/wrapper.go\<close> and the constructors of \<open>pkg/apiserver\<close>: the tree of
  path wrappers and the routers they register their handlers with. Wrappers and
  routers are pointers, so they live in a store and are numbered in the order of
  their creation.
\<close>

section \<open>Store\<close>

datatype api_handler = rootHandler | apisHandler | versionHandler | syncHandler

text \<open>
  What the router library is told: a router made by \<open>Subrouter\<close> has a parent, a path
  prefix or a restriction of the methods, the paths handled in it and its middleware
  (\<open>True\<close> once the authorizer was added with \<open>Use\<close>).
\<close>

record router =
  rt_Parent :: "nat option"
  rt_Prefix :: string
  rt_Methods :: "string list"
  rt_Routes :: "(string \<times> api_handler) list"
  rt_Authorize :: bool

record wrapper =
  subPath :: string
  wr_methods :: "string list"
  handler :: "api_handler option"
  children :: "nat list"
  parent :: "nat option"
  wr_router :: "nat option"

record api_tree =
  wrappers :: "nat \<rightharpoonup> wrapper"
  next_wrapper :: nat
  routers :: "nat \<rightharpoonup> router"
  next_router :: nat

definition empty_tree :: api_tree where
  "empty_tree = \<lparr>wrappers = Map.empty, next_wrapper = 0, routers = Map.empty, next_router = 0\<rparr>"

type_synonym 'a tree_op = "(api_tree, 'a) prog"

section \<open>Routers\<close>

definition new_router :: "router \<Rightarrow> nat tree_op" where
  "new_router r = (\<lambda>t. (Ok (next_router t),
     t\<lparr>routers := (routers t)(next_router t \<mapsto> r), next_router := Suc (next_router t)\<rparr>))"

definition NewRouter :: "nat tree_op" where
  "NewRouter = new_router \<lparr>rt_Parent = None, rt_Prefix = [], rt_Methods = [], rt_Routes = [], rt_Authorize = False\<rparr>"

definition PathPrefix_Subrouter :: "nat \<Rightarrow> string \<Rightarrow> nat tree_op" where
  "PathPrefix_Subrouter r p = new_router \<lparr>rt_Parent = Some r, rt_Prefix = p, rt_Methods = [], rt_Routes = [], rt_Authorize = False\<rparr>"

definition Methods_Subrouter :: "nat \<Rightarrow> string list \<Rightarrow> nat tree_op" where
  "Methods_Subrouter r ms = new_router \<lparr>rt_Parent = Some r, rt_Prefix = [], rt_Methods = ms, rt_Routes = [], rt_Authorize = False\<rparr>"

definition change_router :: "nat \<Rightarrow> (router \<Rightarrow> router) \<Rightarrow> unit tree_op" where
  "change_router r f = modify (\<lambda>t. t\<lparr>routers := (routers t)(r := map_option f (routers t r))\<rparr>)"

definition HandleFunc :: "nat \<Rightarrow> string \<Rightarrow> api_handler \<Rightarrow> unit tree_op" where
  "HandleFunc r p h = change_router r (\<lambda>x. x\<lparr>rt_Routes := rt_Routes x @ [(p, h)]\<rparr>)"

definition Use_Authorize :: "nat \<Rightarrow> unit tree_op" where
  "Use_Authorize r = change_router r (\<lambda>x. x\<lparr>rt_Authorize := True\<rparr>)"

section \<open>Wrappers\<close>

definition wrapper_New :: "string \<Rightarrow> string list \<Rightarrow> api_handler option \<Rightarrow> nat tree_op" where
  "wrapper_New path ms h = (\<lambda>t. (Ok (next_wrapper t),
     t\<lparr>wrappers := (wrappers t)(next_wrapper t \<mapsto>
         \<lparr>subPath = path, wr_methods = ms, handler = h, children = [], parent = None, wr_router = None\<rparr>),
       next_wrapper := Suc (next_wrapper t)\<rparr>))"

definition deref :: "nat \<Rightarrow> wrapper tree_op" where
  "deref w = (\<lambda>t. case wrappers t w of None \<Rightarrow> (Panic nil_deref, t) | Some x \<Rightarrow> (Ok x, t))"

definition change_wrapper :: "nat \<Rightarrow> (wrapper \<Rightarrow> wrapper) \<Rightarrow> unit tree_op" where
  "change_wrapper w f = modify (\<lambda>t. t\<lparr>wrappers := (wrappers t)(w := map_option f (wrappers t w))\<rparr>)"

definition SetRouter :: "nat \<Rightarrow> nat \<Rightarrow> unit tree_op" where
  "SetRouter w r = change_wrapper w (\<lambda>x. x\<lparr>wr_router := Some r\<rparr>)"

text \<open>The router of a wrapper; a call on a nil router panics.\<close>

definition the_router :: "nat \<Rightarrow> nat tree_op" where
  "the_router w = bnd (deref w) (\<lambda>x. case wr_router x of None \<Rightarrow> crash nil_deref | Some r \<Rightarrow> ret r)"

definition valid_subpath :: "string \<Rightarrow> bool" where
  "valid_subpath p \<longleftrightarrow> p \<noteq> [] \<and> p \<noteq> ''/'' \<and> hd p = CHR ''/''"

definition Add :: "nat \<Rightarrow> nat option \<Rightarrow> unit tree_op" where
  "Add w child_ptr =
     (case child_ptr of
        None \<Rightarrow> throw (Fail ''child is nil'')
      | Some child \<Rightarrow>
          bnd (deref child) (\<lambda>c.
          if parent c \<noteq> None then throw (Fail ''child already has parent'')
          else if \<not> valid_subpath (subPath c) then throw (Fail ''child subpath is not valid'')
          else
            bnd (change_wrapper child (\<lambda>x. x\<lparr>parent := Some w\<rparr>)) (\<lambda>_.
            bnd (change_wrapper w (\<lambda>x. x\<lparr>children := children x @ [child]\<rparr>)) (\<lambda>_.
            bnd (the_router w) (\<lambda>r.
            bnd (PathPrefix_Subrouter r (subPath c)) (\<lambda>cr.
            bnd (SetRouter child cr) (\<lambda>_.
            case handler c of
              None \<Rightarrow> ret ()
            | Some h \<Rightarrow>
                if wr_methods c \<noteq> [] then
                  bnd (Methods_Subrouter cr (wr_methods c)) (\<lambda>a.
                  bnd (HandleFunc a ''/'' h) (\<lambda>_.
                  bnd (the_router w) (\<lambda>r.
                  bnd (Methods_Subrouter r (wr_methods c)) (\<lambda>b.
                  HandleFunc b (subPath c) h))))
                else
                  bnd (HandleFunc cr ''/'' h) (\<lambda>_.
                  bnd (the_router w) (\<lambda>r. HandleFunc r (subPath c) h)))))))))"

text \<open>The regular expression \<open>/{2,}\<close> is replaced by one slash.\<close>

fun collapse :: "string \<Rightarrow> string" where
  "collapse (c # d # s) = (if c = CHR ''/'' \<and> d = CHR ''/'' then collapse (d # s) else c # collapse (d # s))"
| "collapse s = s"

text \<open>The recursion follows the parents; on a cycle it does not return.\<close>

partial_function (option) FullPath :: "(nat \<rightharpoonup> wrapper) \<Rightarrow> nat \<Rightarrow> string option" where
  "FullPath ws w =
     (case ws w of
        None \<Rightarrow> None
      | Some x \<Rightarrow>
          (case parent x of
             None \<Rightarrow> Some (subPath x)
           | Some p \<Rightarrow> Option.bind (FullPath ws p) (\<lambda>fp. Some (collapse (fp @ subPath x)))))"

declare FullPath.simps [code]

text \<open>\<open>addPath\<close> descends the children; the fuel bounds the depth of the tree.\<close>

fun addPath :: "nat \<Rightarrow> (nat \<rightharpoonup> wrapper) \<Rightarrow> nat \<Rightarrow> string list option" where
  "addPath 0 ws w = None"
| "addPath (Suc n) ws w =
     (case ws w of
        None \<Rightarrow> None
      | Some x \<Rightarrow>
          Option.bind (if handler x \<noteq> None then map_option (\<lambda>p. [p]) (FullPath ws w) else Some []) (\<lambda>own.
          map_option (\<lambda>pss. own @ concat pss) (those (map (addPath n ws) (children x)))))"

section \<open>The tree of the API server\<close>

definition APIGroup :: string where "APIGroup = ''cdapi.tmax.io''"
definition APIVersion :: string where "APIVersion = ''v1''"
definition NamespaceParamKey :: string where "NamespaceParamKey = ''namespace''"
definition applicationNameParamKey :: string where "applicationNameParamKey = ''applicationName''"
definition APIKindApplication :: string where "APIKindApplication = ''applications''"
definition ApplicationAPISync :: string where "ApplicationAPISync = ''sync''"

definition applications_NewHandler :: "nat \<Rightarrow> unit tree_op" where
  "applications_NewHandler up =
     bnd (wrapper_New (''/'' @ APIKindApplication @ ''/{'' @ applicationNameParamKey @ ''}'') [] None) (\<lambda>applicationWrapper.
     bnd (Add up (Some applicationWrapper)) (\<lambda>_.
     bnd (the_router applicationWrapper) (\<lambda>r.
     bnd (Use_Authorize r) (\<lambda>_.
     bnd (wrapper_New (''/'' @ ApplicationAPISync) [''PUT''] (Some syncHandler)) (\<lambda>syncWrapper.
     Add applicationWrapper (Some syncWrapper))))))"

definition v1_NewHandler :: "nat \<Rightarrow> unit tree_op" where
  "v1_NewHandler up =
     bnd (wrapper_New (''/'' @ APIGroup @ ''/'' @ APIVersion) [] (Some versionHandler)) (\<lambda>versionWrapper.
     bnd (Add up (Some versionWrapper)) (\<lambda>_.
     bnd (wrapper_New ''/namespaces/{namespace}'' [] None) (\<lambda>namespaceWrapper.
     bnd (Add versionWrapper (Some namespaceWrapper)) (\<lambda>_.
     applications_NewHandler namespaceWrapper))))"

definition apis_NewHandler :: "nat \<Rightarrow> unit tree_op" where
  "apis_NewHandler up =
     bnd (wrapper_New ''/apis'' [] (Some apisHandler)) (\<lambda>apiWrapper.
     bnd (Add up (Some apiWrapper)) (\<lambda>_.
     v1_NewHandler apiWrapper))"

definition server_New :: "nat tree_op" where
  "server_New =
     bnd (wrapper_New ''/'' [] (Some rootHandler)) (\<lambda>root.
     bnd NewRouter (\<lambda>r.
     bnd (SetRouter root r) (\<lambda>_.
     bnd (the_router root) (\<lambda>r.
     bnd (HandleFunc r ''/'' rootHandler) (\<lambda>_.
     bnd (apis_NewHandler root) (\<lambda>_. ret root))))))"

definition server_tree :: api_tree where
  "server_tree = snd (server_New empty_tree)"

end
