(* ===== verification/ApiPaths.thy ===== *)
theory ApiPaths
  imports ApiTree
begin

text \<open>
  The tree of wrappers: building it by adding newer wrappers to older ones keeps it
  a tree, on which \<open>FullPath\<close> and \<open>addPath\<close> return; what the server's own tree is.
\<close>

lemmas tree_defs = wrapper_New_def deref_def change_wrapper_def SetRouter_def the_router_def valid_subpath_def Add_def
  new_router_def NewRouter_def PathPrefix_Subrouter_def Methods_Subrouter_def change_router_def HandleFunc_def Use_Authorize_def
lemmas server_defs = server_New_def apis_NewHandler_def v1_NewHandler_def applications_NewHandler_def 
  APIGroup_def APIVersion_def NamespaceParamKey_def applicationNameParamKey_def APIKindApplication_def ApplicationAPISync_def

definition server_wrappers :: "nat \<rightharpoonup> wrapper" where
  "server_wrappers =
     [0 \<mapsto> \<lparr>subPath = ''/'', wr_methods = [], handler = Some rootHandler, children = [1], parent = None, wr_router = Some 0\<rparr>,
      1 \<mapsto> \<lparr>subPath = ''/apis'', wr_methods = [], handler = Some apisHandler, children = [2], parent = Some 0, wr_router = Some 1\<rparr>,
      2 \<mapsto> \<lparr>subPath = ''/cdapi.tmax.io/v1'', wr_methods = [], handler = Some versionHandler, children = [3],
            parent = Some 1, wr_router = Some 2\<rparr>,
      3 \<mapsto> \<lparr>subPath = ''/namespaces/{namespace}'', wr_methods = [], handler = None, children = [4], parent = Some 2, wr_router = Some 3\<rparr>,
      4 \<mapsto> \<lparr>subPath = ''/applications/{applicationName}'', wr_methods = [], handler = None, children = [5], parent = Some 3, wr_router = Some 4\<rparr>,
      5 \<mapsto> \<lparr>subPath = ''/sync'', wr_methods = [''PUT''], handler = Some syncHandler, children = [], parent = Some 4, wr_router = Some 5\<rparr>]"

definition server_routers :: "nat \<rightharpoonup> router" where
  "server_routers =
     [0 \<mapsto> \<lparr>rt_Parent = None, rt_Prefix = [], rt_Methods = [], rt_Routes = [(''/'', rootHandler), (''/apis'', apisHandler)], rt_Authorize = False\<rparr>,
      1 \<mapsto> \<lparr>rt_Parent = Some 0, rt_Prefix = ''/apis'', rt_Methods = [],
            rt_Routes = [(''/'', apisHandler), (''/cdapi.tmax.io/v1'', versionHandler)], rt_Authorize = False\<rparr>,
      2 \<mapsto> \<lparr>rt_Parent = Some 1, rt_Prefix = ''/cdapi.tmax.io/v1'', rt_Methods = [], rt_Routes = [(''/'', versionHandler)], rt_Authorize = False\<rparr>,
      3 \<mapsto> \<lparr>rt_Parent = Some 2, rt_Prefix = ''/namespaces/{namespace}'', rt_Methods = [], rt_Routes = [], rt_Authorize = False\<rparr>,
      4 \<mapsto> \<lparr>rt_Parent = Some 3, rt_Prefix = ''/applications/{applicationName}'', rt_Methods = [], rt_Routes = [], rt_Authorize = True\<rparr>,
      5 \<mapsto> \<lparr>rt_Parent = Some 4, rt_Prefix = ''/sync'', rt_Methods = [], rt_Routes = [], rt_Authorize = False\<rparr>,
      6 \<mapsto> \<lparr>rt_Parent = Some 5, rt_Prefix = [], rt_Methods = [''PUT''], rt_Routes = [(''/'', syncHandler)], rt_Authorize = False\<rparr>,
      7 \<mapsto> \<lparr>rt_Parent = Some 4, rt_Prefix = [], rt_Methods = [''PUT''], rt_Routes = [(''/sync'', syncHandler)], rt_Authorize = False\<rparr>]"

lemma server_New_run: "server_New empty_tree =
  (Ok 0, \<lparr>wrappers = server_wrappers, next_wrapper = 6, routers = server_routers, next_router = 8\<rparr>)"
  by (simp add: server_defs tree_defs bnd_def prog_simps empty_tree_def server_wrappers_def server_routers_def eval_nat_numeral fun_upd_twist)

section \<open>Trees\<close>

definition tree_ok :: "api_tree \<Rightarrow> bool" where
  "tree_ok t \<longleftrightarrow> dom (wrappers t) = {..<next_wrapper t}
     \<and> (\<forall>w x. wrappers t w = Some x \<longrightarrow> (\<forall>p. parent x = Some p \<longrightarrow> p < w)
          \<and> (\<forall>c \<in> set (children x). w < c \<and> c < next_wrapper t))"

lemma tree_okD:
  assumes "tree_ok t" and "wrappers t w = Some x"
  shows "w < next_wrapper t" and "parent x = Some p \<Longrightarrow> p < w" and "c \<in> set (children x) \<Longrightarrow> w < c"
    and "c \<in> set (children x) \<Longrightarrow> c < next_wrapper t"
  using assms by (auto simp: tree_ok_def)

lemma tree_ok_known: "tree_ok t \<Longrightarrow> w < next_wrapper t \<Longrightarrow> \<exists>x. wrappers t w = Some x"
  by (auto simp: tree_ok_def dom_def set_eq_iff)

lemma FullPath_total:
  assumes "tree_ok t" and "w < next_wrapper t"
  shows "\<exists>p. FullPath (wrappers t) w = Some p"
  using assms(2)
proof (induction w rule: less_induct)
  case (less w)
  obtain x where x: "wrappers t w = Some x" using tree_ok_known[OF assms(1) less.prems] by blast
  show ?case
  proof (cases "parent x")
    case None
    with x show ?thesis by (simp add: FullPath.simps[of _ w])
  next
    case (Some p)
    then have "p < w" by (rule tree_okD(2)[OF assms(1) x])
    then obtain fp where "FullPath (wrappers t) p = Some fp" using less.IH[of p] less.prems by auto
    with x Some show ?thesis by (simp add: FullPath.simps[of _ w])
  qed
qed

lemma those_all: "(\<And>x. x \<in> set xs \<Longrightarrow> \<exists>y. f x = Some y) \<Longrightarrow> \<exists>ys. those (map f xs) = Some ys"
  by (induction xs) fastforce+

lemma addPath_total:
  assumes "tree_ok t" and "w < next_wrapper t" and "next_wrapper t \<le> n + w"
  shows "\<exists>ps. addPath n (wrappers t) w = Some ps"
  using assms(2,3)
proof (induction n arbitrary: w)
  case (Suc n)
  obtain x where x: "wrappers t w = Some x" using tree_ok_known[OF assms(1) Suc.prems(1)] by blast
  have "\<exists>ps. addPath n (wrappers t) c = Some ps" if "c \<in> set (children x)" for c
    using Suc.IH[of c] tree_okD(3,4)[OF assms(1) x that] Suc.prems by simp
  then obtain pss where "those (map (addPath n (wrappers t)) (children x)) = Some pss" using those_all by metis
  with x FullPath_total[OF assms(1) Suc.prems(1)] show ?case by auto
qed simp

inductive built :: "api_tree \<Rightarrow> bool" where
  nothing: "built empty_tree"
| creates: "built t \<Longrightarrow> wrapper_New p ms h t = (r, t') \<Longrightarrow> built t'"
| routes: "built t \<Longrightarrow> wrappers t' = wrappers t \<Longrightarrow> next_wrapper t' = next_wrapper t \<Longrightarrow> built t'"
| mounts: "built t \<Longrightarrow> SetRouter w ro t = (r, t') \<Longrightarrow> built t'"
| adds: "built t \<Longrightarrow> w < c \<Longrightarrow> Add w (Some c) t = (r, t') \<Longrightarrow> built t'"

lemma tree_ok_change:
  assumes "tree_ok t" and "\<And>x. wrappers t w = Some x \<Longrightarrow> (\<forall>p. parent (f x) = Some p \<longrightarrow> p < w)
      \<and> (\<forall>c \<in> set (children (f x)). w < c \<and> c < next_wrapper t)"
  shows "tree_ok (snd (change_wrapper w f t))"
proof -
  have "dom ((wrappers t)(w := map_option f (wrappers t w))) = dom (wrappers t)" by (auto simp: dom_def)
  with assms show ?thesis by (auto simp: tree_ok_def change_wrapper_def prog_simps)
qed

lemma change_wrapper_bnd: "bnd (change_wrapper w f) g t = g () (snd (change_wrapper w f t))"
  by (simp add: change_wrapper_def bnd_def prog_simps)

lemma tree_ok_SetRouter: "tree_ok t \<Longrightarrow> tree_ok (snd (SetRouter w ro t))"
  unfolding SetRouter_def by (rule tree_ok_change) (auto dest: tree_okD)

text \<open>What concerns only the routers.\<close>

definition same_wrappers :: "api_tree \<Rightarrow> api_tree \<Rightarrow> bool" where
  "same_wrappers t t' \<longleftrightarrow> wrappers t' = wrappers t \<and> next_wrapper t' = next_wrapper t"

interpretation same_wrappers: step_rel same_wrappers
  by unfold_locales (auto simp: same_wrappers_def)

lemma routers_same_wrappers:
  "same_wrappers.keeps (new_router ro)" "same_wrappers.keeps (change_router n f)" "same_wrappers.keeps (deref w)"
  "same_wrappers.keeps (the_router w)"
proof -
  show d: "same_wrappers.keeps (deref w)"
    by (rule same_wrappers.keepsI) (auto simp: deref_def same_wrappers_def split: option.splits)
  then show "same_wrappers.keeps (the_router w)"
    unfolding the_router_def by (auto intro!: same_wrappers.keeps_intros split: option.splits)
qed (auto intro!: same_wrappers.keepsI simp: new_router_def change_router_def same_wrappers_def prog_simps)

interpretation tree_kept: step_rel "\<lambda>t t'. tree_ok t \<longrightarrow> tree_ok t'"
  by unfold_locales auto

lemma tree_ok_same: "same_wrappers.keeps m \<Longrightarrow> tree_kept.keeps m"
  by (rule tree_kept.keepsI) (simp add: same_wrappers.keeps_def same_wrappers_def tree_ok_def)

lemmas router_steps = routers_same_wrappers[THEN tree_ok_same]

lemma Add_tree_ok:
  assumes "w < c" and "tree_ok t"
  shows "tree_ok (snd (Add w (Some c) t))"
proof (cases "wrappers t c")
  case None
  then show ?thesis using assms(2) by (simp add: Add_def deref_def bnd_def)
next
  case (Some y)
  let ?t1 = "snd (change_wrapper c (\<lambda>x. x\<lparr>parent := Some w\<rparr>) t)"
  have t1: "tree_ok ?t1"
    by (rule tree_ok_change[OF assms(2)]) (use assms in \<open>auto dest: tree_okD\<close>)
  have c: "c < next_wrapper ?t1"
    using tree_okD(1)[OF assms(2) Some] by (simp add: change_wrapper_def prog_simps)
  have t2: "tree_ok (snd (change_wrapper w (\<lambda>x. x\<lparr>children := children x @ [c]\<rparr>) ?t1))"
    by (rule tree_ok_change[OF t1]) (use assms(1) c t1 in \<open>auto dest: tree_okD\<close>)
  have mount: "tree_kept.keeps (SetRouter v ro)" for v ro
    by (rule tree_kept.keepsI) (simp add: tree_ok_SetRouter)
  define rest where "rest = bnd (the_router w) (\<lambda>r.
            bnd (PathPrefix_Subrouter r (subPath y)) (\<lambda>cr.
            bnd (SetRouter c cr) (\<lambda>_.
            case handler y of
              None \<Rightarrow> ret ()
            | Some h \<Rightarrow>
                if wr_methods y \<noteq> [] then
                  bnd (Methods_Subrouter cr (wr_methods y)) (\<lambda>a.
                  bnd (HandleFunc a ''/'' h) (\<lambda>_.
                  bnd (the_router w) (\<lambda>r.
                  bnd (Methods_Subrouter r (wr_methods y)) (\<lambda>b.
                  HandleFunc b (subPath y) h))))
                else
                  bnd (HandleFunc cr ''/'' h) (\<lambda>_.
                  bnd (the_router w) (\<lambda>r. HandleFunc r (subPath y) h)))))"
  have "tree_kept.keeps rest"
    unfolding rest_def PathPrefix_Subrouter_def Methods_Subrouter_def HandleFunc_def
    by (auto intro!: tree_kept.keeps_intros router_steps mount split: option.splits)
  then have "tree_ok (snd (rest (snd (change_wrapper w (\<lambda>x. x\<lparr>children := children x @ [c]\<rparr>) ?t1))))"
    using t2 by (simp add: tree_kept.keeps_def)
  moreover have "Add w (Some c) t = (if parent y \<noteq> None then (Err (Fail ''child already has parent''), t)
      else if \<not> valid_subpath (subPath y) then (Err (Fail ''child subpath is not valid''), t)
      else rest (snd (change_wrapper w (\<lambda>x. x\<lparr>children := children x @ [c]\<rparr>) ?t1)))"
  proof -
    have d: "deref c t = (Ok y, t)" using Some by (simp add: deref_def)
    show ?thesis by (simp add: Add_def bnd_Ok[of "deref c", OF d] rest_def prog_simps change_wrapper_bnd)
  qed
  ultimately show ?thesis using assms(2) by simp
qed

lemma built_tree_ok: "built t \<Longrightarrow> tree_ok t"
proof (induction rule: built.induct)
  case nothing
  show ?case by (simp add: tree_ok_def empty_tree_def)
next
  case (creates t p ms h r t')
  have t': "wrappers t' = (wrappers t)(next_wrapper t \<mapsto>
        \<lparr>subPath = p, wr_methods = ms, handler = h, children = [], parent = None, wr_router = None\<rparr>)"
      "next_wrapper t' = Suc (next_wrapper t)"
    using creates.hyps(2) by (auto simp: wrapper_New_def)
  have "dom (wrappers t') = {..<next_wrapper t'}"
    using creates.IH by (simp add: t' tree_ok_def lessThan_Suc)
  moreover have "(\<forall>q. parent x = Some q \<longrightarrow> q < w) \<and> (\<forall>c \<in> set (children x). w < c \<and> c < next_wrapper t')"
    if "wrappers t' w = Some x" for w x
    using that creates.IH by (auto simp: t' less_Suc_eq dest: tree_okD split: if_splits)
  ultimately show ?case by (simp add: tree_ok_def)
next
  case (routes t t')
  then show ?case by (simp add: tree_ok_def)
next
  case (mounts t w ro r t')
  then show ?case using tree_ok_SetRouter by (metis snd_conv)
next
  case (adds t w c r t')
  then show ?case using Add_tree_ok by (metis snd_conv)
qed

section \<open>Cycles\<close>

text \<open>The parent links alone decide whether \<open>FullPath\<close> returns.\<close>

definition parent_of :: "api_tree \<Rightarrow> nat \<Rightarrow> nat option option" where
  "parent_of t w = map_option parent (wrappers t w)"

definition same_parents :: "api_tree \<Rightarrow> api_tree \<Rightarrow> bool" where
  "same_parents t t' \<longleftrightarrow> parent_of t' = parent_of t"

interpretation same_parents: step_rel same_parents
  by unfold_locales (auto simp: same_parents_def)

lemma same_parents_routers: "same_wrappers.keeps m \<Longrightarrow> same_parents.keeps m"
  by (rule same_parents.keepsI) (simp add: same_wrappers.keeps_def same_wrappers_def same_parents_def parent_of_def fun_eq_iff)

lemma same_parents_change: "(\<And>x. parent (f x) = parent x) \<Longrightarrow> same_parents.keeps (change_wrapper w f)"
  by (rule same_parents.keepsI)
     (auto simp: change_wrapper_def prog_simps same_parents_def parent_of_def fun_eq_iff option.map_comp o_def)

lemma same_parents_SetRouter: "same_parents.keeps (SetRouter w r)"
  unfolding SetRouter_def by (rule same_parents_change) simp

lemma FullPath_cycle: "FullPath ws w = Some p \<Longrightarrow> map_option parent (ws w) \<noteq> Some (Some w)"
  by (rule FullPath.raw_induct[where P = "\<lambda>ws w p. map_option parent (ws w) \<noteq> Some (Some w)"])
     (auto split: option.splits bind_splits)

lemma Add_self_parent:
  assumes "wrappers t w = Some x" and "parent x = None" and "valid_subpath (subPath x)"
  shows "parent_of (snd (Add w (Some w) t)) w = Some (Some w)"
proof -
  let ?t1 = "snd (change_wrapper w (\<lambda>x. x\<lparr>parent := Some w\<rparr>) t)"
  define rest where "rest = bnd (change_wrapper w (\<lambda>x. x\<lparr>children := children x @ [w]\<rparr>)) (\<lambda>_.
            bnd (the_router w) (\<lambda>r.
            bnd (PathPrefix_Subrouter r (subPath x)) (\<lambda>cr.
            bnd (SetRouter w cr) (\<lambda>_.
            case handler x of
              None \<Rightarrow> ret ()
            | Some h \<Rightarrow>
                if wr_methods x \<noteq> [] then
                  bnd (Methods_Subrouter cr (wr_methods x)) (\<lambda>a.
                  bnd (HandleFunc a ''/'' h) (\<lambda>_.
                  bnd (the_router w) (\<lambda>r.
                  bnd (Methods_Subrouter r (wr_methods x)) (\<lambda>b.
                  HandleFunc b (subPath x) h))))
                else
                  bnd (HandleFunc cr ''/'' h) (\<lambda>_.
                  bnd (the_router w) (\<lambda>r. HandleFunc r (subPath x) h))))))"
  have d: "deref w t = (Ok x, t)" using assms(1) by (simp add: deref_def)
  have "Add w (Some w) t = rest ?t1"
    using assms(2,3) by (simp add: Add_def bnd_Ok[of "deref w", OF d] change_wrapper_bnd rest_def)
  moreover have "same_parents.keeps rest"
    unfolding rest_def PathPrefix_Subrouter_def Methods_Subrouter_def HandleFunc_def
    by (auto intro!: same_parents.keeps_intros same_parents_routers[OF routers_same_wrappers(1)]
        same_parents_routers[OF routers_same_wrappers(2)] same_parents_routers[OF routers_same_wrappers(4)]
        same_parents_change same_parents_SetRouter split: option.splits)
  ultimately have "parent_of (snd (Add w (Some w) t)) = parent_of ?t1"
    by (simp add: same_parents.keeps_def same_parents_def)
  then show ?thesis using assms(1) by (simp add: parent_of_def change_wrapper_def prog_simps)
qed

section \<open>The paths of the server\<close>

lemma server_wrappers_at:
  "server_wrappers 0 = Some \<lparr>subPath = ''/'', wr_methods = [], handler = Some rootHandler, children = [1], parent = None, wr_router = Some 0\<rparr>"
  "server_wrappers 1 = Some \<lparr>subPath = ''/apis'', wr_methods = [], handler = Some apisHandler, children = [2], parent = Some 0, wr_router = Some 1\<rparr>"
  "server_wrappers 2 = Some \<lparr>subPath = ''/cdapi.tmax.io/v1'', wr_methods = [], handler = Some versionHandler, children = [3],
     parent = Some 1, wr_router = Some 2\<rparr>"
  "server_wrappers 3 = Some \<lparr>subPath = ''/namespaces/{namespace}'', wr_methods = [], handler = None, children = [4],
     parent = Some 2, wr_router = Some 3\<rparr>"
  "server_wrappers 4 = Some \<lparr>subPath = ''/applications/{applicationName}'', wr_methods = [], handler = None, children = [5],
     parent = Some 3, wr_router = Some 4\<rparr>"
  "server_wrappers 5 = Some \<lparr>subPath = ''/sync'', wr_methods = [''PUT''], handler = Some syncHandler, children = [],
     parent = Some 4, wr_router = Some 5\<rparr>"
  by (simp_all add: server_wrappers_def)

lemma FullPath_at:
  assumes "ws w = Some x" and "parent x = Some p" and "FullPath ws p = Some fp"
  shows "FullPath ws w = Some (collapse (fp @ subPath x))"
  using assms by (simp add: FullPath.simps[of _ w])

lemma server_full_paths:
  "FullPath server_wrappers 0 = Some ''/''"
  "FullPath server_wrappers 1 = Some ''/apis''"
  "FullPath server_wrappers 2 = Some ''/apis/cdapi.tmax.io/v1''"
  "FullPath server_wrappers 3 = Some ''/apis/cdapi.tmax.io/v1/namespaces/{namespace}''"
  "FullPath server_wrappers 4 = Some ''/apis/cdapi.tmax.io/v1/namespaces/{namespace}/applications/{applicationName}''"
  "FullPath server_wrappers 5 = Some ''/apis/cdapi.tmax.io/v1/namespaces/{namespace}/applications/{applicationName}/sync''"
proof -
  show p0: "FullPath server_wrappers 0 = Some ''/''"
    by (simp add: FullPath.simps[of _ 0] server_wrappers_at)
  show p1: "FullPath server_wrappers 1 = Some ''/apis''"
    using FullPath_at[OF server_wrappers_at(2) _ p0] by simp
  show p2: "FullPath server_wrappers 2 = Some ''/apis/cdapi.tmax.io/v1''"
    using FullPath_at[OF server_wrappers_at(3) _ p1] by simp
  show p3: "FullPath server_wrappers 3 = Some ''/apis/cdapi.tmax.io/v1/namespaces/{namespace}''"
    using FullPath_at[OF server_wrappers_at(4) _ p2] by simp
  show p4: "FullPath server_wrappers 4 = Some ''/apis/cdapi.tmax.io/v1/namespaces/{namespace}/applications/{applicationName}''"
    using FullPath_at[OF server_wrappers_at(5) _ p3] by simp
  show "FullPath server_wrappers 5
      = Some ''/apis/cdapi.tmax.io/v1/namespaces/{namespace}/applications/{applicationName}/sync''"
    using FullPath_at[OF server_wrappers_at(6) _ p4] by simp
qed

section \<open>Properties\<close>

text \<open>
  In every tree that is built by adding newer wrappers to older ones, as the
  constructors do, the full path of every wrapper and the list of paths below it
  are computed: the recursions end, whatever errors or panics the additions had.
\<close>

theorem FullPath_returns:
  assumes "built t" and "w < next_wrapper t"
  shows "(\<exists>p. FullPath (wrappers t) w = Some p) \<and> (\<exists>ps. addPath (next_wrapper t) (wrappers t) w = Some ps)"
  using FullPath_total[OF built_tree_ok[OF assms(1)] assms(2)]
    addPath_total[OF built_tree_ok[OF assms(1)] assms(2), of "next_wrapper t"] by simp

definition sample_tree :: api_tree where
  "sample_tree = snd (wrapper_New ''/apis'' [] (Some apisHandler) (snd (wrapper_New ''/'' [] (Some rootHandler) empty_tree)))"

lemma built_New: "built t \<Longrightarrow> built (snd (wrapper_New p ms h t))"
  by (rule creates[of t p ms h "fst (wrapper_New p ms h t)"]) simp_all

lemma sample_tree_built: "built (snd (Add 0 (Some 1) sample_tree))"
proof -
  have "built sample_tree"
    unfolding sample_tree_def by (intro built_New built.nothing)
  then show ?thesis
    by (rule adds[of _ 0 1 "fst (Add 0 (Some 1) sample_tree)"]) simp_all
qed

theorem FullPath_returns_witness: "\<exists>p. FullPath (wrappers (snd (Add 0 (Some 1) sample_tree))) 0 = Some p"
proof -
  have "0 < next_wrapper (snd (Add 0 (Some 1) sample_tree))"
    by (simp add: sample_tree_def wrapper_New_def empty_tree_def Add_def deref_def bnd_def prog_simps valid_subpath_def
        change_wrapper_def the_router_def)
  from FullPath_returns[OF sample_tree_built this] show ?thesis by blast
qed

text \<open>
  \<open>Add\<close> does not check for cycles: a wrapper without parent can be added to
  itself, and its full path is then computed forever.
\<close>

theorem Add_self_loops:
  assumes "wrappers t w = Some x" and "parent x = None" and "valid_subpath (subPath x)"
  shows "FullPath (wrappers (snd (Add w (Some w) t))) w = None"
proof (rule ccontr)
  assume "FullPath (wrappers (snd (Add w (Some w) t))) w \<noteq> None"
  then obtain p where "FullPath (wrappers (snd (Add w (Some w) t))) w = Some p" by blast
  from FullPath_cycle[OF this] Add_self_parent[OF assms] show False by (auto simp: parent_of_def)
qed

theorem Add_self_loops_witness: "FullPath (wrappers (snd (Add 1 (Some 1) sample_tree))) 1 = None"
  by (rule Add_self_loops[where x = "\<lparr>subPath = ''/apis'', wr_methods = [], handler = Some apisHandler,
        children = [], parent = None, wr_router = None\<rparr>"])
     (simp_all add: sample_tree_def wrapper_New_def empty_tree_def valid_subpath_def)

text \<open>
  The API server starts with a tree whose root lists exactly four paths: itself,
  the group list, the resource list of the version and the sync of an Application;
  wrappers without handler are not listed.
\<close>

theorem server_paths:
  "fst (server_New empty_tree) = Ok 0
   \<and> addPath 6 (wrappers server_tree) 0 = Some [''/'', ''/apis'', ''/apis/cdapi.tmax.io/v1'',
        ''/apis/cdapi.tmax.io/v1/namespaces/{namespace}/applications/{applicationName}/sync'']"
proof -
  have step: "addPath (Suc n) server_wrappers w = Option.bind (if handler x \<noteq> None then map_option (\<lambda>p. [p]) (FullPath server_wrappers w) else Some [])
      (\<lambda>own. map_option ((@) own) (addPath n server_wrappers c))"
    if "server_wrappers w = Some x" "children x = [c]" for n w x c
    using that by (cases "addPath n server_wrappers c") simp_all
  have "addPath (Suc 0) server_wrappers 5 = Some [''/apis/cdapi.tmax.io/v1/namespaces/{namespace}/applications/{applicationName}/sync'']"
    by (simp add: server_wrappers_at server_full_paths)
  then have "addPath (Suc (Suc (Suc (Suc (Suc (Suc 0)))))) server_wrappers 0 = Some [''/'', ''/apis'', ''/apis/cdapi.tmax.io/v1'',
      ''/apis/cdapi.tmax.io/v1/namespaces/{namespace}/applications/{applicationName}/sync'']"
    by (simp del: addPath.simps One_nat_def add: server_full_paths step[OF server_wrappers_at(1)] step[OF server_wrappers_at(2)]
        step[OF server_wrappers_at(3)] step[OF server_wrappers_at(4)] step[OF server_wrappers_at(5)])
  then show ?thesis by (simp del: addPath.simps add: server_tree_def server_New_run eval_nat_numeral)
qed

end
