(* ===== verification/ApiServer.thy ===== *)
theory ApiServer
  imports ApiPaths
begin

text \<open>
  The aggregated API server: \<open>internal/apiserver\<close> (the identity of the caller and the
  authorization middleware) and the handlers of \<open>pkg/apiserver\<close>, served through the
  routes the wrappers registered. The router library, the access review of the API
  server and the formatting of its answer are parameters.
\<close>

section \<open>Requests\<close>

text \<open>\<open>req_TLS\<close> is nil without TLS, else the number of peer certificates.\<close>

record api_request =
  req_TLS :: "nat option"
  req_Method :: string
  req_Path :: string
  req_Header :: "string \<rightharpoonup> string list"

record access_review =
  sar_User :: string
  sar_Groups :: "string list"
  sar_Extra :: "string \<rightharpoonup> string list"
  sar_Name :: string
  sar_Namespace :: string
  sar_Group :: string
  sar_Version :: string
  sar_Resource :: string
  sar_Subresource :: string
  sar_Verb :: string

text \<open>
  \<open>ae_review\<close> answers a created review, given the earlier ones, with whether access is
  allowed and the reason. \<open>ae_errorf\<close> formats a string without arguments.
\<close>

record api_env =
  ae_op :: env
  ae_review :: "access_review list \<Rightarrow> access_review \<Rightarrow> (bool \<times> string) res"
  ae_errorf :: "string \<Rightarrow> string"

record api_st =
  reviews :: "access_review list"
  op_st :: st

type_synonym 'a api = "(api_st, 'a) prog"

definition on_op :: "'a act \<Rightarrow> 'a api" where
  "on_op m = (\<lambda>s. case m (op_st s) of (r, t) \<Rightarrow> (r, s\<lparr>op_st := t\<rparr>))"

section \<open>The caller\<close>

definition userHeader :: string where "userHeader = ''X-Remote-User''"
definition groupHeader :: string where "groupHeader = ''X-Remote-Group''"
definition extrasHeader :: string where "extrasHeader = ''X-Remote-Extra-''"

definition GetUserName :: "(string \<rightharpoonup> string list) \<Rightarrow> string res" where
  "GetUserName h = (case h userHeader of
     None \<Rightarrow> Err (Fail (''no header '' @ userHeader))
   | Some [] \<Rightarrow> Panic ''index out of range''
   | Some (v # _) \<Rightarrow> Ok v)"

definition GetUserGroup :: "(string \<rightharpoonup> string list) \<Rightarrow> string list res" where
  "GetUserGroup h = (case h groupHeader of
     None \<Rightarrow> Err (Fail (''no header '' @ groupHeader)) | Some v \<Rightarrow> Ok v)"

text \<open>The keys of the header are distinct, so are those without the prefix.\<close>

definition GetUserExtras :: "(string \<rightharpoonup> string list) \<Rightarrow> (string \<rightharpoonup> string list)" where
  "GetUserExtras h = (\<lambda>k. h (extrasHeader @ k))"

section \<open>Authorization\<close>

record authorizer =
  az_APIGroup :: string
  az_APIVersion :: string
  az_Verb :: string

definition NewAuthorizer :: "string \<Rightarrow> string \<Rightarrow> string \<Rightarrow> authorizer" where
  "NewAuthorizer g v verb = \<lparr>az_APIGroup = g, az_APIVersion = v, az_Verb = verb\<rparr>"

definition reviewAccess :: "api_env \<Rightarrow> authorizer \<Rightarrow> api_request \<Rightarrow> unit api" where
  "reviewAccess ae a req =
     bnd (lift (GetUserName (req_Header req))) (\<lambda>userName.
     bnd (lift (GetUserGroup (req_Header req))) (\<lambda>userGroups.
     let userExtras = GetUserExtras (req_Header req); subPaths = Split (req_Path req) ''/'' in
     if length subPaths \<noteq> 9 then
       throw (Fail (''URL should be in form of '' @ [CHR 0x27]
         @ ''/apis/<ApiGroup>/<ApiVersion>/namespaces/<Namespace>/<Resource>/<ResourceName>/<SubResource>'' @ [CHR 0x27]))
     else
       let r = \<lparr>sar_User = userName, sar_Groups = userGroups, sar_Extra = userExtras,
                sar_Name = subPaths ! 7, sar_Namespace = subPaths ! 5, sar_Group = az_APIGroup a,
                sar_Version = az_APIVersion a, sar_Resource = subPaths ! 6, sar_Subresource = subPaths ! 8,
                sar_Verb = az_Verb a\<rparr>
       in bnd (\<lambda>s. (ae_review ae (reviews s) r, s\<lparr>reviews := r # reviews s\<rparr>)) (\<lambda>(allowed, reason).
          if allowed then ret () else throw (Fail (ae_errorf ae reason)))))"

definition Authorize :: "api_env \<Rightarrow> authorizer \<Rightarrow> (api_request \<Rightarrow> writer api) \<Rightarrow> api_request \<Rightarrow> writer api" where
  "Authorize ae a h req =
     (if req_TLS req = None \<or> req_TLS req = Some 0 then
        ret (RespondError 401 ''is not https or there is no peer certificate'' new_writer)
      else
        bnd (attempt (reviewAccess ae a req)) (\<lambda>r.
        case r of
          Inl e \<Rightarrow> ret (RespondError 403 (err_msg e) new_writer)
        | Inr _ \<Rightarrow> h req))"

section \<open>Handlers\<close>

definition root_reply :: "(nat \<rightharpoonup> wrapper) \<Rightarrow> nat \<Rightarrow> writer res" where
  "root_reply ws n = (case addPath n ws 0 of
     None \<Rightarrow> Loops
   | Some ps \<Rightarrow> Ok (RespondJSON (JObj [(''paths'', JArr (map JStr ps))]) new_writer))"

definition apis_reply :: writer where
  "apis_reply =
     (let groupVersion = JObj [(''groupVersion'', JStr (APIGroup @ ''/'' @ APIVersion)), (''version'', JStr APIVersion)];
          group = JObj [(''kind'', JStr ''APIGroup''), (''name'', JStr APIGroup), (''versions'', JArr [groupVersion]),
            (''preferredVersion'', groupVersion),
            (''serverAddressByClientCIDRs'', JArr [JObj [(''clientCIDR'', JStr ''0.0.0.0/0''), (''serverAddress'', JStr [])]])]
      in RespondJSON (JObj [(''kind'', JStr ''APIGroupList''), (''groups'', JArr [group])]) new_writer)"

definition version_reply :: writer where
  "version_reply = RespondJSON (JObj
     [(''kind'', JStr ''APIResourceList''), (''apiVersion'', JStr APIVersion),
      (''groupVersion'', JStr (APIGroup @ ''/'' @ APIVersion)),
      (''resources'', JArr [JObj [(''name'', JStr (APIKindApplication @ ''/'' @ ApplicationAPISync)), (''singularName'', JStr []),
         (''namespaced'', JBool True), (''kind'', JStr []), (''verbs'', JNull)]])]) new_writer"

definition run_handler :: "api_env \<Rightarrow> api_tree \<Rightarrow> api_handler \<Rightarrow> (string \<rightharpoonup> string) \<Rightarrow> writer api" where
  "run_handler ae t h vars = (case h of
     rootHandler \<Rightarrow> lift (root_reply (wrappers t) (next_wrapper t))
   | apisHandler \<Rightarrow> ret apis_reply
   | versionHandler \<Rightarrow> ret version_reply
   | syncHandler \<Rightarrow> on_op (updateDeploy (ae_op ae) vars))"

section \<open>Routes\<close>

text \<open>
  The routers above a router, from itself to the root; a router is younger than its
  parent, so its number is fuel enough.
\<close>

fun router_chain :: "nat \<Rightarrow> (nat \<rightharpoonup> router) \<Rightarrow> nat \<Rightarrow> router list" where
  "router_chain 0 rs r = []"
| "router_chain (Suc n) rs r =
     (case rs r of
        None \<Rightarrow> []
      | Some x \<Rightarrow> x # (case rt_Parent x of None \<Rightarrow> [] | Some p \<Rightarrow> router_chain n rs p))"

record route =
  ro_Template :: string
  ro_Methods :: "string list list"
  ro_Handler :: api_handler
  ro_Authorized :: bool

text \<open>
  A registered route as the router library documents it: the prefixes of the routers
  above it come before its path, all their restrictions of the method hold, and the
  middleware of every router above it runs.
\<close>

definition routes_of :: "api_tree \<Rightarrow> route list" where
  "routes_of t = concat (map (\<lambda>r.
     (case routers t r of
        None \<Rightarrow> []
      | Some x \<Rightarrow>
          let up = router_chain (Suc r) (routers t) r in
          map (\<lambda>(p, h). \<lparr>ro_Template = concat (map rt_Prefix (rev up)) @ p,
                         ro_Methods = filter (\<lambda>ms. ms \<noteq> []) (map rt_Methods up), ro_Handler = h,
                         ro_Authorized = list_ex rt_Authorize up\<rparr>) (rt_Routes x))) [0..<next_router t])"

definition the_authorizer :: authorizer where
  "the_authorizer = NewAuthorizer APIGroup APIVersion ''update''"

text \<open>
  \<open>dispatch\<close> is the library's choice of a route with the values of its variables, or
  its own answer (not found, method not allowed, a redirect).
\<close>

type_synonym mux = "route list \<Rightarrow> api_request \<Rightarrow> writer + (route \<times> (string \<rightharpoonup> string))"

definition api_serve :: "mux \<Rightarrow> api_env \<Rightarrow> api_tree \<Rightarrow> api_request \<Rightarrow> writer api" where
  "api_serve dispatch ae t req =
     (case dispatch (routes_of t) req of
        Inl w \<Rightarrow> ret w
      | Inr (ro, vars) \<Rightarrow>
          (if ro_Authorized ro then Authorize ae the_authorizer (\<lambda>_. run_handler ae t (ro_Handler ro) vars) req
           else run_handler ae t (ro_Handler ro) vars))"

end
