(* ===== verification/ApiSpec.thy ===== *)
theory ApiSpec
  imports ApiServer ReconcileSpec
begin

text \<open>
  Who can make the operator act through the API server: only a request of a known
  client that the cluster allows to update the sync of that very Application.
\<close>

section \<open>The routes of the server\<close>

definition sync_template :: string where
  "sync_template = ''/apis/cdapi.tmax.io/v1/namespaces/{namespace}/applications/{applicationName}/sync''"

lemma server_routes:
  "routes_of server_tree =
     [\<lparr>ro_Template = ''/'', ro_Methods = [], ro_Handler = rootHandler, ro_Authorized = False\<rparr>,
      \<lparr>ro_Template = ''/apis'', ro_Methods = [], ro_Handler = apisHandler, ro_Authorized = False\<rparr>,
      \<lparr>ro_Template = ''/apis/'', ro_Methods = [], ro_Handler = apisHandler, ro_Authorized = False\<rparr>,
      \<lparr>ro_Template = ''/apis/cdapi.tmax.io/v1'', ro_Methods = [], ro_Handler = versionHandler, ro_Authorized = False\<rparr>,
      \<lparr>ro_Template = ''/apis/cdapi.tmax.io/v1/'', ro_Methods = [], ro_Handler = versionHandler, ro_Authorized = False\<rparr>,
      \<lparr>ro_Template = sync_template @ ''/'', ro_Methods = [[''PUT'']], ro_Handler = syncHandler, ro_Authorized = True\<rparr>,
      \<lparr>ro_Template = sync_template, ro_Methods = [[''PUT'']], ro_Handler = syncHandler, ro_Authorized = True\<rparr>]"
proof -
  have "routes_of server_tree = routes_of \<lparr>wrappers = server_wrappers, next_wrapper = 6, routers = server_routers, next_router = 8\<rparr>"
    by (simp add: server_tree_def server_New_run)
  also have "\<dots> = [\<lparr>ro_Template = ''/'', ro_Methods = [], ro_Handler = rootHandler, ro_Authorized = False\<rparr>,
      \<lparr>ro_Template = ''/apis'', ro_Methods = [], ro_Handler = apisHandler, ro_Authorized = False\<rparr>,
      \<lparr>ro_Template = ''/apis/'', ro_Methods = [], ro_Handler = apisHandler, ro_Authorized = False\<rparr>,
      \<lparr>ro_Template = ''/apis/cdapi.tmax.io/v1'', ro_Methods = [], ro_Handler = versionHandler, ro_Authorized = False\<rparr>,
      \<lparr>ro_Template = ''/apis/cdapi.tmax.io/v1/'', ro_Methods = [], ro_Handler = versionHandler, ro_Authorized = False\<rparr>,
      \<lparr>ro_Template = sync_template @ ''/'', ro_Methods = [[''PUT'']], ro_Handler = syncHandler, ro_Authorized = True\<rparr>,
      \<lparr>ro_Template = sync_template, ro_Methods = [[''PUT'']], ro_Handler = syncHandler, ro_Authorized = True\<rparr>]"
    by code_simp
  finally show ?thesis .
qed

lemma template_parts:
  "Split sync_template ''/'' = [[], ''apis'', ''cdapi.tmax.io'', ''v1'', ''namespaces'', ''{namespace}'', ''applications'',
     ''{applicationName}'', ''sync'']"
  "length (Split (sync_template @ ''/'') ''/'') = 10"
  by code_simp+

section \<open>What the router library promises\<close>

text \<open>
  A chosen route is registered, and its template matches the path segment by
  segment: a literal segment is there as it is, a variable is bound to its segment.
\<close>

definition binds :: "string \<Rightarrow> string \<Rightarrow> (string \<rightharpoonup> string) \<Rightarrow> bool" where
  "binds seg val vars \<longleftrightarrow>
     (if seg \<noteq> [] \<and> hd seg = CHR ''{'' \<and> last seg = CHR ''}'' then vars (butlast (tl seg)) = Some val else val = seg)"

definition mux_ok :: "mux \<Rightarrow> bool" where
  "mux_ok dispatch \<longleftrightarrow> (\<forall>rs req ro vars. dispatch rs req = Inr (ro, vars) \<longrightarrow>
     ro \<in> set rs \<and> list_all2 (\<lambda>seg val. binds seg val vars) (Split (ro_Template ro) ''/'') (Split (req_Path req) ''/''))"

lemma mux_okD:
  assumes "mux_ok dispatch" and "dispatch rs req = Inr (ro, vars)"
  shows "ro \<in> set rs"
    and "list_all2 (\<lambda>seg val. binds seg val vars) (Split (ro_Template ro) ''/'') (Split (req_Path req) ''/'')"
  using assms by (auto simp: mux_ok_def)

text \<open>A request for the sync of an Application has nine segments and binds its variables.\<close>

lemma sync_path:
  assumes "list_all2 (\<lambda>seg val. binds seg val vars) (Split sync_template ''/'') ps"
  shows "length ps = 9 \<and> vars ''namespace'' = Some (ps ! 5) \<and> vars ''applicationName'' = Some (ps ! 7)
    \<and> ps ! 6 = ''applications'' \<and> ps ! 8 = ''sync''"
proof -
  have "length ps = 9" using list_all2_lengthD[OF assms] by (simp add: template_parts)
  moreover have "binds (Split sync_template ''/'' ! i) (ps ! i) vars" if "i < 9" for i
    using list_all2_nthD[OF assms, of i] that by (simp add: template_parts)
  from this[of 5] this[of 6] this[of 7] this[of 8]
  have "vars ''namespace'' = Some (ps ! 5)" "ps ! 6 = ''applications''" "vars ''applicationName'' = Some (ps ! 7)" "ps ! 8 = ''sync''"
    by (simp_all add: template_parts binds_def)
  ultimately show ?thesis by simp
qed

section \<open>Reviews\<close>

text \<open>An accepted review: one review was created for the caller and the path, and allowed.\<close>

lemma reviewAccess_ok:
  assumes "reviewAccess ae a req s = (Ok (), s')"
  shows "\<exists>sar reason. s' = s\<lparr>reviews := sar # reviews s\<rparr> \<and> ae_review ae (reviews s) sar = Ok (True, reason)
    \<and> GetUserName (req_Header req) = Ok (sar_User sar) \<and> GetUserGroup (req_Header req) = Ok (sar_Groups sar)
    \<and> length (Split (req_Path req) ''/'') = 9
    \<and> sar_Namespace sar = Split (req_Path req) ''/'' ! 5 \<and> sar_Resource sar = Split (req_Path req) ''/'' ! 6
    \<and> sar_Name sar = Split (req_Path req) ''/'' ! 7 \<and> sar_Subresource sar = Split (req_Path req) ''/'' ! 8
    \<and> sar_Group sar = az_APIGroup a \<and> sar_Verb sar = az_Verb a"
proof -
  let ?p = "Split (req_Path req) ''/''"
  obtain u where u: "GetUserName (req_Header req) = Ok u"
    using assms by (cases "GetUserName (req_Header req)") (simp_all add: reviewAccess_def bnd_def prog_simps)
  obtain g where g: "GetUserGroup (req_Header req) = Ok g"
    using assms u by (cases "GetUserGroup (req_Header req)") (simp_all add: reviewAccess_def bnd_def prog_simps)
  have n: "length ?p = 9"
    using assms u g by (auto simp: reviewAccess_def bnd_def prog_simps Let_def split: if_splits)
  let ?r = "\<lparr>sar_User = u, sar_Groups = g, sar_Extra = GetUserExtras (req_Header req), sar_Name = ?p ! 7,
    sar_Namespace = ?p ! 5, sar_Group = az_APIGroup a, sar_Version = az_APIVersion a, sar_Resource = ?p ! 6,
    sar_Subresource = ?p ! 8, sar_Verb = az_Verb a\<rparr>"
  obtain ok reason where "ae_review ae (reviews s) ?r = Ok (ok, reason)" and "ok" and "s' = s\<lparr>reviews := ?r # reviews s\<rparr>"
    using assms u g n
    by (cases "ae_review ae (reviews s) ?r") (auto simp: reviewAccess_def bnd_def prog_simps Let_def split: if_splits)
  with u g n show ?thesis by (intro exI[of _ ?r] exI[of _ reason]) simp
qed

lemma reviewAccess_op: "op_st (snd (reviewAccess ae a req s)) = op_st s"
  by (auto simp: reviewAccess_def bnd_def prog_simps Let_def split: res.splits if_splits)

lemma Authorize_cases:
  assumes "Authorize ae a h req s = (r, s')"
  shows "op_st s' = op_st s \<or> (\<exists>n s1. req_TLS req = Some (Suc n) \<and> reviewAccess ae a req s = (Ok (), s1) \<and> h req s1 = (r, s'))"
proof (cases "req_TLS req = None \<or> req_TLS req = Some 0")
  case True
  then show ?thesis using assms by (auto simp: Authorize_def prog_simps)
next
  case False
  then obtain n where n: "req_TLS req = Some (Suc n)" by (cases "req_TLS req") (auto simp: gr0_conv_Suc)
  obtain r1 s1 where run: "reviewAccess ae a req s = (r1, s1)" by fastforce
  with reviewAccess_op[of ae a req s] have "op_st s1 = op_st s" by simp
  then show ?thesis using assms n run
    by (cases r1) (auto simp: Authorize_def bnd_def attempt_def prog_simps)
qed

lemma other_handlers_op:
  assumes "h \<noteq> syncHandler" shows "op_st (snd (run_handler ae t h vars s)) = op_st s"
  using assms by (cases h) (simp_all add: run_handler_def prog_simps)

lemma served_sync:
  assumes "mux_ok dispatch" and "api_serve dispatch ae server_tree req s = (r, s')" and "op_st s' \<noteq> op_st s"
  shows "\<exists>n sar reason vars. req_TLS req = Some (Suc n) \<and> reviews s' = sar # reviews s
    \<and> ae_review ae (reviews s) sar = Ok (True, reason)
    \<and> GetUserName (req_Header req) = Ok (sar_User sar) \<and> GetUserGroup (req_Header req) = Ok (sar_Groups sar)
    \<and> sar_Group sar = APIGroup \<and> sar_Resource sar = ''applications'' \<and> sar_Subresource sar = ''sync'' \<and> sar_Verb sar = ''update''
    \<and> vars ''namespace'' = Some (sar_Namespace sar) \<and> vars ''applicationName'' = Some (sar_Name sar)
    \<and> (r, op_st s') = updateDeploy (ae_op ae) vars (op_st s)"
proof -
  obtain ro vars where d: "dispatch (routes_of server_tree) req = Inr (ro, vars)"
    using assms(2,3) by (cases "dispatch (routes_of server_tree) req") (auto simp: api_serve_def prog_simps)
  note mux = mux_okD[OF assms(1) d]
  have run: "(if ro_Authorized ro then Authorize ae the_authorizer (\<lambda>_. run_handler ae server_tree (ro_Handler ro) vars) req
      else run_handler ae server_tree (ro_Handler ro) vars) s = (r, s')"
    using assms(2) by (simp add: api_serve_def d)
  have ro: "ro_Handler ro = syncHandler \<and> ro_Authorized ro"
  proof -
    have "ro_Handler ro = syncHandler"
    proof (rule ccontr)
      assume other: "ro_Handler ro \<noteq> syncHandler"
      then have "\<not> ro_Authorized ro" using mux(1) by (auto simp: server_routes)
      then show False using run other_handlers_op[OF other, of ae server_tree vars s] assms(3) by simp
    qed
    then show ?thesis using mux(1) by (auto simp: server_routes)
  qed
  then have "Authorize ae the_authorizer (\<lambda>_. run_handler ae server_tree syncHandler vars) req s = (r, s')" using run by simp
  from Authorize_cases[OF this] assms(3) obtain n s1 where n: "req_TLS req = Some (Suc n)"
    and rv: "reviewAccess ae the_authorizer req s = (Ok (), s1)" and h: "run_handler ae server_tree syncHandler vars s1 = (r, s')"
    by blast
  from reviewAccess_ok[OF rv] obtain sar reason where sar: "s1 = s\<lparr>reviews := sar # reviews s\<rparr>"
    "ae_review ae (reviews s) sar = Ok (True, reason)"
    "GetUserName (req_Header req) = Ok (sar_User sar)" "GetUserGroup (req_Header req) = Ok (sar_Groups sar)"
    "length (Split (req_Path req) ''/'') = 9"
    "sar_Namespace sar = Split (req_Path req) ''/'' ! 5" "sar_Resource sar = Split (req_Path req) ''/'' ! 6"
    "sar_Name sar = Split (req_Path req) ''/'' ! 7" "sar_Subresource sar = Split (req_Path req) ''/'' ! 8"
    "sar_Group sar = az_APIGroup the_authorizer" "sar_Verb sar = az_Verb the_authorizer"
    by blast
  have t: "ro_Template ro = sync_template"
    using mux(1) ro list_all2_lengthD[OF mux(2)] sar(5) by (auto simp: server_routes template_parts)
  have p: "vars ''namespace'' = Some (sar_Namespace sar)" "vars ''applicationName'' = Some (sar_Name sar)"
    "sar_Resource sar = ''applications''" "sar_Subresource sar = ''sync''"
    using sync_path[OF mux(2)[unfolded t]] sar(6-9) by simp_all
  have a: "sar_Group sar = APIGroup" "sar_Verb sar = ''update''"
    using sar(10,11) by (simp_all add: the_authorizer_def NewAuthorizer_def)
  have "(r, op_st s') = updateDeploy (ae_op ae) vars (op_st s)" and "reviews s' = sar # reviews s"
    using h sar(1) by (auto simp: run_handler_def on_op_def split: prod.splits)
  with n sar(2-4) p a show ?thesis by blast
qed

section \<open>Properties\<close>

text \<open>
  C38: When a request to the API server makes the operator do anything at all, the
  client showed a certificate, exactly one access review was created, for the user
  and the groups of the request, and it allowed updating the sync of exactly the
  Application that is then synced.
\<close>

theorem api_sync_reviewed:
  assumes "mux_ok dispatch" and "api_serve dispatch ae server_tree req s = (r, s')" and "op_st s' \<noteq> op_st s"
  shows "\<exists>n sar reason vars. req_TLS req = Some (Suc n) \<and> reviews s' = sar # reviews s
    \<and> ae_review ae (reviews s) sar = Ok (True, reason)
    \<and> GetUserName (req_Header req) = Ok (sar_User sar) \<and> GetUserGroup (req_Header req) = Ok (sar_Groups sar)
    \<and> sar_Group sar = APIGroup \<and> sar_Resource sar = ''applications'' \<and> sar_Subresource sar = ''sync'' \<and> sar_Verb sar = ''update''
    \<and> vars ''namespace'' = Some (sar_Namespace sar) \<and> vars ''applicationName'' = Some (sar_Name sar)
    \<and> (r, op_st s') = updateDeploy (ae_op ae) vars (op_st s)"
  by (rule served_sync[OF assms])

definition sample_sync_request :: "string \<Rightarrow> api_request" where
  "sample_sync_request slash = \<lparr>req_TLS = Some 1, req_Method = ''PUT'',
     req_Path = ''/apis/cdapi.tmax.io/v1/namespaces/prod/applications/shop/sync'' @ slash,
     req_Header = [''X-Remote-User'' \<mapsto> [''alice''], ''X-Remote-Group'' \<mapsto> [''dev'']]\<rparr>"

text \<open>A router that knows the requests of the sample only.\<close>

definition sample_mux :: mux where
  "sample_mux rs req =
     (let pick = (\<lambda>slash. case find (\<lambda>ro. ro_Template ro = sync_template @ slash) rs of
          Some ro \<Rightarrow> Inr (ro, [''namespace'' \<mapsto> ''prod'', ''applicationName'' \<mapsto> ''shop''])
        | None \<Rightarrow> Inl (WriteHeader 404 new_writer)) in
      if req_Path req = req_Path (sample_sync_request []) then pick []
      else if req_Path req = req_Path (sample_sync_request ''/'') then pick ''/''
      else Inl (WriteHeader 404 new_writer))"

definition sync_route :: "string \<Rightarrow> route" where
  "sync_route slash = \<lparr>ro_Template = sync_template @ slash, ro_Methods = [[''PUT'']], ro_Handler = syncHandler, ro_Authorized = True\<rparr>"

lemma sample_mux_picks:
  "sample_mux (routes_of server_tree) (sample_sync_request [])
     = Inr (sync_route [], [''namespace'' \<mapsto> ''prod'', ''applicationName'' \<mapsto> ''shop''])"
  "sample_mux (routes_of server_tree) (sample_sync_request ''/'')
     = Inr (sync_route ''/'', [''namespace'' \<mapsto> ''prod'', ''applicationName'' \<mapsto> ''shop''])"
proof -
  have "find (\<lambda>ro. ro_Template ro = sync_template @ []) (routes_of server_tree) = Some (sync_route [])"
    "find (\<lambda>ro. ro_Template ro = sync_template @ ''/'') (routes_of server_tree) = Some (sync_route ''/'')"
    unfolding server_routes by code_simp+
  then show "sample_mux (routes_of server_tree) (sample_sync_request [])
     = Inr (sync_route [], [''namespace'' \<mapsto> ''prod'', ''applicationName'' \<mapsto> ''shop''])"
    and "sample_mux (routes_of server_tree) (sample_sync_request ''/'')
     = Inr (sync_route ''/'', [''namespace'' \<mapsto> ''prod'', ''applicationName'' \<mapsto> ''shop''])"
    by (simp_all add: sample_mux_def Let_def sample_sync_request_def)
qed

definition sample_api_env :: api_env where
  "sample_api_env = \<lparr>ae_op = sample_env, ae_review = (\<lambda>_ _. Ok (True, [])), ae_errorf = (\<lambda>s. s)\<rparr>"

definition sample_api_st :: api_st where
  "sample_api_st = \<lparr>reviews = [], op_st = sample_st\<rparr>"

lemma sample_mux_ok: "mux_ok sample_mux"
proof -
  have b: "list_all2 (\<lambda>seg val. binds seg val [''namespace'' \<mapsto> ''prod'', ''applicationName'' \<mapsto> ''shop''])
      (Split sync_template ''/'') (Split (req_Path (sample_sync_request [])) ''/'')"
    "list_all2 (\<lambda>seg val. binds seg val [''namespace'' \<mapsto> ''prod'', ''applicationName'' \<mapsto> ''shop''])
      (Split (sync_template @ ''/'') ''/'') (Split (req_Path (sample_sync_request ''/'')) ''/'')"
    by code_simp+
  show ?thesis
    unfolding mux_ok_def
    using b by (auto simp: sample_mux_def Let_def find_Some_iff split: option.splits if_splits)
qed

lemma sample_update_run:
  "app_Name (app (snd (updateDeploy sample_env [''namespace'' \<mapsto> ''prod'', ''applicationName'' \<mapsto> ''shop''] sample_st))) = ''shop''"
proof -
  obtain str t where r: "RandomString sample_env 10 sample_st = (Ok str, t)"
    using RandomString_ok[of sample_env 10 sample_st] by (cases "RandomString sample_env 10 sample_st") (auto simp: sample_env_def)
  obtain r' t' where c: "CheckSync sample_env True (t\<lparr>hist := CGetApp ''prod'' ''shop'' # hist t,
      app := sample_user_app\<lparr>app_Name := ''shop'', app_Namespace := ''prod''\<rparr>\<rparr>) = (r', t')"
    by fastforce
  have "app_Name (app t') = ''shop''"
    using only_sync_name[OF only_sync.keepsD[OF CheckSync_only_sync c]] by simp
  moreover have "e_get_app sample_env h ''prod'' ''shop'' = Ok (sample_user_app\<lparr>app_Name := ''shop'', app_Namespace := ''prod''\<rparr>)" for h
    by (simp add: sample_env_def)
  then have "snd (updateDeploy sample_env [''namespace'' \<mapsto> ''prod'', ''applicationName'' \<mapsto> ''shop''] sample_st) = t'"
    using c by (cases r') (simp_all add: updateDeploy_def r bnd_def attempt_def prog_simps update_app_def)
  ultimately show ?thesis by simp
qed

lemma sample_sync_served:
  "op_st (snd (api_serve sample_mux sample_api_env server_tree (sample_sync_request []) sample_api_st)) \<noteq> op_st sample_api_st"
proof -
  have "Split (req_Path (sample_sync_request [])) ''/'' = [[], ''apis'', ''cdapi.tmax.io'', ''v1'', ''namespaces'', ''prod'',
      ''applications'', ''shop'', ''sync'']"
    by code_simp
  moreover have "api_serve sample_mux sample_api_env server_tree (sample_sync_request [])
      = Authorize sample_api_env the_authorizer (\<lambda>_. run_handler sample_api_env server_tree syncHandler
          [''namespace'' \<mapsto> ''prod'', ''applicationName'' \<mapsto> ''shop'']) (sample_sync_request [])"
    by (simp add: api_serve_def sample_mux_picks sync_route_def)
  ultimately have "op_st (snd (api_serve sample_mux sample_api_env server_tree (sample_sync_request []) sample_api_st))
      = snd (updateDeploy sample_env [''namespace'' \<mapsto> ''prod'', ''applicationName'' \<mapsto> ''shop''] sample_st)"
    by (simp add: Authorize_def reviewAccess_def bnd_def attempt_def prog_simps Let_def run_handler_def on_op_def
        sample_sync_request_def sample_api_env_def sample_api_st_def GetUserName_def GetUserGroup_def userHeader_def groupHeader_def
        split: prod.splits)
  then show ?thesis using sample_update_run by (auto simp: sample_api_st_def sample_st_def sample_user_app_def)
qed

theorem api_sync_reviewed_witness:
  "\<exists>sar s'. reviews s' = [sar] \<and> sar_User sar = ''alice'' \<and> s' = snd (api_serve sample_mux sample_api_env server_tree (sample_sync_request []) sample_api_st)"
proof -
  obtain sar where "reviews (snd (api_serve sample_mux sample_api_env server_tree (sample_sync_request []) sample_api_st)) = [sar]"
    "GetUserName (req_Header (sample_sync_request [])) = Ok (sar_User sar)"
    using api_sync_reviewed[OF sample_mux_ok surjective_pairing sample_sync_served] by (auto simp: sample_api_st_def)
  then show ?thesis by (simp add: GetUserName_def sample_sync_request_def userHeader_def)
qed

text \<open>
  The route with a trailing slash that every wrapper registers for its handler
  is dead for the sync: whoever calls it is refused, since the authorizer wants nine
  segments.
\<close>

theorem api_trailing_slash_refused:
  assumes "mux_ok dispatch" and "dispatch (routes_of server_tree) req = Inr (ro, vars)"
    and "ro_Template ro = sync_template @ ''/''" and "\<forall>k. req_Header req k \<noteq> Some []"
  shows "\<exists>w. api_serve dispatch ae server_tree req s = (Ok w, s) \<and> reply_code w \<in> {401, 403}"
proof -
  note mux = mux_okD[OF assms(1,2)]
  have len: "length (Split (req_Path req) ''/'') = 10"
    using list_all2_lengthD[OF mux(2)] by (simp add: assms(3) template_parts)
  have auth: "ro_Authorized ro"
    using mux(1) assms(3) by (auto simp: server_routes sync_template_def)
  have "\<exists>e. reviewAccess ae the_authorizer req s = (Err e, s)"
    using len assms(4)
    by (auto simp: reviewAccess_def bnd_def prog_simps Let_def GetUserName_def GetUserGroup_def split: option.splits list.splits)
  then have "\<exists>w. Authorize ae the_authorizer h req s = (Ok w, s) \<and> reply_code w \<in> {401, 403}" for h
    by (auto simp: Authorize_def bnd_def attempt_def prog_simps RespondError_code new_writer_def)
  then show ?thesis using auth by (simp add: api_serve_def assms(2))
qed

theorem api_trailing_slash_refused_witness:
  "\<exists>w. api_serve sample_mux sample_api_env server_tree (sample_sync_request ''/'') sample_api_st = (Ok w, sample_api_st)
     \<and> reply_code w \<in> {401, 403}"
proof -
  have "ro_Template (sync_route ''/'') = sync_template @ ''/''" "\<forall>k. req_Header (sample_sync_request ''/'') k \<noteq> Some []"
    by (auto simp: sync_route_def sample_sync_request_def)
  from api_trailing_slash_refused[OF sample_mux_ok sample_mux_picks(2) this] show ?thesis .
qed

end
