(* ===== verification/RaceSpec.thy ===== *)
theory RaceSpec
  imports SyncRace
begin

text \<open>
  What holds and what does not when checks alternate: a goroutine that is let run does
  what \<open>CheckSync\<close> does; no order of turns touches a destination that belongs to
  none of the Applications; but a goroutine deploys to the destination of whichever
  Application was the last to set the client.
\<close>

section \<open>Destinations in every order\<close>

lemma dest_client_only_sync: "only_sync s t \<Longrightarrow> dest_client env (app t) = dest_client env (app s)"
proof -
  assume "only_sync s t"
  then obtain c where "app t = set_sync c (app s)" by (auto simp: only_sync_def)
  then show ?thesis by (auto simp: dest_client_def set_sync_def fun_eq_iff)
qed

lemma client_target:
  assumes "sync_stmt env forced PcClient s = (r, s')" and "\<And>k. dest_client env (app s) k \<Longrightarrow> Q k"
  shows "made (aimed_at Q) s s'" and "r = Ok pc \<Longrightarrow> target_in Q s'"
proof -
  have "made.keeps (aimed_at Q) (sync_stmt env forced PcClient)"
    by (auto intro!: made_intros plain_mgr_made plain_setTargetClient_no_objects)
  from made.keepsD[OF this assms(1)] show "made (aimed_at Q) s s'" .
  assume "r = Ok pc"
  with assms(1) obtain m where "plain_mgr s = (Ok m, s)" "plain_setTargetClient env s = (Ok (), s')"
    by (auto elim!: bnd_eq_OkE simp: prog_simps plain_mgr_def split: option.splits)
  from plain_setTargetClient_Ok(2)[OF this(2)] assms(2) show "target_in Q s'" by (auto simp: target_in_def)
qed

lemma plain_setTargetClient_keeps:
  assumes "plain_setTargetClient env s = (r, s')" and "target_in Q s" and "\<And>k. dest_client env (app s) k \<Longrightarrow> Q k"
  shows "target_in Q s'"
proof (cases "r = Ok ()")
  case True
  with plain_setTargetClient_Ok(2)[of env s s'] assms show ?thesis by (auto simp: target_in_def)
next
  case False
  then have "plainManager s' = plainManager s"
    using assms(1)
    by (auto simp: plain_setTargetClient_def GetApplicationClusterConfig_def getDestClusterSecret_def
        set_TargetCli_def bnd_def attempt_def Let_def prog_simps
        split: if_splits prod.splits res.splits sum.splits)
  with assms(2) show ?thesis by (simp add: target_in_def)
qed

lemma aimed_client:
  assumes "sync_stmt env forced PcClient s = (r, s')" and "target_in Q s" and "\<And>k. dest_client env (app s) k \<Longrightarrow> Q k"
  shows "target_in Q s'"
proof -
  obtain q t where run: "plain_setTargetClient env s = (q, t)" by (cases "plain_setTargetClient env s")
  with assms(1) have "s' = s \<or> s' = t"
    by (cases q) (auto simp: bnd_def plain_mgr_def prog_simps split: option.splits)
  with plain_setTargetClient_keeps[OF run assms(2,3)] assms(2) show ?thesis by auto
qed

definition at_work :: "thread \<Rightarrow> bool" where
  "at_work t \<longleftrightarrow> (\<exists>pc. th_pc t = Ok pc \<and> past_client pc \<and> pc \<noteq> PcEnd)"

definition known :: "env \<Rightarrow> (kcli \<Rightarrow> bool) \<Rightarrow> thread list \<Rightarrow> st \<Rightarrow> bool" where
  "known env Q ts s \<longleftrightarrow> (\<forall>t \<in> set ts. (\<forall>k. dest_client env (th_app t) k \<longrightarrow> Q k) \<and> (at_work t \<longrightarrow> target_in Q s))"

lemma stmt_known:
  assumes "Q DefaultCli" and "\<And>k. dest_client env (app s) k \<Longrightarrow> Q k"
    and "past_client pc \<Longrightarrow> pc \<noteq> PcEnd \<Longrightarrow> target_in Q s" and "sync_stmt env forced pc s = (r, s')"
  shows "made (aimed_at Q) s s' \<and> (target_in Q s \<longrightarrow> target_in Q s')
    \<and> (\<forall>pc'. r = Ok pc' \<longrightarrow> past_client pc' \<longrightarrow> pc' \<noteq> PcEnd \<longrightarrow> target_in Q s')"
proof -
  consider "pc = PcStart" | "pc = PcClient" | "pc = PcEnd" | h where "pc = PcHelm h" | "past_client pc" "pc \<noteq> PcEnd"
    by (cases pc) auto
  then show ?thesis
  proof cases
    case 1
    note run = assms(4)[unfolded 1]
    have "\<not> past_client pc' \<or> pc' = PcEnd" if "r = Ok pc'" for pc'
      using run that by (auto elim!: bnd_eq_OkE simp: prog_simps split: if_splits)
    then show ?thesis
      using made.keepsD[OF start_made run] start_target[of Q, OF assms(1) run] by auto
  next
    case 2
    note run = assms(4)[unfolded 2]
    have "target_in Q s'" if "target_in Q s" using that by (rule aimed_client[where Q = Q, OF run _ assms(2)])
    moreover have "made (aimed_at Q) s s'" by (rule client_target(1)[where Q = Q, OF run assms(2)])
    moreover have "target_in Q s'" if "r = Ok pc'" for pc'
      by (rule client_target(2)[where Q = Q, OF run _ that]) (rule assms(2))
    ultimately show ?thesis by blast
  next
    case 3
    then show ?thesis using assms(4) by (auto simp: prog_simps made.step_refl)
  next
    case (4 h)
    note run = assms(4)[unfolded 4]
    have "\<not> past_client pc' \<or> pc' = PcEnd" if "r = Ok pc'" for pc'
      using run that by (cases "fst (helm_stmt env forced h s)") (auto simp: bnd_def prog_simps split: prod.splits if_splits)
    then show ?thesis using helm_target[of Q, OF assms(1) run] by auto
  next
    case 5
    with aimed.keepsD[OF past_client_aimed[OF 5(1)] assms(4), of Q] assms(3) show ?thesis by (simp add: aimed_iff)
  qed
qed

lemma turn_known:
  assumes "Q DefaultCli" and "\<And>k. dest_client env (th_app t) k \<Longrightarrow> Q k" and "at_work t \<Longrightarrow> target_in Q s"
    and "thread_turn env t s = (t', s')"
  shows "made (aimed_at Q) s s' \<and> (target_in Q s \<longrightarrow> target_in Q s') \<and> (at_work t' \<longrightarrow> target_in Q s')
    \<and> dest_client env (th_app t') = dest_client env (th_app t)"
proof (cases "th_pc t")
  case (Ok pc)
  let ?s = "s\<lparr>app := th_app t\<rparr>"
  obtain r u where run: "sync_stmt env (th_forced t) pc ?s = (r, u)"
    by (cases "sync_stmt env (th_forced t) pc ?s")
  have turn: "t' = t\<lparr>th_app := app u, th_pc := r\<rparr>" "s' = u\<lparr>app := app s\<rparr>"
    using assms(4) Ok run by (auto simp: thread_turn_def)
  have tgt: "target_in Q ?s = target_in Q s" "target_in Q s' = target_in Q u"
      "made (aimed_at Q) s s' = made (aimed_at Q) ?s u"
    by (simp_all add: target_in_def turn made_def)
  have "dest_client env (app u) = dest_client env (th_app t)"
    using dest_client_only_sync[OF only_sync.keepsD[OF sync_stmt_only_sync run]] by simp
  moreover have "made (aimed_at Q) ?s u \<and> (target_in Q ?s \<longrightarrow> target_in Q u)
      \<and> (\<forall>pc'. r = Ok pc' \<longrightarrow> past_client pc' \<longrightarrow> pc' \<noteq> PcEnd \<longrightarrow> target_in Q u)"
    by (rule stmt_known[where Q = Q, OF assms(1) _ _ run]) (use assms(2,3) Ok in \<open>auto simp: tgt at_work_def\<close>)
  ultimately show ?thesis by (auto simp: tgt turn(1) at_work_def)
qed (use assms in \<open>auto simp: thread_turn_def made.step_refl\<close>)

lemma turns_known:
  assumes "Q DefaultCli" and "known env Q ts s" and "run_turns env sched (ts, s) = (ts', s')"
  shows "made (aimed_at Q) s s'"
proof -
  have "made (aimed_at Q) s s' \<and> known env Q ts' s'"
  proof (rule run_turns_invariant[OF assms(3), where I = "\<lambda>us u. made (aimed_at Q) s u \<and> known env Q us u"])
    show "made (aimed_at Q) s s \<and> known env Q ts s" using assms(2) by (simp add: made.step_refl)
  next
    fix us u i t v
    assume inv: "made (aimed_at Q) s u \<and> known env Q us u" and i: "i < length us"
      and turn: "thread_turn env (us ! i) u = (t, v)"
    have "\<And>k. dest_client env (th_app (us ! i)) k \<Longrightarrow> Q k" "at_work (us ! i) \<Longrightarrow> target_in Q u"
      using inv nth_mem[OF i] by (auto simp: known_def)
    note k = turn_known[OF assms(1) this turn]
    with inv have "made (aimed_at Q) s v" using made.step_trans by blast
    moreover have "known env Q (us[i := t]) v"
      using inv k nth_mem[OF i] set_update_subset_insert[of us i t] by (auto simp: known_def)
    ultimately show "made (aimed_at Q) s v \<and> known env Q (us[i := t]) v" by blast
  qed
  then show ?thesis by blast
qed

section \<open>Properties\<close>

text \<open>
  Two Applications for the witnesses: one is to be deployed to a cluster named \<open>prod\<close>, whose
  secret exists, the other to the operator's own cluster.
\<close>

definition race_env :: env where
  "race_env = sample_git_env\<lparr>e_get_secret := (\<lambda>_ _ _. Ok [''value'' \<mapsto> ''prod''])\<rparr>"

definition home_app :: application where
  "home_app = app sample_git_st"

definition prod_app :: application where
  "prod_app = home_app\<lparr>app_Spec := (app_Spec home_app)\<lparr>spec_Destination := \<lparr>dst_Namespace = ''web'', dst_Name = ''prod''\<rparr>\<rparr>\<rparr>"

definition race_threads :: "thread list" where
  "race_threads = [start_check True prod_app, start_check True home_app]"

lemma race_dest:
  "dest_client race_env home_app k \<longleftrightarrow> k = DefaultCli" "dest_client race_env prod_app k \<longleftrightarrow> k = ClusterCli ''prod''"
  by (auto simp: dest_client_def prod_app_def home_app_def sample_git_st_def race_env_def sample_git_env_def
      sample_defs secretToClusterConfig_def)

text \<open>Adequacy of the statements: cutting \<open>CheckSync\<close> into statements changes nothing for a goroutine that is let run: from any
  state and beside any other goroutines, finitely many turns of it end the check, with the
  result, the Application and the state that \<open>CheckSync\<close> has.\<close>

lemma uninterrupted_check:
  assumes "CheckSync env forced (s\<lparr>app := a\<rparr>) = (r, s')" and "i < length ts" and "ts ! i = start_check forced a"
  shows "\<exists>n. run_turns env (replicate n i) (ts, s) =
    (ts[i := \<lparr>th_forced = forced, th_app = app s', th_pc = res_bind r (\<lambda>_. Ok PcEnd)\<rparr>], s'\<lparr>app := app s\<rparr>)"
  using turns_alone[of env "start_check forced a" PcStart s r s' i ts] assms
  by (simp add: start_check_def alone_start)

text \<open>C7: Whatever the order of the turns, concurrent checks touch objects only on the destinations of
  the Applications that are checked, or on the operator's own cluster.\<close>

theorem concurrent_destinations:
  assumes "\<forall>t \<in> set ts. th_pc t = Ok PcStart" and "run_turns env sched (ts, s) = (ts', s')"
    and "c \<in> set (new_calls s s')" and "obj_client c = Some k"
  shows "k = DefaultCli \<or> (\<exists>t \<in> set ts. dest_client env (th_app t) k)"
proof -
  let ?Q = "\<lambda>k. k = DefaultCli \<or> (\<exists>t \<in> set ts. dest_client env (th_app t) k)"
  have "known env ?Q ts s" using assms(1) by (auto simp: known_def at_work_def)
  from turns_known[of ?Q, OF _ this assms(2)] have "made (aimed_at ?Q) s s'" by simp
  from new_calls_made[OF this] assms(3,4) show ?thesis by (auto simp: aimed_at_def)
qed

lemma race_calls:
  "CCreateObj (ClusterCli ''prod'') sample_cm \<in>
     set (new_calls sample_git_st (snd (run_turns race_env [0, 0, 0, 0, 0, 0, 0, 0] (race_threads, sample_git_st))))"
  by code_simp

theorem concurrent_destinations_witness:
  "\<exists>t \<in> set race_threads. dest_client race_env (th_app t) (ClusterCli ''prod'')"
proof -
  have "\<forall>t \<in> set race_threads. th_pc t = Ok PcStart" by (simp add: race_threads_def start_check_def)
  from concurrent_destinations[OF this _ race_calls] show ?thesis by (metis kcli.distinct(1) obj_client.simps(2) prod.collapse)
qed

text \<open>C6: The client of the destination is shared: after one goroutine has set it, every other goroutine
  that is past that statement of its own works on the objects of that destination, in
  whatever order they go on, until a goroutine sets the client again. An object of one
  Application is then looked up, created, overwritten or deleted on the cluster of another.\<close>

theorem last_client_wins:
  assumes "i < length ts" and "ts ! i = t" and "th_pc t = Ok PcClient"
    and "run_turns env [i] (ts, s) = (ts1, s1)"
    and "\<forall>u \<in> set ts1. \<exists>pc. th_pc u = Ok pc \<and> past_client pc"
    and "run_turns env sched (ts1, s1) = (ts', s')"
    and "c \<in> set (new_calls s1 s')" and "obj_client c = Some k"
  shows "dest_client env (th_app t) k"
proof -
  obtain r u where run: "sync_stmt env (th_forced t) PcClient (s\<lparr>app := th_app t\<rparr>) = (r, u)"
    by (cases "sync_stmt env (th_forced t) PcClient (s\<lparr>app := th_app t\<rparr>)")
  have one: "ts1 = ts[i := t\<lparr>th_app := app u, th_pc := r\<rparr>]" "s1 = u\<lparr>app := app s\<rparr>"
    using assms(1-4) run by (auto simp: thread_turn_def)
  then have "t\<lparr>th_app := app u, th_pc := r\<rparr> \<in> set ts1" using assms(1) by (metis length_list_update nth_list_update_eq nth_mem)
  with assms(5) obtain pc where "r = Ok pc" by fastforce
  from client_target(2)[OF run _ this, of "dest_client env (th_app t)"]
  have "target_in (dest_client env (th_app t)) s1" by (simp add: one(2) target_in_def)
  from turns_aimed[OF assms(6) this] assms(5)
  have "made (aimed_at (dest_client env (th_app t))) s1 s'" by fastforce
  from new_calls_made[OF this] assms(7,8) show ?thesis by (auto simp: aimed_at_def)
qed

lemma race_lost:
  "CCreateObj DefaultCli sample_cm \<in>
     set (new_calls (snd (run_turns race_env [0, 0, 1, 1] (race_threads, sample_git_st)))
       (snd (run_turns race_env [0, 0, 0, 0, 0, 0]
         (run_turns race_env [0, 0, 1, 1] (race_threads, sample_git_st)))))"
  by code_simp

lemma race_positions:
  "list_all (\<lambda>t. case th_pc t of Ok PcInfos \<Rightarrow> True | _ \<Rightarrow> False)
     (fst (run_turns race_env [0, 0, 1, 1] (race_threads, sample_git_st)))"
  "case run_turns race_env [0, 0, 1] (race_threads, sample_git_st) of (ts, s) \<Rightarrow>
     length ts = 2 \<and> th_app (ts ! 1) = set_sync SyncStatusCodeUnknown home_app
     \<and> (case th_pc (ts ! 1) of Ok PcClient \<Rightarrow> True | _ \<Rightarrow> False)"
  by code_simp+

lemma at_statement:
  "(case x of Ok PcInfos \<Rightarrow> True | _ \<Rightarrow> False) \<longleftrightarrow> x = Ok PcInfos"
  "(case x of Ok PcClient \<Rightarrow> True | _ \<Rightarrow> False) \<longleftrightarrow> x = Ok PcClient"
  by (auto split: res.splits sync_pc.splits)

text \<open>The goroutine of the Application for \<open>prod\<close> creates its object on the operator's own cluster.\<close>

theorem last_client_wins_witness:
  "dest_client race_env home_app DefaultCli \<and> \<not> dest_client race_env prod_app DefaultCli
    \<and> CCreateObj DefaultCli sample_cm \<in>
        set (hist (snd (run_turns race_env ([0, 0, 1, 1] @ replicate 6 0) (race_threads, sample_git_st))))"
proof -
  obtain ts s where a: "run_turns race_env [0, 0, 1] (race_threads, sample_git_st) = (ts, s)" by fastforce
  obtain ts1 s1 where b: "run_turns race_env [1] (ts, s) = (ts1, s1)" by fastforce
  have c: "run_turns race_env [0, 0, 1, 1] (race_threads, sample_git_st) = (ts1, s1)"
    using run_turns_append[of race_env "[0, 0, 1]" "[1]" "(race_threads, sample_git_st)"] a b by simp
  obtain ts2 s2 where d: "run_turns race_env [0, 0, 0, 0, 0, 0] (ts1, s1) = (ts2, s2)" by fastforce
  have len: "1 < length ts" and th: "th_app (ts ! 1) = set_sync SyncStatusCodeUnknown home_app"
    and pc: "th_pc (ts ! 1) = Ok PcClient"
    using race_positions(2) unfolding a by (simp_all add: at_statement)
  have past: "\<forall>u \<in> set ts1. \<exists>pc. th_pc u = Ok pc \<and> past_client pc"
    using race_positions(1) unfolding c by (simp add: at_statement list_all_iff)
  have call: "CCreateObj DefaultCli sample_cm \<in> set (new_calls s1 s2)" using race_lost c d by simp
  have "dest_client race_env (th_app (ts ! 1)) DefaultCli"
    by (rule last_client_wins[OF len refl pc b past d call]) simp
  then have "dest_client race_env home_app DefaultCli" unfolding th by (auto simp: dest_client_def set_sync_def split: if_splits)
  moreover have "CCreateObj DefaultCli sample_cm \<in> set (hist s2)"
    using call by (auto simp: new_calls_def dest: in_set_takeD)
  moreover have "run_turns race_env ([0, 0, 1, 1] @ replicate 6 0) (race_threads, sample_git_st) = (ts2, s2)"
    by (simp only: run_turns_append c) (use d in \<open>simp add: eval_nat_numeral\<close>)
  ultimately show ?thesis by (simp add: race_dest)
qed

end
