(* ===== verification/GoHeap.thy ===== *)
theory GoHeap
  imports GoBase
begin

text \<open>
  The Go memory, for code whose effect is what is shared and what is not: cells at
  numbered addresses, allocated upwards, pointers (\<open>None\<close> is nil) and slices.

  The locale \<open>deep_copy\<close> is the contract of a \<open>DeepCopyInto\<close> method. A value of the
  struct is read through \<open>seen\<close> (what a program can observe by following its
  pointers) and occupies the addresses \<open>fp\<close>. The contract is closed under pointers,
  lists, slices and structs, so that the contract of a generated method is found by
  following the method.
\<close>

section \<open>Cells\<close>

record 'c heap =
  cell :: "nat \<rightharpoonup> 'c"
  lim :: nat

definition heap_ok :: "'c heap \<Rightarrow> bool" where
  "heap_ok h \<longleftrightarrow> dom (cell h) \<subseteq> {..<lim h}"

definition alloc :: "'c \<Rightarrow> ('c heap, nat) prog" where
  "alloc c = (\<lambda>h. (Ok (lim h), h\<lparr>cell := (cell h)(lim h \<mapsto> c), lim := Suc (lim h)\<rparr>))"

definition load_cell :: "('c \<Rightarrow> 'v option) \<Rightarrow> nat \<Rightarrow> ('c heap, 'v) prog" where
  "load_cell get a = (\<lambda>h. (case Option.bind (cell h a) get of
     Some v \<Rightarrow> Ok v | None \<Rightarrow> Panic ''invalid memory address or nil pointer dereference'', h))"

definition store :: "nat \<Rightarrow> 'c \<Rightarrow> ('c heap, unit) prog" where
  "store a c = modify (\<lambda>h. h\<lparr>cell := (cell h)(a \<mapsto> c)\<rparr>)"

text \<open>Running on allocates more and leaves what was there alone.\<close>

definition extends :: "'c heap \<Rightarrow> 'c heap \<Rightarrow> bool" where
  "extends h h' \<longleftrightarrow> lim h \<le> lim h' \<and> (\<forall>a < lim h. cell h' a = cell h a)"

interpretation extends: step_rel extends
  by unfold_locales (auto simp: extends_def)

lemma extends_alloc: "extends h h' \<Longrightarrow> extends h (h'\<lparr>cell := (cell h')(lim h' \<mapsto> c), lim := Suc (lim h')\<rparr>)"
  by (auto simp: extends_def)

lemma extends_store: "extends h h' \<Longrightarrow> lim h \<le> a \<Longrightarrow> extends h (h'\<lparr>cell := (cell h')(a \<mapsto> c)\<rparr>)"
  by (auto simp: extends_def)

lemma extends_cell: "extends h h' \<Longrightarrow> heap_ok h \<Longrightarrow> cell h a = Some c \<Longrightarrow> cell h' a = Some c"
  by (auto simp: extends_def heap_ok_def)

lemma heap_ok_alloc: "heap_ok h \<Longrightarrow> heap_ok (h\<lparr>cell := (cell h)(lim h \<mapsto> c), lim := Suc (lim h)\<rparr>)"
  by (auto simp: heap_ok_def)

lemma heap_ok_store: "heap_ok h \<Longrightarrow> a < lim h \<Longrightarrow> heap_ok (h\<lparr>cell := (cell h)(a \<mapsto> c)\<rparr>)"
  by (auto simp: heap_ok_def)

section \<open>The contract\<close>

text \<open>
  \<open>cp v\<close> answers the struct written to \<open>*out\<close>. Every address of the copy is new, the
  old cells are as before, and the copy looks like the original.
\<close>

locale deep_copy =
  fixes cp :: "'v \<Rightarrow> ('c heap, 'v) prog"
    and seen :: "(nat \<rightharpoonup> 'c) \<Rightarrow> 'v \<Rightarrow> 'a option"
    and fp :: "(nat \<rightharpoonup> 'c) \<Rightarrow> 'v \<Rightarrow> nat set"
  assumes frame: "seen m v = Some x \<Longrightarrow> (\<And>a. a \<in> fp m v \<Longrightarrow> m' a = m a) \<Longrightarrow> seen m' v = Some x \<and> fp m' v = fp m v"
    and allocated: "seen m v = Some x \<Longrightarrow> fp m v \<subseteq> dom m"
    and copies: "heap_ok h \<Longrightarrow> seen (cell h) v = Some x \<Longrightarrow> \<exists>v' h'. cp v h = (Ok v', h') \<and> heap_ok h' \<and> extends h h'
      \<and> seen (cell h') v' = Some x \<and> fp (cell h') v' \<subseteq> {lim h..<lim h'}"
begin

lemma seen_extends:
  assumes "heap_ok h" and "extends h h'" and "seen (cell h) v = Some x"
  shows "seen (cell h') v = Some x \<and> fp (cell h') v = fp (cell h) v"
proof (rule frame[OF assms(3)])
  fix a assume "a \<in> fp (cell h) v"
  then have "a < lim h" using allocated[OF assms(3)] assms(1) by (auto simp: heap_ok_def)
  then show "cell h' a = cell h a" using assms(2) by (simp add: extends_def)
qed

lemma copy_run:
  assumes "heap_ok h" and "extends h0 h" and "heap_ok h0" and "seen (cell h0) v = Some x"
  obtains v' h' where "cp v h = (Ok v', h')" "heap_ok h'" "extends h h'" "extends h0 h'"
    "seen (cell h') v' = Some x" "fp (cell h') v' \<subseteq> {lim h..<lim h'}"
proof -
  have "seen (cell h) v = Some x" using seen_extends[OF assms(3,2,4)] by simp
  then obtain v' h' where c: "cp v h = (Ok v', h')" "heap_ok h'" "extends h h'"
      "seen (cell h') v' = Some x" "fp (cell h') v' \<subseteq> {lim h..<lim h'}"
    using copies[OF assms(1)] by blast
  then show ?thesis using that extends.step_trans[OF assms(2) c(3)] by blast
qed

text \<open>A copy whose result is stored in a cell allocated beforehand.\<close>

lemma copy_boxed:
  assumes "heap_ok h" and "seen (cell h) v = Some x"
  obtains v' h' where
    "cp v (h\<lparr>cell := (cell h)(lim h \<mapsto> z), lim := Suc (lim h)\<rparr>) = (Ok v', h')"
    "heap_ok (h'\<lparr>cell := (cell h')(lim h \<mapsto> put v')\<rparr>)" "extends h (h'\<lparr>cell := (cell h')(lim h \<mapsto> put v')\<rparr>)"
    "lim h < lim h'" "seen ((cell h')(lim h \<mapsto> put v')) v' = Some x"
    "fp ((cell h')(lim h \<mapsto> put v')) v' \<subseteq> {lim h..<lim h'}"
proof -
  let ?h1 = "h\<lparr>cell := (cell h)(lim h \<mapsto> z), lim := Suc (lim h)\<rparr>"
  have h1: "heap_ok ?h1" "extends h ?h1"
    using assms(1) by (simp_all add: heap_ok_alloc extends_alloc extends.step_refl)
  obtain v' h' where v': "cp v ?h1 = (Ok v', h')" "heap_ok h'" "extends ?h1 h'" "extends h h'"
      "seen (cell h') v' = Some x" "fp (cell h') v' \<subseteq> {lim ?h1..<lim h'}"
    by (rule copy_run[OF h1 assms])
  have less: "lim h < lim h'" using v'(3) by (simp add: extends_def)
  have "seen ((cell h')(lim h \<mapsto> put v')) v' = Some x \<and> fp ((cell h')(lim h \<mapsto> put v')) v' = fp (cell h') v'"
    by (rule frame[OF v'(5)]) (use v'(6) in auto)
  moreover have "fp (cell h') v' \<subseteq> {lim h..<lim h'}" using v'(6) by auto
  ultimately show ?thesis
    using that[OF v'(1)] v'(2,4) less by (simp add: heap_ok_store extends_store)
qed

text \<open>Whatever is written to the cells that existed before the copy, the copy stays.\<close>

lemma copy_independent:
  assumes "heap_ok h" and "seen (cell h) v = Some x" and "cp v h = (Ok v', h')"
    and "\<And>a. lim h \<le> a \<Longrightarrow> m a = cell h' a"
  shows "seen m v' = Some x"
proof -
  have c: "seen (cell h') v' = Some x" "fp (cell h') v' \<subseteq> {lim h..<lim h'}"
    using copies[OF assms(1,2)] assms(3) by auto
  have "seen m v' = Some x \<and> fp m v' = fp (cell h') v'"
    by (rule frame[OF c(1)]) (use c(2) assms(4) in auto)
  then show ?thesis by simp
qed

text \<open>And the other way round: writing through the copy leaves the original.\<close>

lemma original_independent:
  assumes "heap_ok h" and "seen (cell h) v = Some x" and "cp v h = (Ok v', h')"
    and "\<And>a. a \<notin> fp (cell h') v' \<Longrightarrow> m a = cell h' a"
  shows "seen m v = Some x"
proof -
  have c: "extends h h'" "fp (cell h') v' \<subseteq> {lim h..<lim h'}"
    using copies[OF assms(1,2)] assms(3) by auto
  have "seen m v = Some x \<and> fp m v = fp (cell h) v"
  proof (rule frame[OF assms(2)])
    fix a assume "a \<in> fp (cell h) v"
    then have "a < lim h" using allocated[OF assms(2)] assms(1) by (auto simp: heap_ok_def)
    then show "m a = cell h a" using c assms(4)[of a] by (force simp: extends_def)
  qed
  then show ?thesis by simp
qed

end

section \<open>Structs without references\<close>

text \<open>\<open>*out = *in\<close> is a copy when nothing is shared.\<close>

lemma deep_copy_plain: "deep_copy ret (\<lambda>m v. Some (f v)) (\<lambda>m v. {})"
  by unfold_locales (auto simp: ret_def extends.step_refl)

interpretation plain: deep_copy ret "\<lambda>m v. Some v" "\<lambda>m v. {}"
  by (rule deep_copy_plain)

section \<open>Pointers\<close>

text \<open>\<open>if in != nil \<lbrace> *out = new(T); (*in).DeepCopyInto(*out) \<rbrace>\<close>\<close>

definition copy_ptr ::
  "('c \<Rightarrow> 'v option) \<Rightarrow> ('v \<Rightarrow> 'c) \<Rightarrow> 'v \<Rightarrow> ('v \<Rightarrow> ('c heap, 'v) prog) \<Rightarrow> nat option \<Rightarrow> ('c heap, nat option) prog" where
  "copy_ptr get put zero cp p =
     (case p of
        None \<Rightarrow> ret None
      | Some a \<Rightarrow>
          bnd (alloc (put zero)) (\<lambda>b.
          bnd (load_cell get a) (\<lambda>v.
          bnd (cp v) (\<lambda>v'.
          bnd (store b (put v')) (\<lambda>_. ret (Some b))))))"

definition seen_ptr ::
  "('c \<Rightarrow> 'v option) \<Rightarrow> ((nat \<rightharpoonup> 'c) \<Rightarrow> 'v \<Rightarrow> 'a option) \<Rightarrow> (nat \<rightharpoonup> 'c) \<Rightarrow> nat option \<Rightarrow> 'a option option" where
  "seen_ptr get seen m p =
     (case p of None \<Rightarrow> Some None | Some a \<Rightarrow>
        (case Option.bind (m a) get of None \<Rightarrow> None | Some v \<Rightarrow> map_option Some (seen m v)))"

definition fp_ptr ::
  "('c \<Rightarrow> 'v option) \<Rightarrow> ((nat \<rightharpoonup> 'c) \<Rightarrow> 'v \<Rightarrow> nat set) \<Rightarrow> (nat \<rightharpoonup> 'c) \<Rightarrow> nat option \<Rightarrow> nat set" where
  "fp_ptr get fp m p =
     (case p of None \<Rightarrow> {} | Some a \<Rightarrow>
        insert a (case Option.bind (m a) get of None \<Rightarrow> {} | Some v \<Rightarrow> fp m v))"

locale pointer_copy = deep_copy cp seen fp
  for cp :: "'v \<Rightarrow> ('c heap, 'v) prog" and seen :: "(nat \<rightharpoonup> 'c) \<Rightarrow> 'v \<Rightarrow> 'a option" and fp +
  fixes get :: "'c \<Rightarrow> 'v option" and put :: "'v \<Rightarrow> 'c" and zero :: 'v
  assumes get_put: "get (put v) = Some v"

sublocale pointer_copy \<subseteq> ptr: deep_copy "copy_ptr get put zero cp" "seen_ptr get seen" "fp_ptr get fp"
proof unfold_locales
  fix m m' :: "nat \<rightharpoonup> 'c" and p x
  assume s: "seen_ptr get seen m p = Some x" and same: "\<And>a. a \<in> fp_ptr get fp m p \<Longrightarrow> m' a = m a"
  show "seen_ptr get seen m' p = Some x \<and> fp_ptr get fp m' p = fp_ptr get fp m p"
  proof (cases p)
    case (Some a)
    with s obtain v y where v: "Option.bind (m a) get = Some v" and y: "seen m v = Some y" "x = Some y"
      by (auto simp: seen_ptr_def split: option.splits)
    have "m' a = m a" using same Some by (auto simp: fp_ptr_def)
    moreover have "seen m' v = Some y \<and> fp m' v = fp m v"
      by (rule frame[OF y(1)]) (use same Some v in \<open>auto simp: fp_ptr_def\<close>)
    ultimately show ?thesis using Some v y by (simp add: seen_ptr_def fp_ptr_def)
  qed (use s in \<open>simp add: seen_ptr_def fp_ptr_def\<close>)
next
  fix m :: "nat \<rightharpoonup> 'c" and p x
  assume "seen_ptr get seen m p = Some x"
  then show "fp_ptr get fp m p \<subseteq> dom m"
    using allocated by (fastforce simp: seen_ptr_def fp_ptr_def bind_eq_Some_conv split: option.splits)
next
  fix h :: "'c heap" and p x
  assume ok: "heap_ok h" and s: "seen_ptr get seen (cell h) p = Some x"
  show "\<exists>v' h'. copy_ptr get put zero cp p h = (Ok v', h') \<and> heap_ok h' \<and> extends h h'
      \<and> seen_ptr get seen (cell h') v' = Some x \<and> fp_ptr get fp (cell h') v' \<subseteq> {lim h..<lim h'}"
  proof (cases p)
    case None
    then show ?thesis using s ok by (auto simp: copy_ptr_def ret_def seen_ptr_def fp_ptr_def extends.step_refl)
  next
    case (Some a)
    with s obtain c v y where c: "cell h a = Some c" "get c = Some v" and y: "seen (cell h) v = Some y" "x = Some y"
      by (auto simp: seen_ptr_def bind_eq_Some_conv split: option.splits)
    obtain v' h' where v': "cp v (h\<lparr>cell := (cell h)(lim h \<mapsto> put zero), lim := Suc (lim h)\<rparr>) = (Ok v', h')"
        "heap_ok (h'\<lparr>cell := (cell h')(lim h \<mapsto> put v')\<rparr>)" "extends h (h'\<lparr>cell := (cell h')(lim h \<mapsto> put v')\<rparr>)"
        "lim h < lim h'" "seen ((cell h')(lim h \<mapsto> put v')) v' = Some y"
        "fp ((cell h')(lim h \<mapsto> put v')) v' \<subseteq> {lim h..<lim h'}"
      by (rule copy_boxed[OF ok y(1)])
    have "a \<noteq> lim h" using c(1) ok by (auto simp: heap_ok_def)
    then have "copy_ptr get put zero cp p h = (Ok (Some (lim h)), h'\<lparr>cell := (cell h')(lim h \<mapsto> put v')\<rparr>)"
      using Some v'(1) c by (simp add: copy_ptr_def alloc_def load_cell_def store_def bnd_def modify_def ret_def)
    moreover have "seen_ptr get seen ((cell h')(lim h \<mapsto> put v')) (Some (lim h)) = Some x"
      "fp_ptr get fp ((cell h')(lim h \<mapsto> put v')) (Some (lim h)) \<subseteq> {lim h..<lim h'}"
      using y v' by (auto simp: seen_ptr_def fp_ptr_def get_put)
    ultimately show ?thesis using v'(2,3) by auto
  qed
qed

section \<open>Slices\<close>

text \<open>A slice is a part of an array, which holds its elements.\<close>

record slice =
  sl_Array :: nat
  sl_Off :: nat
  sl_Len :: nat

fun copy_elems :: "('v \<Rightarrow> ('c heap, 'v) prog) \<Rightarrow> 'v list \<Rightarrow> ('c heap, 'v list) prog" where
  "copy_elems cp [] = ret []"
| "copy_elems cp (v # vs) = bnd (cp v) (\<lambda>v'. bnd (copy_elems cp vs) (\<lambda>vs'. ret (v' # vs')))"

definition seen_elems :: "((nat \<rightharpoonup> 'c) \<Rightarrow> 'v \<Rightarrow> 'a option) \<Rightarrow> (nat \<rightharpoonup> 'c) \<Rightarrow> 'v list \<Rightarrow> 'a list option" where
  "seen_elems seen m vs = those (map (seen m) vs)"

definition fp_elems :: "((nat \<rightharpoonup> 'c) \<Rightarrow> 'v \<Rightarrow> nat set) \<Rightarrow> (nat \<rightharpoonup> 'c) \<Rightarrow> 'v list \<Rightarrow> nat set" where
  "fp_elems fp m vs = (\<Union>v \<in> set vs. fp m v)"

text \<open>
  \<open>if in != nil \<lbrace> *out = make([]T, len(*in)); for i := range *in \<lbrace> (*in)[i].DeepCopyInto(&(*out)[i]) \<rbrace> \<rbrace>\<close>
\<close>

definition part :: "slice \<Rightarrow> 'v list \<Rightarrow> 'v list option" where
  "part s vs = (if sl_Off s + sl_Len s \<le> length vs then Some (take (sl_Len s) (drop (sl_Off s) vs)) else None)"

definition copy_slice ::
  "('c \<Rightarrow> 'v list option) \<Rightarrow> ('v list \<Rightarrow> 'c) \<Rightarrow> 'v \<Rightarrow> ('v \<Rightarrow> ('c heap, 'v) prog) \<Rightarrow> slice option
   \<Rightarrow> ('c heap, slice option) prog" where
  "copy_slice get put zero cp sl =
     (case sl of
        None \<Rightarrow> ret None
      | Some s \<Rightarrow>
          bnd (alloc (put (replicate (sl_Len s) zero))) (\<lambda>b.
          bnd (load_cell (\<lambda>c. Option.bind (get c) (part s)) (sl_Array s)) (\<lambda>vs.
          bnd (copy_elems cp vs) (\<lambda>vs'.
          bnd (store b (put vs')) (\<lambda>_. ret (Some \<lparr>sl_Array = b, sl_Off = 0, sl_Len = sl_Len s\<rparr>))))))"

definition seen_slice ::
  "('c \<Rightarrow> 'v list option) \<Rightarrow> ((nat \<rightharpoonup> 'c) \<Rightarrow> 'v \<Rightarrow> 'a option) \<Rightarrow> (nat \<rightharpoonup> 'c) \<Rightarrow> slice option \<Rightarrow> 'a list option option" where
  "seen_slice get seen m sl =
     (case sl of None \<Rightarrow> Some None | Some s \<Rightarrow>
        (case Option.bind (m (sl_Array s)) (\<lambda>c. Option.bind (get c) (part s)) of
           None \<Rightarrow> None | Some vs \<Rightarrow> map_option Some (seen_elems seen m vs)))"

definition fp_slice ::
  "('c \<Rightarrow> 'v list option) \<Rightarrow> ((nat \<rightharpoonup> 'c) \<Rightarrow> 'v \<Rightarrow> nat set) \<Rightarrow> (nat \<rightharpoonup> 'c) \<Rightarrow> slice option \<Rightarrow> nat set" where
  "fp_slice get fp m sl =
     (case sl of None \<Rightarrow> {} | Some s \<Rightarrow>
        insert (sl_Array s) (case Option.bind (m (sl_Array s)) (\<lambda>c. Option.bind (get c) (part s)) of
           None \<Rightarrow> {} | Some vs \<Rightarrow> fp_elems fp m vs))"

lemma seen_elems_Nil [simp]: "seen_elems seen m [] = Some []"
  and seen_elems_Cons: "seen_elems seen m (v # vs) = Some xs \<longleftrightarrow>
    (\<exists>y ys. xs = y # ys \<and> seen m v = Some y \<and> seen_elems seen m vs = Some ys)"
  by (auto simp: seen_elems_def split: option.splits)

lemma seen_elems_length: "seen_elems seen m vs = Some xs \<Longrightarrow> length xs = length vs"
  by (induction vs arbitrary: xs) (auto simp: seen_elems_Cons)

lemma part_length: "part s vs = Some us \<Longrightarrow> length us = sl_Len s"
  by (auto simp: part_def split: if_splits)

lemma part_whole: "part \<lparr>sl_Array = b, sl_Off = 0, sl_Len = length vs\<rparr> vs = Some vs"
  by (simp add: part_def)

locale elems_copy = deep_copy cp seen fp
  for cp :: "'v \<Rightarrow> ('c heap, 'v) prog" and seen :: "(nat \<rightharpoonup> 'c) \<Rightarrow> 'v \<Rightarrow> 'a option" and fp

sublocale elems_copy \<subseteq> elems: deep_copy "copy_elems cp" "seen_elems seen" "fp_elems fp"
proof unfold_locales
  fix m m' :: "nat \<rightharpoonup> 'c" and vs xs
  show "seen_elems seen m vs = Some xs \<Longrightarrow> (\<And>a. a \<in> fp_elems fp m vs \<Longrightarrow> m' a = m a)
      \<Longrightarrow> seen_elems seen m' vs = Some xs \<and> fp_elems fp m' vs = fp_elems fp m vs"
  proof (induction vs arbitrary: xs)
    case (Cons v vs)
    then obtain y ys where s: "xs = y # ys" "seen m v = Some y" "seen_elems seen m vs = Some ys"
      by (auto simp: seen_elems_Cons)
    have "seen m' v = Some y \<and> fp m' v = fp m v"
      by (rule frame[OF s(2)]) (use Cons.prems(2) in \<open>auto simp: fp_elems_def\<close>)
    moreover have "seen_elems seen m' vs = Some ys \<and> fp_elems fp m' vs = fp_elems fp m vs"
      by (rule Cons.IH[OF s(3)]) (use Cons.prems(2) in \<open>auto simp: fp_elems_def\<close>)
    ultimately show ?case using s(1) by (simp add: seen_elems_Cons fp_elems_def)
  qed (simp add: fp_elems_def)
next
  fix m :: "nat \<rightharpoonup> 'c" and vs xs
  show "seen_elems seen m vs = Some xs \<Longrightarrow> fp_elems fp m vs \<subseteq> dom m"
  proof (induction vs arbitrary: xs)
    case (Cons v vs)
    then obtain y ys where "seen m v = Some y" "fp_elems fp m vs \<subseteq> dom m" by (auto simp: seen_elems_Cons)
    with allocated[of m v y] show ?case by (simp add: fp_elems_def)
  qed (simp add: fp_elems_def)
next
  fix h :: "'c heap" and vs xs
  show "heap_ok h \<Longrightarrow> seen_elems seen (cell h) vs = Some xs \<Longrightarrow>
      \<exists>v' h'. copy_elems cp vs h = (Ok v', h') \<and> heap_ok h' \<and> extends h h'
        \<and> seen_elems seen (cell h') v' = Some xs \<and> fp_elems fp (cell h') v' \<subseteq> {lim h..<lim h'}"
  proof (induction vs arbitrary: h xs)
    case Nil
    then show ?case by (simp add: ret_def extends.step_refl fp_elems_def)
  next
    case (Cons v vs)
    then obtain y ys where s: "xs = y # ys" "seen (cell h) v = Some y" "seen_elems seen (cell h) vs = Some ys"
      by (auto simp: seen_elems_Cons)
    obtain v' h1 where c: "cp v h = (Ok v', h1)" "heap_ok h1" "extends h h1" "seen (cell h1) v' = Some y"
        "fp (cell h1) v' \<subseteq> {lim h..<lim h1}"
      using copies[OF Cons.prems(1) s(2)] by blast
    have "seen_elems seen (cell h1) vs = Some ys"
      using s(3) Cons.prems(1) c(3)
    proof (induction vs arbitrary: ys)
      case (Cons w ws)
      then show ?case using seen_extends[of h h1 w] by (auto simp: seen_elems_Cons)
    qed simp
    then obtain vs' h2 where r: "copy_elems cp vs h1 = (Ok vs', h2)" "heap_ok h2" "extends h1 h2"
        "seen_elems seen (cell h2) vs' = Some ys" "fp_elems fp (cell h2) vs' \<subseteq> {lim h1..<lim h2}"
      using Cons.IH[OF c(2)] by blast
    have "seen (cell h2) v' = Some y \<and> fp (cell h2) v' = fp (cell h1) v'"
      by (rule seen_extends[OF c(2) r(3) c(4)])
    moreover have "lim h \<le> lim h1" "lim h1 \<le> lim h2" using c(3) r(3) by (simp_all add: extends_def)
    ultimately have "seen_elems seen (cell h2) (v' # vs') = Some xs" "fp_elems fp (cell h2) (v' # vs') \<subseteq> {lim h..<lim h2}"
      using s(1) c(5) r(4,5) by (auto simp: seen_elems_Cons fp_elems_def)
    moreover have "copy_elems cp (v # vs) h = (Ok (v' # vs'), h2)" using c(1) r(1) by (simp add: prog_simps)
    ultimately show ?case using r(2) extends.step_trans[OF c(3) r(3)] by blast
  qed
qed

locale slice_copy = elems_copy cp seen fp
  for cp :: "'v \<Rightarrow> ('c heap, 'v) prog" and seen :: "(nat \<rightharpoonup> 'c) \<Rightarrow> 'v \<Rightarrow> 'a option" and fp +
  fixes get :: "'c \<Rightarrow> 'v list option" and put :: "'v list \<Rightarrow> 'c" and zero :: 'v
  assumes get_put: "get (put vs) = Some vs"

sublocale slice_copy \<subseteq> slice: deep_copy "copy_slice get put zero cp" "seen_slice get seen" "fp_slice get fp"
proof unfold_locales
  fix m m' :: "nat \<rightharpoonup> 'c" and p x
  assume s: "seen_slice get seen m p = Some x" and same: "\<And>a. a \<in> fp_slice get fp m p \<Longrightarrow> m' a = m a"
  show "seen_slice get seen m' p = Some x \<and> fp_slice get fp m' p = fp_slice get fp m p"
  proof (cases p)
    case (Some sl)
    let ?get = "\<lambda>c. Option.bind (get c) (part sl)"
    from s Some obtain v y where v: "Option.bind (m (sl_Array sl)) ?get = Some v"
        and y: "seen_elems seen m v = Some y" "x = Some y"
      by (auto simp: seen_slice_def split: option.splits)
    have "m' (sl_Array sl) = m (sl_Array sl)" using same Some by (auto simp: fp_slice_def)
    moreover have "seen_elems seen m' v = Some y \<and> fp_elems fp m' v = fp_elems fp m v"
      by (rule elems.frame[OF y(1)]) (use same Some v in \<open>auto simp: fp_slice_def\<close>)
    ultimately show ?thesis using Some v y by (simp add: seen_slice_def fp_slice_def)
  qed (use s in \<open>simp add: seen_slice_def fp_slice_def\<close>)
next
  fix m :: "nat \<rightharpoonup> 'c" and p x
  assume "seen_slice get seen m p = Some x"
  then show "fp_slice get fp m p \<subseteq> dom m"
    using elems.allocated by (fastforce simp: seen_slice_def fp_slice_def bind_eq_Some_conv split: option.splits)
next
  fix h :: "'c heap" and p x
  assume ok: "heap_ok h" and s: "seen_slice get seen (cell h) p = Some x"
  show "\<exists>v' h'. copy_slice get put zero cp p h = (Ok v', h') \<and> heap_ok h' \<and> extends h h'
      \<and> seen_slice get seen (cell h') v' = Some x \<and> fp_slice get fp (cell h') v' \<subseteq> {lim h..<lim h'}"
  proof (cases p)
    case None
    then show ?thesis using s ok by (auto simp: copy_slice_def ret_def seen_slice_def fp_slice_def extends.step_refl)
  next
    case (Some sl)
    let ?get = "\<lambda>c. Option.bind (get c) (part sl)" and ?z = "put (replicate (sl_Len sl) zero)"
    from s Some obtain c vs y where c: "cell h (sl_Array sl) = Some c" "?get c = Some vs"
        and y: "seen_elems seen (cell h) vs = Some y" "x = Some y"
      by (auto simp: seen_slice_def bind_eq_Some_conv split: option.splits)
    obtain vs' h' where v': "copy_elems cp vs (h\<lparr>cell := (cell h)(lim h \<mapsto> ?z), lim := Suc (lim h)\<rparr>) = (Ok vs', h')"
        "heap_ok (h'\<lparr>cell := (cell h')(lim h \<mapsto> put vs')\<rparr>)" "extends h (h'\<lparr>cell := (cell h')(lim h \<mapsto> put vs')\<rparr>)"
        "lim h < lim h'" "seen_elems seen ((cell h')(lim h \<mapsto> put vs')) vs' = Some y"
        "fp_elems fp ((cell h')(lim h \<mapsto> put vs')) vs' \<subseteq> {lim h..<lim h'}"
      by (rule elems.copy_boxed[OF ok y(1)])
    have len: "length vs' = sl_Len sl"
      using seen_elems_length[OF y(1)] seen_elems_length[OF v'(5)] c(2) part_length
      by (metis bind_eq_Some_conv)
    have "sl_Array sl \<noteq> lim h" using c(1) ok by (auto simp: heap_ok_def)
    then have "copy_slice get put zero cp p h = (Ok (Some \<lparr>sl_Array = lim h, sl_Off = 0, sl_Len = sl_Len sl\<rparr>),
        h'\<lparr>cell := (cell h')(lim h \<mapsto> put vs')\<rparr>)"
      using Some v'(1) c by (simp add: copy_slice_def alloc_def load_cell_def store_def bnd_def modify_def ret_def)
    moreover have "seen_slice get seen ((cell h')(lim h \<mapsto> put vs')) (Some \<lparr>sl_Array = lim h, sl_Off = 0, sl_Len = sl_Len sl\<rparr>) = Some x"
      "fp_slice get fp ((cell h')(lim h \<mapsto> put vs')) (Some \<lparr>sl_Array = lim h, sl_Off = 0, sl_Len = sl_Len sl\<rparr>) \<subseteq> {lim h..<lim h'}"
      using y v' by (auto simp: seen_slice_def fp_slice_def get_put part_whole simp flip: len)
    ultimately show ?thesis using v'(2,3) by auto
  qed
qed

section \<open>Structs\<close>

text \<open>
  A struct with two fields to copy, one after the other (a third is a struct again);
  \<open>mk v a b\<close> is \<open>v\<close> with new fields.
\<close>

locale struct_copy =
  c1: deep_copy cp1 seen1 fp1 + c2: deep_copy cp2 seen2 fp2
  for cp1 :: "'v1 \<Rightarrow> ('c heap, 'v1) prog" and seen1 :: "(nat \<rightharpoonup> 'c) \<Rightarrow> 'v1 \<Rightarrow> 'a option" and fp1
    and cp2 :: "'v2 \<Rightarrow> ('c heap, 'v2) prog" and seen2 :: "(nat \<rightharpoonup> 'c) \<Rightarrow> 'v2 \<Rightarrow> 'b option" and fp2 +
  fixes f1 :: "'v \<Rightarrow> 'v1" and f2 :: "'v \<Rightarrow> 'v2" and mk :: "'v \<Rightarrow> 'v1 \<Rightarrow> 'v2 \<Rightarrow> 'v"
    and plain :: "'v \<Rightarrow> 'p"
  assumes f1_mk: "f1 (mk v a b) = a" and f2_mk: "f2 (mk v a b) = b" and plain_mk: "plain (mk v a b) = plain v"

definition copy_struct where
  "copy_struct cp1 cp2 f1 f2 mk v = bnd (cp1 (f1 v)) (\<lambda>a. bnd (cp2 (f2 v)) (\<lambda>b. ret (mk v a b)))"

definition seen_struct where
  "seen_struct seen1 seen2 f1 f2 plain m v =
     Option.bind (seen1 m (f1 v)) (\<lambda>x. map_option (\<lambda>y. (plain v, x, y)) (seen2 m (f2 v)))"

definition fp_struct where
  "fp_struct fp1 fp2 f1 f2 m v = fp1 m (f1 v) \<union> fp2 m (f2 v)"

sublocale struct_copy \<subseteq> struct: deep_copy "copy_struct cp1 cp2 f1 f2 mk" "seen_struct seen1 seen2 f1 f2 plain" "fp_struct fp1 fp2 f1 f2"
proof unfold_locales
  fix m m' :: "nat \<rightharpoonup> 'c" and v x
  assume s: "seen_struct seen1 seen2 f1 f2 plain m v = Some x"
    and same: "\<And>a. a \<in> fp_struct fp1 fp2 f1 f2 m v \<Longrightarrow> m' a = m a"
  from s obtain y z where yz: "seen1 m (f1 v) = Some y" "seen2 m (f2 v) = Some z" "x = (plain v, y, z)"
    by (auto simp: seen_struct_def bind_eq_Some_conv)
  have "seen1 m' (f1 v) = Some y \<and> fp1 m' (f1 v) = fp1 m (f1 v)"
    by (rule c1.frame[OF yz(1)]) (use same in \<open>simp add: fp_struct_def\<close>)
  moreover have "seen2 m' (f2 v) = Some z \<and> fp2 m' (f2 v) = fp2 m (f2 v)"
    by (rule c2.frame[OF yz(2)]) (use same in \<open>simp add: fp_struct_def\<close>)
  ultimately show "seen_struct seen1 seen2 f1 f2 plain m' v = Some x
      \<and> fp_struct fp1 fp2 f1 f2 m' v = fp_struct fp1 fp2 f1 f2 m v"
    using yz by (simp add: seen_struct_def fp_struct_def)
next
  fix m :: "nat \<rightharpoonup> 'c" and v x
  assume "seen_struct seen1 seen2 f1 f2 plain m v = Some x"
  then show "fp_struct fp1 fp2 f1 f2 m v \<subseteq> dom m"
    using c1.allocated[of m "f1 v"] c2.allocated[of m "f2 v"] by (auto simp: seen_struct_def fp_struct_def bind_eq_Some_conv)
next
  fix h :: "'c heap" and v x
  assume ok: "heap_ok h" and s: "seen_struct seen1 seen2 f1 f2 plain (cell h) v = Some x"
  from s obtain y z where yz: "seen1 (cell h) (f1 v) = Some y" "seen2 (cell h) (f2 v) = Some z" "x = (plain v, y, z)"
    by (auto simp: seen_struct_def bind_eq_Some_conv)
  obtain a h1 where a: "cp1 (f1 v) h = (Ok a, h1)" "heap_ok h1" "extends h h1" "seen1 (cell h1) a = Some y"
      "fp1 (cell h1) a \<subseteq> {lim h..<lim h1}"
    using c1.copies[OF ok yz(1)] by blast
  obtain b h2 where b: "cp2 (f2 v) h1 = (Ok b, h2)" "heap_ok h2" "extends h1 h2" "extends h h2"
      "seen2 (cell h2) b = Some z" "fp2 (cell h2) b \<subseteq> {lim h1..<lim h2}"
    by (rule c2.copy_run[OF a(2,3) ok yz(2)])
  have "seen1 (cell h2) a = Some y \<and> fp1 (cell h2) a = fp1 (cell h1) a"
    by (rule c1.seen_extends[OF a(2) b(3) a(4)])
  moreover have "lim h \<le> lim h1" "lim h1 \<le> lim h2" using a(3) b(3) by (simp_all add: extends_def)
  ultimately have "seen_struct seen1 seen2 f1 f2 plain (cell h2) (mk v a b) = Some x"
      "fp_struct fp1 fp2 f1 f2 (cell h2) (mk v a b) \<subseteq> {lim h..<lim h2}"
    using a(5) b(5,6) yz(3) by (auto simp: seen_struct_def fp_struct_def f1_mk f2_mk plain_mk)
  moreover have "copy_struct cp1 cp2 f1 f2 mk v h = (Ok (mk v a b), h2)"
    using a(1) b(1) by (simp add: copy_struct_def prog_simps)
  ultimately show "\<exists>v' h'. copy_struct cp1 cp2 f1 f2 mk v h = (Ok v', h') \<and> heap_ok h' \<and> extends h h'
      \<and> seen_struct seen1 seen2 f1 f2 plain (cell h') v' = Some x \<and> fp_struct fp1 fp2 f1 f2 (cell h') v' \<subseteq> {lim h..<lim h'}"
    using b(2,4) by blast
qed

text \<open>The contracts as rules, for the methods that are built from these steps.\<close>

context pointer_copy begin

lemma contract: "deep_copy (copy_ptr get put zero cp) (seen_ptr get seen) (fp_ptr get fp)"
  by (rule ptr.deep_copy_axioms)

end

context slice_copy begin

lemma contract: "deep_copy (copy_slice get put zero cp) (seen_slice get seen) (fp_slice get fp)"
  by (rule slice.deep_copy_axioms)

end

context struct_copy begin

lemma contract: "deep_copy (copy_struct cp1 cp2 f1 f2 mk) (seen_struct seen1 seen2 f1 f2 plain) (fp_struct fp1 fp2 f1 f2)"
  by (rule struct.deep_copy_axioms)

end

text \<open>The contract of a struct from those of its fields, and of a struct with a single field to copy.\<close>

lemma struct_rule:
  assumes "deep_copy cp1 seen1 fp1" and "deep_copy cp2 seen2 fp2"
    and "\<And>v a b. f1 (mk v a b) = a" and "\<And>v a b. f2 (mk v a b) = b" and "\<And>v a b. plain (mk v a b) = plain v"
  shows "deep_copy (copy_struct cp1 cp2 f1 f2 mk) (seen_struct seen1 seen2 f1 f2 plain) (fp_struct fp1 fp2 f1 f2)"
  using assms by (intro struct_copy.contract) (simp add: struct_copy_def struct_copy_axioms_def)

lemma view_rule:
  assumes "deep_copy cp seen fp"
  shows "deep_copy cp (\<lambda>m v. map_option g (seen m v)) fp"
proof unfold_locales
  fix m m' v x
  assume "map_option g (seen m v) = Some x" and "\<And>a. a \<in> fp m v \<Longrightarrow> m' a = m a"
  then show "map_option g (seen m' v) = Some x \<and> fp m' v = fp m v"
    using deep_copy.frame[OF assms, of m v _ m'] by auto
next
  fix m v x assume "map_option g (seen m v) = Some x"
  then obtain y where "seen m v = Some y" by auto
  then show "fp m v \<subseteq> dom m" by (rule deep_copy.allocated[OF assms])
next
  fix h v x assume "heap_ok h" and "map_option g (seen (cell h) v) = Some x"
  then obtain y where y: "seen (cell h) v = Some y" "x = g y" by auto
  show "\<exists>v' h'. cp v h = (Ok v', h') \<and> heap_ok h' \<and> extends h h' \<and> map_option g (seen (cell h') v') = Some x
      \<and> fp (cell h') v' \<subseteq> {lim h..<lim h'}"
    using deep_copy.copies[OF assms \<open>heap_ok h\<close> y(1)] y(2) by fastforce
qed

definition copy_field where
  "copy_field cp f mk v = bnd (cp (f v)) (\<lambda>a. ret (mk v a))"

definition seen_field where
  "seen_field seen f plain m v = (case seen m (f v) of None \<Rightarrow> None | Some x \<Rightarrow> Some (plain v, x))"

lemma field_rule:
  assumes "deep_copy cp seen fp" and "\<And>v a. f (mk v a) = a" and "\<And>v a. plain (mk v a) = plain v"
  shows "deep_copy (copy_field cp f mk) (seen_field seen f plain) (\<lambda>m v. fp m (f v))"
proof -
  have "deep_copy ret (\<lambda>m v. Some ()) (\<lambda>m v. {})" by (rule deep_copy_plain)
  from struct_rule[OF assms(1) this, of f "\<lambda>v a _. mk v a" "\<lambda>_. ()" plain]
  have "deep_copy (copy_struct cp ret f (\<lambda>_. ()) (\<lambda>v a _. mk v a))
      (seen_struct seen (\<lambda>m v. Some ()) f (\<lambda>_. ()) plain) (fp_struct fp (\<lambda>m v. {}) f (\<lambda>_. ()))"
    by (simp add: assms)
  from view_rule[OF this, of "\<lambda>(p, x, u). (p, x)"]
  have "deep_copy (copy_struct cp ret f (\<lambda>_. ()) (\<lambda>v a _. mk v a))
      (\<lambda>m v. map_option (\<lambda>(p, x, u). (p, x)) (seen_struct seen (\<lambda>m v. Some ()) f (\<lambda>_. ()) plain m v))
      (fp_struct fp (\<lambda>m v. {}) f (\<lambda>_. ()))" .
  moreover have "copy_struct cp ret f (\<lambda>_. ()) (\<lambda>v a _. mk v a) = copy_field cp f mk"
    by (rule ext) (simp add: copy_struct_def copy_field_def)
  moreover have "(\<lambda>m v. map_option (\<lambda>(p, x, u). (p, x)) (seen_struct seen (\<lambda>m v. Some ()) f (\<lambda>_. ()) plain m v))
      = seen_field seen f plain"
    by (intro ext) (auto simp: seen_struct_def seen_field_def split: option.split)
  moreover have "fp_struct fp (\<lambda>m v. {}) f (\<lambda>_. ()) = (\<lambda>m v. fp m (f v))"
    by (rule ext, rule ext) (simp add: fp_struct_def)
  ultimately show ?thesis by simp
qed

end
