(* ===== verification/RestClient.thy ===== *)
theory RestClient
  imports GoHeap GoStrings
begin

text \<open>
  \<open>internal/utils/restclient.go\<close>: the client of one kind of resource that the expose
  controller uses. Objects live in the memory of \<open>GoHeap\<close>, since what matters is which of
  them a call writes: the answer of the API server goes to \<open>into\<close>. The transport of the
  Kubernetes library (\<open>Do\<close>, \<open>Watch\<close>, \<open>RESTClientFor\<close>, \<open>Accessor\<close>) is \<open>rest_env\<close>.
\<close>

section \<open>Requests\<close>

record list_options =
  lo_FieldSelector :: string
  lo_Watch :: bool

datatype rest_params = NoParams | GetParams string | ListParams list_options | CreateParams string | UpdateParams string

datatype 'o rest_body = NoBody | ObjectBody 'o | DeleteBody string

record rest_config =
  rc_Host :: string
  rc_APIPath :: string
  rc_GroupVersion :: "(string \<times> string) option"
  rc_Serializer :: bool

record 'o rest_request =
  rr_Verb :: string
  rr_Config :: rest_config
  rr_Namespace :: string
  rr_Resource :: string
  rr_Name :: "string option"
  rr_Params :: rest_params
  rr_Body :: "'o rest_body"

record ('o, 'w) rest_env =
  re_new :: "rest_config \<Rightarrow> unit res"
  re_do :: "'o rest_request list \<Rightarrow> 'o rest_request \<Rightarrow> 'o res"
  re_watch :: "'o rest_request list \<Rightarrow> 'o rest_request \<Rightarrow> 'w res"
  re_name :: "'o \<Rightarrow> string res"

record 'o rest_st =
  rs_heap :: "'o heap"
  rs_log :: "'o rest_request list"

type_synonym ('o, 'a) rest = "('o rest_st, 'a) prog"

definition on_heap :: "('o heap, 'a) prog \<Rightarrow> ('o, 'a) rest" where
  "on_heap m = (\<lambda>s. case m (rs_heap s) of (r, h) \<Rightarrow> (r, s\<lparr>rs_heap := h\<rparr>))"

definition rest_Do :: "('o, 'w) rest_env \<Rightarrow> 'o rest_request \<Rightarrow> ('o, 'o) rest" where
  "rest_Do re rq = (\<lambda>s. (re_do re (rs_log s) rq, s\<lparr>rs_log := rq # rs_log s\<rparr>))"

text \<open>\<open>Do(...).Into(p)\<close>: an answer without error is decoded into the object.\<close>

definition do_into :: "('o, 'w) rest_env \<Rightarrow> 'o rest_request \<Rightarrow> nat \<Rightarrow> ('o, unit) rest" where
  "do_into re rq p = bnd (rest_Do re rq) (\<lambda>answer. on_heap (store p answer))"

definition DeepCopyObject :: "nat \<Rightarrow> ('o, nat) rest" where
  "DeepCopyObject p = on_heap (bnd (load_cell Some p) alloc)"

section \<open>The client\<close>

record gvrClient =
  gc_client :: rest_config
  gc_ns :: string
  gc_resource :: string

definition NewGroupVersionResourceClient ::
  "('o, 'w) rest_env \<Rightarrow> rest_config \<Rightarrow> string \<Rightarrow> string \<times> string \<times> string \<Rightarrow> gvrClient res" where
  "NewGroupVersionResourceClient re c ns gvr =
     (case gvr of (grp, ver, resource) \<Rightarrow>
        let restCfg = c\<lparr>rc_APIPath := (if grp = [] then ''/api'' else ''/apis''),
                        rc_GroupVersion := Some (grp, ver), rc_Serializer := True\<rparr> in
        res_bind (re_new re restCfg) (\<lambda>_.
        Ok \<lparr>gc_client = restCfg, gc_ns = ns, gc_resource = resource\<rparr>))"

definition gvr_request :: "gvrClient \<Rightarrow> string \<Rightarrow> string option \<Rightarrow> rest_params \<Rightarrow> 'o rest_body \<Rightarrow> 'o rest_request" where
  "gvr_request c verb name params body =
     \<lparr>rr_Verb = verb, rr_Config = gc_client c, rr_Namespace = gc_ns c, rr_Resource = gc_resource c,
      rr_Name = name, rr_Params = params, rr_Body = body\<rparr>"

definition gvr_Get :: "('o, 'w) rest_env \<Rightarrow> gvrClient \<Rightarrow> string \<Rightarrow> string \<Rightarrow> nat \<Rightarrow> ('o, unit) rest" where
  "gvr_Get re c name getOpt into = do_into re (gvr_request c ''GET'' (Some name) (GetParams getOpt) NoBody) into"

definition gvr_List :: "('o, 'w) rest_env \<Rightarrow> gvrClient \<Rightarrow> list_options \<Rightarrow> nat \<Rightarrow> ('o, unit) rest" where
  "gvr_List re c listOpt into = do_into re (gvr_request c ''GET'' None (ListParams listOpt) NoBody) into"

definition gvr_Watch :: "('o, 'w) rest_env \<Rightarrow> gvrClient \<Rightarrow> list_options \<Rightarrow> ('o, 'w) rest" where
  "gvr_Watch re c listOpt =
     (let rq = gvr_request c ''GET'' None (ListParams (listOpt\<lparr>lo_Watch := True\<rparr>)) NoBody in
      (\<lambda>s. (re_watch re (rs_log s) rq, s\<lparr>rs_log := rq # rs_log s\<rparr>)))"

definition gvr_Create :: "('o, 'w) rest_env \<Rightarrow> gvrClient \<Rightarrow> nat \<Rightarrow> string \<Rightarrow> ('o, unit) rest" where
  "gvr_Create re c obj opt =
     bnd (DeepCopyObject obj) (\<lambda>into.
     bnd (on_heap (load_cell Some obj)) (\<lambda>body.
     do_into re (gvr_request c ''POST'' None (CreateParams opt) (ObjectBody body)) into))"

definition gvr_Update :: "('o, 'w) rest_env \<Rightarrow> gvrClient \<Rightarrow> nat \<Rightarrow> string \<Rightarrow> ('o, unit) rest" where
  "gvr_Update re c obj opts =
     bnd (DeepCopyObject obj) (\<lambda>into.
     bnd (on_heap (load_cell Some obj)) (\<lambda>body.
     bnd (lift (re_name re body)) (\<lambda>name.
     do_into re (gvr_request c ''PUT'' (Some name) (UpdateParams opts) (ObjectBody body)) into)))"

definition gvr_Delete :: "('o, 'w) rest_env \<Rightarrow> gvrClient \<Rightarrow> string \<Rightarrow> string \<Rightarrow> ('o, unit) rest" where
  "gvr_Delete re c name opt =
     bnd (rest_Do re (gvr_request c ''DELETE'' (Some name) NoParams (DeleteBody opt))) (\<lambda>_. ret ())"

section \<open>What a call writes\<close>

text \<open>Writing an object to the cluster leaves every object of the program as it is.\<close>

definition objects_kept :: "'o rest_st \<Rightarrow> 'o rest_st \<Rightarrow> bool" where
  "objects_kept s t \<longleftrightarrow> extends (rs_heap s) (rs_heap t)"

interpretation objects_kept: step_rel objects_kept
  by unfold_locales (auto simp: objects_kept_def intro: extends.step_refl extends.step_trans)

lemma rest_Do_run: "rest_Do re rq s = (re_do re (rs_log s) rq, s\<lparr>rs_log := rq # rs_log s\<rparr>)"
  by (simp add: rest_Do_def)

lemma bnd_lift_Ok: "bnd (lift (Ok v)) f = f v"
  by (simp add: bnd_def lift_def)

text \<open>A call that copies the object, sends it and decodes the answer into the copy.\<close>

definition send_copy ::
  "('o, 'w) rest_env \<Rightarrow> ('o \<Rightarrow> string res) \<Rightarrow> (string \<Rightarrow> 'o \<Rightarrow> 'o rest_request) \<Rightarrow> nat \<Rightarrow> ('o, unit) rest" where
  "send_copy re nm rq p =
     bnd (DeepCopyObject p) (\<lambda>into. bnd (on_heap (load_cell Some p)) (\<lambda>body.
     bnd (lift (nm body)) (\<lambda>name. do_into re (rq name body) into)))"

lemma send_copy_run:
  assumes "cell (rs_heap s) p = Some ob" and "send_copy re nm rq p s = (r, s')"
  shows "objects_kept s s' \<and> (heap_ok (rs_heap s) \<longrightarrow> heap_ok (rs_heap s')) \<and>
    (case nm ob of
       Ok name \<Rightarrow> rs_log s' = rq name ob # rs_log s \<and> r = res_bind (re_do re (rs_log s) (rq name ob)) (\<lambda>_. Ok ())
     | Err e \<Rightarrow> rs_log s' = rs_log s \<and> r = Err e
     | Panic m \<Rightarrow> rs_log s' = rs_log s \<and> r = Panic m
     | Loops \<Rightarrow> rs_log s' = rs_log s \<and> r = Loops)"
proof -
  let ?l = "lim (rs_heap s)"
  let ?h = "(rs_heap s)\<lparr>cell := (cell (rs_heap s))(?l \<mapsto> ob), lim := Suc ?l\<rparr>"
  have c: "cell ?h p = Some ob" using assms(1) by simp
  have e: "extends (rs_heap s) ?h" by (simp add: extends_alloc extends.step_refl)
  have w: "extends (rs_heap s) (?h\<lparr>cell := (cell ?h)(?l \<mapsto> a)\<rparr>)" for a
    by (rule extends_store[OF e]) simp
  have ok: "heap_ok ?h \<and> (\<forall>a. heap_ok (?h\<lparr>cell := (cell ?h)(?l \<mapsto> a)\<rparr>))" if "heap_ok (rs_heap s)"
    using heap_ok_alloc[OF that, of ob] heap_ok_store[OF heap_ok_alloc[OF that, of ob], of ?l] by simp
  have copy: "DeepCopyObject p s = (Ok ?l, s\<lparr>rs_heap := ?h\<rparr>)"
    using assms(1) by (simp add: DeepCopyObject_def on_heap_def bnd_def load_cell_def alloc_def)
  have load: "on_heap (load_cell Some p) (s\<lparr>rs_heap := ?h\<rparr>) = (Ok ob, s\<lparr>rs_heap := ?h\<rparr>)"
    using c by (simp add: on_heap_def load_cell_def)
  have run: "send_copy re nm rq p s = bnd (lift (nm ob)) (\<lambda>name. do_into re (rq name ob) ?l) (s\<lparr>rs_heap := ?h\<rparr>)"
    by (simp add: send_copy_def bnd_Ok[of "DeepCopyObject p", OF copy] bnd_Ok[of "on_heap (load_cell Some p)", OF load])
  show ?thesis
    using assms(2) e w ok unfolding run
    by (cases "nm ob"; cases "re_do re (rs_log s) (rq (case nm ob of Ok n \<Rightarrow> n | _ \<Rightarrow> []) ob)")
       (auto simp: bnd_def prog_simps do_into_def rest_Do_def on_heap_def store_def objects_kept_def)
qed

lemma gvr_Update_send:
  "gvr_Update re c p opts = send_copy re (re_name re)
     (\<lambda>name body. gvr_request c ''PUT'' (Some name) (UpdateParams opts) (ObjectBody body)) p"
  by (simp add: gvr_Update_def send_copy_def)

lemma gvr_Create_send:
  "gvr_Create re c p opt = send_copy re (\<lambda>_. Ok [])
     (\<lambda>_ body. gvr_request c ''POST'' None (CreateParams opt) (ObjectBody body)) p"
  by (simp add: gvr_Create_def send_copy_def bnd_lift_Ok)

text \<open>Reading writes the object it is given and no other.\<close>

lemma gvr_Get_run:
  assumes "gvr_Get re c name opt into s = (r, s')"
  shows "rs_heap s' = rs_heap s \<and> r \<noteq> Ok () \<or> (\<exists>ob. r = Ok () \<and> cell (rs_heap s') = (cell (rs_heap s))(into \<mapsto> ob))"
  using assms
  by (auto simp: gvr_Get_def do_into_def rest_Do_def bnd_def on_heap_def store_def prog_simps split: res.splits)

end
