(* ===== verification/RestSpec.thy ===== *)
theory RestSpec
  imports RestClient Expose
begin

text \<open>
  The expose controller of \<open>Expose\<close> on top of the client of \<open>RestClient\<close>: its model of an
  update, which hands the object to the API server and keeps its own, is what the client
  does in memory, although the answer of the server is decoded into an object.
\<close>

section \<open>The memory behind the controller\<close>

text \<open>
  \<open>ptr\<close> is the object each watcher keeps; the updates of the model are the bodies of the
  PUT requests, newest first.
\<close>

fun put_body :: "'o rest_request \<Rightarrow> 'o option" where
  "put_body rq = (case rr_Body rq of ObjectBody ob \<Rightarrow> if rr_Verb rq = ''PUT'' then Some ob else None | _ \<Rightarrow> None)"

definition put_bodies :: "'o rest_request list \<Rightarrow> 'o list" where
  "put_bodies rqs = List.map_filter put_body rqs"

definition behind :: "(exposeReconciler \<rightharpoonup> nat) \<Rightarrow> kobject rest_st \<Rightarrow> expose_st \<Rightarrow> bool" where
  "behind ptr s x \<longleftrightarrow> heap_ok (rs_heap s) \<and> (\<forall>rc. lastResource x rc = Option.bind (ptr rc) (cell (rs_heap s)))
     \<and> (\<forall>rc p. ptr rc = Some p \<longrightarrow> cell (rs_heap s) p \<noteq> None) \<and> updates x = put_bodies (rs_log s)"

lemma behindD:
  assumes "behind ptr s x" and "ptr rc = Some p"
  obtains ob where "cell (rs_heap s) p = Some ob" "lastResource x rc = Some ob" "p < lim (rs_heap s)"
  using assms by (fastforce simp: behind_def heap_ok_def)

text \<open>C31: The update of the expose model is refined by the client in memory: when the model keeps
  the objects the watchers point to, and its list of updates the bodies of the PUT requests,
  then so they do after an update of one of them, whatever the API server answers. So the
  version a watcher remembers stays that of its last event, and its own write comes back
  to it as news.\<close>

theorem client_Update_refined:
  assumes "behind ptr s x" and "ptr rc = Some p" and "\<forall>ob. cell (rs_heap s) p = Some ob \<longrightarrow> re_name re ob = Ok name"
    and "gvr_Update re c p opts s = (r, s')"
  shows "behind ptr s' (snd (client_Update rc x))"
proof -
  obtain ob where ob: "cell (rs_heap s) p = Some ob" "lastResource x rc = Some ob" by (rule behindD[OF assms(1,2)])
  note run = assms(4)[unfolded gvr_Update_send]
  have kept: "objects_kept s s'" and ok: "heap_ok (rs_heap s) \<longrightarrow> heap_ok (rs_heap s')" and log: "rs_log s' = gvr_request c ''PUT'' (Some name) (UpdateParams opts) (ObjectBody ob) # rs_log s"
    using send_copy_run[OF ob(1) run] assms(3) ob(1) by auto
  have "cell (rs_heap s') q = cell (rs_heap s) q" if "ptr rc' = Some q" for rc' q
  proof -
    have "q < lim (rs_heap s)" by (rule behindD[OF assms(1) that])
    with kept show ?thesis by (simp add: objects_kept_def extends_def)
  qed
  note same = this
  have "Option.bind (ptr rc') (cell (rs_heap s')) = Option.bind (ptr rc') (cell (rs_heap s))" for rc'
    using same by (cases "ptr rc'") simp_all
  moreover have "put_bodies (rs_log s') = ob # put_bodies (rs_log s)"
    by (simp add: log put_bodies_def gvr_request_def List.map_filter_simps)
  moreover have "snd (client_Update rc x) = x\<lparr>updates := ob # updates x\<rparr>"
    by (simp add: client_Update_def modify_def ob(2))
  ultimately show ?thesis using assms(1) ok same by (simp add: behind_def)
qed

definition sample_ingress_object :: kobject where
  "sample_ingress_object = KIngress \<lparr>ing_Name = ''cd-webhook'', ing_ResourceVersion = ''7'', ing_Annotations = None,
     ing_Rules = [], ing_IPs = []\<rparr>"

text \<open>The server answers with a newer version, and the object of the watcher is still the old one.\<close>

theorem client_Update_refined_witness:
  "\<exists>s' x'. behind [exposeIngressReconciler \<mapsto> 0] s' x' \<and> lastResource x' exposeIngressReconciler = Some sample_ingress_object
     \<and> updates x' = [sample_ingress_object]"
proof -
  let ?s = "\<lparr>rs_heap = \<lparr>cell = [0 \<mapsto> sample_ingress_object], lim = 1\<rparr>, rs_log = []\<rparr>"
  let ?x = "\<lparr>xcfg = cfg_view \<lparr>str_mem = (\<lambda>_. []), int_mem = (\<lambda>_. 0), bool_mem = (\<lambda>_. False)\<rparr>, inbox = None,
     lastResourceVersion = (\<lambda>_. []), lastResource = [exposeIngressReconciler \<mapsto> sample_ingress_object], hosts = [], updates = []\<rparr>"
  let ?re = "\<lparr>re_new = (\<lambda>_. Ok ()), re_do = (\<lambda>_ _. Ok (KOther ''8'')), re_watch = (\<lambda>_ _. Ok ()), re_name = (\<lambda>_. Ok ''cd-webhook'')\<rparr>"
  let ?c = "\<lparr>gc_client = \<lparr>rc_Host = [], rc_APIPath = ''/apis'', rc_GroupVersion = None, rc_Serializer = True\<rparr>, gc_ns = ''cd-system'',
     gc_resource = ''ingresses''\<rparr>"
  obtain r s' where run: "gvr_Update ?re ?c 0 [] ?s = (r, s')" by fastforce
  have start: "behind [exposeIngressReconciler \<mapsto> 0] ?s ?x"
    by (auto simp: behind_def heap_ok_def put_bodies_def List.map_filter_simps)
  have "behind [exposeIngressReconciler \<mapsto> 0] s' (snd (client_Update exposeIngressReconciler ?x))"
    using client_Update_refined[OF start _ _ run] by simp
  then show ?thesis
    by (rule_tac x = s' in exI, rule_tac x = "snd (client_Update exposeIngressReconciler ?x)" in exI)
       (simp add: client_Update_def modify_def)
qed

end
