(* ===== verification/ProcessEnv.thy ===== *)
theory ProcessEnv
  imports GoStrings
begin

text \<open>
  What the process does around its handlers: the file system, its environment variables, the
  objects it reads and writes while it starts, and the servers it opens, as the record
  \<open>os_env\<close> of functions of the calls made so far (as \<open>env\<close> in \<open>World\<close>, whose state it
  does not share). Then \<open>internal/utils\<close>: the namespace of the operator and the helper that
  creates or patches an object. The log is the first field of an extensible state, so that
  starting components can be run in a larger state.
\<close>

section \<open>Calls\<close>

datatype file_stat = StatFile | StatDir | StatMissing | StatFailed string

text \<open>The APIService object: the field the operator sets, and the rest.\<close>

record api_service =
  as_CABundle :: string
  as_Rest :: string

datatype client_auth =
  NoClientCert | RequestClientCert | RequireAnyClientCert | VerifyClientCertIfGiven | RequireAndVerifyClientCert

record tls_config =
  tls_ClientCAs :: "string set"
  tls_ClientAuth :: client_auth

datatype os_call =
    OStat string
  | OReadFile string
  | OGetenv string
  | OMkdirAll string nat
  | OWriteFile string string nat
  | OCreateCerts string string nat
  | OGetAPIService string
  | OUpdateAPIService api_service
  | OGetConfigMap string string
  | OWaitCache
  | OListenTLS string tls_config string string
  | OListen string
  | ONew string
  | OMgrStart

record os_env =
  o_stat :: "os_call list \<Rightarrow> string \<Rightarrow> file_stat"
  o_read :: "os_call list \<Rightarrow> string \<Rightarrow> string res"
  o_getenv :: "os_call list \<Rightarrow> string \<Rightarrow> string"
  o_mkdir :: "os_call list \<Rightarrow> string \<Rightarrow> unit res"
  o_write :: "os_call list \<Rightarrow> string \<Rightarrow> string \<Rightarrow> unit res"
  o_create_certs :: "os_call list \<Rightarrow> string \<Rightarrow> string \<Rightarrow> (string \<times> string \<times> string) res"
  o_get_apiservice :: "os_call list \<Rightarrow> string \<Rightarrow> api_service res"
  o_update_apiservice :: "os_call list \<Rightarrow> api_service \<Rightarrow> unit res"
  o_get_cm :: "os_call list \<Rightarrow> string \<Rightarrow> string \<Rightarrow> (string \<rightharpoonup> string) res"
  o_parse_certs :: "string \<Rightarrow> string list res"
  o_wait_cache :: "os_call list \<Rightarrow> bool"
  o_listen_tls :: "os_call list \<Rightarrow> unit res"
  o_listen :: "os_call list \<Rightarrow> unit res"
  o_new :: "os_call list \<Rightarrow> string \<Rightarrow> unit res"
  o_mgr_start :: "os_call list \<Rightarrow> unit res"

record os_st =
  os_log :: "os_call list"

type_synonym ('m, 'a) os = "('m os_st_scheme, 'a) prog"

definition oext :: "os_call \<Rightarrow> (os_call list \<Rightarrow> 'a res) \<Rightarrow> ('m, 'a) os" where
  "oext c f = (\<lambda>s. (f (os_log s), s\<lparr>os_log := c # os_log s\<rparr>))"

lemma oext_apply [prog_simps]: "oext c f s = (f (os_log s), s\<lparr>os_log := c # os_log s\<rparr>)"
  by (simp add: oext_def)

lemma log_inj [simp]: "s\<lparr>os_log := x\<rparr> = s\<lparr>os_log := y\<rparr> \<longleftrightarrow> x = y"
  by (auto dest: arg_cong[where f = os_log])

text \<open>\<open>os.Exit(1)\<close> ends the process, as a panic does.\<close>

definition os_Exit :: "('s, 'a) prog" where
  "os_Exit = crash ''exit status 1''"

lemma os_Exit_apply [prog_simps]: "os_Exit s = (Panic ''exit status 1'', s)"
  by (simp add: os_Exit_def crash_def)

definition or_exit :: "('s, 'a) prog \<Rightarrow> ('s, 'a) prog" where
  "or_exit m = bnd (attempt m) (\<lambda>r. case r of Inl _ \<Rightarrow> os_Exit | Inr v \<Rightarrow> ret v)"

lemma or_exit_Ok: "or_exit m s = (Ok v, s') \<longleftrightarrow> m s = (Ok v, s')"
  by (auto simp: or_exit_def bnd_def attempt_def prog_simps split: prod.splits res.splits)

text \<open>The log only grows; \<open>omade A\<close> says by which calls, and that nothing else changes.\<close>

definition omade :: "os_call set \<Rightarrow> 'm os_st_scheme \<Rightarrow> 'm os_st_scheme \<Rightarrow> bool" where
  "omade A s t \<longleftrightarrow> (\<exists>cs. t = s\<lparr>os_log := cs @ os_log s\<rparr> \<and> set cs \<subseteq> A)"

interpretation omade: step_rel "omade A" for A
proof unfold_locales
  fix s :: "'m os_st_scheme" show "omade A s s" by (auto simp: omade_def intro: exI[of _ "[]"])
next
  fix s t u :: "'m os_st_scheme" assume "omade A s t" and "omade A t u"
  then obtain c d where "t = s\<lparr>os_log := c @ os_log s\<rparr>" "u = t\<lparr>os_log := d @ os_log t\<rparr>" "set c \<subseteq> A" "set d \<subseteq> A"
    unfolding omade_def by blast
  then show "omade A s u" unfolding omade_def by (intro exI[of _ "d @ c"]) simp
qed

lemma omade_oext: "c \<in> A \<Longrightarrow> omade.keeps A (oext c f)"
  by (rule omade.keepsI) (auto simp: oext_def omade_def intro: exI[of _ "[c]"])

lemma omade_weaken: "A \<subseteq> B \<Longrightarrow> omade.keeps A m \<Longrightarrow> omade.keeps B m"
  unfolding omade.keeps_def omade_def by blast

lemma omade_or_exit: "omade.keeps A m \<Longrightarrow> omade.keeps A (or_exit m)"
  unfolding or_exit_def os_Exit_def by (intro omade.keeps_intros) (simp_all split: sum.split add: omade.keeps_intros)

lemmas omade_intros = omade.keeps_intros omade_oext omade_or_exit

section \<open>The namespace of the operator\<close>

text \<open>An error of \<open>os.Stat\<close> other than a missing file leaves \<open>info\<close> nil.\<close>

definition FileExists :: "os_env \<Rightarrow> string \<Rightarrow> ('m, bool) os" where
  "FileExists oe p =
     bnd (oext (OStat p) (\<lambda>h. Ok (o_stat oe h p))) (\<lambda>info.
     case info of
       StatMissing \<Rightarrow> ret False
     | StatFailed _ \<Rightarrow> crash ''invalid memory address or nil pointer dereference''
     | StatDir \<Rightarrow> ret False
     | StatFile \<Rightarrow> ret True)"

definition nsPath :: string where
  "nsPath = ''/var/run/secrets/kubernetes.io/serviceaccount/namespace''"

definition Namespace :: "os_env \<Rightarrow> ('m, string) os" where
  "Namespace oe =
     bnd (FileExists oe nsPath) (\<lambda>exist.
     if exist then
       bnd (attempt (oext (OReadFile nsPath) (\<lambda>h. o_read oe h nsPath))) (\<lambda>r.
       case r of
         Inl _ \<Rightarrow> throw (Fail (''could not read file '' @ nsPath))
       | Inr nsBytes \<Rightarrow> ret nsBytes)
     else
       bnd (oext (OGetenv ''NAMESPACE'') (\<lambda>h. Ok (o_getenv oe h ''NAMESPACE''))) (\<lambda>ns.
       ret (if ns = [] then ''cd-system'' else ns)))"

definition namespace_calls :: "os_call set" where
  "namespace_calls = {OStat nsPath, OReadFile nsPath, OGetenv ''NAMESPACE''}"

lemma omade_Namespace: "omade.keeps namespace_calls (Namespace oe)"
  unfolding Namespace_def FileExists_def
  by (intro omade_intros omade.keeps_bnd)
     (auto simp: namespace_calls_def omade_intros split: file_stat.split sum.split if_split intro!: omade_intros)

text \<open>Outside a cluster the namespace is never empty.\<close>

lemma Namespace_not_empty:
  assumes "Namespace oe s = (Ok ns, s')" and "o_stat oe (os_log s) nsPath \<noteq> StatFile"
  shows "ns \<noteq> []"
  using assms by (auto simp: Namespace_def FileExists_def bnd_def prog_simps split: file_stat.splits if_splits)

section \<open>Clients\<close>

text \<open>A constructor of the libraries, and the two that read the configuration first.\<close>

definition os_new :: "os_env \<Rightarrow> string \<Rightarrow> ('m, unit) os" where
  "os_new oe what = oext (ONew what) (\<lambda>h. o_new oe h what)"

definition AuthClient :: "os_env \<Rightarrow> ('m, unit) os" where
  "AuthClient oe = bnd (os_new oe ''config'') (\<lambda>_. os_new oe ''authorization client'')"

definition k8s_Client :: "os_env \<Rightarrow> ('m, unit) os" where
  "k8s_Client oe = bnd (os_new oe ''config'') (\<lambda>_. os_new oe ''client'')"

section \<open>Create or patch\<close>

text \<open>
  \<open>CreateOrPatchObject\<close> on objects as the client sees them: nil, or an object that may or
  may not carry metadata. The owner reference, the patch and the creation are the client
  library's. An object is its resource version and its rendering.
\<close>

record client_object =
  co_Meta :: bool
  co_ResourceVersion :: string
  co_Body :: string

record 's object_client =
  oc_SetControllerReference :: "client_object \<Rightarrow> client_object \<Rightarrow> client_object res"
  oc_Patch :: "client_object \<Rightarrow> client_object \<Rightarrow> ('s, unit) prog"
  oc_Create :: "client_object \<Rightarrow> ('s, unit) prog"

definition CreateOrPatchObject ::
  "'s object_client \<Rightarrow> client_object option \<Rightarrow> client_object option \<Rightarrow> client_object option \<Rightarrow> ('s, unit) prog" where
  "CreateOrPatchObject cli obj original parent =
     (case obj of
        None \<Rightarrow> throw (Fail ''obj cannot be nil'')
      | Some ob \<Rightarrow>
          if \<not> co_Meta ob then throw (Fail ''obj cannot be casted to metav1.Object'')
          else
            bnd (case parent of
                   None \<Rightarrow> ret ob
                 | Some p \<Rightarrow>
                     if \<not> co_Meta p then throw (Fail ''parent cannot be casted to metav1.Object'')
                     else lift (oc_SetControllerReference cli p ob)) (\<lambda>ob.
            if co_ResourceVersion ob \<noteq> [] then
              (case original of
                 None \<Rightarrow> throw (Fail ''original object exists but not passed'')
               | Some orig \<Rightarrow> oc_Patch cli orig ob)
            else oc_Create cli ob))"

text \<open>An object that is stored already is never created again, and a new one never patched.\<close>

lemma CreateOrPatchObject_stored:
  assumes "\<And>p o'. oc_SetControllerReference cli p ob = Ok o' \<Longrightarrow> co_ResourceVersion o' = co_ResourceVersion ob"
    and "CreateOrPatchObject cli (Some ob) original parent s = (Ok (), s')"
  shows "if co_ResourceVersion ob = [] then \<exists>o'. oc_Create cli o' s = (Ok (), s')
    else \<exists>orig o'. original = Some orig \<and> oc_Patch cli orig o' s = (Ok (), s')"
  using assms(2) assms(1)
  by (auto simp: CreateOrPatchObject_def bnd_def prog_simps split: if_splits option.splits res.splits)

end
