(* ===== verification/Certs.thy ===== *)
theory Certs
  imports ProcessEnv
begin

text \<open>
  \<open>pkg/apiserver/cert.go\<close> and \<open>Start\<close> of \<open>pkg/apiserver/server.go\<close>: the serving
  certificate of the API server, the authorities it trusts clients by, and the order of
  its start. Making certificates and parsing PEM is library code (\<open>os_env\<close>).
\<close>

section \<open>The serving certificate\<close>

definition APIServiceName :: string where "APIServiceName = ''v1.cdapi.tmax.io''"
definition serviceName :: string where "serviceName = ''cd-webhook''"
definition certDir :: string where "certDir = ''/tmp/application-api''"
definition keyPath :: string where "keyPath = certDir @ ''/tls.key''"
definition crtPath :: string where "crtPath = certDir @ ''/tls.crt''"
definition k8sConfigMapName :: string where "k8sConfigMapName = ''extension-apiserver-authentication''"
definition k8sConfigMapKey :: string where "k8sConfigMapKey = ''requestheader-client-ca-file''"

text \<open>Modes are written in decimal (0777 and 0644); the certificates are valid for one year.\<close>

definition write_file :: "os_env \<Rightarrow> string \<Rightarrow> string \<Rightarrow> ('m, unit) os" where
  "write_file oe p d = oext (OWriteFile p d 420) (\<lambda>h. o_write oe h p d)"

definition createCert :: "os_env \<Rightarrow> ('m, unit) os" where
  "createCert oe =
     bnd (oext (OMkdirAll certDir 511) (\<lambda>h. o_mkdir oe h certDir)) (\<lambda>_.
     bnd (Namespace oe) (\<lambda>ns.
     bnd (oext (OCreateCerts serviceName ns 1) (\<lambda>h. o_create_certs oe h serviceName ns)) (\<lambda>(tlsKey, tlsCrt, caCrt).
     bnd (write_file oe keyPath tlsKey) (\<lambda>_.
     bnd (write_file oe crtPath tlsCrt) (\<lambda>_.
     bnd (oext (OGetAPIService APIServiceName) (\<lambda>h. o_get_apiservice oe h APIServiceName)) (\<lambda>apiService.
     let apiService = apiService\<lparr>as_CABundle := caCrt\<rparr> in
     oext (OUpdateAPIService apiService) (\<lambda>h. o_update_apiservice oe h apiService)))))))"

section \<open>The client authorities\<close>

definition AddCert :: "string \<Rightarrow> string set \<Rightarrow> string set" where
  "AddCert c pool = insert c pool"

definition getCAPool :: "os_env \<Rightarrow> ('m, string set) os" where
  "getCAPool oe =
     bnd (oext (OGetConfigMap ''kube-system'' k8sConfigMapName) (\<lambda>h. o_get_cm oe h ''kube-system'' k8sConfigMapName)) (\<lambda>dat.
     case dat k8sConfigMapKey of
       None \<Rightarrow> throw (Fail (''no key ['' @ k8sConfigMapKey @ ''] found in configmap kube-system/'' @ k8sConfigMapName))
     | Some clientCA \<Rightarrow>
         bnd (lift (o_parse_certs oe clientCA)) (\<lambda>certs.
         ret (fold AddCert certs {})))"

definition tlsConfig :: "os_env \<Rightarrow> ('m, tls_config) os" where
  "tlsConfig oe =
     bnd (getCAPool oe) (\<lambda>caPool.
     ret \<lparr>tls_ClientCAs = caPool, tls_ClientAuth = VerifyClientCertIfGiven\<rparr>)"

lemma pool_certs: "fold AddCert cs pool = set cs \<union> pool"
  by (induction cs arbitrary: pool) (auto simp: AddCert_def)

section \<open>Start\<close>

definition api_addr :: string where
  "api_addr = ''0.0.0.0:34335''"

definition ErrServerClosed :: error where
  "ErrServerClosed = Fail ''http: Server closed''"

definition api_Start :: "os_env \<Rightarrow> ('m, unit) os" where
  "api_Start oe =
     bnd (oext OWaitCache (\<lambda>h. Ok (o_wait_cache oe h))) (\<lambda>cacheInit.
     if \<not> cacheInit then os_Exit
     else
       bnd (or_exit (createCert oe)) (\<lambda>_.
       bnd (or_exit (tlsConfig oe)) (\<lambda>config.
       bnd (attempt (oext (OListenTLS api_addr config crtPath keyPath) (o_listen_tls oe))) (\<lambda>r.
       case r of
         Inl e \<Rightarrow> (if e \<noteq> ErrServerClosed then os_Exit else ret ())
       | Inr _ \<Rightarrow> ret ()))))"

section \<open>TLS\<close>

text \<open>
  What crypto/tls documents of its server: \<open>verify pool certs\<close> is the verification of the
  chain the client presented; the answer is the number of peer certificates, or nothing when
  the handshake fails.
\<close>

definition handshake :: "(string set \<Rightarrow> string list \<Rightarrow> bool) \<Rightarrow> tls_config \<Rightarrow> string list \<Rightarrow> nat option" where
  "handshake verify c certs =
     (case tls_ClientAuth c of
        NoClientCert \<Rightarrow> Some 0
      | RequestClientCert \<Rightarrow> Some (length certs)
      | RequireAnyClientCert \<Rightarrow> (if certs = [] then None else Some (length certs))
      | VerifyClientCertIfGiven \<Rightarrow>
          (if certs = [] then Some 0 else if verify (tls_ClientCAs c) certs then Some (length certs) else None)
      | RequireAndVerifyClientCert \<Rightarrow>
          (if certs \<noteq> [] \<and> verify (tls_ClientCAs c) certs then Some (length certs) else None))"

lemma handshake_verified:
  assumes "tls_ClientAuth c = VerifyClientCertIfGiven" and "handshake verify c certs = Some (Suc n)"
  shows "certs \<noteq> [] \<and> verify (tls_ClientCAs c) certs"
  using assms by (auto simp: handshake_def split: if_splits)

section \<open>What the runs do\<close>

text \<open>The calls of a successful \<open>createCert\<close>, newest first.\<close>

lemma createCert_Ok:
  assumes "createCert oe s = (Ok u, s')"
  obtains ns key crt ca svc nscalls where
    "s' = s\<lparr>os_log := OUpdateAPIService (svc\<lparr>as_CABundle := ca\<rparr>) # OGetAPIService APIServiceName
       # OWriteFile crtPath crt 420 # OWriteFile keyPath key 420 # OCreateCerts serviceName ns 1 # nscalls
       @ OMkdirAll certDir 511 # os_log s\<rparr>"
    and "set nscalls \<subseteq> namespace_calls"
    and "o_create_certs oe (nscalls @ OMkdirAll certDir 511 # os_log s) serviceName ns = Ok (key, crt, ca)"
proof -
  let ?s1 = "s\<lparr>os_log := OMkdirAll certDir 511 # os_log s\<rparr>"
  from assms obtain ns s2 key crt ca svc where n: "Namespace oe ?s1 = (Ok ns, s2)"
    and c: "o_create_certs oe (os_log s2) serviceName ns = Ok (key, crt, ca)"
    and s': "s' = s2\<lparr>os_log := OUpdateAPIService (svc\<lparr>as_CABundle := ca\<rparr>) # OGetAPIService APIServiceName
       # OWriteFile crtPath crt 420 # OWriteFile keyPath key 420 # OCreateCerts serviceName ns 1 # os_log s2\<rparr>"
    unfolding createCert_def write_file_def
    by (fastforce elim!: bnd_eq_OkE simp: oext_def Let_def split: prod.splits)
  from omade.keepsD[OF omade_Namespace n] obtain nscalls
    where "s2 = ?s1\<lparr>os_log := nscalls @ os_log ?s1\<rparr>" "set nscalls \<subseteq> namespace_calls"
    by (auto simp: omade_def)
  with c s' show ?thesis by (intro that) auto
qed

text \<open>\<open>createCert\<close> never opens a server, and neither does the reading of the authorities.\<close>

definition no_listen :: "os_call set" where
  "no_listen = {c. \<forall>a t p q. c \<noteq> OListenTLS a t p q}"

lemma createCert_no_listen: "omade.keeps no_listen (createCert oe)"
proof -
  have "omade.keeps no_listen (Namespace oe)"
    by (rule omade_weaken[OF _ omade_Namespace]) (auto simp: namespace_calls_def no_listen_def)
  then show ?thesis
    unfolding createCert_def write_file_def Let_def
    by (intro omade.keeps_bnd omade_oext) (auto simp: no_listen_def split_beta intro!: omade.keeps_bnd omade_oext)
qed

lemma tlsConfig_Ok:
  assumes "tlsConfig oe s = (Ok c, s')"
  shows "tls_ClientAuth c = VerifyClientCertIfGiven
    \<and> s' = s\<lparr>os_log := OGetConfigMap ''kube-system'' k8sConfigMapName # os_log s\<rparr>
    \<and> (\<exists>dat pem certs. o_get_cm oe (os_log s) ''kube-system'' k8sConfigMapName = Ok dat
         \<and> dat k8sConfigMapKey = Some pem \<and> o_parse_certs oe pem = Ok certs \<and> tls_ClientCAs c = set certs)"
  using assms
  by (auto simp: tlsConfig_def getCAPool_def bnd_def prog_simps pool_certs split: res.splits option.splits)

text \<open>What comes before the server opens.\<close>

definition api_prepare :: "os_env \<Rightarrow> ('m, tls_config) os" where
  "api_prepare oe =
     bnd (oext OWaitCache (\<lambda>h. Ok (o_wait_cache oe h))) (\<lambda>cacheInit.
     if \<not> cacheInit then os_Exit else bnd (or_exit (createCert oe)) (\<lambda>_. or_exit (tlsConfig oe)))"

definition api_listen :: "os_env \<Rightarrow> tls_config \<Rightarrow> ('m, unit) os" where
  "api_listen oe config =
     bnd (attempt (oext (OListenTLS api_addr config crtPath keyPath) (o_listen_tls oe))) (\<lambda>r.
     case r of Inl e \<Rightarrow> (if e \<noteq> ErrServerClosed then os_Exit else ret ()) | Inr _ \<Rightarrow> ret ())"

lemma bnd_os_Exit [simp]: "bnd os_Exit f = os_Exit"
  by (simp add: bnd_def os_Exit_def crash_def)

lemma api_Start_prepare: "api_Start oe = bnd (api_prepare oe) (api_listen oe)"
  unfolding api_Start_def api_prepare_def bnd_assoc api_listen_def[abs_def]
  by (rule arg_cong[where f = "bnd _"]) (auto simp: bnd_assoc)

lemma api_prepare_no_listen: "omade.keeps no_listen (api_prepare oe)"
proof -
  have "omade.keeps no_listen (tlsConfig oe)"
    unfolding tlsConfig_def getCAPool_def
    by (intro omade.keeps_bnd omade_oext) (auto simp: no_listen_def intro!: omade_intros split: option.split)
  then show ?thesis
    unfolding api_prepare_def os_Exit_def
    by (intro omade.keeps_bnd omade_oext) (auto simp: no_listen_def intro!: omade_intros createCert_no_listen[unfolded no_listen_def])
qed

lemma api_prepare_Ok:
  assumes "api_prepare oe s = (Ok c, s')"
  obtains s2 where "createCert oe (s\<lparr>os_log := OWaitCache # os_log s\<rparr>) = (Ok (), s2)" "tlsConfig oe s2 = (Ok c, s')"
  using assms
  by (auto simp: api_prepare_def prog_simps or_exit_Ok elim!: bnd_eq_OkE split: if_splits)

text \<open>The server is opened at most once, after everything else.\<close>

lemma api_Start_listens:
  assumes "api_Start oe s = (r, s')" and "s' = s\<lparr>os_log := cs @ os_log s\<rparr>" and "OListenTLS a c p q \<in> set cs"
  obtains sp where "api_prepare oe s = (Ok c, sp)" "a = api_addr" "p = crtPath" "q = keyPath"
    "s' = sp\<lparr>os_log := OListenTLS a c p q # os_log sp\<rparr>"
proof -
  obtain rp sp where prep: "api_prepare oe s = (rp, sp)" by fastforce
  then obtain ds where ds: "sp = s\<lparr>os_log := ds @ os_log s\<rparr>" "set ds \<subseteq> no_listen"
    using omade.keepsD[OF api_prepare_no_listen] by (fastforce simp: omade_def)
  have quiet: "OListenTLS a c p q \<notin> set ds" using ds(2) by (auto simp: no_listen_def)
  show ?thesis
  proof (cases rp)
    case (Ok d)
    then have "s' = sp\<lparr>os_log := OListenTLS api_addr d crtPath keyPath # os_log sp\<rparr>"
      using assms(1) prep
      by (auto simp: api_Start_prepare api_listen_def bnd_def attempt_def prog_simps split: res.splits if_splits)
    moreover from this have "cs @ os_log s = (OListenTLS api_addr d crtPath keyPath # ds) @ os_log s"
      using assms(2) ds(1) by simp
    then have "OListenTLS a c p q = OListenTLS api_addr d crtPath keyPath" using assms(3) quiet by simp
    ultimately show ?thesis using that prep Ok by simp
  qed (use assms prep ds(1) quiet in \<open>auto simp: api_Start_prepare bnd_def\<close>)
qed

end
