(* ===== verification/Startup.thy ===== *)
theory Startup
  imports ConfigSpec Expose RestClient Certs Server
begin

text \<open>
  \<open>cmd/controller/main.go\<close> with the parts of the components it constructs and starts:
  \<open>Start\<close> of the ConfigMap controller, \<open>NewExposeController\<close> and the start of its watchers,
  \<open>New\<close> and \<open>Start\<close> of the webhook server. \<open>main\<close> is the list of its statements, and the
  goroutines it starts take their steps in between, in any order.
\<close>

section \<open>State\<close>

datatype goroutine = GoConfig | GoExpose | GoWebhookServer | GoApiServer | GoManager

text \<open>They are ordered as \<open>main\<close> starts them.\<close>

fun go_rank :: "goroutine \<Rightarrow> nat" where
  "go_rank GoConfig = 0" | "go_rank GoExpose = 1" | "go_rank GoWebhookServer = 2"
| "go_rank GoApiServer = 3" | "go_rank GoManager = 4"

instantiation goroutine :: linorder
begin

definition less_eq_goroutine :: "goroutine \<Rightarrow> goroutine \<Rightarrow> bool" where
  "less_eq_goroutine g h \<longleftrightarrow> go_rank g \<le> go_rank h"

definition less_goroutine :: "goroutine \<Rightarrow> goroutine \<Rightarrow> bool" where
  "less_goroutine g h \<longleftrightarrow> go_rank g < go_rank h"

instance
proof
  fix g h :: goroutine
  assume "g \<le> h" and "h \<le> g"
  then show "g = h" by (cases g; cases h) (simp_all add: less_eq_goroutine_def)
qed (auto simp: less_eq_goroutine_def less_goroutine_def)

end

text \<open>The reconcilers of the expose controller with their client, resource name and object.\<close>

record expose_reconciler =
  er_kind :: exposeReconciler
  er_client :: gvrClient
  er_resourceName :: string
  er_obj :: nat

record boot_env =
  be_os :: os_env
  be_op :: env
  be_rest :: "(kobject, watch_result list) rest_env"
  be_config :: rest_config
  be_order :: "nat list"

text \<open>
  \<open>bt_pc\<close> is the statement \<open>main\<close> is at, \<open>bt_go\<close> the goroutines started so far, oldest first
  (the manager, which \<open>main\<close> runs itself, is the last), \<open>bt_watching\<close> and \<open>bt_watchers\<close> those
  that reached their watch loops.
\<close>

record boot = os_st +
  bt_pc :: nat
  bt_exited :: bool
  bt_go :: "goroutine list"
  bt_handlers :: "string \<rightharpoonup> config_map \<Rightarrow> (cfg_state, unit) prog"
  bt_cfg :: "cfg_state config_ctl"
  bt_watching :: bool
  bt_rest :: "kobject rest_st"
  bt_expose :: "expose_reconciler list"
  bt_watchers :: "exposeReconciler list"
  bt_plugins :: registry

type_synonym 'a boots = "(boot, 'a) prog"

definition on_cfg :: "(cfg_state config_ctl, 'a) prog \<Rightarrow> 'a boots" where
  "on_cfg m = (\<lambda>s. case m (bt_cfg s) of (r, t) \<Rightarrow> (r, s\<lparr>bt_cfg := t\<rparr>))"

definition on_objects :: "(kobject, 'a) rest \<Rightarrow> 'a boots" where
  "on_objects m = (\<lambda>s. case m (bt_rest s) of (r, t) \<Rightarrow> (r, s\<lparr>bt_rest := t\<rparr>))"

definition go :: "goroutine \<Rightarrow> unit boots" where
  "go g = modify (\<lambda>s. s\<lparr>bt_go := bt_go s @ [g]\<rparr>)"

definition new_object :: "boot_env \<Rightarrow> string \<Rightarrow> unit boots" where
  "new_object be what = os_new (be_os be) what"

section \<open>The ConfigMap controller\<close>

definition newConfigMapClient :: "boot_env \<Rightarrow> string boots" where
  "newConfigMapClient be = bnd (new_object be ''clientset'') (\<lambda>_. Namespace (be_os be))"

text \<open>\<open>Start\<close> up to its loop of watches.\<close>

definition Config_Start :: "boot_env \<Rightarrow> unit boots" where
  "Config_Start be =
     bnd (or_exit (newConfigMapClient be)) (\<lambda>_.
     modify (\<lambda>s. s\<lparr>bt_cfg := (bt_cfg s)\<lparr>lastResourceVersions := (\<lambda>_. [])\<rparr>, bt_watching := True\<rparr>))"

section \<open>The expose controller\<close>

definition ingName :: string where "ingName = ''cd-webhook''"
definition svcName :: string where "svcName = ''cd-webhook''"
definition resourceIngress :: string where "resourceIngress = ''ingresses''"
definition resourceService :: string where "resourceService = ''services''"

definition zero_service :: service where
  "zero_service = \<lparr>svc_Name = [], svc_ResourceVersion = [], svc_Type = [], svc_ClusterIP = [], svc_Ports = [], svc_IPs = []\<rparr>"

definition zero_ingress :: ingress where
  "zero_ingress = \<lparr>ing_Name = [], ing_ResourceVersion = [], ing_Annotations = None, ing_Rules = [], ing_IPs = []\<rparr>"

definition NewExposeController :: "boot_env \<Rightarrow> expose_reconciler list boots" where
  "NewExposeController be =
     bnd (Namespace (be_os be)) (\<lambda>ns.
     bnd (lift (NewGroupVersionResourceClient (be_rest be) (be_config be) ns ([], ''v1'', resourceService))) (\<lambda>svcClient.
     bnd (on_objects (on_heap (alloc (KService zero_service)))) (\<lambda>svc.
     bnd (lift (NewGroupVersionResourceClient (be_rest be) (be_config be) ns (''networking.k8s.io'', ''v1'', resourceIngress))) (\<lambda>ingClient.
     bnd (on_objects (on_heap (alloc (KIngress zero_ingress)))) (\<lambda>ing.
     ret [\<lparr>er_kind = exposeServiceReconciler, er_client = svcClient, er_resourceName = svcName, er_obj = svc\<rparr>,
          \<lparr>er_kind = exposeIngressReconciler, er_client = ingClient, er_resourceName = ingName, er_obj = ing\<rparr>])))))"

text \<open>
  \<open>startResourceWatcher\<close> up to its loops; \<open>c\<close> is the channel it makes. A resource that
  cannot be read makes \<open>utilruntime.Must\<close> panic.
\<close>

definition startResourceWatcher :: "boot_env \<Rightarrow> expose_reconciler \<Rightarrow> nat \<Rightarrow> unit boots" where
  "startResourceWatcher be rec c =
     bnd (on_cfg (on_rest (make_update_ch c))) (\<lambda>_.
     bnd (attempt (on_objects (gvr_Get (be_rest be) (er_client rec) (er_resourceName rec) [] (er_obj rec)))) (\<lambda>r.
     case r of
       Inl e \<Rightarrow> crash (err_msg e)
     | Inr _ \<Rightarrow> modify (\<lambda>s. s\<lparr>bt_watchers := bt_watchers s @ [er_kind rec]\<rparr>)))"

text \<open>
  Its endless loop, on the watches the API server answers one after the other: the objects
  it forwards and whether it was told to exit. A watch that fails is tried again.
\<close>

fun watch_loop :: "watch_result list res list \<Rightarrow> kobject list \<times> bool" where
  "watch_loop [] = ([], False)"
| "watch_loop (w # ws) =
     (case loopWatch w of
        (obs, True) \<Rightarrow> (obs, True)
      | (obs, False) \<Rightarrow> (case watch_loop ws of (obs', b) \<Rightarrow> (obs @ obs', b)))"

text \<open>The goroutines that \<open>Start\<close> of the controller starts.\<close>

datatype expose_routine = ResourceWatcher expose_reconciler | HostListener

definition ExposeController_Start :: "expose_reconciler list \<Rightarrow> expose_routine list" where
  "ExposeController_Start recs = map ResourceWatcher recs @ [HostListener]"

section \<open>The webhook server\<close>

text \<open>Its router has one route.\<close>

definition webhookPath :: string where
  "webhookPath = ''/webhook/{namespace}/{appName}''"

definition http_New :: "(string \<times> string) list" where
  "http_New = [(''POST'', webhookPath)]"

definition http_addr :: string where
  "http_addr = ''0.0.0.0:24335''"

definition http_Start :: "os_env \<Rightarrow> ('m, unit) os" where
  "http_Start oe = or_exit (oext (OListen http_addr) (o_listen oe))"

section \<open>main\<close>

text \<open>A receive from a channel without a token waits.\<close>

definition receive_ch :: "nat \<Rightarrow> (cfg_state, unit) prog" where
  "receive_ch c = (\<lambda>s. if 0 < chan_len s c
     then (Ok (), s\<lparr>chan_len := (chan_len s)(c := chan_len s c - 1)\<rparr>) else (Loops, s))"

text \<open>
  The manager runs in \<open>main\<close> itself until its \<open>Start\<close> returns: with an error \<open>main\<close> exits,
  and otherwise it returns, which ends the process as well.
\<close>

definition mgr_Start :: "os_env \<Rightarrow> unit boots" where
  "mgr_Start oe = bnd (gets os_log) (\<lambda>h. lift (o_mgr_start oe h))"

definition main_body :: "boot_env \<Rightarrow> unit boots list" where
  "main_body be =
     [or_exit (new_object be ''manager''),
      or_exit (new_object be ''controller''),
      or_exit (new_object be ''healthz''),
      or_exit (new_object be ''readyz''),
      go GoConfig,
      modify (\<lambda>s. s\<lparr>bt_handlers := Config_Add ConfigMapNameCDConfig (ApplyControllerConfigChange (be_order be)) (bt_handlers s)\<rparr>),
      on_cfg (on_rest (receive_ch ControllerInitCh)),
      bnd (or_exit (NewExposeController be)) (\<lambda>ec. modify (\<lambda>s. s\<lparr>bt_expose := ec\<rparr>)),
      go GoExpose,
      modify (\<lambda>s. s\<lparr>bt_plugins := AddPlugin [EventTypePullRequest, EventTypePush] (Handle (be_op be)) (bt_plugins s)\<rparr>),
      go GoWebhookServer,
      or_exit (new_object be ''authorization client''),
      go GoApiServer,
      bnd (oext OMgrStart (\<lambda>_. Ok ())) (\<lambda>_. go GoManager),
      bnd (or_exit (mgr_Start (be_os be))) (\<lambda>_. modify (\<lambda>s. s\<lparr>bt_exited := True\<rparr>))]"

section \<open>Steps\<close>

datatype boot_event =
    MainStep
  | ConfigStarts
  | ConfigEvent "config_map option"
  | WatcherStarts expose_reconciler nat

text \<open>What an event does, when it can happen.\<close>

definition boot_exec :: "boot_env \<Rightarrow> boot_event \<Rightarrow> boot \<Rightarrow> (unit res \<times> boot) option" where
  "boot_exec be ev s =
     (if bt_exited s then None
      else case ev of
        MainStep \<Rightarrow>
          if bt_pc s < length (main_body be)
          then Some (bnd (main_body be ! bt_pc s) (\<lambda>_. modify (\<lambda>s. s\<lparr>bt_pc := Suc (bt_pc s)\<rparr>)) s) else None
      | ConfigStarts \<Rightarrow>
          if GoConfig \<in> set (bt_go s) \<and> \<not> bt_watching s then Some (Config_Start be s) else None
      | ConfigEvent ob \<Rightarrow>
          if bt_watching s then Some (on_cfg (Config_watch (bt_handlers s) [ob]) s) else None
      | WatcherStarts rec c \<Rightarrow>
          if GoExpose \<in> set (bt_go s) \<and> ResourceWatcher rec \<in> set (ExposeController_Start (bt_expose s)) \<and> er_kind rec \<notin> set (bt_watchers s)
             \<and> c \<noteq> ControllerInitCh \<and> c \<notin> set (controllerConfigUpdateChan (rest_state (bt_cfg s)))
          then Some (startResourceWatcher be rec c s) else None)"

inductive boot_step :: "boot_env \<Rightarrow> boot \<Rightarrow> boot_event \<Rightarrow> boot \<Rightarrow> bool" for be where
  runs: "boot_exec be ev s = Some (Ok (), s') \<Longrightarrow> boot_step be s ev s'"
| ends: "boot_exec be ev s = Some (Panic p, s') \<Longrightarrow> boot_step be s ev (s'\<lparr>bt_exited := True\<rparr>)"

inductive boot_run :: "boot_env \<Rightarrow> boot \<Rightarrow> boot_event list \<Rightarrow> boot \<Rightarrow> bool" for be where
  here: "boot_run be s [] s"
| more: "boot_run be s evs t \<Longrightarrow> boot_step be t ev u \<Longrightarrow> boot_run be s (evs @ [ev]) u"

inductive_cases boot_run_emptyE: "boot_run be s [] t"

lemma boot_run_snoc: "boot_run be s (evs @ [ev]) u \<longleftrightarrow> (\<exists>t. boot_run be s evs t \<and> boot_step be t ev u)"
  by (auto intro: more elim: boot_run.cases)

lemma boot_run_trans: "boot_run be t evs' u \<Longrightarrow> boot_run be s evs t \<Longrightarrow> boot_run be s (evs @ evs') u"
  by (induction rule: boot_run.induct) (auto simp: append_assoc[symmetric] simp del: append_assoc intro: more)

text \<open>How the process begins.\<close>

definition boot_start :: "boot \<Rightarrow> bool" where
  "boot_start s \<longleftrightarrow> bt_pc s = 0 \<and> \<not> bt_exited s \<and> bt_go s = [] \<and> bt_handlers s = Map.empty \<and> \<not> bt_watching s
     \<and> bt_watchers s = [] \<and> bt_plugins s = Map.empty \<and> cfg_start (rest_state (bt_cfg s))"

end
