(* ===== verification/StartupOrder.thy ===== *)
theory StartupOrder
  imports Startup
begin

text \<open>
  The invariant of the start of the process, whatever the goroutines do between the
  statements of \<open>main\<close>: which goroutines run at which statement, what is registered by then,
  and that the configuration was read.
\<close>

section \<open>What a statement of main leaves alone\<close>

definition boot_frame :: "boot \<Rightarrow> boot \<Rightarrow> bool" where
  "boot_frame s t \<longleftrightarrow> bt_pc t = bt_pc s \<and> bt_exited t = bt_exited s \<and> bt_go t = bt_go s \<and> bt_handlers t = bt_handlers s
     \<and> bt_cfg t = bt_cfg s \<and> bt_watching t = bt_watching s \<and> bt_plugins t = bt_plugins s"

interpretation boot_frame: step_rel boot_frame
  by unfold_locales (auto simp: boot_frame_def)

lemma frame_oext: "boot_frame.keeps (oext c f)"
  by (rule boot_frame.keepsI) (simp add: oext_def boot_frame_def)

lemma frame_or_exit: "boot_frame.keeps m \<Longrightarrow> boot_frame.keeps (or_exit m)"
  unfolding or_exit_def os_Exit_def
  by (intro boot_frame.keeps_bnd boot_frame.keeps_attempt) (auto intro: boot_frame.keeps_intros split: sum.split)

lemma frame_on_objects: "boot_frame.keeps (on_objects m)"
  by (rule boot_frame.keepsI) (simp add: on_objects_def boot_frame_def split: prod.split)

lemma frame_omade: "omade.keeps A (m :: 'a boots) \<Longrightarrow> boot_frame.keeps m"
  unfolding boot_frame.keeps_def omade.keeps_def
proof (intro allI)
  fix s assume "\<forall>s. omade A s (snd (m s))"
  then obtain cs where "snd (m s) = s\<lparr>os_log := cs @ os_log s\<rparr>" by (auto simp: omade_def)
  then show "boot_frame s (snd (m s))" by (simp add: boot_frame_def)
qed

lemma frame_new_object: "boot_frame.keeps (new_object be what)"
  unfolding new_object_def os_new_def by (rule frame_oext)

lemmas frame_intros = boot_frame.keeps_intros frame_oext frame_or_exit frame_on_objects frame_new_object
  frame_omade[OF omade_Namespace]

lemma frame_NewExposeController: "boot_frame.keeps (NewExposeController be)"
  unfolding NewExposeController_def by (intro frame_intros)

lemma frame_ConfigMapClient: "boot_frame.keeps (newConfigMapClient be)"
  unfolding newConfigMapClient_def by (intro frame_intros)

section \<open>The invariant of the start\<close>

text \<open>The goroutines that run when \<open>main\<close> is at a statement.\<close>

definition started_by :: "nat \<Rightarrow> goroutine list" where
  "started_by n = (if 4 < n then [GoConfig] else []) @ (if 8 < n then [GoExpose] else [])
     @ (if 10 < n then [GoWebhookServer] else []) @ (if 12 < n then [GoApiServer] else [])
     @ (if 13 < n then [GoManager] else [])"

lemma started_by_rank: "g \<in> set (started_by n) \<longleftrightarrow> [4, 8, 10, 12, 13] ! go_rank g < n"
  by (cases g) (auto simp: started_by_def)

text \<open>A goroutine runs only when all that \<open>main\<close> starts before it run, and they were started in order.\<close>

lemma started_by_order:
  "sorted (started_by n)" "distinct (started_by n)"
  "g \<in> set (started_by n) \<Longrightarrow> h \<le> g \<Longrightarrow> h \<in> set (started_by n)"
  by (simp_all add: started_by_def less_eq_goroutine_def)
     (cases g; cases h; auto split: if_splits)

definition read_from :: "boot_event list \<Rightarrow> cfg_state \<Rightarrow> bool" where
  "read_from evs c \<longleftrightarrow> (\<exists>cm old. ConfigEvent (Some cm) \<in> set evs \<and> cm_Name cm = ConfigMapNameCDConfig
     \<and> cfg_view (mem c) = configured (cm_Data cm) old)"

definition boot_inv :: "boot_env \<Rightarrow> boot_event list \<Rightarrow> boot \<Rightarrow> bool" where
  "boot_inv be evs s \<longleftrightarrow> (let n = bt_pc s; c = rest_state (bt_cfg s) in
     n \<le> 15 \<and> bt_go s = started_by n
     \<and> bt_handlers s = (if 5 < n then operator_handlers (be_order be) else Map.empty)
     \<and> bt_plugins s = (if 9 < n then operator_plugins (be_op be) else Map.empty)
     \<and> (6 < n \<longrightarrow> ControllerInitiated c)
     \<and> (ControllerInitiated c \<longrightarrow> read_from evs c)
     \<and> (\<not> ControllerInitiated c \<longrightarrow> chan_len c ControllerInitCh = 0))"

lemma boot_inv_frame: "boot_frame s t \<Longrightarrow> boot_inv be evs s \<Longrightarrow> boot_inv be evs t"
  by (simp add: boot_inv_def boot_frame_def)

lemma read_from_chan [simp]: "read_from evs (c\<lparr>chan_len := f\<rparr>) = read_from evs c"
  by (simp add: read_from_def)

lemma read_from_more: "read_from evs c \<Longrightarrow> mem d = mem c \<Longrightarrow> read_from (evs @ evs') d"
  by (auto simp: read_from_def)

lemma boot_inv_more: "boot_inv be evs s \<Longrightarrow> boot_inv be (evs @ evs') s"
  by (auto simp: boot_inv_def Let_def intro: read_from_more)

text \<open>
  The invariant goes from one statement of \<open>main\<close> to the next. All statements but the
  starts of goroutines, the registrations and the receive only make calls.
\<close>

definition next_pc :: "boot \<Rightarrow> boot" where
  "next_pc s = s\<lparr>bt_pc := Suc (bt_pc s)\<rparr>"

lemma main_frame_step:
  assumes "boot_frame s t" and "boot_inv be evs s" and "bt_pc s \<in> {0, 1, 2, 3, 7, 11}"
  shows "boot_inv be evs (next_pc t)"
  using assms(3,1,2)
  by (elim insertE emptyE) (simp_all add: boot_inv_def boot_frame_def next_pc_def started_by_def Let_def)

lemma main_nth:
  "main_body be ! 5 = modify (\<lambda>s. s\<lparr>bt_handlers :=
     Config_Add ConfigMapNameCDConfig (ApplyControllerConfigChange (be_order be)) (bt_handlers s)\<rparr>)"
  "main_body be ! 6 = on_cfg (on_rest (receive_ch ControllerInitCh))"
  "main_body be ! 7 = bnd (or_exit (NewExposeController be)) (\<lambda>ec. modify (\<lambda>s. s\<lparr>bt_expose := ec\<rparr>))"
  "main_body be ! 9 = modify (\<lambda>s. s\<lparr>bt_plugins :=
     AddPlugin [EventTypePullRequest, EventTypePush] (Handle (be_op be)) (bt_plugins s)\<rparr>)"
  "main_body be ! 13 = bnd (oext OMgrStart (\<lambda>_. Ok ())) (\<lambda>_. go GoManager)"
  "main_body be ! 14 = bnd (or_exit (mgr_Start (be_os be))) (\<lambda>_. modify (\<lambda>s. s\<lparr>bt_exited := True\<rparr>))"
  by (simp_all add: main_body_def)

text \<open>The statements of \<open>main\<close>: those that only make objects, those that start a goroutine, the others.\<close>

lemma main_frame:
  assumes "(main_body be ! bt_pc s) s = (r, t)" and "bt_pc s \<in> {0, 1, 2, 3, 7, 11}"
  shows "boot_frame s t"
proof (cases "bt_pc s = 7")
  case True
  obtain r1 t1 where n: "or_exit (NewExposeController be) s = (r1, t1)" by fastforce
  then have "boot_frame s t1" by (rule boot_frame.keepsD[OF frame_or_exit[OF frame_NewExposeController]])
  then show ?thesis
    using assms(1) n True by (auto simp: main_nth bnd_def prog_simps boot_frame_def split: res.splits)
next
  case False
  with assms(2) obtain w where "main_body be ! bt_pc s = or_exit (new_object be w)" by (auto simp: main_body_def)
  then show ?thesis using boot_frame.keepsD[OF frame_or_exit[OF frame_new_object]] assms(1) by metis
qed

lemma main_go:
  assumes "(main_body be ! bt_pc s) s = (r, t)" and "bt_pc s \<in> {4, 8, 10, 12}" and "boot_inv be evs s"
  shows "r = Ok () \<and> boot_inv be evs (next_pc t)"
proof -
  obtain g where "main_body be ! bt_pc s = go g" "started_by (Suc (bt_pc s)) = started_by (bt_pc s) @ [g]"
    using assms(2) by (auto simp: main_body_def started_by_def)
  then have "r = Ok () \<and> t = s\<lparr>bt_go := started_by (Suc (bt_pc s))\<rparr>"
    using assms(1,3) by (auto simp: go_def prog_simps boot_inv_def Let_def)
  then show ?thesis
    using assms(2,3) by (elim insertE emptyE) (simp_all add: boot_inv_def next_pc_def Let_def)
qed

lemma main_effect:
  assumes "(main_body be ! bt_pc s) s = (r, t)" and "bt_pc s \<in> {5, 6, 9, 13}" and "boot_inv be evs s" and "r \<noteq> Loops"
  shows "r = Ok () \<and> boot_inv be evs (next_pc t)"
  using assms(2)
proof (elim insertE emptyE)
  assume "bt_pc s = 5"
  then show ?thesis using assms(1,3)
    by (auto simp: main_nth prog_simps boot_inv_def next_pc_def started_by_def Let_def operator_handlers_def)
next
  assume "bt_pc s = 6"
  then show ?thesis using assms(1,3,4)
    by (auto simp: main_nth on_cfg_def on_rest_def receive_ch_def prog_simps boot_inv_def next_pc_def
        started_by_def Let_def split: if_splits)
next
  assume "bt_pc s = 9"
  then show ?thesis using assms(1,3)
    by (auto simp: main_nth prog_simps boot_inv_def next_pc_def started_by_def Let_def operator_plugins_def)
next
  assume "bt_pc s = 13"
  then show ?thesis using assms(1,3)
    by (auto simp: main_nth go_def bnd_def prog_simps boot_inv_def next_pc_def started_by_def Let_def)
qed

text \<open>The last statement waits for the manager; when it returns, the process ends.\<close>

lemma main_last:
  assumes "(main_body be ! 14) s = (r, t)"
  shows "t = s \<or> t = s\<lparr>bt_exited := True\<rparr>" and "r = Ok () \<Longrightarrow> bt_exited t"
  using assms
  by (auto simp: main_nth mgr_Start_def or_exit_def bnd_def attempt_def prog_simps split: res.splits)

lemma boot_exec_main:
  assumes "boot_exec be MainStep s = Some (r, s')" and "r = Ok () \<or> r = Panic p" and "boot_inv be evs s"
  shows "boot_inv be evs s'"
proof -
  have le: "bt_pc s < 15" and run: "(r, s') = bnd (main_body be ! bt_pc s) (\<lambda>_. modify next_pc) s"
    using assms(1) by (auto simp: boot_exec_def main_body_def next_pc_def[abs_def] split: if_splits)
  obtain r0 t where m: "(main_body be ! bt_pc s) s = (r0, t)" by fastforce
  have r0: "r = r0 \<and> s' = (if r0 = Ok () then next_pc t else t)"
    using run m assms(2) by (auto simp: bnd_def prog_simps split: res.splits)
  consider "bt_pc s \<in> {0, 1, 2, 3, 7, 11}" | "bt_pc s \<in> {4, 8, 10, 12}" | "bt_pc s \<in> {5, 6, 9, 13}" | "bt_pc s = 14"
    using le by (auto simp: eval_nat_numeral less_Suc_eq)
  then show ?thesis
  proof cases
    case 1
    with main_frame_step[OF main_frame[OF m 1] assms(3) 1] boot_inv_frame[OF main_frame[OF m 1] assms(3)] r0
    show ?thesis by simp
  next
    case 2
    with main_go[OF m 2 assms(3)] r0 show ?thesis by simp
  next
    case 3
    have "r0 \<noteq> Loops" using r0 assms(2) by auto
    with main_effect[OF m 3 assms(3)] r0 show ?thesis by simp
  next
    case 4
    from main_last(1) m 4 have "t = s \<or> t = s\<lparr>bt_exited := True\<rparr>" by metis
    with assms(3) 4 r0 show ?thesis by (auto simp: boot_inv_def next_pc_def started_by_def Let_def)
  qed
qed

text \<open>The other goroutines keep it.\<close>

lemma boot_exec_config_starts:
  assumes "boot_exec be ConfigStarts s = Some (r, s')" and "boot_inv be evs s"
  shows "boot_inv be evs s'"
proof -
  obtain r1 t where n: "or_exit (newConfigMapClient be) s = (r1, t)" by fastforce
  then have "boot_frame s t" by (rule boot_frame.keepsD[OF frame_or_exit[OF frame_ConfigMapClient]])
  then have "boot_inv be evs t" using assms(2) by (rule boot_inv_frame)
  moreover have "s' = t \<or> s' = t\<lparr>bt_cfg := (bt_cfg t)\<lparr>lastResourceVersions := (\<lambda>_. [])\<rparr>, bt_watching := True\<rparr>"
    using assms(1) n by (auto simp: boot_exec_def Config_Start_def bnd_def prog_simps split: if_splits res.splits)
  ultimately show ?thesis by (auto simp: boot_inv_def Let_def)
qed

text \<open>What an event of the watch does: nothing, or it is remembered, or the configuration is read.\<close>

lemma Config_watch_event:
  assumes "Config_watch hs [ob] s = (r, s')" and "hs = Map.empty \<or> hs = operator_handlers ord" and "mset ord = mset [0..<4]"
  shows "r = Ok () \<and> (s' = s \<or> (\<exists>cm. ob = Some cm \<and> cm_ResourceVersion cm \<noteq> lastResourceVersions s (cm_Name cm) \<and>
    (let t = s\<lparr>lastResourceVersions := (lastResourceVersions s)(cm_Name cm := cm_ResourceVersion cm)\<rparr> in
     s' = t \<and> (hs = Map.empty \<or> cm_Name cm \<noteq> ConfigMapNameCDConfig)
     \<or> hs \<noteq> Map.empty \<and> cm_Name cm = ConfigMapNameCDConfig
       \<and> s' = t\<lparr>rest_state := snd (ApplyControllerConfigChange ord cm (rest_state s))\<rparr>)))"
proof -
  have A: "ApplyControllerConfigChange ord cm x = (Ok (), snd (ApplyControllerConfigChange ord cm x))" for cm x
    using Apply_run[OF assms(3)] by simp
  have h: "operator_handlers ord n = (if n = ConfigMapNameCDConfig then Some (ApplyControllerConfigChange ord) else None)" for n
    by (simp add: operator_handlers_def Config_Add_def)
  then have ne: "operator_handlers ord \<noteq> Map.empty" by (auto simp: fun_eq_iff)
  show ?thesis
  proof (cases ob)
    case None
    then show ?thesis using assms(1) by (simp add: Config_watch_def prog_simps)
  next
    case (Some cm)
    let ?t = "s\<lparr>lastResourceVersions := (lastResourceVersions s)(cm_Name cm := cm_ResourceVersion cm)\<rparr>"
    consider (known) "cm_ResourceVersion cm = lastResourceVersions s (cm_Name cm)"
      | (unhandled) "cm_ResourceVersion cm \<noteq> lastResourceVersions s (cm_Name cm)" "hs (cm_Name cm) = None"
      | (handled) "cm_ResourceVersion cm \<noteq> lastResourceVersions s (cm_Name cm)" "hs = operator_handlers ord"
          "cm_Name cm = ConfigMapNameCDConfig"
      using assms(2) h by (metis option.distinct(1))
    then show ?thesis
    proof cases
      case known
      then show ?thesis
        using assms(1) Some by (simp add: Config_watch_def Config_Reconcile_def bnd_def attempt_def prog_simps)
    next
      case unhandled
      then have "r = Ok () \<and> s' = ?t"
        using assms(1) Some by (simp add: Config_watch_def Config_Reconcile_def bnd_def attempt_def prog_simps)
      moreover have "hs = Map.empty \<or> cm_Name cm \<noteq> ConfigMapNameCDConfig"
        using unhandled(2) assms(2) h by auto
      ultimately show ?thesis using Some unhandled(1) by (simp add: Let_def)
    next
      case handled
      obtain q where q: "ApplyControllerConfigChange ord cm (rest_state s) = (Ok (), q)" using A by blast
      then have "r = Ok () \<and> s' = ?t\<lparr>rest_state := q\<rparr>"
        using assms(1) Some handled
        by (simp add: Config_watch_def Config_Reconcile_def bnd_def attempt_def on_rest_def prog_simps h)
      then show ?thesis using Some handled ne q by (simp add: Let_def)
    qed
  qed
qed

lemma Apply_reads:
  assumes "mset ord = mset [0..<4]" and "cm_Name cm = ConfigMapNameCDConfig" and "ConfigEvent (Some cm) \<in> set evs"
  shows "ControllerInitiated (snd (ApplyControllerConfigChange ord cm c))
    \<and> read_from evs (snd (ApplyControllerConfigChange ord cm c))"
  using assms by (auto simp: Apply_run read_from_def controller_vars_view)

lemma boot_exec_config_event:
  assumes "boot_exec be (ConfigEvent ob) s = Some (r, s')" and "boot_inv be evs s" and "mset (be_order be) = mset [0..<4]"
  shows "boot_inv be (evs @ [ConfigEvent ob]) s'"
proof -
  obtain d where w: "Config_watch (bt_handlers s) [ob] (bt_cfg s) = (r, d)" and s': "s' = s\<lparr>bt_cfg := d\<rparr>"
    using assms(1) by (auto simp: boot_exec_def on_cfg_def split: if_splits prod.splits)
  have hs: "bt_handlers s = Map.empty \<or> bt_handlers s = operator_handlers (be_order be)"
    using assms(2) by (auto simp: boot_inv_def Let_def split: if_splits)
  have inv: "boot_inv be (evs @ [ConfigEvent ob]) s" using assms(2) by (rule boot_inv_more)
  from Config_watch_event[OF w hs assms(3)] consider
      (same) "rest_state d = rest_state (bt_cfg s)"
    | (read) cm where "ob = Some cm" "cm_Name cm = ConfigMapNameCDConfig"
        "rest_state d = snd (ApplyControllerConfigChange (be_order be) cm (rest_state (bt_cfg s)))"
    by (auto simp: Let_def)
  then show ?thesis
  proof cases
    case same
    then show ?thesis using inv by (simp add: boot_inv_def s' Let_def)
  next
    case read
    from Apply_reads[OF assms(3) read(2), of "evs @ [ConfigEvent ob]"] read(1)
    have "ControllerInitiated (rest_state d)" "read_from (evs @ [ConfigEvent ob]) (rest_state d)"
      unfolding read(3) by auto
    then show ?thesis using inv by (simp add: boot_inv_def s' Let_def)
  qed
qed

lemma boot_exec_watcher:
  assumes "boot_exec be (WatcherStarts rec c) s = Some (r, s')" and "boot_inv be evs s"
  shows "boot_inv be evs s'"
proof -
  have c: "c \<noteq> ControllerInitCh" and run: "startResourceWatcher be rec c s = (r, s')"
    using assms(1) by (auto simp: boot_exec_def split: if_splits)
  let ?c = "rest_state (bt_cfg s)"
  let ?d = "?c\<lparr>chan_len := (chan_len ?c)(c := 0), chan_cap := (chan_cap ?c)(c := 1),
    controllerConfigUpdateChan := controllerConfigUpdateChan ?c @ [c]\<rparr>"
  let ?t = "s\<lparr>bt_cfg := (bt_cfg s)\<lparr>rest_state := ?d\<rparr>\<rparr>"
  let ?k = "bnd (attempt (on_objects (gvr_Get (be_rest be) (er_client rec) (er_resourceName rec) [] (er_obj rec)))) (\<lambda>r.
    case r of Inl e \<Rightarrow> crash (err_msg e) | Inr _ \<Rightarrow> modify (\<lambda>s. s\<lparr>bt_watchers := bt_watchers s @ [er_kind rec]\<rparr>))"
  have m: "on_cfg (on_rest (make_update_ch c)) s = (Ok (), ?t)"
    by (simp add: on_cfg_def on_rest_def make_update_ch_def RegisterControllerConfigUpdateChan_def bnd_def prog_simps)
  have "boot_inv be evs ?t"
    using assms(2) c by (simp add: boot_inv_def Let_def read_from_def)
  moreover have "boot_frame ?t s'"
  proof (rule boot_frame.keepsD)
    have "boot_frame.keeps (case r of Inl e \<Rightarrow> crash (err_msg e)
        | Inr _ \<Rightarrow> modify (\<lambda>s. s\<lparr>bt_watchers := bt_watchers s @ [er_kind rec]\<rparr>))" for r :: "error + unit"
      by (cases r) (simp_all add: boot_frame.keeps_crash boot_frame.keeps_modify boot_frame_def)
    then show "boot_frame.keeps ?k" by (intro boot_frame.keeps_bnd frame_intros)
    show "?k ?t = (r, s')"
      using run unfolding startResourceWatcher_def bnd_Ok[of "on_cfg (on_rest (make_update_ch c))", OF m] .
  qed
  ultimately show ?thesis by (rule boot_inv_frame[rotated])
qed

lemma boot_step_inv:
  assumes "boot_step be s ev s'" and "boot_inv be evs s" and "mset (be_order be) = mset [0..<4]"
  shows "boot_inv be (evs @ [ev]) s'"
proof -
  obtain r t where run: "boot_exec be ev s = Some (r, t)" "r = Ok () \<or> (\<exists>p. r = Panic p)"
    and t: "s' = t \<or> s' = t\<lparr>bt_exited := True\<rparr>"
    using assms(1) by (cases rule: boot_step.cases) auto
  have "boot_inv be (evs @ [ev]) t"
  proof (cases ev)
    case MainStep
    with run assms(2) have "boot_inv be evs t" by (metis boot_exec_main)
    then show ?thesis by (rule boot_inv_more)
  next
    case ConfigStarts
    with run(1) assms(2) have "boot_inv be evs t" by (metis boot_exec_config_starts)
    then show ?thesis by (rule boot_inv_more)
  next
    case (ConfigEvent ob)
    with run(1) assms(2,3) show ?thesis by (metis boot_exec_config_event)
  next
    case (WatcherStarts rec c)
    with run(1) assms(2) have "boot_inv be evs t" by (metis boot_exec_watcher)
    then show ?thesis by (rule boot_inv_more)
  qed
  then show ?thesis using t by (auto simp: boot_inv_def Let_def)
qed

lemma boot_run_inv:
  assumes "boot_run be s evs t" and "boot_start s" and "mset (be_order be) = mset [0..<4]"
  shows "boot_inv be evs t"
  using assms(1,2)
proof (induction rule: boot_run.induct)
  case (here s)
  then show ?case by (auto simp: boot_start_def cfg_start_def boot_inv_def started_by_def Let_def)
next
  case (more s evs t ev u)
  then show ?case using boot_step_inv[OF more(2) _ assms(3)] by blast
qed

end
