(* ===== verification/CertsSpec.thy ===== *)
theory CertsSpec
  imports Certs ApiSpec
begin

text \<open>
  The start of the API server and what it means for its requests: the server opens only
  with the key pair whose authority the cluster was told, and a request that makes the
  operator act comes from a client whose certificate the cluster's proxy authority verifies.
\<close>

section \<open>A sample start\<close>

definition sample_os :: os_env where
  "sample_os = \<lparr>o_stat = (\<lambda>_ _. StatMissing), o_read = (\<lambda>_ _. Err (Fail ''no file'')), o_getenv = (\<lambda>_ _. []),
     o_mkdir = (\<lambda>_ _. Ok ()), o_write = (\<lambda>_ _ _. Ok ()), o_create_certs = (\<lambda>_ _ _. Ok (''key'', ''crt'', ''ca'')),
     o_get_apiservice = (\<lambda>_ _. Ok \<lparr>as_CABundle = [], as_Rest = ''rest''\<rparr>), o_update_apiservice = (\<lambda>_ _. Ok ()),
     o_get_cm = (\<lambda>_ _ _. Ok [k8sConfigMapKey \<mapsto> ''pem'']), o_parse_certs = (\<lambda>p. Ok [p]), o_wait_cache = (\<lambda>_. True),
     o_listen_tls = (\<lambda>_. Err ErrServerClosed), o_listen = (\<lambda>_. Ok ()), o_new = (\<lambda>_ _. Ok ()),
     o_mgr_start = (\<lambda>_. Loops)\<rparr>"

definition sample_config :: tls_config where
  "sample_config = \<lparr>tls_ClientCAs = {''pem''}, tls_ClientAuth = VerifyClientCertIfGiven\<rparr>"

definition sample_start_log :: "os_call list" where
  "sample_start_log =
     [OListenTLS api_addr sample_config crtPath keyPath, OGetConfigMap ''kube-system'' k8sConfigMapName,
      OUpdateAPIService \<lparr>as_CABundle = ''ca'', as_Rest = ''rest''\<rparr>, OGetAPIService APIServiceName,
      OWriteFile crtPath ''crt'' 420, OWriteFile keyPath ''key'' 420, OCreateCerts serviceName ''cd-system'' 1,
      OGetenv ''NAMESPACE'', OStat nsPath, OMkdirAll certDir 511, OWaitCache]"

lemma sample_start: "api_Start sample_os \<lparr>os_log = []\<rparr> = (Ok (), \<lparr>os_log = sample_start_log\<rparr>)"
  by (simp add: api_Start_def createCert_def write_file_def Namespace_def FileExists_def tlsConfig_def getCAPool_def
      or_exit_def bnd_def attempt_def prog_simps Let_def sample_os_def sample_start_log_def sample_config_def
      AddCert_def ErrServerClosed_def)

section \<open>Properties\<close>

text \<open>The API server opens its port only after a complete start: the key and the certificate
  it serves were written to its two files by this start, in one piece, and the authority that
  came with them was stored in the APIService object, so that the cluster trusts the server it
  talks to. The client authorities are exactly those of the cluster's authentication
  ConfigMap.\<close>

theorem api_Start_serves_own_ca:
  assumes "api_Start oe s = (r, s')" and "s' = s\<lparr>os_log := cs @ os_log s\<rparr>" and "OListenTLS a c p q \<in> set cs"
  shows "\<exists>ns key crt ca svc pre h dat pem certs.
    cs = [OListenTLS a c p q, OGetConfigMap ''kube-system'' k8sConfigMapName, OUpdateAPIService (svc\<lparr>as_CABundle := ca\<rparr>),
          OGetAPIService APIServiceName, OWriteFile p crt 420, OWriteFile q key 420, OCreateCerts serviceName ns 1] @ pre
    \<and> o_create_certs oe (pre @ os_log s) serviceName ns = Ok (key, crt, ca)
    \<and> o_get_cm oe h ''kube-system'' k8sConfigMapName = Ok dat \<and> dat k8sConfigMapKey = Some pem
    \<and> o_parse_certs oe pem = Ok certs \<and> tls_ClientCAs c = set certs"
proof -
  from api_Start_listens[OF assms] obtain sp where prep: "api_prepare oe s = (Ok c, sp)"
    and l: "a = api_addr" "p = crtPath" "q = keyPath" "s' = sp\<lparr>os_log := OListenTLS a c p q # os_log sp\<rparr>" by blast
  from api_prepare_Ok[OF prep] obtain s2 where
    c: "createCert oe (s\<lparr>os_log := OWaitCache # os_log s\<rparr>) = (Ok (), s2)" and t: "tlsConfig oe s2 = (Ok c, sp)" by blast
  from createCert_Ok[OF c] obtain ns key crt ca svc nscalls where
    s2: "os_log s2 = OUpdateAPIService (svc\<lparr>as_CABundle := ca\<rparr>) # OGetAPIService APIServiceName
       # OWriteFile crtPath crt 420 # OWriteFile keyPath key 420 # OCreateCerts serviceName ns 1 # nscalls
       @ OMkdirAll certDir 511 # OWaitCache # os_log s"
    and m: "o_create_certs oe (nscalls @ OMkdirAll certDir 511 # OWaitCache # os_log s) serviceName ns = Ok (key, crt, ca)"
    by (metis os_st.select_convs(1) os_st.simps(2) os_st.surjective os_st.update_convs(1))
  have cs: "cs = [OListenTLS a c p q, OGetConfigMap ''kube-system'' k8sConfigMapName, OUpdateAPIService (svc\<lparr>as_CABundle := ca\<rparr>),
          OGetAPIService APIServiceName, OWriteFile p crt 420, OWriteFile q key 420, OCreateCerts serviceName ns 1]
          @ nscalls @ [OMkdirAll certDir 511, OWaitCache]"
    using assms(2) l s2 tlsConfig_Ok[OF t] by (auto dest!: arg_cong[where f = os_log])
  with m tlsConfig_Ok[OF t] show ?thesis by fastforce
qed

theorem api_Start_serves_own_ca_witness:
  "\<exists>ns key crt ca svc pre. sample_start_log = [OListenTLS api_addr sample_config crtPath keyPath, OGetConfigMap ''kube-system'' k8sConfigMapName,
      OUpdateAPIService (svc\<lparr>as_CABundle := ca\<rparr>), OGetAPIService APIServiceName, OWriteFile crtPath crt 420,
      OWriteFile keyPath key 420, OCreateCerts serviceName ns 1] @ pre"
proof -
  have "OListenTLS api_addr sample_config crtPath keyPath \<in> set sample_start_log" by (simp add: sample_start_log_def)
  from api_Start_serves_own_ca[OF sample_start _ this] show ?thesis by simp blast
qed

text \<open>C39: Whoever makes the operator act through the API server holds a certificate that the proxy
  authority of the cluster signed: when the server that \<open>Start\<close> opened serves a request whose
  handshake succeeded and the operator does anything, the client presented a chain that
  verifies against the authorities of the cluster's authentication ConfigMap, and exactly one
  access review was created, for the user and groups in the headers of that client, which
  allowed updating the sync of the very Application that is then synced.\<close>

theorem api_acts_for_proxy_only:
  assumes "api_Start oe b = (rb, b')" and "b' = b\<lparr>os_log := cs @ os_log b\<rparr>" and "OListenTLS a c p q \<in> set cs"
    and "handshake verify c chain = Some n" and "req_TLS req = Some n"
    and "mux_ok dispatch" and "api_serve dispatch ae server_tree req s = (r, s')" and "op_st s' \<noteq> op_st s"
  shows "\<exists>h dat pem certs sar reason vars. chain \<noteq> [] \<and> verify (set certs) chain
    \<and> o_get_cm oe h ''kube-system'' k8sConfigMapName = Ok dat \<and> dat k8sConfigMapKey = Some pem \<and> o_parse_certs oe pem = Ok certs
    \<and> reviews s' = sar # reviews s \<and> ae_review ae (reviews s) sar = Ok (True, reason)
    \<and> GetUserName (req_Header req) = Ok (sar_User sar) \<and> GetUserGroup (req_Header req) = Ok (sar_Groups sar)
    \<and> sar_Group sar = APIGroup \<and> sar_Resource sar = ''applications'' \<and> sar_Subresource sar = ''sync'' \<and> sar_Verb sar = ''update''
    \<and> vars ''namespace'' = Some (sar_Namespace sar) \<and> vars ''applicationName'' = Some (sar_Name sar)
    \<and> (r, op_st s') = updateDeploy (ae_op ae) vars (op_st s)"
proof -
  from api_Start_listens[OF assms(1-3)] obtain sp where prep: "api_prepare oe b = (Ok c, sp)" by blast
  from api_prepare_Ok[OF prep] obtain b2 where t: "tlsConfig oe b2 = (Ok c, sp)" by blast
  from served_sync[OF assms(6-8)] obtain m sar reason vars where m: "req_TLS req = Some (Suc m)"
    and sar: "reviews s' = sar # reviews s" "ae_review ae (reviews s) sar = Ok (True, reason)"
      "GetUserName (req_Header req) = Ok (sar_User sar)" "GetUserGroup (req_Header req) = Ok (sar_Groups sar)"
      "sar_Group sar = APIGroup" "sar_Resource sar = ''applications''" "sar_Subresource sar = ''sync''" "sar_Verb sar = ''update''"
      "vars ''namespace'' = Some (sar_Namespace sar)" "vars ''applicationName'' = Some (sar_Name sar)"
      "(r, op_st s') = updateDeploy (ae_op ae) vars (op_st s)" by blast
  have "chain \<noteq> [] \<and> verify (tls_ClientCAs c) chain"
    using handshake_verified[of c verify chain m] tlsConfig_Ok[OF t] assms(4,5) m by simp
  with sar tlsConfig_Ok[OF t] show ?thesis by fastforce
qed

theorem api_acts_for_proxy_only_witness:
  "\<exists>sar reason. ae_review sample_api_env [] sar = Ok (True, reason) \<and> sar_User sar = ''alice''"
proof -
  have l: "OListenTLS api_addr sample_config crtPath keyPath \<in> set sample_start_log" by (simp add: sample_start_log_def)
  have h: "handshake (\<lambda>pool certs. set certs \<subseteq> pool) sample_config [''pem''] = Some 1"
    by (simp add: handshake_def sample_config_def)
  have "\<lparr>os_log = sample_start_log\<rparr> = \<lparr>os_log = []\<rparr>\<lparr>os_log := sample_start_log @ os_log \<lparr>os_log = []\<rparr>\<rparr>" by simp
  moreover have "req_TLS (sample_sync_request []) = Some 1" by (simp add: sample_sync_request_def)
  ultimately have "\<exists>sar reason. ae_review sample_api_env (reviews sample_api_st) sar = Ok (True, reason)
      \<and> GetUserName (req_Header (sample_sync_request [])) = Ok (sar_User sar)"
    using api_acts_for_proxy_only[OF sample_start _ l h _ sample_mux_ok surjective_pairing sample_sync_served] by blast
  then show ?thesis by (auto simp: sample_api_st_def GetUserName_def sample_sync_request_def userHeader_def)
qed

end
