(* ===== verification/StartupSpec.thy ===== *)
theory StartupSpec
  imports StartupOrder CertsSpec
begin

text \<open>
  What the order of \<open>main\<close> gives, whatever the goroutines do in between: no component
  runs before the configuration has been read, and the webhook server has its plugin
  from the start. And what it does not give: the watch of the ConfigMaps starts before
  the handler is added, and an event in between is lost.
\<close>

section \<open>Waiting for the first configuration\<close>

text \<open>The libraries construct what they are asked for, outside a cluster.\<close>

definition os_fine :: "boot_env \<Rightarrow> bool" where
  "os_fine be \<longleftrightarrow> (\<forall>h w. o_new (be_os be) h w = Ok ()) \<and> (\<forall>h p. o_stat (be_os be) h p = StatMissing)"

lemma boot_run_exec:
  "boot_run be s evs t \<Longrightarrow> boot_exec be ev t = Some (Ok (), u) \<Longrightarrow> boot_run be s (evs @ [ev]) u"
  by (blast intro: boot_run.more boot_step.runs)

lemma fine_new_object:
  "os_fine be \<Longrightarrow> or_exit (new_object be w) s = (Ok (), s\<lparr>os_log := ONew w # os_log s\<rparr>)"
  by (simp add: os_fine_def or_exit_def new_object_def os_new_def bnd_def attempt_def prog_simps)

lemma early_statements:
  assumes "os_fine be" and "bt_pc s = 0" and "\<not> bt_exited s" and "n \<le> 4"
  shows "\<exists>l. boot_run be s (replicate n MainStep) (s\<lparr>os_log := l, bt_pc := n\<rparr>)"
  using assms(4)
proof (induction n)
  case 0
  have "s\<lparr>os_log := os_log s, bt_pc := 0\<rparr> = s" using assms(2) by simp
  then show ?case using boot_run.here[of be s] by (metis replicate_0)
next
  case (Suc n)
  then obtain l where run: "boot_run be s (replicate n MainStep) (s\<lparr>os_log := l, bt_pc := n\<rparr>)" by auto
  have "n \<in> {0, 1, 2, 3}" using Suc(2) by (auto simp: eval_nat_numeral le_Suc_eq)
  then obtain w where "main_body be ! n = or_exit (new_object be w)" by (auto simp: main_body_def)
  moreover have "n < length (main_body be)" using Suc(2) by (simp add: main_body_def)
  ultimately have "boot_exec be MainStep (s\<lparr>os_log := l, bt_pc := n\<rparr>) = Some (Ok (), s\<lparr>os_log := ONew w # l, bt_pc := Suc n\<rparr>)"
    using assms(3) by (simp add: boot_exec_def bnd_def fine_new_object[OF assms(1)] prog_simps)
  from boot_run_exec[OF run this] show ?case by (auto simp: replicate_append_same)
qed

text \<open>The state in which \<open>main\<close> waits while the version of the ConfigMap is known already.\<close>

definition stuck :: "boot_env \<Rightarrow> string \<Rightarrow> boot \<Rightarrow> bool" where
  "stuck be v s \<longleftrightarrow> bt_pc s = 6 \<and> bt_go s = [GoConfig] \<and> bt_watching s \<and> \<not> bt_exited s
     \<and> bt_handlers s = operator_handlers (be_order be)
     \<and> lastResourceVersions (bt_cfg s) ConfigMapNameCDConfig = v
     \<and> chan_len (rest_state (bt_cfg s)) ControllerInitCh = 0
     \<and> \<not> ControllerInitiated (rest_state (bt_cfg s)) \<and> 0 < chan_cap (rest_state (bt_cfg s)) ControllerInitCh"

definition config_watching :: "boot \<Rightarrow> boot" where
  "config_watching s = s\<lparr>os_log := OGetenv ''NAMESPACE'' # OStat nsPath # ONew ''clientset'' # os_log s,
     bt_cfg := (bt_cfg s)\<lparr>lastResourceVersions := (\<lambda>_. [])\<rparr>, bt_watching := True\<rparr>"

lemma fine_Namespace:
  assumes "os_fine be"
  shows "\<exists>ns. Namespace (be_os be) s = (Ok ns, s\<lparr>os_log := OGetenv ''NAMESPACE'' # OStat nsPath # os_log s\<rparr>)"
  using assms by (auto simp: os_fine_def Namespace_def FileExists_def bnd_def prog_simps)

lemma fine_Config_Start:
  assumes "os_fine be" shows "Config_Start be s = (Ok (), config_watching s)"
proof -
  obtain ns where n: "Namespace (be_os be) (s\<lparr>os_log := ONew ''clientset'' # os_log s\<rparr>)
      = (Ok ns, s\<lparr>os_log := OGetenv ''NAMESPACE'' # OStat nsPath # ONew ''clientset'' # os_log s\<rparr>)"
    using fine_Namespace[OF assms, of "s\<lparr>os_log := ONew ''clientset'' # os_log s\<rparr>"] by auto
  have "new_object be ''clientset'' s = (Ok (), s\<lparr>os_log := ONew ''clientset'' # os_log s\<rparr>)"
    using assms by (simp add: os_fine_def new_object_def os_new_def prog_simps)
  then show ?thesis
    using n by (simp add: Config_Start_def newConfigMapClient_def or_exit_def bnd_def attempt_def prog_simps config_watching_def)
qed

lemma early_event_stuck:
  assumes "os_fine be" and "boot_start s0" and "cm_Name cm = ConfigMapNameCDConfig" and "cm_ResourceVersion cm \<noteq> []"
  shows "\<exists>s. boot_run be s0 (replicate 5 MainStep @ [ConfigStarts, ConfigEvent (Some cm), MainStep]) s
    \<and> stuck be (cm_ResourceVersion cm) s"
proof -
  have st: "bt_pc s0 = 0" "\<not> bt_exited s0" "bt_go s0 = []" "bt_handlers s0 = Map.empty" "\<not> bt_watching s0"
    "cfg_start (rest_state (bt_cfg s0))"
    using assms(2) by (simp_all add: boot_start_def)
  obtain l where run: "boot_run be s0 (replicate 4 MainStep) (s0\<lparr>os_log := l, bt_pc := 4\<rparr>)"
    using early_statements[OF assms(1) st(1,2)] by blast
  let ?s5 = "s0\<lparr>os_log := l, bt_pc := 5, bt_go := [GoConfig]\<rparr>"
  let ?s6 = "config_watching ?s5"
  let ?s7 = "?s6\<lparr>bt_cfg := (bt_cfg s0)\<lparr>lastResourceVersions := (\<lambda>_. [])(cm_Name cm := cm_ResourceVersion cm)\<rparr>\<rparr>"
  let ?s8 = "?s7\<lparr>bt_handlers := operator_handlers (be_order be), bt_pc := 6\<rparr>"
  have "boot_exec be MainStep (s0\<lparr>os_log := l, bt_pc := 4\<rparr>) = Some (Ok (), ?s5)"
    using st by (simp add: boot_exec_def main_body_def go_def bnd_def prog_simps)
  note run = boot_run_exec[OF run this]
  have "boot_exec be ConfigStarts ?s5 = Some (Ok (), ?s6)"
    using st by (simp add: boot_exec_def fine_Config_Start[OF assms(1)])
  note run = boot_run_exec[OF run this]
  have "boot_exec be (ConfigEvent (Some cm)) ?s6 = Some (Ok (), ?s7)"
    using st assms(4)
    by (simp add: boot_exec_def on_cfg_def Config_watch_def Config_Reconcile_def bnd_def attempt_def prog_simps config_watching_def)
  note run = boot_run_exec[OF run this]
  have "boot_exec be MainStep ?s7 = Some (Ok (), ?s8)"
    using st by (simp add: boot_exec_def main_body_def bnd_def prog_simps operator_handlers_def config_watching_def)
  note run = boot_run_exec[OF run this]
  moreover have "stuck be (cm_ResourceVersion cm) ?s8"
    using st assms(3) by (simp add: stuck_def cfg_start_def config_watching_def)
  moreover have "((replicate 4 MainStep @ [MainStep]) @ [ConfigStarts]) @ [ConfigEvent (Some cm)] @ [MainStep]
      = replicate 5 MainStep @ [ConfigStarts, ConfigEvent (Some cm), MainStep]"
    by (simp add: eval_nat_numeral)
  ultimately show ?thesis by (metis append.assoc)
qed

lemma handler_in_time:
  assumes "os_fine be" and "boot_start s0"
  shows "\<exists>s. boot_run be s0 (replicate 6 MainStep @ [ConfigStarts]) s \<and> stuck be [] s"
proof -
  have st: "bt_pc s0 = 0" "\<not> bt_exited s0" "bt_go s0 = []" "bt_handlers s0 = Map.empty" "\<not> bt_watching s0"
    "cfg_start (rest_state (bt_cfg s0))"
    using assms(2) by (simp_all add: boot_start_def)
  obtain l where run: "boot_run be s0 (replicate 4 MainStep) (s0\<lparr>os_log := l, bt_pc := 4\<rparr>)"
    using early_statements[OF assms(1) st(1,2)] by blast
  let ?s5 = "s0\<lparr>os_log := l, bt_pc := 5, bt_go := [GoConfig]\<rparr>"
  let ?s6 = "s0\<lparr>os_log := l, bt_pc := 6, bt_go := [GoConfig], bt_handlers := operator_handlers (be_order be)\<rparr>"
  have "boot_exec be MainStep (s0\<lparr>os_log := l, bt_pc := 4\<rparr>) = Some (Ok (), ?s5)"
    using st by (simp add: boot_exec_def main_body_def go_def bnd_def prog_simps)
  note run = boot_run_exec[OF run this]
  have "boot_exec be MainStep ?s5 = Some (Ok (), ?s6)"
    using st by (simp add: boot_exec_def main_body_def bnd_def prog_simps operator_handlers_def)
  note run = boot_run_exec[OF run this]
  let ?s7 = "config_watching ?s6"
  have "boot_exec be ConfigStarts ?s6 = Some (Ok (), ?s7)"
    using st by (simp add: boot_exec_def fine_Config_Start[OF assms(1)])
  note run = boot_run_exec[OF run this]
  moreover have "stuck be [] ?s7" using st by (simp add: stuck_def cfg_start_def config_watching_def)
  moreover have "((replicate 4 MainStep @ [MainStep]) @ [MainStep]) @ [ConfigStarts] = replicate 6 MainStep @ [ConfigStarts]"
    by (simp add: eval_nat_numeral)
  ultimately show ?thesis by metis
qed

lemma stuck_step:
  assumes "boot_step be s ev t" and "stuck be v s" and "mset (be_order be) = mset [0..<4]"
    and "\<And>cm. ev = ConfigEvent (Some cm) \<Longrightarrow> cm_Name cm = ConfigMapNameCDConfig \<Longrightarrow> cm_ResourceVersion cm = v"
  shows "stuck be v t"
proof -
  obtain r u where run: "boot_exec be ev s = Some (r, u)" and r: "r = Ok () \<and> t = u \<or> (\<exists>p. r = Panic p)"
    using assms(1) by (cases rule: boot_step.cases) auto
  note st = assms(2)[unfolded stuck_def]
  show ?thesis
  proof (cases ev)
    case MainStep
    then show ?thesis
      using run r st by (auto simp: boot_exec_def main_body_def on_cfg_def on_rest_def receive_ch_def bnd_def)
  next
    case ConfigStarts
    then show ?thesis using run st by (simp add: boot_exec_def)
  next
    case (WatcherStarts rec c)
    then show ?thesis using run st by (simp add: boot_exec_def)
  next
    case (ConfigEvent ob)
    obtain d where w: "Config_watch (bt_handlers s) [ob] (bt_cfg s) = (r, d)" and u: "u = s\<lparr>bt_cfg := d\<rparr>"
      using run ConfigEvent by (auto simp: boot_exec_def on_cfg_def split: if_splits prod.splits)
    have ne: "operator_handlers (be_order be) \<noteq> Map.empty" by (auto simp: operator_handlers_def Config_Add_def fun_eq_iff)
    from Config_watch_event[OF w _ assms(3)] st have "r = Ok ()" and
      ev: "d = bt_cfg s \<or> (\<exists>cm. ob = Some cm \<and> cm_ResourceVersion cm \<noteq> lastResourceVersions (bt_cfg s) (cm_Name cm)
        \<and> (cm_Name cm \<noteq> ConfigMapNameCDConfig \<longrightarrow>
          d = (bt_cfg s)\<lparr>lastResourceVersions := (lastResourceVersions (bt_cfg s))(cm_Name cm := cm_ResourceVersion cm)\<rparr>))"
      using ne by (auto simp: Let_def)
    have "d = bt_cfg s \<or> (\<exists>cm. ob = Some cm \<and> cm_Name cm \<noteq> ConfigMapNameCDConfig
         \<and> d = (bt_cfg s)\<lparr>lastResourceVersions := (lastResourceVersions (bt_cfg s))(cm_Name cm := cm_ResourceVersion cm)\<rparr>)"
      using ev ConfigEvent assms(4) st by metis
    then show ?thesis using r u st \<open>r = Ok ()\<close> by (auto simp: stuck_def)
  qed
qed

lemma stuck_run:
  assumes "boot_run be s evs t" and "stuck be v s" and "mset (be_order be) = mset [0..<4]"
    and "\<forall>cm. ConfigEvent (Some cm) \<in> set evs \<longrightarrow> cm_Name cm = ConfigMapNameCDConfig \<longrightarrow> cm_ResourceVersion cm = v"
  shows "stuck be v t"
  using assms(1,2,4)
proof (induction rule: boot_run.induct)
  case (more s evs t ev u)
  from more.prems(2) have old: "\<forall>cm. ConfigEvent (Some cm) \<in> set (evs @ [ev]) \<longrightarrow> cm_Name cm = ConfigMapNameCDConfig
      \<longrightarrow> cm_ResourceVersion cm = v" .
  have "\<forall>cm. ConfigEvent (Some cm) \<in> set evs \<longrightarrow> cm_Name cm = ConfigMapNameCDConfig \<longrightarrow> cm_ResourceVersion cm = v"
    using old unfolding set_append by blast
  then have "stuck be v t" by (rule more.IH[OF more.prems(1)])
  then show ?case
  proof (rule stuck_step[OF more.hyps(2) _ assms(3)])
    fix cm assume "ev = ConfigEvent (Some cm)" "cm_Name cm = ConfigMapNameCDConfig"
    moreover from this have "ConfigEvent (Some cm) \<in> set (evs @ [ev])" by simp
    ultimately show "cm_ResourceVersion cm = v" using old by blast
  qed
qed

text \<open>A new version sets \<open>main\<close> going.\<close>

lemma stuck_goes_on:
  assumes "stuck be v s" and "mset (be_order be) = mset [0..<4]"
    and "cm_Name cm = ConfigMapNameCDConfig" and "cm_ResourceVersion cm \<noteq> v"
  shows "\<exists>t. boot_run be s [ConfigEvent (Some cm), MainStep] t \<and> bt_pc t = 7 \<and> \<not> bt_exited t"
proof -
  note st = assms(1)[unfolded stuck_def]
  let ?c = "rest_state (bt_cfg s)"
  obtain c where c: "ApplyControllerConfigChange (be_order be) cm ?c = (Ok (), c)"
    and tok: "0 < chan_len c ControllerInitCh"
    using st by (auto simp: Apply_run[OF assms(2)] told_def)
  let ?u = "s\<lparr>bt_cfg := (bt_cfg s)\<lparr>lastResourceVersions := (lastResourceVersions (bt_cfg s))(cm_Name cm := cm_ResourceVersion cm),
    rest_state := c\<rparr>\<rparr>"
  have h: "operator_handlers (be_order be) ConfigMapNameCDConfig = Some (ApplyControllerConfigChange (be_order be))"
    by (simp add: operator_handlers_def Config_Add_def)
  have "boot_exec be (ConfigEvent (Some cm)) s = Some (Ok (), ?u)"
    using st assms(3,4) c h
    by (simp add: boot_exec_def on_cfg_def Config_watch_def Config_Reconcile_def bnd_def attempt_def on_rest_def prog_simps)
  note run = boot_run_exec[OF boot_run.here this]
  have "\<exists>t. boot_exec be MainStep ?u = Some (Ok (), t) \<and> bt_pc t = 7 \<and> \<not> bt_exited t"
    using st tok by (simp add: boot_exec_def main_body_def on_cfg_def on_rest_def receive_ch_def bnd_def prog_simps)
  then show ?thesis using boot_run_exec[OF run] by fastforce
qed

section \<open>Running to the end\<close>

text \<open>After the first configuration nothing can stop \<open>main\<close> but a constructor that fails.\<close>

lemma fine_NewExposeController:
  assumes "os_fine be" and "\<forall>c. re_new (be_rest be) c = Ok ()"
  shows "\<exists>ec. fst (or_exit (NewExposeController be) s) = Ok ec"
proof -
  obtain ns where n: "Namespace (be_os be) s = (Ok ns, s\<lparr>os_log := OGetenv ''NAMESPACE'' # OStat nsPath # os_log s\<rparr>)"
    using fine_Namespace[OF assms(1)] by blast
  have "\<exists>c. NewGroupVersionResourceClient (be_rest be) (be_config be) ns gvr = Ok c" for gvr
    using assms(2) by (cases gvr) (simp add: NewGroupVersionResourceClient_def Let_def)
  then obtain f where "NewGroupVersionResourceClient (be_rest be) (be_config be) ns gvr = Ok (f gvr)" for gvr by metis
  then show ?thesis
    using n by (simp add: or_exit_def NewExposeController_def bnd_def attempt_def prog_simps on_objects_def on_heap_def alloc_def)
qed

lemma late_statement:
  assumes "os_fine be" and "\<forall>c. re_new (be_rest be) c = Ok ()" and "7 \<le> bt_pc s" "bt_pc s < 14" "\<not> bt_exited s"
  shows "\<exists>t. boot_exec be MainStep s = Some (Ok (), t) \<and> bt_pc t = Suc (bt_pc s) \<and> \<not> bt_exited t"
proof -
  consider "bt_pc s = 7" | "bt_pc s \<in> {8, 9, 10, 12, 13}" | "bt_pc s = 11"
    using assms(3,4) by (auto simp: eval_nat_numeral less_Suc_eq le_Suc_eq)
  then show ?thesis
  proof cases
    case 1
    obtain ec t where n: "or_exit (NewExposeController be) s = (Ok ec, t)"
      using fine_NewExposeController[OF assms(1,2), of s] by (metis prod.collapse)
    have "boot_frame s t" by (rule boot_frame.keepsD[OF frame_or_exit[OF frame_NewExposeController] n])
    then show ?thesis
      using 1 n assms(5) by (simp add: boot_exec_def main_body_def bnd_def prog_simps boot_frame_def)
  next
    case 2
    then show ?thesis
      using assms(5)
      by (elim insertE emptyE) (simp_all add: boot_exec_def main_body_def go_def bnd_def prog_simps)
  next
    case 3
    then show ?thesis
      using assms(5) by (simp add: boot_exec_def main_body_def bnd_def prog_simps fine_new_object[OF assms(1)])
  qed
qed

lemma late_statements:
  assumes "os_fine be" and "\<forall>c. re_new (be_rest be) c = Ok ()" and "bt_pc s = 7" "\<not> bt_exited s" and "n \<le> 7"
  shows "\<exists>t. boot_run be s (replicate n MainStep) t \<and> bt_pc t = 7 + n \<and> \<not> bt_exited t"
  using assms(5)
proof (induction n)
  case 0
  then show ?case using assms(3,4) boot_run.here[of be s] by (intro exI[of _ s]) simp
next
  case (Suc n)
  then obtain t where t: "boot_run be s (replicate n MainStep) t" "bt_pc t = 7 + n" "\<not> bt_exited t" by auto
  then obtain u where "boot_exec be MainStep t = Some (Ok (), u)" "bt_pc u = Suc (bt_pc t)" "\<not> bt_exited u"
    using late_statement[OF assms(1,2), of t] Suc(2) by auto
  with boot_run_exec[OF t(1), of MainStep u] t(2) show ?case by (auto simp: replicate_append_same)
qed

lemma news_completes:
  assumes "os_fine be" and "\<forall>c. re_new (be_rest be) c = Ok ()" and "mset (be_order be) = mset [0..<4]" and "boot_start s0"
    and "cm_Name cm = ConfigMapNameCDConfig" and "cm_ResourceVersion cm \<noteq> []"
  shows "\<exists>s. boot_run be s0 (replicate 6 MainStep @ [ConfigStarts, ConfigEvent (Some cm)] @ replicate 8 MainStep) s
    \<and> bt_go s = [GoConfig, GoExpose, GoWebhookServer, GoApiServer, GoManager]"
proof -
  obtain s where s: "boot_run be s0 (replicate 6 MainStep @ [ConfigStarts]) s" "stuck be [] s"
    using handler_in_time[OF assms(1,4)] by blast
  obtain t where t: "boot_run be s [ConfigEvent (Some cm), MainStep] t" "bt_pc t = 7" "\<not> bt_exited t"
    using stuck_goes_on[OF s(2) assms(3,5,6)] by blast
  obtain u where u: "boot_run be t (replicate 7 MainStep) u" "bt_pc u = 14"
    using late_statements[OF assms(1,2) t(2,3), of 7] by auto
  have "boot_run be s0 ((replicate 6 MainStep @ [ConfigStarts]) @ [ConfigEvent (Some cm), MainStep] @ replicate 7 MainStep) u"
    by (rule boot_run_trans[OF boot_run_trans[OF u(1) t(1)] s(1)])
  moreover have "(replicate 6 MainStep @ [ConfigStarts]) @ [ConfigEvent (Some cm), MainStep] @ replicate 7 MainStep
      = replicate 6 MainStep @ [ConfigStarts, ConfigEvent (Some cm)] @ replicate 8 MainStep"
    by (simp add: eval_nat_numeral)
  ultimately have run: "boot_run be s0 (replicate 6 MainStep @ [ConfigStarts, ConfigEvent (Some cm)] @ replicate 8 MainStep) u"
    by simp
  from boot_run_inv[OF run assms(4,3)] u(2) have "bt_go u = started_by 14" by (simp add: boot_inv_def Let_def)
  with run show ?thesis by (auto simp: started_by_def)
qed

section \<open>A sample start\<close>

definition sample_boot_env :: boot_env where
  "sample_boot_env = \<lparr>be_os = sample_os, be_op = sample_env,
     be_rest = \<lparr>re_new = (\<lambda>_. Ok ()), re_do = (\<lambda>_ _. Ok (KOther [])), re_watch = (\<lambda>_ _. Ok []), re_name = (\<lambda>_. Ok [])\<rparr>,
     be_config = \<lparr>rc_Host = ''host'', rc_APIPath = [], rc_GroupVersion = None, rc_Serializer = False\<rparr>,
     be_order = [0, 1, 2, 3]\<rparr>"

definition sample_boot :: boot where
  "sample_boot = \<lparr>os_log = [], bt_pc = 0, bt_exited = False, bt_go = [], bt_handlers = Map.empty,
     bt_cfg = \<lparr>lastResourceVersions = (\<lambda>_. []), rest_state = sample_cfg\<rparr>, bt_watching = False,
     bt_rest = \<lparr>rs_heap = \<lparr>cell = Map.empty, lim = 0\<rparr>, rs_log = []\<rparr>, bt_expose = [], bt_watchers = [],
     bt_plugins = Map.empty\<rparr>"

lemma sample_boot_start: "boot_start sample_boot"
  by (simp add: boot_start_def sample_boot_def sample_cfg_def cfg_start_def)

lemma sample_boot_fine:
  "os_fine sample_boot_env" "\<forall>c. re_new (be_rest sample_boot_env) c = Ok ()" "mset (be_order sample_boot_env) = mset [0..<4]"
  by (simp_all add: os_fine_def sample_boot_env_def sample_os_def four_indices)

section \<open>Properties\<close>

text \<open>C12: However the goroutines of the process interleave, the components start in one order,
  and whenever any of them runs, the configuration was read: the variables of the operator
  are those of an event of its ConfigMap that was delivered. The webhook server never runs
  without the dispatcher.\<close>

theorem startup_configured:
  assumes "boot_start s0" and "mset (be_order be) = mset [0..<4]" and "boot_run be s0 evs s"
  shows "prefix (bt_go s) [GoConfig, GoExpose, GoWebhookServer, GoApiServer, GoManager]
    \<and> (\<forall>g. g \<in> set (bt_go s) \<longrightarrow> g \<noteq> GoConfig \<longrightarrow> read_from evs (rest_state (bt_cfg s)))
    \<and> (GoWebhookServer \<in> set (bt_go s) \<longrightarrow> bt_plugins s = operator_plugins (be_op be))"
proof -
  have inv: "boot_inv be evs s" by (rule boot_run_inv[OF assms(3,1,2)])
  have "prefix (started_by n) [GoConfig, GoExpose, GoWebhookServer, GoApiServer, GoManager]" for n
    by (simp add: started_by_def)
  moreover have "8 < n" if "g \<in> set (started_by n)" "g \<noteq> GoConfig" for g n
    using that by (cases g rule: goroutine.exhaust) (simp_all add: started_by_rank)
  moreover have "GoWebhookServer \<in> set (started_by n) \<Longrightarrow> 9 < n" for n
    by (simp add: started_by_rank)
  ultimately show ?thesis using inv by (fastforce simp: boot_inv_def Let_def)
qed

theorem startup_configured_witness:
  "\<exists>evs (s :: boot). GoManager \<in> set (bt_go s) \<and> read_from evs (rest_state (bt_cfg s)) \<and> bt_plugins s = operator_plugins sample_env"
proof -
  have cm: "cm_Name sample_change = ConfigMapNameCDConfig" "cm_ResourceVersion sample_change \<noteq> []"
    by (simp_all add: sample_change_def ConfigMapNameCDConfig_def)
  obtain evs s where run: "boot_run sample_boot_env sample_boot evs s"
    and go: "bt_go s = [GoConfig, GoExpose, GoWebhookServer, GoApiServer, GoManager]"
    using news_completes[OF sample_boot_fine sample_boot_start cm] by blast
  have op: "be_op sample_boot_env = sample_env" by (simp add: sample_boot_env_def)
  have "GoManager \<in> set (bt_go s)" "GoManager \<noteq> GoConfig" "GoWebhookServer \<in> set (bt_go s)" using go by simp_all
  with startup_configured[OF sample_boot_start sample_boot_fine(3) run] show ?thesis unfolding op by blast
qed

text \<open>C13: The start is a race between \<open>main\<close>, which adds the handler of the ConfigMap, and the watch it
  started before. When the event arrives after the handler was added, \<open>main\<close> goes on to
  start every component. When the same event arrives one statement earlier, nothing is ever
  started until the ConfigMap changes again, whatever else happens.\<close>

theorem startup_race:
  assumes "boot_start s0" and "os_fine be" and "\<forall>c. re_new (be_rest be) c = Ok ()" and "mset (be_order be) = mset [0..<4]"
    and "cm_Name cm = ConfigMapNameCDConfig" and "cm_ResourceVersion cm \<noteq> []"
  shows "(\<exists>s. boot_run be s0 (replicate 6 MainStep @ [ConfigStarts, ConfigEvent (Some cm)] @ replicate 8 MainStep) s
      \<and> bt_go s = [GoConfig, GoExpose, GoWebhookServer, GoApiServer, GoManager])
    \<and> (\<exists>s. boot_run be s0 (replicate 5 MainStep @ [ConfigStarts, ConfigEvent (Some cm), MainStep]) s
      \<and> (\<forall>evs t. boot_run be s evs t
        \<longrightarrow> (\<forall>cm'. ConfigEvent (Some cm') \<in> set evs \<longrightarrow> cm_Name cm' = ConfigMapNameCDConfig
               \<longrightarrow> cm_ResourceVersion cm' = cm_ResourceVersion cm)
        \<longrightarrow> bt_go t = [GoConfig]))"
proof
  show "\<exists>s. boot_run be s0 (replicate 6 MainStep @ [ConfigStarts, ConfigEvent (Some cm)] @ replicate 8 MainStep) s
      \<and> bt_go s = [GoConfig, GoExpose, GoWebhookServer, GoApiServer, GoManager]"
    by (rule news_completes[OF assms(2,3,4,1,5,6)])
next
  obtain s where "boot_run be s0 (replicate 5 MainStep @ [ConfigStarts, ConfigEvent (Some cm), MainStep]) s"
    and s: "stuck be (cm_ResourceVersion cm) s"
    using early_event_stuck[OF assms(2,1,5,6)] by blast
  moreover have "bt_go t = [GoConfig]"
    if "boot_run be s evs t" "\<forall>cm'. ConfigEvent (Some cm') \<in> set evs \<longrightarrow> cm_Name cm' = ConfigMapNameCDConfig
      \<longrightarrow> cm_ResourceVersion cm' = cm_ResourceVersion cm" for evs t
    using stuck_run[OF that(1) s assms(4) that(2)] by (simp add: stuck_def)
  ultimately show "\<exists>s. boot_run be s0 (replicate 5 MainStep @ [ConfigStarts, ConfigEvent (Some cm), MainStep]) s
      \<and> (\<forall>evs t. boot_run be s evs t
        \<longrightarrow> (\<forall>cm'. ConfigEvent (Some cm') \<in> set evs \<longrightarrow> cm_Name cm' = ConfigMapNameCDConfig
               \<longrightarrow> cm_ResourceVersion cm' = cm_ResourceVersion cm)
        \<longrightarrow> bt_go t = [GoConfig])"
    by blast
qed

theorem startup_race_witness:
  "\<exists>s. boot_run sample_boot_env sample_boot (replicate 5 MainStep @ [ConfigStarts, ConfigEvent (Some sample_change), MainStep]) s
    \<and> bt_go s = [GoConfig]"
proof -
  have "cm_Name sample_change = ConfigMapNameCDConfig" "cm_ResourceVersion sample_change \<noteq> []"
    by (simp_all add: sample_change_def ConfigMapNameCDConfig_def)
  from startup_race[OF sample_boot_start sample_boot_fine this] boot_run.here[of sample_boot_env]
  show ?thesis by (metis empty_iff empty_set)
qed

end
