(* ===== verification/DeepCopy.thy ===== *)
theory DeepCopy
  imports GoHeap ApiTypes
begin

text \<open>
  \<open>api/v1/zz_generated.deepcopy.go\<close>: the deep copies of the API types on the memory of
  \<open>GoHeap\<close>. The controllers rely on them: \<open>Reconcile\<close> keeps a deep copy of the object it
  read, changes the object itself, and patches the difference of the two.

  The structs below are those of \<open>api/v1\<close> with their pointers and slices. The values
  of library types inside them (\<open>ObjectMeta\<close>, \<open>ListMeta\<close>, \<open>Condition\<close>,
  \<open>SecretKeySelector\<close>) have the type \<open>'x\<close>, and their own \<open>DeepCopyInto\<close> is the parameter
  \<open>lib_copy\<close>, of which the locale \<open>library\<close> assumes the contract.
\<close>

section \<open>Structs\<close>

record type_meta =
  tm_Kind :: string
  tm_APIVersion :: string

record 'x p_token_from =
  ptf_SecretKeyRef :: 'x

record p_token =
  pt_Value :: string
  pt_ValueFrom :: "nat option"

record p_git_config =
  pgc_Type :: string
  pgc_Repository :: string
  pgc_APIUrl :: string
  pgc_Token :: "nat option"

record p_source =
  psr_RepoURL :: string
  psr_Path :: string
  psr_TargetRevision :: string
  psr_Type :: string
  psr_Helm :: "nat option"
  psr_Token :: "nat option"

record p_spec =
  psp_Source :: p_source
  psp_Destination :: application_destination
  psp_SyncPolicy :: sync_policy

record p_status =
  pst_Sync :: sync_status
  pst_Conditions :: "slice option"
  pst_Secrets :: string

record 'x p_application =
  pa_TypeMeta :: type_meta
  pa_ObjectMeta :: 'x
  pa_Spec :: p_spec
  pa_Status :: p_status

record 'x p_deploy_resource =
  pd_TypeMeta :: type_meta
  pd_ObjectMeta :: 'x
  pd_Application :: string
  pd_Spec :: deploy_resource_spec

record 'x p_list =
  pl_TypeMeta :: type_meta
  pl_ListMeta :: 'x
  pl_Items :: "slice option"

text \<open>What a cell of the memory holds: a struct, the array of a slice, or a library value.\<close>

datatype 'x cell =
    CLib 'x
  | CHelm source_helm
  | CToken p_token
  | CTokenFrom "'x p_token_from"
  | CGitConfig p_git_config
  | CSource p_source
  | CDestination application_destination
  | CSyncPolicy sync_policy
  | CSyncStatus sync_status
  | CSpec p_spec
  | CStatus p_status
  | CApplication "'x p_application"
  | CApplicationList "'x p_list"
  | CDRSpec deploy_resource_spec
  | CDR "'x p_deploy_resource"
  | CDRList "'x p_list"
  | CConditions "'x list"
  | CApplications "'x p_application list"
  | CDRs "'x p_deploy_resource list"

text \<open>The typed view of a cell.\<close>

definition get_Lib :: "'x cell \<Rightarrow> 'x option" where
  "get_Lib c = (case c of CLib v \<Rightarrow> Some v | _ \<Rightarrow> None)"

definition get_Helm :: "'x cell \<Rightarrow> source_helm option" where
  "get_Helm c = (case c of CHelm v \<Rightarrow> Some v | _ \<Rightarrow> None)"

definition get_Token :: "'x cell \<Rightarrow> p_token option" where
  "get_Token c = (case c of CToken v \<Rightarrow> Some v | _ \<Rightarrow> None)"

definition get_TokenFrom :: "'x cell \<Rightarrow> 'x p_token_from option" where
  "get_TokenFrom c = (case c of CTokenFrom v \<Rightarrow> Some v | _ \<Rightarrow> None)"

definition get_GitConfig :: "'x cell \<Rightarrow> p_git_config option" where
  "get_GitConfig c = (case c of CGitConfig v \<Rightarrow> Some v | _ \<Rightarrow> None)"

definition get_Source :: "'x cell \<Rightarrow> p_source option" where
  "get_Source c = (case c of CSource v \<Rightarrow> Some v | _ \<Rightarrow> None)"

definition get_Destination :: "'x cell \<Rightarrow> application_destination option" where
  "get_Destination c = (case c of CDestination v \<Rightarrow> Some v | _ \<Rightarrow> None)"

definition get_SyncPolicy :: "'x cell \<Rightarrow> sync_policy option" where
  "get_SyncPolicy c = (case c of CSyncPolicy v \<Rightarrow> Some v | _ \<Rightarrow> None)"

definition get_SyncStatus :: "'x cell \<Rightarrow> sync_status option" where
  "get_SyncStatus c = (case c of CSyncStatus v \<Rightarrow> Some v | _ \<Rightarrow> None)"

definition get_Spec :: "'x cell \<Rightarrow> p_spec option" where
  "get_Spec c = (case c of CSpec v \<Rightarrow> Some v | _ \<Rightarrow> None)"

definition get_Status :: "'x cell \<Rightarrow> p_status option" where
  "get_Status c = (case c of CStatus v \<Rightarrow> Some v | _ \<Rightarrow> None)"

definition get_Application :: "'x cell \<Rightarrow> 'x p_application option" where
  "get_Application c = (case c of CApplication v \<Rightarrow> Some v | _ \<Rightarrow> None)"

definition get_ApplicationList :: "'x cell \<Rightarrow> ('x p_list) option" where
  "get_ApplicationList c = (case c of CApplicationList v \<Rightarrow> Some v | _ \<Rightarrow> None)"

definition get_DRSpec :: "'x cell \<Rightarrow> deploy_resource_spec option" where
  "get_DRSpec c = (case c of CDRSpec v \<Rightarrow> Some v | _ \<Rightarrow> None)"

definition get_DR :: "'x cell \<Rightarrow> 'x p_deploy_resource option" where
  "get_DR c = (case c of CDR v \<Rightarrow> Some v | _ \<Rightarrow> None)"

definition get_DRList :: "'x cell \<Rightarrow> ('x p_list) option" where
  "get_DRList c = (case c of CDRList v \<Rightarrow> Some v | _ \<Rightarrow> None)"

definition get_Conditions :: "'x cell \<Rightarrow> ('x list) option" where
  "get_Conditions c = (case c of CConditions v \<Rightarrow> Some v | _ \<Rightarrow> None)"

definition get_Applications :: "'x cell \<Rightarrow> ('x p_application list) option" where
  "get_Applications c = (case c of CApplications v \<Rightarrow> Some v | _ \<Rightarrow> None)"

definition get_DRs :: "'x cell \<Rightarrow> ('x p_deploy_resource list) option" where
  "get_DRs c = (case c of CDRs v \<Rightarrow> Some v | _ \<Rightarrow> None)"

lemma get_put [simp]:
  "get_Lib (CLib v1) = Some v1"
  "get_Helm (CHelm v2) = Some v2"
  "get_Token (CToken v3) = Some v3"
  "get_TokenFrom (CTokenFrom v4) = Some v4"
  "get_GitConfig (CGitConfig v5) = Some v5"
  "get_Source (CSource v6) = Some v6"
  "get_Destination (CDestination v7) = Some v7"
  "get_SyncPolicy (CSyncPolicy v8) = Some v8"
  "get_SyncStatus (CSyncStatus v9) = Some v9"
  "get_Spec (CSpec v10) = Some v10"
  "get_Status (CStatus v11) = Some v11"
  "get_Application (CApplication v12) = Some v12"
  "get_ApplicationList (CApplicationList v13) = Some v13"
  "get_DRSpec (CDRSpec v14) = Some v14"
  "get_DR (CDR v15) = Some v15"
  "get_DRList (CDRList v16) = Some v16"
  "get_Conditions (CConditions v17) = Some v17"
  "get_Applications (CApplications v18) = Some v18"
  "get_DRs (CDRs v19) = Some v19"
  by (simp_all add: get_Lib_def get_Helm_def get_Token_def get_TokenFrom_def get_GitConfig_def get_Source_def
    get_Destination_def get_SyncPolicy_def get_SyncStatus_def get_Spec_def get_Status_def get_Application_def
    get_ApplicationList_def get_DRSpec_def get_DR_def get_DRList_def get_Conditions_def get_Applications_def
    get_DRs_def)

text \<open>What \<open>new\<close> allocates.\<close>

definition zero_helm :: source_helm where
  "zero_helm = \<lparr>helm_ClonedRepoPath = [], helm_ReleaseName = []\<rparr>"

definition zero_token :: p_token where
  "zero_token = \<lparr>pt_Value = [], pt_ValueFrom = None\<rparr>"

definition zero_git_config :: p_git_config where
  "zero_git_config = \<lparr>pgc_Type = [], pgc_Repository = [], pgc_APIUrl = [], pgc_Token = None\<rparr>"

definition zero_source :: p_source where
  "zero_source = \<lparr>psr_RepoURL = [], psr_Path = [], psr_TargetRevision = [], psr_Type = [], psr_Helm = None, psr_Token = None\<rparr>"

definition zero_destination :: application_destination where
  "zero_destination = \<lparr>dst_Namespace = [], dst_Name = []\<rparr>"

definition zero_policy :: sync_policy where
  "zero_policy = \<lparr>pol_AutoSync = False, pol_SyncCheckPeriod = 0\<rparr>"

definition zero_sync :: sync_status where
  "zero_sync = \<lparr>sync_Status = [], sync_TimeCheck = 0\<rparr>"

definition zero_spec :: p_spec where
  "zero_spec = \<lparr>psp_Source = zero_source, psp_Destination = zero_destination, psp_SyncPolicy = zero_policy\<rparr>"

definition zero_status :: p_status where
  "zero_status = \<lparr>pst_Sync = zero_sync, pst_Conditions = None, pst_Secrets = []\<rparr>"

definition zero_type_meta :: type_meta where
  "zero_type_meta = \<lparr>tm_Kind = [], tm_APIVersion = []\<rparr>"

definition zero_dr_spec :: deploy_resource_spec where
  "zero_dr_spec = \<lparr>drs_Name = [], drs_Namespace = [], drs_APIVersion = [], drs_Kind = []\<rparr>"

record 'x lib =
  lib_zero :: 'x
  lib_copy :: "'x \<Rightarrow> ('x cell heap, 'x) prog"

definition zero_application :: "'x lib \<Rightarrow> 'x p_application" where
  "zero_application L = \<lparr>pa_TypeMeta = zero_type_meta, pa_ObjectMeta = lib_zero L, pa_Spec = zero_spec, pa_Status = zero_status\<rparr>"

definition zero_dr :: "'x lib \<Rightarrow> 'x p_deploy_resource" where
  "zero_dr L = \<lparr>pd_TypeMeta = zero_type_meta, pd_ObjectMeta = lib_zero L, pd_Application = [], pd_Spec = zero_dr_spec\<rparr>"

definition zero_list :: "'x lib \<Rightarrow> 'x p_list" where
  "zero_list L = \<lparr>pl_TypeMeta = zero_type_meta, pl_ListMeta = lib_zero L, pl_Items = None\<rparr>"

section \<open>The methods\<close>

text \<open>
  \<open>T_DeepCopyInto v\<close> answers what the method writes to \<open>*out\<close> for \<open>*in = v\<close>; \<open>T_DeepCopy\<close> is
  the allocating method on a pointer.
\<close>

definition ApplicationSourceHelm_DeepCopyInto :: "source_helm \<Rightarrow> ('x cell heap, source_helm) prog" where
  "ApplicationSourceHelm_DeepCopyInto v = ret v"

definition ApplicationSourceHelm_DeepCopy :: "nat option \<Rightarrow> ('x cell heap, nat option) prog" where
  "ApplicationSourceHelm_DeepCopy = copy_ptr get_Helm CHelm zero_helm ApplicationSourceHelm_DeepCopyInto"

definition ApplicationDestination_DeepCopyInto :: "application_destination \<Rightarrow> ('x cell heap, application_destination) prog" where
  "ApplicationDestination_DeepCopyInto v = ret v"

definition ApplicationDestination_DeepCopy :: "nat option \<Rightarrow> ('x cell heap, nat option) prog" where
  "ApplicationDestination_DeepCopy = copy_ptr get_Destination CDestination zero_destination ApplicationDestination_DeepCopyInto"

definition SyncPolicy_DeepCopyInto :: "sync_policy \<Rightarrow> ('x cell heap, sync_policy) prog" where
  "SyncPolicy_DeepCopyInto v = ret v"

definition SyncPolicy_DeepCopy :: "nat option \<Rightarrow> ('x cell heap, nat option) prog" where
  "SyncPolicy_DeepCopy = copy_ptr get_SyncPolicy CSyncPolicy zero_policy SyncPolicy_DeepCopyInto"

definition SyncStatus_DeepCopyInto :: "sync_status \<Rightarrow> ('x cell heap, sync_status) prog" where
  "SyncStatus_DeepCopyInto v = ret v"

definition SyncStatus_DeepCopy :: "nat option \<Rightarrow> ('x cell heap, nat option) prog" where
  "SyncStatus_DeepCopy = copy_ptr get_SyncStatus CSyncStatus zero_sync SyncStatus_DeepCopyInto"

definition DeployResourceSpec_DeepCopyInto :: "deploy_resource_spec \<Rightarrow> ('x cell heap, deploy_resource_spec) prog" where
  "DeployResourceSpec_DeepCopyInto v = ret v"

definition DeployResourceSpec_DeepCopy :: "nat option \<Rightarrow> ('x cell heap, nat option) prog" where
  "DeployResourceSpec_DeepCopy = copy_ptr get_DRSpec CDRSpec zero_dr_spec DeployResourceSpec_DeepCopyInto"

definition GitTokenFrom_DeepCopyInto :: "'x lib \<Rightarrow> 'x p_token_from \<Rightarrow> ('x cell heap, 'x p_token_from) prog" where
  "GitTokenFrom_DeepCopyInto L v =
     bnd (lib_copy L (ptf_SecretKeyRef v)) (\<lambda>r. ret (v\<lparr>ptf_SecretKeyRef := r\<rparr>))"

definition GitTokenFrom_DeepCopy :: "'x lib \<Rightarrow> nat option \<Rightarrow> ('x cell heap, nat option) prog" where
  "GitTokenFrom_DeepCopy L =
     copy_ptr get_TokenFrom CTokenFrom \<lparr>ptf_SecretKeyRef = lib_zero L\<rparr> (GitTokenFrom_DeepCopyInto L)"

definition GitToken_DeepCopyInto :: "'x lib \<Rightarrow> p_token \<Rightarrow> ('x cell heap, p_token) prog" where
  "GitToken_DeepCopyInto L v =
     bnd (copy_ptr get_TokenFrom CTokenFrom \<lparr>ptf_SecretKeyRef = lib_zero L\<rparr> (GitTokenFrom_DeepCopyInto L) (pt_ValueFrom v)) (\<lambda>p.
     ret (v\<lparr>pt_ValueFrom := p\<rparr>))"

definition GitToken_DeepCopy :: "'x lib \<Rightarrow> nat option \<Rightarrow> ('x cell heap, nat option) prog" where
  "GitToken_DeepCopy L = copy_ptr get_Token CToken zero_token (GitToken_DeepCopyInto L)"

definition GitConfig_DeepCopyInto :: "'x lib \<Rightarrow> p_git_config \<Rightarrow> ('x cell heap, p_git_config) prog" where
  "GitConfig_DeepCopyInto L v =
     bnd (copy_ptr get_Token CToken zero_token (GitToken_DeepCopyInto L) (pgc_Token v)) (\<lambda>p.
     ret (v\<lparr>pgc_Token := p\<rparr>))"

definition GitConfig_DeepCopy :: "'x lib \<Rightarrow> nat option \<Rightarrow> ('x cell heap, nat option) prog" where
  "GitConfig_DeepCopy L = copy_ptr get_GitConfig CGitConfig zero_git_config (GitConfig_DeepCopyInto L)"

definition ApplicationSource_DeepCopyInto :: "'x lib \<Rightarrow> p_source \<Rightarrow> ('x cell heap, p_source) prog" where
  "ApplicationSource_DeepCopyInto L v =
     bnd (copy_ptr get_Helm CHelm zero_helm ret (psr_Helm v)) (\<lambda>h.
     bnd (copy_ptr get_Token CToken zero_token (GitToken_DeepCopyInto L) (psr_Token v)) (\<lambda>t.
     ret (v\<lparr>psr_Helm := h, psr_Token := t\<rparr>)))"

definition ApplicationSource_DeepCopy :: "'x lib \<Rightarrow> nat option \<Rightarrow> ('x cell heap, nat option) prog" where
  "ApplicationSource_DeepCopy L = copy_ptr get_Source CSource zero_source (ApplicationSource_DeepCopyInto L)"

definition ApplicationSpec_DeepCopyInto :: "'x lib \<Rightarrow> p_spec \<Rightarrow> ('x cell heap, p_spec) prog" where
  "ApplicationSpec_DeepCopyInto L v =
     bnd (ApplicationSource_DeepCopyInto L (psp_Source v)) (\<lambda>s. ret (v\<lparr>psp_Source := s\<rparr>))"

definition ApplicationSpec_DeepCopy :: "'x lib \<Rightarrow> nat option \<Rightarrow> ('x cell heap, nat option) prog" where
  "ApplicationSpec_DeepCopy L = copy_ptr get_Spec CSpec zero_spec (ApplicationSpec_DeepCopyInto L)"

definition ApplicationStatus_DeepCopyInto :: "'x lib \<Rightarrow> p_status \<Rightarrow> ('x cell heap, p_status) prog" where
  "ApplicationStatus_DeepCopyInto L v =
     bnd (copy_slice get_Conditions CConditions (lib_zero L) (lib_copy L) (pst_Conditions v)) (\<lambda>c.
     ret (v\<lparr>pst_Conditions := c\<rparr>))"

definition ApplicationStatus_DeepCopy :: "'x lib \<Rightarrow> nat option \<Rightarrow> ('x cell heap, nat option) prog" where
  "ApplicationStatus_DeepCopy L = copy_ptr get_Status CStatus zero_status (ApplicationStatus_DeepCopyInto L)"

definition Application_DeepCopyInto :: "'x lib \<Rightarrow> 'x p_application \<Rightarrow> ('x cell heap, 'x p_application) prog" where
  "Application_DeepCopyInto L v =
     bnd (lib_copy L (pa_ObjectMeta v)) (\<lambda>m.
     bnd (ApplicationSpec_DeepCopyInto L (pa_Spec v)) (\<lambda>s.
     bnd (ApplicationStatus_DeepCopyInto L (pa_Status v)) (\<lambda>t.
     ret (v\<lparr>pa_ObjectMeta := m, pa_Spec := s, pa_Status := t\<rparr>))))"

definition Application_DeepCopy :: "'x lib \<Rightarrow> nat option \<Rightarrow> ('x cell heap, nat option) prog" where
  "Application_DeepCopy L = copy_ptr get_Application CApplication (zero_application L) (Application_DeepCopyInto L)"

definition Application_DeepCopyObject :: "'x lib \<Rightarrow> nat option \<Rightarrow> ('x cell heap, nat option) prog" where
  "Application_DeepCopyObject L p =
     bnd (Application_DeepCopy L p) (\<lambda>c. case c of Some q \<Rightarrow> ret (Some q) | None \<Rightarrow> ret None)"

definition ApplicationList_DeepCopyInto :: "'x lib \<Rightarrow> 'x p_list \<Rightarrow> ('x cell heap, 'x p_list) prog" where
  "ApplicationList_DeepCopyInto L v =
     bnd (lib_copy L (pl_ListMeta v)) (\<lambda>m.
     bnd (copy_slice get_Applications CApplications (zero_application L) (Application_DeepCopyInto L) (pl_Items v)) (\<lambda>i.
     ret (v\<lparr>pl_ListMeta := m, pl_Items := i\<rparr>)))"

definition ApplicationList_DeepCopy :: "'x lib \<Rightarrow> nat option \<Rightarrow> ('x cell heap, nat option) prog" where
  "ApplicationList_DeepCopy L =
     copy_ptr get_ApplicationList CApplicationList (zero_list L) (ApplicationList_DeepCopyInto L)"

definition ApplicationList_DeepCopyObject :: "'x lib \<Rightarrow> nat option \<Rightarrow> ('x cell heap, nat option) prog" where
  "ApplicationList_DeepCopyObject L p =
     bnd (ApplicationList_DeepCopy L p) (\<lambda>c. case c of Some q \<Rightarrow> ret (Some q) | None \<Rightarrow> ret None)"

definition DeployResource_DeepCopyInto :: "'x lib \<Rightarrow> 'x p_deploy_resource \<Rightarrow> ('x cell heap, 'x p_deploy_resource) prog" where
  "DeployResource_DeepCopyInto L v =
     bnd (lib_copy L (pd_ObjectMeta v)) (\<lambda>m. ret (v\<lparr>pd_ObjectMeta := m\<rparr>))"

definition DeployResource_DeepCopy :: "'x lib \<Rightarrow> nat option \<Rightarrow> ('x cell heap, nat option) prog" where
  "DeployResource_DeepCopy L = copy_ptr get_DR CDR (zero_dr L) (DeployResource_DeepCopyInto L)"

definition DeployResource_DeepCopyObject :: "'x lib \<Rightarrow> nat option \<Rightarrow> ('x cell heap, nat option) prog" where
  "DeployResource_DeepCopyObject L p =
     bnd (DeployResource_DeepCopy L p) (\<lambda>c. case c of Some q \<Rightarrow> ret (Some q) | None \<Rightarrow> ret None)"

definition DeployResourceList_DeepCopyInto :: "'x lib \<Rightarrow> 'x p_list \<Rightarrow> ('x cell heap, 'x p_list) prog" where
  "DeployResourceList_DeepCopyInto L v =
     bnd (lib_copy L (pl_ListMeta v)) (\<lambda>m.
     bnd (copy_slice get_DRs CDRs (zero_dr L) (DeployResource_DeepCopyInto L) (pl_Items v)) (\<lambda>i.
     ret (v\<lparr>pl_ListMeta := m, pl_Items := i\<rparr>)))"

definition DeployResourceList_DeepCopy :: "'x lib \<Rightarrow> nat option \<Rightarrow> ('x cell heap, nat option) prog" where
  "DeployResourceList_DeepCopy L = copy_ptr get_DRList CDRList (zero_list L) (DeployResourceList_DeepCopyInto L)"

definition DeployResourceList_DeepCopyObject :: "'x lib \<Rightarrow> nat option \<Rightarrow> ('x cell heap, nat option) prog" where
  "DeployResourceList_DeepCopyObject L p =
     bnd (DeployResourceList_DeepCopy L p) (\<lambda>c. case c of Some q \<Rightarrow> ret (Some q) | None \<Rightarrow> ret None)"

section \<open>What is seen of a struct, and where it lies\<close>

text \<open>
  For each struct the fields without references together with what is seen behind the
  others. \<open>ls\<close> and \<open>lf\<close> are the same for the library values.
\<close>

definition seen_TokenFrom where
  "seen_TokenFrom ls = seen_field ls ptf_SecretKeyRef (\<lambda>_. ())"
definition fp_TokenFrom where
  "fp_TokenFrom lf = (\<lambda>m v. lf m (ptf_SecretKeyRef v))"

definition seen_Token where
  "seen_Token ls = seen_field (seen_ptr get_TokenFrom (seen_TokenFrom ls)) pt_ValueFrom pt_Value"
definition fp_Token where
  "fp_Token lf = (\<lambda>m v. fp_ptr get_TokenFrom (fp_TokenFrom lf) m (pt_ValueFrom v))"

definition seen_GitConfig where
  "seen_GitConfig ls =
  seen_field (seen_ptr get_Token (seen_Token ls)) pgc_Token (\<lambda>v. v\<lparr>pgc_Token := None\<rparr>)"
definition fp_GitConfig where
  "fp_GitConfig lf = (\<lambda>m v. fp_ptr get_Token (fp_Token lf) m (pgc_Token v))"

definition seen_Source where
  "seen_Source ls = seen_struct (seen_ptr get_Helm (\<lambda>m v. Some v)) (seen_ptr get_Token (seen_Token ls))
  psr_Helm psr_Token (\<lambda>v. v\<lparr>psr_Helm := None, psr_Token := None\<rparr>)"
definition fp_Source where
  "fp_Source lf = fp_struct (fp_ptr get_Helm (\<lambda>m v. {})) (fp_ptr get_Token (fp_Token lf)) psr_Helm psr_Token"

definition seen_Spec where
  "seen_Spec ls = seen_field (seen_Source ls) psp_Source (\<lambda>v. (psp_Destination v, psp_SyncPolicy v))"
definition fp_Spec where
  "fp_Spec lf = (\<lambda>m v. fp_Source lf m (psp_Source v))"

definition seen_Status where
  "seen_Status ls =
  seen_field (seen_slice get_Conditions ls) pst_Conditions (\<lambda>v. (pst_Sync v, pst_Secrets v))"
definition fp_Status where
  "fp_Status lf = (\<lambda>m v. fp_slice get_Conditions lf m (pst_Conditions v))"

definition seen_Application where
  "seen_Application ls =
  seen_struct ls (seen_struct (seen_Spec ls) (seen_Status ls) fst snd (\<lambda>_. ()))
    pa_ObjectMeta (\<lambda>v. (pa_Spec v, pa_Status v)) pa_TypeMeta"
definition fp_Application where
  "fp_Application lf =
  fp_struct lf (fp_struct (fp_Spec lf) (fp_Status lf) fst snd) pa_ObjectMeta (\<lambda>v. (pa_Spec v, pa_Status v))"

definition seen_ApplicationList where
  "seen_ApplicationList ls =
  seen_struct ls (seen_slice get_Applications (seen_Application ls)) pl_ListMeta pl_Items pl_TypeMeta"
definition fp_ApplicationList where
  "fp_ApplicationList lf =
  fp_struct lf (fp_slice get_Applications (fp_Application lf)) pl_ListMeta pl_Items"

definition seen_DR where
  "seen_DR ls = seen_field ls pd_ObjectMeta (\<lambda>v. (pd_TypeMeta v, pd_Application v, pd_Spec v))"
definition fp_DR where
  "fp_DR lf = (\<lambda>m v. lf m (pd_ObjectMeta v))"

definition seen_DRList where
  "seen_DRList ls = seen_struct ls (seen_slice get_DRs (seen_DR ls)) pl_ListMeta pl_Items pl_TypeMeta"
definition fp_DRList where
  "fp_DRList lf = fp_struct lf (fp_slice get_DRs (fp_DR lf)) pl_ListMeta pl_Items"

section \<open>The contracts\<close>

text \<open>The library's own methods, and from them every generated method.\<close>

locale library = lib: deep_copy "lib_copy L" ls lf
  for L :: "'x lib" and ls :: "(nat \<rightharpoonup> 'x cell) \<Rightarrow> 'x \<Rightarrow> 'y option" and lf

sublocale library \<subseteq> token_from: deep_copy "GitTokenFrom_DeepCopyInto L" "seen_TokenFrom ls" "fp_TokenFrom lf"
proof -
  have "deep_copy (copy_field (lib_copy L) ptf_SecretKeyRef (\<lambda>v r. v\<lparr>ptf_SecretKeyRef := r\<rparr>))
      (seen_field ls ptf_SecretKeyRef (\<lambda>_. ())) (\<lambda>m v. lf m (ptf_SecretKeyRef v))"
    by (rule field_rule[OF lib.deep_copy_axioms]) simp_all
  then show "deep_copy (GitTokenFrom_DeepCopyInto L) (seen_TokenFrom ls) (fp_TokenFrom lf)"
    by (simp add: copy_field_def[abs_def] GitTokenFrom_DeepCopyInto_def[abs_def] seen_TokenFrom_def fp_TokenFrom_def)
qed

sublocale library \<subseteq> token_from_ptr: pointer_copy "GitTokenFrom_DeepCopyInto L" "seen_TokenFrom ls" "fp_TokenFrom lf"
  get_TokenFrom CTokenFrom "\<lparr>ptf_SecretKeyRef = lib_zero L\<rparr>"
  by unfold_locales simp

sublocale library \<subseteq> token: deep_copy "GitToken_DeepCopyInto L" "seen_Token ls" "fp_Token lf"
  using field_rule[OF token_from_ptr.contract, of pt_ValueFrom "\<lambda>v p. v\<lparr>pt_ValueFrom := p\<rparr>" pt_Value]
  by (simp add: copy_field_def[abs_def] GitToken_DeepCopyInto_def[abs_def] seen_Token_def fp_Token_def)

sublocale library \<subseteq> token_ptr: pointer_copy "GitToken_DeepCopyInto L" "seen_Token ls" "fp_Token lf"
  get_Token CToken zero_token
  by unfold_locales simp

sublocale library \<subseteq> git_config: deep_copy "GitConfig_DeepCopyInto L" "seen_GitConfig ls" "fp_GitConfig lf"
  using field_rule[OF token_ptr.contract, of pgc_Token "\<lambda>v p. v\<lparr>pgc_Token := p\<rparr>" "\<lambda>v. v\<lparr>pgc_Token := None\<rparr>"]
  by (simp add: copy_field_def[abs_def] GitConfig_DeepCopyInto_def[abs_def] seen_GitConfig_def fp_GitConfig_def)

interpretation helm_ptr: pointer_copy ret "\<lambda>m v. Some v" "\<lambda>m v. {}" get_Helm CHelm zero_helm
  by unfold_locales simp

sublocale library \<subseteq> source: struct_copy
  "copy_ptr get_Helm CHelm zero_helm ret" "seen_ptr get_Helm (\<lambda>m v. Some v)" "fp_ptr get_Helm (\<lambda>m v. {})"
  "copy_ptr get_Token CToken zero_token (GitToken_DeepCopyInto L)" "seen_ptr get_Token (seen_Token ls)"
  "fp_ptr get_Token (fp_Token lf)" psr_Helm psr_Token "\<lambda>v h t. v\<lparr>psr_Helm := h, psr_Token := t\<rparr>"
  "\<lambda>v. v\<lparr>psr_Helm := None, psr_Token := None\<rparr>"
  by unfold_locales simp_all

context library begin

lemma source_contract: "deep_copy (ApplicationSource_DeepCopyInto L) (seen_Source ls) (fp_Source lf)"
  using source.contract
  by (simp add: copy_struct_def[abs_def] ApplicationSource_DeepCopyInto_def[abs_def] seen_Source_def fp_Source_def)

lemma spec_contract: "deep_copy (ApplicationSpec_DeepCopyInto L) (seen_Spec ls) (fp_Spec lf)"
  using field_rule[OF source_contract, of psp_Source "\<lambda>v s. v\<lparr>psp_Source := s\<rparr>" "\<lambda>v. (psp_Destination v, psp_SyncPolicy v)"]
  by (simp add: copy_field_def[abs_def] ApplicationSpec_DeepCopyInto_def[abs_def] seen_Spec_def fp_Spec_def)

end

sublocale library \<subseteq> conditions: slice_copy "lib_copy L" ls lf get_Conditions CConditions "lib_zero L"
  by unfold_locales simp

context library begin

lemma status_contract: "deep_copy (ApplicationStatus_DeepCopyInto L) (seen_Status ls) (fp_Status lf)"
  using field_rule[OF conditions.contract, of pst_Conditions "\<lambda>v c. v\<lparr>pst_Conditions := c\<rparr>" "\<lambda>v. (pst_Sync v, pst_Secrets v)"]
  by (simp add: copy_field_def[abs_def] ApplicationStatus_DeepCopyInto_def[abs_def] seen_Status_def fp_Status_def)

lemma application_contract: "deep_copy (Application_DeepCopyInto L) (seen_Application ls) (fp_Application lf)"
proof -
  have "deep_copy (copy_struct (ApplicationSpec_DeepCopyInto L) (ApplicationStatus_DeepCopyInto L) fst snd (\<lambda>_ s t. (s, t)))
      (seen_struct (seen_Spec ls) (seen_Status ls) fst snd (\<lambda>_. ())) (fp_struct (fp_Spec lf) (fp_Status lf) fst snd)"
    by (rule struct_rule[OF spec_contract status_contract]) simp_all
  from struct_rule[OF lib.deep_copy_axioms this, of pa_ObjectMeta "\<lambda>v m st. v\<lparr>pa_ObjectMeta := m, pa_Spec := fst st, pa_Status := snd st\<rparr>"
      "\<lambda>v. (pa_Spec v, pa_Status v)" pa_TypeMeta]
  show ?thesis
    by (simp add: copy_struct_def[abs_def] bnd_assoc Application_DeepCopyInto_def[abs_def] seen_Application_def fp_Application_def)
qed

end

sublocale library \<subseteq> application: pointer_copy "Application_DeepCopyInto L" "seen_Application ls" "fp_Application lf"
  get_Application CApplication "zero_application L"
  by (intro pointer_copy.intro application_contract pointer_copy_axioms.intro) simp

sublocale library \<subseteq> applications: slice_copy "Application_DeepCopyInto L" "seen_Application ls" "fp_Application lf"
  get_Applications CApplications "zero_application L"
  by (intro slice_copy.intro elems_copy.intro application_contract slice_copy_axioms.intro) simp

sublocale library \<subseteq> dr: deep_copy "DeployResource_DeepCopyInto L" "seen_DR ls" "fp_DR lf"
  using field_rule[OF lib.deep_copy_axioms, of pd_ObjectMeta "\<lambda>v m. v\<lparr>pd_ObjectMeta := m\<rparr>" "\<lambda>v. (pd_TypeMeta v, pd_Application v, pd_Spec v)"]
  by (simp add: copy_field_def[abs_def] DeployResource_DeepCopyInto_def[abs_def] seen_DR_def fp_DR_def)

sublocale library \<subseteq> dr_ptr: pointer_copy "DeployResource_DeepCopyInto L" "seen_DR ls" "fp_DR lf" get_DR CDR "zero_dr L"
  by unfold_locales simp

sublocale library \<subseteq> drs: slice_copy "DeployResource_DeepCopyInto L" "seen_DR ls" "fp_DR lf" get_DRs CDRs "zero_dr L"
  by unfold_locales simp

context library begin

lemma list_contracts:
  "deep_copy (ApplicationList_DeepCopyInto L) (seen_ApplicationList ls) (fp_ApplicationList lf)"
  "deep_copy (DeployResourceList_DeepCopyInto L) (seen_DRList ls) (fp_DRList lf)"
  using struct_rule[OF lib.deep_copy_axioms applications.contract, of pl_ListMeta "\<lambda>v m i. v\<lparr>pl_ListMeta := m, pl_Items := i\<rparr>" pl_Items pl_TypeMeta]
    struct_rule[OF lib.deep_copy_axioms drs.contract, of pl_ListMeta "\<lambda>v m i. v\<lparr>pl_ListMeta := m, pl_Items := i\<rparr>" pl_Items pl_TypeMeta]
  by (simp_all add: copy_struct_def[abs_def] ApplicationList_DeepCopyInto_def[abs_def] DeployResourceList_DeepCopyInto_def[abs_def]
      seen_ApplicationList_def fp_ApplicationList_def seen_DRList_def fp_DRList_def)

end

end
