(* ===== verification/DeepCopySpec.thy ===== *)
theory DeepCopySpec
  imports DeepCopy
begin

text \<open>
  What the controllers get from a deep copy: an object that looks the same and shares
  nothing with the first, for Applications, their lists and the deploy records.
\<close>

section \<open>Copies and originals do not meet\<close>

text \<open>
  The copy succeeds and leaves the memory as it was but for new cells; whatever is
  written later outside the new cells, the copy looks as the original did, and whatever
  is written to the cells of the copy, the original stays.
\<close>

definition apart ::
  "('v \<Rightarrow> ('c heap, 'v) prog) \<Rightarrow> ((nat \<rightharpoonup> 'c) \<Rightarrow> 'v \<Rightarrow> 'a option) \<Rightarrow> ((nat \<rightharpoonup> 'c) \<Rightarrow> 'v \<Rightarrow> nat set)
   \<Rightarrow> 'c heap \<Rightarrow> 'v \<Rightarrow> bool" where
  "apart cp seen fp h v \<longleftrightarrow>
     (\<exists>v' h'. cp v h = (Ok v', h') \<and> extends h h' \<and> seen (cell h') v' = seen (cell h) v
       \<and> (\<forall>m. (\<forall>a \<ge> lim h. m a = cell h' a) \<longrightarrow> seen m v' = seen (cell h) v)
       \<and> (\<forall>m. (\<forall>a. a \<notin> fp (cell h') v' \<longrightarrow> m a = cell h' a) \<longrightarrow> seen m v = seen (cell h) v))"

context deep_copy begin

lemma copies_apart:
  assumes "heap_ok h" and "seen (cell h) v \<noteq> None"
  shows "apart cp seen fp h v"
proof -
  from assms(2) obtain x where x: "seen (cell h) v = Some x" by auto
  obtain v' h' where c: "cp v h = (Ok v', h')" "extends h h'" "seen (cell h') v' = Some x"
    using copies[OF assms(1) x] by blast
  show ?thesis unfolding apart_def
    using c x copy_independent[OF assms(1) x c(1)] original_independent[OF assms(1) x c(1)]
    by (intro exI[of _ v'] exI[of _ h']) auto
qed

end

text \<open>\<open>DeepCopyObject\<close> answers what \<open>DeepCopy\<close> does.\<close>

lemma copy_object:
  "bnd m (\<lambda>c. case c of Some q \<Rightarrow> ret (Some q) | None \<Rightarrow> ret None) = m"
proof -
  have "(\<lambda>c. case c of Some q \<Rightarrow> ret (Some q) | None \<Rightarrow> ret None) = ret"
    by (auto simp: fun_eq_iff split: option.split)
  then show ?thesis by (auto simp: bnd_def ret_def fun_eq_iff split: prod.split res.split)
qed

context library begin

lemma application_apart:
  assumes "heap_ok h" and "seen_ptr get_Application (seen_Application ls) (cell h) p \<noteq> None"
  shows "apart (Application_DeepCopyObject L) (seen_ptr get_Application (seen_Application ls))
    (fp_ptr get_Application (fp_Application lf)) h p"
  unfolding Application_DeepCopyObject_def[abs_def] copy_object Application_DeepCopy_def
  using assms by (rule application.ptr.copies_apart)

lemma list_apart:
  assumes "heap_ok h" and "seen_ptr get_ApplicationList (seen_ApplicationList ls) (cell h) p \<noteq> None"
  shows "apart (ApplicationList_DeepCopyObject L) (seen_ptr get_ApplicationList (seen_ApplicationList ls))
    (fp_ptr get_ApplicationList (fp_ApplicationList lf)) h p"
proof -
  have "deep_copy (ApplicationList_DeepCopyObject L) (seen_ptr get_ApplicationList (seen_ApplicationList ls))
      (fp_ptr get_ApplicationList (fp_ApplicationList lf))"
    unfolding ApplicationList_DeepCopyObject_def[abs_def] copy_object ApplicationList_DeepCopy_def
    by (intro pointer_copy.contract pointer_copy.intro list_contracts pointer_copy_axioms.intro) simp
  then show ?thesis using assms by (rule deep_copy.copies_apart)
qed

lemma records_apart:
  assumes "heap_ok h" and "seen_ptr get_DRList (seen_DRList ls) (cell h) p \<noteq> None"
  shows "apart (DeployResourceList_DeepCopyObject L) (seen_ptr get_DRList (seen_DRList ls))
    (fp_ptr get_DRList (fp_DRList lf)) h p"
proof -
  have "deep_copy (DeployResourceList_DeepCopyObject L) (seen_ptr get_DRList (seen_DRList ls))
      (fp_ptr get_DRList (fp_DRList lf))"
    unfolding DeployResourceList_DeepCopyObject_def[abs_def] copy_object DeployResourceList_DeepCopy_def
    by (intro pointer_copy.contract pointer_copy.intro list_contracts pointer_copy_axioms.intro) simp
  then show ?thesis using assms by (rule deep_copy.copies_apart)
qed

end

section \<open>A library with references\<close>

text \<open>A library value with a name and a pointer to another one without pointers.\<close>

definition sample_lib :: "(string \<times> nat option) lib" where
  "sample_lib = \<lparr>lib_zero = ([], None),
     lib_copy = copy_field (copy_ptr get_Lib CLib ([], None) ret) snd (\<lambda>v p. (fst v, p))\<rparr>"

definition sample_leaf :: "(nat \<rightharpoonup> (string \<times> nat option) cell) \<Rightarrow> string \<times> nat option \<Rightarrow> string option" where
  "sample_leaf m v = (if snd v = None then Some (fst v) else None)"

definition sample_seen :: "(nat \<rightharpoonup> (string \<times> nat option) cell) \<Rightarrow> string \<times> nat option \<Rightarrow> (string \<times> string option) option" where
  "sample_seen = seen_field (seen_ptr get_Lib sample_leaf) snd fst"

definition sample_fp :: "(nat \<rightharpoonup> (string \<times> nat option) cell) \<Rightarrow> string \<times> nat option \<Rightarrow> nat set" where
  "sample_fp m v = fp_ptr get_Lib (\<lambda>m v. {}) m (snd v)"

interpretation sample_leaf: pointer_copy ret sample_leaf "\<lambda>m v. {}" get_Lib CLib "([], None)"
  by unfold_locales (auto simp: sample_leaf_def ret_def extends.step_refl split: if_splits)

interpretation sample: library sample_lib sample_seen sample_fp
proof -
  have "deep_copy (lib_copy sample_lib) sample_seen sample_fp"
    using field_rule[OF sample_leaf.contract, of snd "\<lambda>v p. (fst v, p)" fst]
    by (simp add: sample_lib_def sample_seen_def sample_fp_def[abs_def])
  then show "library sample_lib sample_seen sample_fp" by (rule library.intro)
qed

definition sample_heap :: "(string \<times> nat option) cell heap" where
  "sample_heap =
     \<lparr>cell = [0 \<mapsto> CApplication \<lparr>pa_TypeMeta = zero_type_meta, pa_ObjectMeta = (''guestbook'', Some 1),
          pa_Spec = zero_spec\<lparr>psp_Source := zero_source\<lparr>psr_Token := Some 2\<rparr>\<rparr>,
          pa_Status = zero_status\<lparr>pst_Conditions := Some \<lparr>sl_Array = 4, sl_Off = 1, sl_Len = 1\<rparr>\<rparr>\<rparr>,
        1 \<mapsto> CLib (''labels'', None), 2 \<mapsto> CToken \<lparr>pt_Value = [], pt_ValueFrom = Some 3\<rparr>,
        3 \<mapsto> CTokenFrom \<lparr>ptf_SecretKeyRef = (''secret'', None)\<rparr>,
        4 \<mapsto> CConditions [(''webhook-registered'', None), (''ready'', None)]],
      lim = 5\<rparr>"

lemma sample_heap_ok: "heap_ok sample_heap"
  by (auto simp: heap_ok_def sample_heap_def)

lemma sample_heap_seen:
  "seen_ptr get_Application (seen_Application sample_seen) (cell sample_heap) (Some 0) \<noteq> None"
  by (simp add: sample_heap_def seen_ptr_def seen_Application_def seen_struct_def seen_Spec_def seen_Status_def
      seen_field_def seen_Source_def seen_Token_def seen_TokenFrom_def seen_slice_def part_def seen_elems_def
      sample_seen_def sample_leaf_def zero_spec_def zero_source_def zero_status_def)

text \<open>C40: A deep copy of an Application, which \<open>Reconcile\<close> keeps as the base of its status
  patch, succeeds, looks like the original and shares no memory with it: it adds cells only,
  later writes to any older memory leave the copy as it is, and writes to the memory of the
  copy leave the original as it is. The library's own deep copies are assumed to do so.\<close>

theorem Application_copy_apart:
  assumes "library L ls lf" and "heap_ok h"
    and "seen_ptr get_Application (seen_Application ls) (cell h) p \<noteq> None"
  shows "apart (Application_DeepCopyObject L) (seen_ptr get_Application (seen_Application ls))
    (fp_ptr get_Application (fp_Application lf)) h p"
  by (rule library.application_apart[OF assms])

theorem Application_copy_apart_witness:
  "apart (Application_DeepCopyObject sample_lib) (seen_ptr get_Application (seen_Application sample_seen))
    (fp_ptr get_Application (fp_Application sample_fp)) sample_heap (Some 0)"
  by (rule Application_copy_apart[OF sample.library_axioms sample_heap_ok sample_heap_seen])

end
