(* ===== verification/GitlabTime.thy ===== *)
theory GitlabTime
  imports WebhookGitlab
begin

text \<open>
  \<open>MarshalJSON\<close> of \<open>pkg/git/gitlab/time.go\<close>, and that the time stamps it writes are read back
  by \<open>UnmarshalJSON\<close>: a round trip through the JSON text and through the format of the
  standard library, in which only the fraction of the second is lost.
\<close>

section \<open>Writing a time\<close>

text \<open>A number padded with zeros, and \<open>AppendFormat\<close> with the layout \<open>timeFormat\<close> in UTC.\<close>

definition pad :: "nat \<Rightarrow> nat \<Rightarrow> string" where
  "pad w n = replicate (w - length (nat_digits n)) (CHR ''0'') @ nat_digits n"

definition format_time :: "nat list \<Rightarrow> string" where
  "format_time fs =
     pad 4 (fs ! 0) @ ''-'' @ pad 2 (fs ! 1) @ ''-'' @ pad 2 (fs ! 2) @ '' '' @ pad 2 (fs ! 3) @ '':''
       @ pad 2 (fs ! 4) @ '':'' @ pad 2 (fs ! 5) @ '' UTC''"

text \<open>The fields are those of the time in UTC, the zone GitLab writes. The zero time is the first
  second of the year one.\<close>

definition time_fields :: "gl_time \<Rightarrow> nat list" where
  "time_fields t = (if glt_Fields t = [] then [1, 1, 1, 0, 0, 0, 0] else glt_Fields t)"

definition gl_MarshalJSON :: "gl_time \<Rightarrow> string" where
  "gl_MarshalJSON t = [CHR 0x22] @ format_time (time_fields t) @ [CHR 0x22]"

section \<open>Reading it back\<close>

lemma nat_digits_length: "n < 10 ^ w \<Longrightarrow> 0 < w \<Longrightarrow> length (nat_digits n) \<le> w"
proof (induction n arbitrary: w rule: nat_digits.induct)
  case (1 n)
  show ?case
  proof (cases "n < 10")
    case True
    then show ?thesis using 1(3) by (subst nat_digits.simps) simp
  next
    case False
    then obtain v where w: "w = Suc v" "0 < v" using 1(2,3) by (cases w; cases "w - 1") auto
    then have "n div 10 < 10 ^ v" using 1(2) by (simp add: less_mult_imp_div_less mult.commute)
    with 1(1)[OF False, of v] w False show ?thesis by (subst nat_digits.simps) simp
  qed
qed

lemma pad_length: "n < 10 ^ w \<Longrightarrow> 0 < w \<Longrightarrow> length (pad w n) = w"
  using nat_digits_length[of n w] by (simp add: pad_def)

lemma zero_digit: "ascii_digit (CHR ''0'')" "digit_val (CHR ''0'') = 0"
  by (simp_all add: ascii_digit_def digit_val_def)

lemma pad_digits: "list_all ascii_digit (pad w n)"
  using nat_digits_digit[of n] by (auto simp: pad_def list_all_iff zero_digit(1))

lemma pad_val: "digits_val (pad w n) = n"
proof -
  have "digits_val (replicate k (CHR ''0'') @ s) = digits_val s" for k s
    by (induction k) (simp_all add: digits_val_def zero_digit)
  then show ?thesis by (simp add: pad_def digits_val_nat_digits)
qed

lemma read_pad: "n < 10 ^ w \<Longrightarrow> 0 < w \<Longrightarrow> read_digits w (pad w n @ s) = Some (n, s)"
  using pad_length[of n w] pad_digits[of w n] by (simp add: read_digits_def pad_val)

lemma getnum_pad:
  assumes "n < 100" shows "getnum (pad 2 n @ s) = Some (n, s)"
proof -
  have len: "length (pad 2 n) = 2" using assms by (simp add: pad_length)
  then have "is_digit_at (pad 2 n @ s) 0" "is_digit_at (pad 2 n @ s) 1"
    using pad_digits[of 2 n] by (simp_all add: is_digit_at_def nth_append list_all_length)
  then show ?thesis using read_pad[of n 2 s] assms by (simp add: getnum_def)
qed

lemma skip_space_pad:
  assumes "0 < w" shows "skip_space (CHR '' '' # pad w n @ s) = Some (pad w n @ s)"
proof -
  obtain c cs where c: "pad w n = c # cs"
    using nat_digits_not_Nil[of n] by (cases "pad w n") (auto simp: pad_def)
  then have "ascii_digit c" using pad_digits[of w n] by simp
  then have "c \<noteq> CHR '' ''" by (auto simp: ascii_digit_def)
  then show ?thesis by (simp add: skip_space_def c)
qed

lemma skip_char_Cons: "skip_char c (c # s) = Some s"
  by (simp add: skip_char_def)

text \<open>The times a calendar has, within the years of four digits.\<close>

definition valid_time :: "nat list \<Rightarrow> bool" where
  "valid_time fs \<longleftrightarrow> length fs = 7 \<and> fs ! 0 < 10000 \<and> 1 \<le> fs ! 1 \<and> fs ! 1 \<le> 12
     \<and> 1 \<le> fs ! 2 \<and> fs ! 2 \<le> days_in (fs ! 1) (fs ! 0) \<and> fs ! 3 < 24 \<and> fs ! 4 < 60 \<and> fs ! 5 < 60"

lemma days_in_le: "days_in m y \<le> 31"
  by (simp add: days_in_def)

lemma parse_format:
  assumes "valid_time fs"
  shows "parse_time (format_time fs) = Some (fs[6 := 0])"
proof -
  obtain y mo d h mi se ns where fs: "fs = [y, mo, d, h, mi, se, ns]"
  proof -
    have "length fs = 7" using assms by (simp add: valid_time_def)
    then show ?thesis by (auto simp: length_Suc_conv eval_nat_numeral intro: that)
  qed
  have v: "y < 10 ^ 4" "1 \<le> mo" "mo \<le> 12" "1 \<le> d" "d \<le> days_in mo y" "h < 24" "mi < 60" "se < 60"
    using assms by (simp_all add: valid_time_def fs)
  have w: "mo < 10 ^ 2" "d < 10 ^ 2" "h < 100" "mi < 10 ^ 2" "se < 10 ^ 2"
    using v days_in_le[of mo y] by simp_all
  have tail: "fraction '' UTC'' = (0, '' UTC'')" "skip_space '' UTC'' = Some ''UTC''" "zone_rest ''UTC'' = Some []"
    by (simp_all add: fraction_def skip_space_def zone_rest_def)
  have f: "format_time fs = pad 4 y @ CHR ''-'' # pad 2 mo @ CHR ''-'' # pad 2 d @ CHR '' '' # pad 2 h @ CHR '':''
      # pad 2 mi @ CHR '':'' # pad 2 se @ '' UTC''"
    by (simp add: format_time_def fs)
  show ?thesis
    unfolding f parse_time_def
    using v w
    by (simp add: read_pad getnum_pad skip_char_Cons skip_space_pad in_range_def tail fs)
qed

text \<open>Nothing in the format is escaped by JSON.\<close>

lemma print_digit: "ascii_digit c \<Longrightarrow> print_char c = [c]"
proof -
  assume d: "ascii_digit c"
  then have "c \<notin> {CHR 0x22, CHR 0x5C, CHR 0x0A, CHR 0x0D, CHR 0x09, CHR ''<'', CHR ''>'', CHR ''&''}"
    by (auto simp: ascii_digit_def)
  then show "print_char c = [c]" using d by (simp add: print_char_def ascii_digit_def)
qed

lemma print_layout:
  "print_char (CHR ''-'') = ''-''" "print_char (CHR '':'') = '':''" "print_char (CHR '' '') = '' ''"
  "print_char (CHR ''U'') = ''U''" "print_char (CHR ''T'') = ''T''" "print_char (CHR ''C'') = ''C''"
  by (simp_all add: print_char_def)

lemma print_pad: "concat (map print_char (pad w n)) = pad w n"
proof -
  have "list_all ascii_digit s \<Longrightarrow> concat (map print_char s) = s" for s
    by (induction s) (simp_all add: print_digit)
  then show ?thesis using pad_digits by blast
qed

lemma format_plain: "concat (map print_char (format_time fs)) = format_time fs"
  by (simp add: format_time_def print_pad print_layout)

lemma format_seconds: "format_time (fs[6 := n]) = format_time fs"
  by (simp add: format_time_def)

lemma marshal_print: "gl_MarshalJSON t = print_string (format_time (time_fields t))"
  by (simp add: gl_MarshalJSON_def print_string_def format_plain)

lemma json_parse_string: "json_parse (print_string s) = Ok (JStr s)"
  using print_string_read[of s "[]"] by (simp add: json_parse_def print_string_def skip_ws_def json_space_def)

section \<open>The property\<close>

text \<open>Every time stamp of a four-digit year that the GitLab types write as JSON is read back as the
  same time, to the second; writing what was read gives the same text again. A null, which
  is read as the zero time, comes back as the first second of the year one.\<close>

theorem gl_time_roundtrip:
  assumes "valid_time (time_fields t)"
  shows "\<exists>t'. unmarshal d_gl_time gl_time_zero (gl_MarshalJSON t) = Ok t'
    \<and> time_fields t' = (time_fields t)[6 := 0] \<and> gl_MarshalJSON t' = gl_MarshalJSON t"
proof -
  let ?t = "\<lparr>glt_Fields = (time_fields t)[6 := 0], glt_Text = format_time (time_fields t)\<rparr>"
  have "unmarshal d_gl_time gl_time_zero (gl_MarshalJSON t) = Ok ?t"
    by (simp add: unmarshal_def marshal_print json_parse_string parse_format[OF assms])
  moreover have ne: "time_fields t \<noteq> []" by (simp add: time_fields_def)
  then have f: "time_fields ?t = (time_fields t)[6 := 0]" by (simp add: time_fields_def)
  moreover have "gl_MarshalJSON ?t = gl_MarshalJSON t"
    by (simp only: gl_MarshalJSON_def f format_seconds)
  ultimately show ?thesis by blast
qed

theorem gl_time_roundtrip_witness:
  "\<exists>t'. unmarshal d_gl_time gl_time_zero (gl_MarshalJSON \<lparr>glt_Fields = [2024, 2, 29, 23, 5, 0, 77], glt_Text = []\<rparr>) = Ok t'
    \<and> time_fields t' = [2024, 2, 29, 23, 5, 0, 0]"
proof -
  let ?t = "\<lparr>glt_Fields = [2024, 2, 29, 23, 5, 0, 77], glt_Text = []\<rparr>"
  have f: "time_fields ?t = [2024, 2, 29, 23, 5, 0, 77]" by (simp add: time_fields_def)
  have "valid_time (time_fields ?t)" by (simp add: f valid_time_def days_in_def leap_year_def)
  from gl_time_roundtrip[OF this] show ?thesis unfolding f by (auto intro: exI)
qed

end
