(* ===== verification/Commands.thy ===== *)
theory Commands
  imports Helm
begin

text \<open>
  The wrappers that the operator has but does not call: \<open>util/exec\<close>, the variants of the
  Helm client that run the \<open>helm\<close> command, \<open>Fetch\<close> of \<open>util/gitclient\<close>, and the error type of
  \<open>pkg/git/errors.go\<close>. Running a command is a parameter: it gives the output and perhaps
  an error.
\<close>

section \<open>Commands\<close>

type_synonym 's runner = "string list \<Rightarrow> ('s, string \<times> error option) prog"

definition Run :: "'s runner \<Rightarrow> string list \<Rightarrow> ('s, string \<times> error option) prog" where
  "Run combinedOutput cmd =
     bnd (combinedOutput cmd) (\<lambda>(out, err).
     case err of Some e \<Rightarrow> ret (out, Some e) | None \<Rightarrow> ret (out, None))"

definition InstallChartByCLI :: "'s runner \<Rightarrow> chart_spec \<Rightarrow> ('s, unit) prog" where
  "InstallChartByCLI combinedOutput chart =
     (let args = [''install'', ch_ReleaseName chart, ch_ChartName chart, ''-n'', ch_Namespace chart] in
      bnd (Run combinedOutput (''helm'' # args)) (\<lambda>(stdout, err).
      case err of Some e \<Rightarrow> throw e | None \<Rightarrow> ret ()))"

definition UninstallReleaseByCLI :: "'s runner \<Rightarrow> string \<Rightarrow> string \<Rightarrow> ('s, unit) prog" where
  "UninstallReleaseByCLI combinedOutput releaseName namespace =
     (let args = [''uninstall'', releaseName, ''-n'', namespace] in
      bnd (Run combinedOutput (''helm'' # args)) (\<lambda>(stdout, err).
      case err of Some e \<Rightarrow> throw e | None \<Rightarrow> ret ()))"

lemma Run_output: "Run combinedOutput cmd = combinedOutput cmd"
  by (rule ext) (auto simp: Run_def bnd_def ret_def split: prod.split res.split option.split)

text \<open>
  Where \<open>InstallChart\<close> upgrades a release that exists and \<open>UninstallReleaseByName\<close> panics on an
  error, these two return the error of the command.
\<close>

lemma by_CLI_error:
  assumes "combinedOutput (''helm'' # args) s = (Ok (out, Some e), s')"
  shows "args = [''install'', ch_ReleaseName c, ch_ChartName c, ''-n'', ch_Namespace c]
      \<Longrightarrow> InstallChartByCLI combinedOutput c s = (Err e, s')"
    and "args = [''uninstall'', r, ''-n'', ns] \<Longrightarrow> UninstallReleaseByCLI combinedOutput r ns s = (Err e, s')"
  using assms
  by (simp_all add: InstallChartByCLI_def UninstallReleaseByCLI_def Run_output bnd_def throw_def)

section \<open>Fetching\<close>

definition Fetch :: "(string \<Rightarrow> ('s, unit) prog) \<Rightarrow> ('s, unit) prog" where
  "Fetch repo_fetch =
     bnd (attempt (repo_fetch ''origin'')) (\<lambda>r.
     case r of
       Inl e \<Rightarrow> (if e \<noteq> NoErrAlreadyUpToDate then throw e else ret ())
     | Inr _ \<Rightarrow> ret ())"

lemma Fetch_up_to_date:
  "repo_fetch ''origin'' s = (Err NoErrAlreadyUpToDate, s') \<Longrightarrow> Fetch repo_fetch s = (Ok (), s')"
  by (simp add: Fetch_def bnd_def attempt_def ret_def)

section \<open>The error of a Git client\<close>

record UnauthorizedError =
  ue_User :: string
  ue_Repo :: string

definition UnauthorizedError_Error :: "UnauthorizedError \<Rightarrow> string" where
  "UnauthorizedError_Error e = ue_User e @ '' is not authorized for '' @ ue_Repo e"

end
