(* ===== verification/Spec2Isabelle.thy ===== *)
theory Spec2Isabelle
  imports ReconcileSpec ManagerReuse HelmSpec WebhookRegistration ParserSpec SourceSpec
    ConfigSpec ExposeSpec ApiSpec RaceSpec HelmRace RestSpec StartupSpec DeepCopySpec GitlabTime Commands
begin

text \<open>
  \<^bold>\<open>The operator.\<close> cd-operator is a Kubernetes operator for continuous delivery. An
  \<open>Application\<close> names a Git repository with manifests or a Helm chart and a
  destination. The Application controller registers a webhook at the Git server and
  starts a periodic check for each Application; the check, a push delivered to the
  webhook server and a request to the aggregated API server all end in \<open>CheckSync\<close>,
  which compares the manifests with the destination cluster and deploys or prunes.
  Two further controllers keep the configuration and the external host name of the
  webhook server.

  \<^bold>\<open>How the code is read.\<close> A Go function that returns an error is a value of \<open>res\<close>
  (\<open>Ok\<close>, \<open>Err\<close>, \<open>Panic\<close>, \<open>Loops\<close>); a statement with effects is a function from a
  state to a result and a state, sequenced by \<open>bnd\<close> (return early on an error),
  \<open>attempt\<close> (look at the error) and \<open>deferred\<close> (\<open>defer\<close>). The state \<open>st\<close> holds the
  Application object of the running handler, the global managers of \<open>pkg/sync\<close>, the
  tables of the periodic routines, the configuration variables, the in-memory fake
  Git server, and a log of all external calls, newest first. What is outside the
  repository (Kubernetes API servers, Git servers behind HTTP, file system, go-git,
  Helm, YAML and JSON-patch routines) is the record \<open>env\<close> of functions, which answer
  as a function of the log; properties that need more of them name it as a
  hypothesis, such as \<open>dr_api_ok\<close>, \<open>cluster_ok\<close>, \<open>finalizer_laws\<close> or \<open>mux_ok\<close>.

  \<^bold>\<open>Prelude.\<close> \<open>GoBase\<close> (results, statements, the locale \<open>step_rel\<close> for a relation that
  every statement keeps, interpreted some thirty times below), \<open>GoStrings\<close>, \<open>GoUrl\<close> and
  \<open>GoJson\<close> (what the code uses of strings, strconv, net/url and encoding/json), \<open>Hmac\<close>
  (crypto/sha1 and crypto/hmac), \<open>World\<close> (state, environment, log), \<open>GoHeap\<close> (memory cells
  behind pointers, and the locale \<open>deep_copy\<close> of routines whose copy shares no memory
  with its source), \<open>ProcessEnv\<close> (files, certificates and clients of the process).

  \<^bold>\<open>Components.\<close>
  \<^item> \<open>api/v1\<close>: \<open>ApiTypes\<close>, \<open>GetToken\<close> in \<open>GitCli\<close>, and the generated deep copies in \<open>DeepCopy\<close>, where
    the structures have pointers and slices as the code has them.
  \<^item> \<open>pkg/git\<close>: \<open>GitTypes\<close>, \<open>GitHttp\<close> (requests, pages, Link headers), \<open>Github\<close>, \<open>Gitlab\<close>,
    \<open>GitFake\<close> (the clients), \<open>WebhookGithub\<close>, \<open>WebhookGitlab\<close> (signature checks and event
    parsers), \<open>GitlabTime\<close> (time stamps in both directions), \<open>GitCli\<close> (the interface \<open>git.Client\<close> as a datatype, and its selection).
  \<^item> \<open>pkg/manifestmanager\<close> and \<open>pkg/cluster\<close>: \<open>Manifest\<close> (records, destination client, plain
    manager, locale \<open>manifest_manager\<close>), \<open>Helm\<close> (with \<open>util/gitclient\<close>, \<open>util/helmclient\<close>), \<open>Commands\<close>
    (the wrappers of both that nothing calls, and \<open>util/exec\<close>).
  \<^item> \<open>pkg/sync\<close>: \<open>SyncCheck\<close>; \<open>controllers/application_controller.go\<close>: \<open>SyncRoutine\<close> (stop
    channels, tickers and goroutines in the tables) and \<open>AppController\<close> (the reconcile
    handler with finalizer, conditions and defaults). \<open>HelmThreads\<close> and \<open>SyncThreads\<close> cut \<open>CheckSync\<close> with
    the syncs of both managers into statements, so that the checks of several goroutines
    can alternate (\<open>SyncRace\<close>).
  \<^item> \<open>pkg/server\<close>, \<open>pkg/dispatcher\<close>, \<open>internal/utils\<close>: \<open>Response\<close>, \<open>Server\<close>.
  \<^item> \<open>internal/configs\<close> and \<open>controllers/configmap_controller.go\<close>: \<open>Configs\<close>;
    \<open>controllers/expose_controller.go\<close>: \<open>Expose\<close>. Both have states of their own, since they
    share only the configuration variables with the rest. \<open>internal/utils/restclient.go\<close>,
    the client of the expose controller: \<open>RestClient\<close>, on memory cells.
  \<^item> \<open>internal/wrapper\<close>, \<open>internal/apiserver\<close>, \<open>pkg/apiserver\<close>: \<open>ApiTree\<close> (a store of wrappers
    and routers), \<open>ApiServer\<close> (authorization, handlers, routes), \<open>Certs\<close> (certificates, client
    authorities and the start of the server).
  \<^item> \<open>cmd/controller/main.go\<close>, \<open>pkg/server/server.go\<close>, \<open>internal/utils/k8s.go\<close>: \<open>Startup\<close> (the
    process as the statements of \<open>main\<close> and of the goroutines it starts), \<open>ProcessEnv\<close>.

  \<^bold>\<open>What is shown.\<close>
  \<^item> \<open>Operator\<close>: the whole operator as a step relation over its events (reconciles, ticks,
    webhooks, API requests); in every reachable state at most one routine runs per
    Application and stopping it never blocks. \<open>SyncRoutine\<close>: restarting, the exact
    condition of the panic in NewTicker, and what becomes of a period, with its overflow.
  \<^item> \<open>PlainSync\<close>, \<open>PlainPrune\<close>, \<open>PlainStatus\<close>: a successful sync reads every file
    the Git client listed and puts every object of it on the destination (but for one that a
    record of another name, filed under the same label, makes the pruning delete), deletes
    exactly the records that are not listed any more, touches only the Application's own
    cluster, and which status it reports.
  \<^item> \<open>RaceSpec\<close>, \<open>HelmRace\<close>: checks that alternate. One that is let run is \<open>CheckSync\<close> (the lemma
    \<open>uninterrupted_check\<close> ties the statements to it), no order touches a destination of no
    Application, but whoever sets the shared client last decides where those deploy that do
    not set it again, for manifests and for charts; the properties on a single run hold of
    runs that do not overlap.
  \<^item> \<open>HelmSpec\<close>: the chart that is rendered is installed, where its pruning goes, and that
    Helm's errors are panics.
  \<^item> \<open>Clearing\<close>, \<open>ReconcileSpec\<close>: the status patch on every way out, no deployment by the
    first reconcile, and what deletion clears, with either manager. \<open>ManagerReuse\<close>: the Git client of the plain
    manager is that of the first Application for ever.
  \<^item> \<open>WebhookAuth\<close>, \<open>WebhookRegistration\<close>, \<open>ParserSpec\<close>, \<open>SourceSpec\<close>: unsigned events do
    nothing, which events act, the one request that registers the hook on GitHub and GitLab
    and when it is sent, removal of hooks on the fake server, label changes, pagination,
    Link headers and the cutting of manifest files.
  \<^item> \<open>ConfigSpec\<close>: the variables refine the latest ConfigMap whatever the order of the map
    iteration, and notifying never blocks. \<open>ExposeSpec\<close>: one publisher per mode, from
    which earlier state the current host name comes, what becomes of service, ingress and of
    foreign objects a watch delivers, and that the updates end when the API server feeds
    them back. \<open>ApiPaths\<close>, \<open>ApiSpec\<close>: paths are computed on every tree that is
    built parent first, and the operator acts only on reviewed requests. \<open>CertsSpec\<close>: the
    server opens with the certificate of this start, and only clients that the authorities
    of the cluster vouch for make the operator act, on the Application that their user was
    allowed to sync. \<open>RestSpec\<close>: the client that \<open>Expose\<close>
    assumes is the one in memory.
  \<^item> \<open>StartupOrder\<close>, \<open>StartupSpec\<close>: nothing starts before the configuration was read, in
    every interleaving, and the start may wait for ever for an event that came early.
  \<^item> \<open>DeepCopySpec\<close>: the copy that \<open>Reconcile\<close> patches from shares no memory with the
    Application. \<open>GitlabTime\<close>: a time stamp that was written is read back.

  \<^bold>\<open>Bounds.\<close> \<open>e_fuel\<close> bounds the directory recursion of the Git clients and the loop over
  pages, which a Git server drives and which need not end; exhausting it is the
  result \<open>Loops\<close>, and the property on pagination says that the bound of the chain of
  pages is enough. \<open>addPath\<close> takes the number of wrappers as fuel and \<open>router_chain\<close> the
  number of the router, which suffice since parents are older; \<open>FullPath\<close> has no bound
  and its cyclic case is a value. A channel operation that blocks is \<open>Loops\<close> too.
  Numbers of Go type \<open>int\<close> that come from JSON are integers, the period of the check is
  a word of 64 bits and ports are words of 32 bits.

  Goroutines that check alternate after every statement of \<open>Sync\<close>, those of the start after
  every statement of \<open>main\<close> and every event; in Go they may alternate within one.

  \<^bold>\<open>Not modelled.\<close> The registration of types with the scheme (\<open>groupversion_info.go\<close>), the
  flags, the logger and the registration of the controllers in \<open>main\<close>, and the mock of the
  HTTP client: calls of libraries without code of their own. TLS, the generation of
  certificates, client-go, go-git, Helm and the YAML and diff parsers are parameters. In
  the step relation of \<open>Operator\<close> handlers run one at a time; only the checks and the start
  are also modelled as goroutines that overlap, and data races on Go maps and words are
  outside. Log lines are left out.
\<close>

end
